(* ===== verification/Hub_Prelude.thy ===== *)
theory Hub_Prelude
  imports Main "HOL-Library.Sublist" "HOL-Library.Word"
begin

text \<open>
  Shared vocabulary of the development: Go strings (as byte strings), instants and durations,
  64-bit wrap-around, maps updated at one key, and the locales that more than one component
  instantiates (canonical task names, invariants of a step relation).
\<close>

named_theorems frame_simps \<open>which fields and keys an operation leaves alone\<close>
named_theorems literal_simps \<open>evaluated substring tests on the literals of the source\<close>

section \<open>Go strings\<close>

text \<open>\<open>strings.Contains\<close>, \<open>strings.HasPrefix\<close> and \<open>strings.TrimPrefix\<close>.\<close>

fun str_contains :: "string \<Rightarrow> string \<Rightarrow> bool" where
  "str_contains [] sub = (sub = [])"
| "str_contains (c # s) sub = (prefix sub (c # s) \<or> str_contains s sub)"

definition has_prefix :: "string \<Rightarrow> string \<Rightarrow> bool" where
  "has_prefix s p = prefix p s"

definition trim_prefix :: "string \<Rightarrow> string \<Rightarrow> string" where
  "trim_prefix s p = (if has_prefix s p then drop (length p) s else s)"

lemma str_contains_iff: "str_contains s sub \<longleftrightarrow> (\<exists>a b. s = a @ sub @ b)"
proof (induction s)
  case Nil
  then show ?case by auto
next
  case (Cons c s)
  show ?case
  proof
    assume "str_contains (c # s) sub"
    then consider "prefix sub (c # s)" | "str_contains s sub" by auto
    then show "\<exists>a b. c # s = a @ sub @ b"
    proof cases
      case 1
      then obtain b where "c # s = [] @ sub @ b" by (auto simp: prefix_def)
      then show ?thesis by blast
    next
      case 2
      with Cons.IH obtain a b where "s = a @ sub @ b" by blast
      then have "c # s = (c # a) @ sub @ b" by simp
      then show ?thesis by blast
    qed
  next
    assume "\<exists>a b. c # s = a @ sub @ b"
    then obtain a b where ab: "c # s = a @ sub @ b" by blast
    show "str_contains (c # s) sub"
    proof (cases a)
      case Nil
      with ab have "prefix sub (c # s)" by (simp add: prefix_def)
      then show ?thesis by simp
    next
      case (Cons d a')
      with ab have "s = a' @ sub @ b" by simp
      with Cons.IH show ?thesis by auto
    qed
  qed
qed

lemma has_prefix_append [simp]: "has_prefix (p @ s) p"
  by (simp add: has_prefix_def)

lemma trim_prefix_append [simp]: "trim_prefix (p @ s) p = s"
  by (simp add: trim_prefix_def)

text \<open>
  \<open>strings.TrimSpace\<close> on UTF-8 bytes. The space runes are the ASCII ones and U+0085, U+00A0,
  U+1680, U+2000 to U+200A, U+2028, U+2029, U+202F, U+205F and U+3000, each given by its bytes.
\<close>

definition ascii_space :: "char \<Rightarrow> bool" where
  "ascii_space c = (c = CHR '' '' \<or> (9 \<le> (of_char c :: nat) \<and> (of_char c :: nat) \<le> 13))"

definition space2 :: "char \<Rightarrow> char \<Rightarrow> bool" where
  "space2 a b = (a = CHR 0xC2 \<and> (b = CHR 0x85 \<or> b = CHR 0xA0))"

definition space3 :: "char \<Rightarrow> char \<Rightarrow> char \<Rightarrow> bool" where
  "space3 a b c =
     ((a = CHR 0xE1 \<and> b = CHR 0x9A \<and> c = CHR 0x80)
    \<or> (a = CHR 0xE2 \<and> b = CHR 0x80 \<and>
         ((0x80 \<le> (of_char c :: nat) \<and> (of_char c :: nat) \<le> 0x8A)
          \<or> c = CHR 0xA8 \<or> c = CHR 0xA9 \<or> c = CHR 0xAF))
    \<or> (a = CHR 0xE2 \<and> b = CHR 0x81 \<and> c = CHR 0x9F)
    \<or> (a = CHR 0xE3 \<and> b = CHR 0x80 \<and> c = CHR 0x80))"

fun trim_left :: "string \<Rightarrow> string" where
  "trim_left (a # b # c # s) =
     (if ascii_space a then trim_left (b # c # s)
      else if space2 a b then trim_left (c # s)
      else if space3 a b c then trim_left s
      else a # b # c # s)"
| "trim_left [a, b] =
     (if ascii_space a then trim_left [b] else if space2 a b then [] else [a, b])"
| "trim_left [a] = (if ascii_space a then [] else [a])"
| "trim_left [] = []"

text \<open>The same from the right, on the reversed string.\<close>

fun trim_right_rev :: "string \<Rightarrow> string" where
  "trim_right_rev (c # b # a # s) =
     (if ascii_space c then trim_right_rev (b # a # s)
      else if space2 b c then trim_right_rev (a # s)
      else if space3 a b c then trim_right_rev s
      else c # b # a # s)"
| "trim_right_rev [b, a] =
     (if ascii_space b then trim_right_rev [a] else if space2 a b then [] else [b, a])"
| "trim_right_rev [a] = (if ascii_space a then [] else [a])"
| "trim_right_rev [] = []"

definition TrimSpace :: "string \<Rightarrow> string" where
  "TrimSpace s = rev (trim_right_rev (rev (trim_left s)))"

text \<open>\<open>strings.ToLower\<close> on ASCII letters; other bytes are kept.\<close>

definition lower_char :: "char \<Rightarrow> char" where
  "lower_char c =
     (if 65 \<le> (of_char c :: nat) \<and> (of_char c :: nat) \<le> 90
      then char_of ((of_char c :: nat) + 32) else c)"

definition ToLower :: "string \<Rightarrow> string" where
  "ToLower s = map lower_char s"

lemma trim_left_suffix: "suffix (trim_left s) s"
proof (induction s rule: trim_left.induct)
  case (1 a b c s)
  then show ?case by (auto simp: suffix_Cons)
qed (auto simp: suffix_Cons)

lemma trim_right_rev_suffix: "suffix (trim_right_rev s) s"
proof (induction s rule: trim_right_rev.induct)
  case (1 c b a s)
  then show ?case by (auto simp: suffix_Cons)
qed (auto simp: suffix_Cons)

lemma trim_right_rev_idem [simp]: "trim_right_rev (trim_right_rev s) = trim_right_rev s"
  by (induction s rule: trim_right_rev.induct) auto

lemma trim_left_idem [simp]: "trim_left (trim_left s) = trim_left s"
  by (induction s rule: trim_left.induct) auto

text \<open>\<open>TrimSpace\<close> is idempotent: what it leaves starts with no space and ends with none.\<close>

fun starts_space :: "string \<Rightarrow> bool" where
  "starts_space (a # b # c # s) = (ascii_space a \<or> space2 a b \<or> space3 a b c)"
| "starts_space [a, b] = (ascii_space a \<or> space2 a b)"
| "starts_space [a] = ascii_space a"
| "starts_space [] = False"

lemma trim_left_shorter: "length s < length t \<Longrightarrow> trim_left s \<noteq> t"
  using trim_left_suffix [of s] suffix_length_le by fastforce

lemma trim_left_fixed_iff: "trim_left s = s \<longleftrightarrow> \<not> starts_space s"
  by (cases s rule: trim_left.cases) (auto simp: trim_left_shorter)

lemma starts_space_prefix: "prefix p s \<Longrightarrow> starts_space p \<Longrightarrow> starts_space s"
  by (cases p rule: starts_space.cases; cases s rule: starts_space.cases) auto

lemma TrimSpace_idem [simp]: "TrimSpace (TrimSpace s) = TrimSpace s"
proof -
  let ?u = "trim_left s" and ?v = "rev (trim_right_rev (rev (trim_left s)))"
  have "suffix (rev ?v) (rev ?u)" by (simp add: trim_right_rev_suffix)
  then have "prefix ?v ?u" by (simp add: suffix_to_prefix)
  moreover have "\<not> starts_space ?u" using trim_left_fixed_iff [of ?u] by simp
  ultimately have "\<not> starts_space ?v" using starts_space_prefix by blast
  then have "trim_left ?v = ?v" by (simp add: trim_left_fixed_iff)
  then show ?thesis by (simp add: TrimSpace_def)
qed

lemma TrimSpace_Nil [simp]: "TrimSpace [] = []"
  by (simp add: TrimSpace_def)

lemma TrimSpace_nonempty: "TrimSpace s \<noteq> [] \<Longrightarrow> s \<noteq> []"
  by auto

section \<open>Task names\<close>

text \<open>
  Every component keys its maps by the canonical leading-backslash spelling of a task name. The
  backslash is byte 0x5C.
\<close>

abbreviation (input) backslash :: char where
  "backslash \<equiv> CHR 0x5C"

text \<open>
  The contract every normaliser of task names keeps: it is idempotent, it sends a bare spelling
  and its backslash spelling to one key, and it never invents a name for the empty string.
\<close>

locale task_canon =
  fixes canon :: "string \<Rightarrow> string"
  assumes canon_empty: "canon [] = []"
    and canon_bare: "s \<noteq> [] \<Longrightarrow> hd s \<noteq> backslash \<Longrightarrow> canon s = backslash # s"
    and canon_canonical: "s \<noteq> [] \<Longrightarrow> hd s = backslash \<Longrightarrow> canon s = s"
begin

lemma canon_idem: "canon (canon s) = canon s"
  by (cases "s = []"; cases "hd s = backslash")
     (simp_all add: canon_empty canon_bare canon_canonical)

lemma canon_Nil_iff: "canon s = [] \<longleftrightarrow> s = []"
  by (cases "s = []"; cases "hd s = backslash")
     (simp_all add: canon_empty canon_bare canon_canonical)

lemma canon_eq_iff:
  "canon s = canon t \<longleftrightarrow>
     s = t \<or> (s \<noteq> [] \<and> hd s \<noteq> backslash \<and> t = backslash # s)
           \<or> (t \<noteq> [] \<and> hd t \<noteq> backslash \<and> s = backslash # t)"
  by (cases "s = []"; cases "hd s = backslash"; cases "t = []"; cases "hd t = backslash")
     (auto simp: canon_empty canon_bare canon_canonical)

lemma canon_fixed_iff: "canon s = s \<longleftrightarrow> s = [] \<or> hd s = backslash"
  by (cases "s = []"; cases "hd s = backslash")
     (auto simp: canon_empty canon_bare canon_canonical)

end

section \<open>Instants, durations, 64-bit integers\<close>

text \<open>
  A \<open>time.Time\<close> in UTC is its number of nanoseconds since Go's zero time, so \<open>IsZero\<close> is
  \<open>= 0\<close>. A \<open>time.Duration\<close> is a signed 64-bit number of nanoseconds; \<open>i64\<close> wraps an
  integer into that range and is written wherever the source computes a duration.
\<close>

type_synonym gotime = int
type_synonym duration = int

definition i64 :: "int \<Rightarrow> int" where
  "i64 x = (x + 2 ^ 63) mod 2 ^ 64 - 2 ^ 63"

definition Nanosecond :: duration where "Nanosecond = 1"
definition Millisecond :: duration where "Millisecond = 1000000"
definition Second :: duration where "Second = 1000000000"
definition Minute :: duration where "Minute = 60 * Second"
definition Hour :: duration where "Hour = 60 * Minute"

lemmas duration_defs = Nanosecond_def Millisecond_def Second_def Minute_def Hour_def

lemma i64_id: "- (2 ^ 63) \<le> x \<Longrightarrow> x < 2 ^ 63 \<Longrightarrow> i64 x = x"
  by (simp add: i64_def)

lemma i64_range: "- (2 ^ 63) \<le> i64 x \<and> i64 x < 2 ^ 63"
proof -
  have "0 \<le> (x + 2 ^ 63) mod (2 ^ 64 :: int)" and "(x + 2 ^ 63) mod (2 ^ 64 :: int) < 2 ^ 64"
    by simp_all
  then show ?thesis by (simp add: i64_def)
qed

text \<open>
  A textual timestamp field, by what \<open>time.Parse(time.RFC3339Nano, _)\<close> makes of it: the empty
  string, the text that \<open>t.UTC().Format(time.RFC3339Nano)\<close> writes for an instant, or any other
  text together with the instant it parses to, if any.
\<close>

datatype stamp = NoStamp | Rendered gotime | OtherText string "gotime option"

definition FormatRFC3339Nano :: "gotime \<Rightarrow> stamp" where
  "FormatRFC3339Nano t = Rendered t"

definition ParseRFC3339Nano :: "stamp \<Rightarrow> gotime option" where
  "ParseRFC3339Nano s = (case s of NoStamp \<Rightarrow> None | Rendered t \<Rightarrow> Some t | OtherText _ p \<Rightarrow> p)"

lemma Parse_Format [simp]: "ParseRFC3339Nano (FormatRFC3339Nano t) = Some t"
  by (simp add: ParseRFC3339Nano_def FormatRFC3339Nano_def)

lemma Format_not_NoStamp [simp]: "FormatRFC3339Nano t \<noteq> NoStamp"
  by (simp add: FormatRFC3339Nano_def)

lemma Format_inj [simp]: "FormatRFC3339Nano t = FormatRFC3339Nano u \<longleftrightarrow> t = u"
  by (simp add: FormatRFC3339Nano_def)

section \<open>Step relations and their invariants\<close>

inductive reachable :: "('s \<Rightarrow> bool) \<Rightarrow> ('s \<Rightarrow> 's \<Rightarrow> bool) \<Rightarrow> 's \<Rightarrow> bool"
  for ini :: "'s \<Rightarrow> bool" and stp :: "'s \<Rightarrow> 's \<Rightarrow> bool" where
  reach_init: "ini s \<Longrightarrow> reachable ini stp s"
| reach_step: "reachable ini stp s \<Longrightarrow> stp s t \<Longrightarrow> reachable ini stp t"

locale invariant_system =
  fixes ini :: "'s \<Rightarrow> bool" and stp :: "'s \<Rightarrow> 's \<Rightarrow> bool" and inv :: "'s \<Rightarrow> bool"
  assumes inv_init: "ini s \<Longrightarrow> inv s"
    and inv_step: "inv s \<Longrightarrow> stp s t \<Longrightarrow> inv t"
begin

lemma inv_reachable: "reachable ini stp s \<Longrightarrow> inv s"
  by (induction rule: reachable.induct) (blast intro: inv_init inv_step)+

end

section \<open>Sorted insertion and key lists\<close>

lemma set_map_fst_map_of: "k \<in> set (map fst xs) \<longleftrightarrow> map_of xs k \<noteq> None"
  by (induction xs) auto

lemma length_filter_mono:
  "(\<And>x. x \<in> set xs \<Longrightarrow> P x \<Longrightarrow> Q x) \<Longrightarrow> length (filter P xs) \<le> length (filter Q xs)"
  by (induction xs) (auto intro: le_SucI)

end
