(* ===== verification/Daemon_Intent.thy ===== *)
theory Daemon_Intent
  imports Hub_Prelude "HOL-Library.List_Lexorder" "HOL-Library.Char_ord" "HOL-Library.AList"
begin

text \<open>
  Per-task stop directives: \<open>internal/api/daemon_intent.go\<close> (the record, its canonical keys, the
  schema check and the predicate \<open>IsActiveStop\<close>) and the key normalisation of
  \<open>internal/api/supervisor_intent.go\<close>. A Go map of directives is its association list in iteration
  order with distinct keys; nil and the empty map are the empty list.
\<close>

section \<open>Directives\<close>

record DaemonIntent =
  Desired :: string
  Reason :: string
  UpdatedAt :: gotime

type_synonym intent_map = "(string \<times> DaemonIntent) list"

definition StopIntentTTL :: duration where "StopIntentTTL = 24 * Hour"
definition ClockSkewFutureTolerance :: duration where "ClockSkewFutureTolerance = 5 * Minute"
definition ClockSkewStaleBound :: duration where "ClockSkewStaleBound = 365 * 24 * Hour"
definition IdentityFieldByteCap :: nat where "IdentityFieldByteCap = 1024"

abbreviation (input) IntentDesiredRunning :: string where "IntentDesiredRunning \<equiv> ''running''"
abbreviation (input) IntentDesiredStopped :: string where "IntentDesiredStopped \<equiv> ''stopped''"
abbreviation (input) IntentReasonUserStop :: string where "IntentReasonUserStop \<equiv> ''user-stop''"
abbreviation (input) IntentReasonUserDisabled :: string where
  "IntentReasonUserDisabled \<equiv> ''user-disabled''"
abbreviation (input) IntentReasonChronicFailure :: string where
  "IntentReasonChronicFailure \<equiv> ''chronic-failure''"
abbreviation (input) IntentReasonUninstalled :: string where
  "IntentReasonUninstalled \<equiv> ''uninstalled''"
abbreviation (input) IntentReasonInstall :: string where "IntentReasonInstall \<equiv> ''install''"
abbreviation (input) IntentReasonRegister :: string where "IntentReasonRegister \<equiv> ''register''"
abbreviation (input) IntentReasonIdle :: string where "IntentReasonIdle \<equiv> ''idle''"
abbreviation (input) ClockSkewFutureSuspectReason :: string where
  "ClockSkewFutureSuspectReason \<equiv> ''clock-skew-future-suspect''"

lemmas intent_durations =
  StopIntentTTL_def ClockSkewFutureTolerance_def ClockSkewStaleBound_def duration_defs

text \<open>\<open>time.Time.Sub\<close> saturates at the range of a duration.\<close>

definition time_sub :: "gotime \<Rightarrow> gotime \<Rightarrow> duration" where
  "time_sub t u = (if t - u > 2 ^ 63 - 1 then 2 ^ 63 - 1
                   else if t - u < - (2 ^ 63) then - (2 ^ 63) else t - u)"

lemma time_sub_gt_iff: "- (2 ^ 63) \<le> d \<Longrightarrow> d < 2 ^ 63 - 1 \<Longrightarrow> time_sub t u > d \<longleftrightarrow> t - u > d"
  by (auto simp: time_sub_def)

definition canonicalIntentTaskKey :: "string \<Rightarrow> string" where
  "canonicalIntentTaskKey taskName =
     (if taskName = [] then taskName
      else if hd taskName = backslash then taskName
      else backslash # taskName)"

interpretation ik: task_canon canonicalIntentTaskKey
  by unfold_locales (auto simp: canonicalIntentTaskKey_def)

definition IsActiveStop :: "DaemonIntent \<Rightarrow> gotime \<Rightarrow> bool \<times> string" where
  "IsActiveStop i now =
     (if Desired i \<noteq> IntentDesiredStopped then (False, [])
      else if now < UpdatedAt i - ClockSkewFutureTolerance then (True, ClockSkewFutureSuspectReason)
      else if time_sub now (UpdatedAt i) > ClockSkewStaleBound then (False, [])
      else if Reason i = IntentReasonUserStop \<and> time_sub now (UpdatedAt i) > StopIntentTTL
      then (False, [])
      else (True, Reason i))"

abbreviation active_stop :: "DaemonIntent \<Rightarrow> gotime \<Rightarrow> bool" where
  "active_stop i now \<equiv> fst (IsActiveStop i now)"

definition isKnownIntentReason :: "string \<Rightarrow> bool" where
  "isKnownIntentReason r =
     (r \<in> {IntentReasonUserStop, IntentReasonUserDisabled, IntentReasonChronicFailure,
           IntentReasonUninstalled, IntentReasonInstall, IntentReasonRegister, IntentReasonIdle})"

text \<open>
  The schema check of one decoded entry; the first argument says whether the decoded timestamp has
  the location UTC, which the instant itself does not carry.
\<close>

datatype schema_error = BadDesired string | BadReason string | ZeroUpdatedAt | NotUTC

definition validateIntentFields :: "bool \<Rightarrow> DaemonIntent \<Rightarrow> schema_error option" where
  "validateIntentFields in_utc i =
     (if Desired i \<noteq> IntentDesiredRunning \<and> Desired i \<noteq> IntentDesiredStopped
      then Some (BadDesired (Desired i))
      else if \<not> isKnownIntentReason (Reason i) then Some (BadReason (Reason i))
      else if UpdatedAt i = 0 then Some ZeroUpdatedAt
      else if \<not> in_utc then Some NotUTC
      else None)"

text \<open>
  The byte scan for timestamps that do not end in \<open>Z\<close>: for each occurrence of the key the value
  runs to the next quote. \<open>index_of\<close> is \<open>bytes.Index\<close>.
\<close>

fun index_of :: "string \<Rightarrow> string \<Rightarrow> nat option" where
  "index_of sub [] = (if sub = [] then Some 0 else None)"
| "index_of sub (c # s) =
     (if prefix sub (c # s) then Some 0 else map_option Suc (index_of sub s))"

definition updated_at_key :: string where
  "updated_at_key = [CHR 0x22] @ ''updated_at'' @ [CHR 0x22] @ '':'' @ [CHR 0x22]"

lemma length_updated_at_key: "length updated_at_key = 14"
  by (simp add: updated_at_key_def)

function isUTCInstant :: "string \<Rightarrow> bool" where
  "isUTCInstant raw =
     (case index_of updated_at_key raw of
        None \<Rightarrow> True
      | Some i \<Rightarrow>
          (let rest = drop (i + length updated_at_key) raw
           in case index_of [CHR 0x22] rest of
                None \<Rightarrow> False
              | Some e \<Rightarrow>
                  (let ts = take e rest
                   in if \<not> suffix ''Z'' ts then False else isUTCInstant (drop e rest))))"
  by auto

lemma index_of_SomeD: "index_of sub s = Some i \<Longrightarrow> prefix sub (drop i s) \<and> i \<le> length s"
proof (induction s arbitrary: i)
  case Nil
  then show ?case by (auto split: if_splits)
next
  case (Cons c s)
  then show ?case by (auto split: if_splits)
qed

termination isUTCInstant
proof (relation "measure length", simp)
  fix raw i rest e ts
  assume i: "index_of updated_at_key raw = Some i" and r: "rest = drop (i + length updated_at_key) raw"
  from index_of_SomeD [OF i] have "i + length updated_at_key \<le> length raw"
    using prefix_length_le [of updated_at_key "drop i raw"] by auto
  with r show "(drop e rest, raw) \<in> measure length"
    by (simp add: length_updated_at_key)
qed

declare isUTCInstant.simps [simp del]

section \<open>When a stop is in force\<close>

text \<open>How long a stop with this reason stays in force after it was written.\<close>

definition stop_lifetime :: "DaemonIntent \<Rightarrow> duration" where
  "stop_lifetime i = (if Reason i = IntentReasonUserStop then StopIntentTTL else ClockSkewStaleBound)"

lemma active_stop_iff:
  "active_stop i now \<longleftrightarrow> Desired i = IntentDesiredStopped \<and> now - UpdatedAt i \<le> stop_lifetime i"
proof -
  have stale: "time_sub now (UpdatedAt i) > ClockSkewStaleBound \<longleftrightarrow> now - UpdatedAt i > ClockSkewStaleBound"
    and ttl: "time_sub now (UpdatedAt i) > StopIntentTTL \<longleftrightarrow> now - UpdatedAt i > StopIntentTTL"
    by (auto intro!: time_sub_gt_iff simp: intent_durations)
  show ?thesis
    unfolding IsActiveStop_def stale ttl stop_lifetime_def
    by (auto simp: intent_durations)
qed

lemma active_stop_antimono: "active_stop i now \<Longrightarrow> now' \<le> now \<Longrightarrow> active_stop i now'"
  by (auto simp: active_stop_iff)

text \<open>
  C4. A stop is in force exactly while it is no older than its lifetime: 24 hours for an operator
  stop, 365 days for every other reason (disabled, chronic failure, idle), a timestamp in the
  future included; once it has lapsed it never comes back. The reported reason is the recorded one
  except for a timestamp more than five minutes ahead, which is reported as suspect.
\<close>

theorem active_stop_window:
  "(active_stop i now \<longleftrightarrow> Desired i = IntentDesiredStopped \<and> now - UpdatedAt i \<le> stop_lifetime i)
   \<and> (active_stop i now \<longrightarrow>
        snd (IsActiveStop i now) =
          (if UpdatedAt i - now > ClockSkewFutureTolerance then ClockSkewFutureSuspectReason
           else Reason i))
   \<and> (\<not> active_stop i now \<and> now \<le> later \<longrightarrow> \<not> active_stop i later)"
proof -
  have "snd (IsActiveStop i now) =
          (if UpdatedAt i - now > ClockSkewFutureTolerance then ClockSkewFutureSuspectReason
           else Reason i)" if "active_stop i now"
    using that by (auto simp: IsActiveStop_def split: if_splits)
  then show ?thesis by (auto simp: active_stop_iff dest: active_stop_antimono)
qed

text \<open>An idle stop is still in force after three hundred days, an operator stop lapses in two.\<close>

theorem active_stop_window_witness:
  "IsActiveStop \<lparr>Desired = ''stopped'', Reason = ''idle'', UpdatedAt = 1000\<rparr> (1000 + 300 * 24 * Hour)
     = (True, ''idle'')
   \<and> \<not> active_stop \<lparr>Desired = ''stopped'', Reason = ''user-stop'', UpdatedAt = 1000\<rparr>
         (1000 + 48 * Hour)
   \<and> \<not> active_stop \<lparr>Desired = ''stopped'', Reason = ''user-disabled'', UpdatedAt = 1000\<rparr>
         (1000 + 366 * 24 * Hour)"
  using active_stop_window [of "\<lparr>Desired = ''stopped'', Reason = ''idle'', UpdatedAt = 1000\<rparr>"
      "1000 + 300 * 24 * Hour" 0]
    active_stop_window [of "\<lparr>Desired = ''stopped'', Reason = ''user-stop'', UpdatedAt = 1000\<rparr>"
      "1000 + 25 * Hour" "1000 + 48 * Hour"]
    active_stop_window [of "\<lparr>Desired = ''stopped'', Reason = ''user-disabled'', UpdatedAt = 1000\<rparr>"
      "1000 + 366 * 24 * Hour" 0]
  by (auto simp: stop_lifetime_def intent_durations prod_eq_iff)

section \<open>Canonical keys\<close>

text \<open>
  One iteration of the loop over the sorted keys: a later record wins, and on a tie the canonical
  spelling.
\<close>

definition normalize_key :: "intent_map \<Rightarrow> string \<Rightarrow> intent_map \<Rightarrow> intent_map" where
  "normalize_key m taskName out =
     (let canonical = canonicalIntentTaskKey taskName in
      case map_of m taskName of
        None \<Rightarrow> out
      | Some nxt \<Rightarrow>
          (case map_of out canonical of
             None \<Rightarrow> AList.update canonical nxt out
           | Some current \<Rightarrow>
               if UpdatedAt nxt > UpdatedAt current
                  \<or> (UpdatedAt nxt = UpdatedAt current \<and> taskName = canonical)
               then AList.update canonical nxt out else out))"

definition normalizeDaemonIntentMapKeys :: "intent_map \<Rightarrow> intent_map" where
  "normalizeDaemonIntentMapKeys m =
     (if m = [] then [] else fold (normalize_key m) (sort (map fst m)) [])"

text \<open>
  The specification: a canonical key holds the later of the records under its two spellings, the
  canonical one on a tie; \<open>bare\<close> is the other spelling, if the key has one.
\<close>

definition bare :: "string \<Rightarrow> string option" where
  "bare k = (case k of c # s \<Rightarrow> if c = backslash \<and> s \<noteq> [] \<and> hd s \<noteq> backslash then Some s else None
                     | [] \<Rightarrow> None)"

definition later_of :: "DaemonIntent option \<Rightarrow> DaemonIntent option \<Rightarrow> DaemonIntent option" where
  "later_of c b =
     (case (c, b) of
        (None, _) \<Rightarrow> b
      | (_, None) \<Rightarrow> c
      | (Some i, Some j) \<Rightarrow> if UpdatedAt j > UpdatedAt i then Some j else Some i)"

definition canonical_view :: "(string \<rightharpoonup> DaemonIntent) \<Rightarrow> string \<rightharpoonup> DaemonIntent" where
  "canonical_view f k =
     (if canonicalIntentTaskKey k = k then later_of (f k) (Option.bind (bare k) f) else None)"

lemma bare_Some_iff:
  "bare k = Some s \<longleftrightarrow> s \<noteq> [] \<and> hd s \<noteq> backslash \<and> k = backslash # s"
  by (auto simp: bare_def split: list.splits)

lemma canonical_key_cases:
  "canonicalIntentTaskKey t = k \<longleftrightarrow> canonicalIntentTaskKey k = k \<and> (t = k \<or> bare k = Some t)"
  by (auto simp: canonicalIntentTaskKey_def bare_Some_iff)

lemma bare_neq [simp]: "bare k \<noteq> Some k"
  by (auto simp: bare_Some_iff)

lemma canonical_view_step:
  assumes "t \<notin> P" and "map_of m t = Some v"
    and out: "map_of out = canonical_view (map_of m |` P)"
  shows "map_of (normalize_key m t out) = canonical_view (map_of m |` insert t P)"
proof
  fix k
  show "map_of (normalize_key m t out) k = canonical_view (map_of m |` insert t P) k"
  proof (cases "canonicalIntentTaskKey t = k")
    case False
    then have "\<not> (canonicalIntentTaskKey k = k \<and> (t = k \<or> bare k = Some t))"
      using canonical_key_cases [of t k] by blast
    then have "canonical_view (map_of m |` insert t P) k = canonical_view (map_of m |` P) k"
      by (cases "bare k") (auto simp: canonical_view_def restrict_map_def)
    moreover have "map_of (normalize_key m t out) k = map_of out k"
      using False by (auto simp: normalize_key_def Let_def update_conv' split: option.splits)
    ultimately show ?thesis by (simp add: out)
  next
    case True
    then have k: "canonicalIntentTaskKey k = k" and t: "t = k \<or> bare k = Some t"
      using canonical_key_cases [of t k] by blast+
    from t show ?thesis
    proof
      assume "t = k"
      then show ?thesis
        using assms(1,2) True k
        by (cases "bare k") (auto simp: normalize_key_def Let_def update_conv' out canonical_view_def
              later_of_def restrict_map_def split: option.splits if_splits)
    next
      assume b: "bare k = Some t"
      then have "t \<noteq> k" by auto
      then show ?thesis
        using assms(1,2) True k b
        by (auto simp: normalize_key_def Let_def update_conv' out canonical_view_def
              later_of_def restrict_map_def split: option.splits if_splits)
    qed
  qed
qed

lemma canonical_view_empty [simp]: "canonical_view Map.empty = Map.empty"
  by (auto simp: canonical_view_def later_of_def split: bind_split)

lemma fold_normalize_key:
  assumes "distinct ks" and "set ks \<inter> P = {}" and "set ks \<subseteq> dom (map_of m)"
    and "map_of out = canonical_view (map_of m |` P)"
  shows "map_of (fold (normalize_key m) ks out) = canonical_view (map_of m |` (P \<union> set ks))"
  using assms
proof (induction ks arbitrary: P out)
  case (Cons k ks)
  then obtain v where v: "map_of m k = Some v" by auto
  from Cons.prems have "map_of (normalize_key m k out) = canonical_view (map_of m |` insert k P)"
    by (intro canonical_view_step [OF _ v]) auto
  from Cons.IH [of "insert k P", OF _ _ _ this] Cons.prems show ?case by (simp add: insert_commute)
qed simp

lemma map_of_normalize:
  assumes "distinct (map fst m)"
  shows "map_of (normalizeDaemonIntentMapKeys m) = canonical_view (map_of m)"
proof (cases "m = []")
  case False
  have "map_of (fold (normalize_key m) (sort (map fst m)) [])
          = canonical_view (map_of m |` ({} \<union> set (sort (map fst m))))"
    by (rule fold_normalize_key) (use assms in \<open>auto simp: dom_map_of_conv_image_fst\<close>)
  moreover have "map_of m |` set (map fst m) = map_of m"
    by (rule ext) (simp add: restrict_map_def, metis map_of_eq_None_iff)
  ultimately show ?thesis using False by (simp add: normalizeDaemonIntentMapKeys_def)
qed (simp add: normalizeDaemonIntentMapKeys_def)

lemma distinct_normalize_key:
  "distinct (map fst out) \<Longrightarrow> distinct (map fst (normalize_key m t out))"
  by (auto simp: normalize_key_def Let_def intro: distinct_update split: option.splits)

lemma distinct_normalize [simp]: "distinct (map fst (normalizeDaemonIntentMapKeys m))"
proof -
  have "distinct (map fst (fold (normalize_key m) ks out))" if "distinct (map fst out)" for ks out
    using that by (induction ks arbitrary: out) (simp_all add: distinct_normalize_key)
  then show ?thesis by (simp add: normalizeDaemonIntentMapKeys_def)
qed

lemma canonical_view_SomeD: "canonical_view f k = Some i \<Longrightarrow> canonicalIntentTaskKey k = k"
  by (simp add: canonical_view_def split: if_splits)

lemma canonical_view_fixed:
  assumes "\<And>k i. f k = Some i \<Longrightarrow> canonicalIntentTaskKey k = k"
  shows "canonical_view f = f"
proof
  fix k
  have "f s = None" if "bare k = Some s" for s
    using assms [of s] that by (cases "f s") (auto simp: bare_Some_iff canonicalIntentTaskKey_def)
  with assms [of k] show "canonical_view f k = f k"
    by (cases "f k"; cases "bare k") (auto simp: canonical_view_def later_of_def)
qed

lemma canonical_view_idem: "canonical_view (canonical_view f) = canonical_view f"
  by (rule canonical_view_fixed) (rule canonical_view_SomeD)

lemma canonical_view_latest:
  assumes "f t = Some i"
  shows "\<exists>j. canonical_view f (canonicalIntentTaskKey t) = Some j \<and> UpdatedAt i \<le> UpdatedAt j"
proof -
  from canonical_key_cases [of t "canonicalIntentTaskKey t"]
  consider "t = canonicalIntentTaskKey t" | "bare (canonicalIntentTaskKey t) = Some t" by blast
  then show ?thesis
  proof cases
    case 1
    then show ?thesis using assms
      by (cases "bare t") (auto simp: canonical_view_def later_of_def split: option.splits)
  next
    case 2
    then show ?thesis using assms
      by (auto simp: canonical_view_def later_of_def ik.canon_idem split: option.splits)
  qed
qed

text \<open>
  C5. Normalising the keys of a stop map whose file has both spellings of a task: each canonical
  key gets the later of the two records, the canonical one on a tie (\<open>canonical_view\<close>), so the
  result does not depend on the iteration order of the map; no task loses its stop, none gets an
  older record than it had, and a second normalisation changes nothing.
\<close>

theorem normalize_keeps_latest:
  assumes "distinct (map fst m)"
  shows "map_of (normalizeDaemonIntentMapKeys m) = canonical_view (map_of m)
    \<and> (\<forall>t i. map_of m t = Some i \<longrightarrow>
          (\<exists>j. map_of (normalizeDaemonIntentMapKeys m) (canonicalIntentTaskKey t) = Some j
               \<and> UpdatedAt i \<le> UpdatedAt j))
    \<and> map_of (normalizeDaemonIntentMapKeys (normalizeDaemonIntentMapKeys m))
           = map_of (normalizeDaemonIntentMapKeys m)
    \<and> (\<forall>m'. distinct (map fst m') \<and> map_of m' = map_of m \<longrightarrow>
           map_of (normalizeDaemonIntentMapKeys m') = map_of (normalizeDaemonIntentMapKeys m))"
  using assms canonical_view_latest [of "map_of m"]
  by (simp add: map_of_normalize canonical_view_idem del: map_of_eq_Some_iff)

theorem normalize_keeps_latest_witness:
  "let early = \<lparr>Desired = ''stopped'', Reason = ''user-stop'', UpdatedAt = 5\<rparr>;
       late = \<lparr>Desired = ''stopped'', Reason = ''user-disabled'', UpdatedAt = 9\<rparr>;
       m = [(backslash # ''a'', early), (''a'', late)]
   in map_of (normalizeDaemonIntentMapKeys m) (backslash # ''a'') = Some late
      \<and> map_of (normalizeDaemonIntentMapKeys (rev m)) (backslash # ''a'') = Some late"
proof -
  let ?e = "\<lparr>Desired = ''stopped'', Reason = ''user-stop'', UpdatedAt = 5\<rparr>"
  let ?l = "\<lparr>Desired = ''stopped'', Reason = ''user-disabled'', UpdatedAt = 9\<rparr>"
  have "canonical_view (map_of [(backslash # ''a'', ?e), (''a'', ?l)]) (backslash # ''a'') = Some ?l"
    by (simp add: canonical_view_def later_of_def bare_def canonicalIntentTaskKey_def)
  moreover have "canonical_view (map_of [(''a'', ?l), (backslash # ''a'', ?e)]) (backslash # ''a'') = Some ?l"
    by (simp add: canonical_view_def later_of_def bare_def canonicalIntentTaskKey_def)
  moreover have "map_of (normalizeDaemonIntentMapKeys [(backslash # ''a'', ?e), (''a'', ?l)])
                   = canonical_view (map_of [(backslash # ''a'', ?e), (''a'', ?l)])"
    by (rule conjunct1 [OF normalize_keeps_latest]) simp
  moreover have "map_of (normalizeDaemonIntentMapKeys [(''a'', ?l), (backslash # ''a'', ?e)])
                   = canonical_view (map_of [(''a'', ?l), (backslash # ''a'', ?e)])"
    by (rule conjunct1 [OF normalize_keeps_latest]) simp
  ultimately show ?thesis by (simp add: Let_def del: map_of_eq_Some_iff)
qed

end
