(* ===== verification/Supervisor_Intent.thy ===== *)
theory Supervisor_Intent
  imports Daemon_Intent "HOL-Library.Product_Lexorder"
begin

text \<open>
  The supervisor intent file: its types (\<open>internal/api/supervisor_intent.go\<close>,
  \<open>serena_prepared_intent_binding.go\<close>), the validation of the prepared Serena consumers it carries
  (\<open>serena_prepared_intent_validation.go\<close>), the lookups, the normalisation of its stop maps and the
  read and write paths up to the bytes. The file is modelled as the value its JSON decodes to; the
  SHA-256 of a descriptor's JSON is the parameter \<open>sha\<close>, and the final file-system write is a
  parameter that may fail.
\<close>

section \<open>Types\<close>

record PreparedSerenaRuntimeBinding =
  pb_Schema :: string
  RequestIdentitySHA256 :: string
  pb_GenerationID :: string
  RecordSHA256 :: string
  pb_SourceSHA256 :: string
  InterpreterSHA256 :: string
  pb_EntrypointSHA256 :: string
  ResolutionSHA256 :: string

record PreparedConsumerNativeBindingV1 =
  CreatorOperationID :: string
  nb_PID :: "32 word"
  NativeBirthFILETIME :: "64 word"
  NativeIdentitySHA256 :: string

record PreparedConsumerBindingV1 =
  OperationID :: string
  cb_TaskName :: string
  ConsumerKind :: string
  PackageRequestIdentitySHA256 :: string
  GenerationID :: string
  ReadyRecordSHA256 :: string
  SourceSHA256 :: string
  EntrypointSHA256 :: string
  DescriptorSHA256 :: string
  Disposition :: string
  StartDisposition :: string
  NativeBinding :: "PreparedConsumerNativeBindingV1 option"
  ClosureReceiptSHA256 :: "string option"

text \<open>\<open>Bindings\<close> is nil or a slice; the validation tells them apart.\<close>

record PreparedSerenaConsumersV1 =
  Schema :: string
  Bindings :: "PreparedConsumerBindingV1 list option"

record DaemonRuntimeSpec =
  rs_PreparedRuntime :: "PreparedSerenaRuntimeBinding option"
  SpecVersion :: int
  ChildCommand :: string
  ChildArgs :: "string list"
  EnvRefs :: "(string \<times> string) list"
  UpstreamPort :: int
  ExternalPort :: int
  WorkspacePath :: string

record SupervisorDaemon =
  PreparedRuntime :: "PreparedSerenaRuntimeBinding option"
  d_TaskName :: string
  Server :: string
  Daemon :: string
  Command :: string
  Args :: "string list"
  WorkingDir :: string
  Env :: "(string \<times> string) list"
  Workspace :: string
  Port :: int
  ManifestHash :: string
  StartupBindDeadlineSeconds :: int
  RuntimeSpec :: "DaemonRuntimeSpec option"

record MaintenanceTimer =
  mt_Name :: string
  mt_Kind :: string
  mt_Server :: string
  mt_Command :: string
  mt_Args :: "string list"
  Enabled :: "bool option"

record SupervisorIntentFile =
  SerenaPreparedConsumers :: "PreparedSerenaConsumersV1 option"
  Version :: int
  IntentGeneration :: "64 word"
  file_UpdatedAt :: string
  Daemons :: "SupervisorDaemon list"
  MaintenanceTimers :: "MaintenanceTimer list"
  StrictMode :: bool
  OwnerMode :: string
  Stops :: intent_map
  LegacyStopWatermarks :: intent_map

definition zero_file :: SupervisorIntentFile where
  "zero_file = \<lparr>SerenaPreparedConsumers = None, Version = 0, IntentGeneration = 0,
     file_UpdatedAt = [], Daemons = [], MaintenanceTimers = [], StrictMode = False, OwnerMode = [],
     Stops = [], LegacyStopWatermarks = []\<rparr>"

definition EffectiveOwnerMode :: "SupervisorIntentFile option \<Rightarrow> string" where
  "EffectiveOwnerMode f =
     (case f of None \<Rightarrow> ''gui'' | Some f \<Rightarrow> if OwnerMode f = [] then ''gui'' else OwnerMode f)"

section \<open>Prepared Serena consumers\<close>

definition hex_digit :: "char \<Rightarrow> bool" where
  "hex_digit c = ((48 \<le> (of_char c :: nat) \<and> (of_char c :: nat) \<le> 57)
     \<or> (97 \<le> (of_char c :: nat) \<and> (of_char c :: nat) \<le> 102)
     \<or> (65 \<le> (of_char c :: nat) \<and> (of_char c :: nat) \<le> 70))"

text \<open>\<open>hex.DecodeString\<close> succeeds on an even number of hex digits and gives half as many bytes.\<close>

definition preparedSerenaDigest :: "string \<Rightarrow> bool" where
  "preparedSerenaDigest s =
     (even (length s) \<and> list_all hex_digit s \<and> length s div 2 = 32 \<and> s = ToLower s)"

definition id_char :: "char \<Rightarrow> bool" where
  "id_char r = ((97 \<le> (of_char r :: nat) \<and> (of_char r :: nat) \<le> 122)
     \<or> (48 \<le> (of_char r :: nat) \<and> (of_char r :: nat) \<le> 57) \<or> r = CHR ''-'')"

definition preparedSerenaID :: "string \<Rightarrow> bool" where
  "preparedSerenaID s = (\<not> (s = [] \<or> length s > 128) \<and> list_all id_char s)"

definition validatePreparedSerenaBinding :: "PreparedSerenaRuntimeBinding \<Rightarrow> string option" where
  "validatePreparedSerenaBinding b =
     (if pb_Schema b \<noteq> ''serena-prepared-runtime-ref-v1'' \<or> \<not> preparedSerenaID (pb_GenerationID b)
      then Some ''SERENA_PREPARED_BINDING_INVALID''
      else if \<not> list_all preparedSerenaDigest
             [RequestIdentitySHA256 b, RecordSHA256 b, pb_SourceSHA256 b, InterpreterSHA256 b,
              pb_EntrypointSHA256 b, ResolutionSHA256 b]
      then Some ''SERENA_PREPARED_BINDING_INVALID''
      else None)"

definition validateConsumer :: "PreparedConsumerBindingV1 \<Rightarrow> string option" where
  "validateConsumer b =
     (if \<not> preparedSerenaID (OperationID b) \<or> cb_TaskName b = [] \<or> \<not> preparedSerenaID (GenerationID b)
         \<or> (ConsumerKind b \<noteq> ''global'' \<and> ConsumerKind b \<noteq> ''workspace'')
      then Some ''SERENA_PREPARED_CONSUMER_IDENTITY_INVALID''
      else if \<not> list_all preparedSerenaDigest
             [PackageRequestIdentitySHA256 b, ReadyRecordSHA256 b, SourceSHA256 b,
              EntrypointSHA256 b, DescriptorSHA256 b]
      then Some ''SERENA_PREPARED_CONSUMER_DIGEST_INVALID''
      else if Disposition b \<noteq> ''pending'' \<and> Disposition b \<noteq> ''current'' \<and> Disposition b \<noteq> ''rollback''
      then Some ''SERENA_PREPARED_CONSUMER_DISPOSITION_INVALID''
      else if StartDisposition b \<notin> {''not_attempted'', ''attempted_unknown'', ''confirmed'',
                                     ''no_child'', ''terminal''}
      then Some ''SERENA_PREPARED_CONSUMER_START_DISPOSITION_INVALID''
      else if (StartDisposition b = ''not_attempted'' \<and>
                 (NativeBinding b \<noteq> None \<or> ClosureReceiptSHA256 b \<noteq> None \<or> Disposition b \<noteq> ''pending''))
            \<or> (StartDisposition b = ''attempted_unknown'' \<and>
                 (Disposition b \<noteq> ''pending'' \<or> ClosureReceiptSHA256 b \<noteq> None))
            \<or> (StartDisposition b = ''confirmed'' \<and>
                 (NativeBinding b = None \<or> ClosureReceiptSHA256 b \<noteq> None))
            \<or> (StartDisposition b = ''no_child'' \<and>
                 (NativeBinding b \<noteq> None \<or> ClosureReceiptSHA256 b = None \<or> Disposition b \<noteq> ''pending''))
            \<or> (StartDisposition b = ''terminal'' \<and> ClosureReceiptSHA256 b = None)
      then Some ''SERENA_PREPARED_CONSUMER_UNDEFINED_COMBINATION''
      else if (case NativeBinding b of
                 None \<Rightarrow> False
               | Some n \<Rightarrow> CreatorOperationID n \<noteq> OperationID b \<or> nb_PID n = 0
                           \<or> NativeBirthFILETIME n = 0
                           \<or> \<not> preparedSerenaDigest (NativeIdentitySHA256 n))
      then Some ''SERENA_PREPARED_CONSUMER_NATIVE_BINDING_INVALID''
      else if (case ClosureReceiptSHA256 b of None \<Rightarrow> False | Some d \<Rightarrow> \<not> preparedSerenaDigest d)
      then Some ''SERENA_PREPARED_CONSUMER_CLOSURE_DIGEST_INVALID''
      else None)"

abbreviation consumer_key :: "PreparedConsumerBindingV1 \<Rightarrow> string" where
  "consumer_key row \<equiv> OperationID row @ [CHR 0x00] @ cb_TaskName row"

fun validate_rows ::
  "string \<Rightarrow> string list \<Rightarrow> PreparedConsumerBindingV1 list \<Rightarrow> string option" where
  "validate_rows previous seen [] = None"
| "validate_rows previous seen (row # rows) =
     (case validateConsumer row of
        Some e \<Rightarrow> Some e
      | None \<Rightarrow>
          (let key = consumer_key row in
           if key \<in> set seen \<or> key < previous
           then Some ''SERENA_PREPARED_CONSUMERS_ORDER_OR_DUPLICATE''
           else validate_rows key (key # seen) rows))"

definition validateConsumers :: "PreparedSerenaConsumersV1 option \<Rightarrow> string option" where
  "validateConsumers b =
     (case b of
        None \<Rightarrow> Some ''SERENA_PREPARED_CONSUMERS_UNAVAILABLE''
      | Some c \<Rightarrow>
          (case Bindings c of
             None \<Rightarrow> Some ''SERENA_PREPARED_CONSUMERS_UNAVAILABLE''
           | Some rows \<Rightarrow>
               if Schema c \<noteq> ''serena-prepared-consumers-v1''
               then Some ''SERENA_PREPARED_CONSUMERS_UNAVAILABLE''
               else validate_rows [] [] rows))"

abbreviation rows_of :: "PreparedSerenaConsumersV1 \<Rightarrow> PreparedConsumerBindingV1 list" where
  "rows_of c \<equiv> (case Bindings c of None \<Rightarrow> [] | Some rows \<Rightarrow> rows)"

text \<open>
  The sort is by operation and then task. Go's \<open>sort.Slice\<close> is not stable; rows with equal keys,
  the only ones it could order differently, are refused by the validation.
\<close>

abbreviation sort_pair :: "PreparedConsumerBindingV1 \<Rightarrow> string \<times> string" where
  "sort_pair b \<equiv> (OperationID b, cb_TaskName b)"

definition canonicalizeConsumers :: "PreparedSerenaConsumersV1 \<Rightarrow> PreparedSerenaConsumersV1" where
  "canonicalizeConsumers c = c\<lparr>Bindings := map_option (sort_key sort_pair) (Bindings c)\<rparr>"

text \<open>A clone of the consumers has a slice even where the original has nil.\<close>

definition clonePreparedSerenaConsumers ::
  "PreparedSerenaConsumersV1 option \<Rightarrow> PreparedSerenaConsumersV1 option" where
  "clonePreparedSerenaConsumers b = map_option (\<lambda>c. c\<lparr>Bindings := Some (rows_of c)\<rparr>) b"

definition cloneSupervisorIntentFile :: "SupervisorIntentFile option \<Rightarrow> SupervisorIntentFile" where
  "cloneSupervisorIntentFile f =
     (case f of
        None \<Rightarrow> zero_file\<lparr>Version := 1\<rparr>
      | Some f \<Rightarrow> f\<lparr>SerenaPreparedConsumers :=
                    clonePreparedSerenaConsumers (SerenaPreparedConsumers f)\<rparr>)"

definition preparedSerenaDescriptorBinding ::
  "SupervisorDaemon \<Rightarrow> string + PreparedSerenaRuntimeBinding option" where
  "preparedSerenaDescriptorBinding d =
     (case PreparedRuntime d of
        Some b \<Rightarrow>
          if Workspace d \<noteq> [] \<or> RuntimeSpec d \<noteq> None \<or> Server d \<noteq> ''serena''
          then Inl ''SERENA_PREPARED_GLOBAL_DESCRIPTOR_INVALID''
          else (case validatePreparedSerenaBinding b of Some e \<Rightarrow> Inl e | None \<Rightarrow> Inr (Some b))
      | None \<Rightarrow>
          (case RuntimeSpec d of
             None \<Rightarrow> Inr None
           | Some spec \<Rightarrow>
               if rs_PreparedRuntime spec \<noteq> None \<or> SpecVersion spec = 2
               then (case rs_PreparedRuntime spec of
                       None \<Rightarrow> Inl ''SERENA_PREPARED_WORKSPACE_DESCRIPTOR_INVALID''
                     | Some b \<Rightarrow>
                         if Workspace d = [] \<or> Server d \<noteq> ''serena'' \<or> SpecVersion spec \<noteq> 2
                         then Inl ''SERENA_PREPARED_WORKSPACE_DESCRIPTOR_INVALID''
                         else (case validatePreparedSerenaBinding b of
                                 Some e \<Rightarrow> Inl e | None \<Rightarrow> Inr (Some b)))
               else Inr None))"

fun collect_descriptors ::
  "(string \<times> SupervisorDaemon) list \<Rightarrow> SupervisorDaemon list
     \<Rightarrow> string + (string \<times> SupervisorDaemon) list" where
  "collect_descriptors acc [] = Inr acc"
| "collect_descriptors acc (d # ds) =
     (case preparedSerenaDescriptorBinding d of
        Inl e \<Rightarrow> Inl e
      | Inr None \<Rightarrow> collect_descriptors acc ds
      | Inr (Some b) \<Rightarrow>
          if map_of acc (d_TaskName d) \<noteq> None then Inl ''SERENA_PREPARED_DESCRIPTOR_DUPLICATE''
          else collect_descriptors ((d_TaskName d, d) # acc) ds)"

fun check_rows ::
  "(SupervisorDaemon \<Rightarrow> string) \<Rightarrow> (string \<times> SupervisorDaemon) list
     \<Rightarrow> PreparedConsumerBindingV1 list \<Rightarrow> string option" where
  "check_rows sha descriptors [] = None"
| "check_rows sha descriptors (row # rows) =
     (if Disposition row = ''rollback'' then check_rows sha descriptors rows
      else case map_of descriptors (cb_TaskName row) of
             None \<Rightarrow> Some ''SERENA_PREPARED_CONSUMER_DESCRIPTOR_MISSING''
           | Some d \<Rightarrow>
               (case preparedSerenaDescriptorBinding d of
                  Inl e \<Rightarrow> Some e
                | Inr binding \<Rightarrow>
                    (let kind = (if Workspace d \<noteq> [] then ''workspace'' else ''global'') in
                     case binding of
                       None \<Rightarrow> Some ''SERENA_PREPARED_CONSUMER_DESCRIPTOR_DRIFT''
                     | Some b \<Rightarrow>
                         if kind \<noteq> ConsumerKind row \<or> sha d \<noteq> DescriptorSHA256 row
                            \<or> RequestIdentitySHA256 b \<noteq> PackageRequestIdentitySHA256 row
                            \<or> pb_GenerationID b \<noteq> GenerationID row
                            \<or> RecordSHA256 b \<noteq> ReadyRecordSHA256 row
                            \<or> pb_SourceSHA256 b \<noteq> SourceSHA256 row
                            \<or> pb_EntrypointSHA256 b \<noteq> EntrypointSHA256 row
                         then Some ''SERENA_PREPARED_CONSUMER_DESCRIPTOR_DRIFT''
                         else check_rows sha descriptors rows)))"

definition validatePreparedSupervisorIntent ::
  "(SupervisorDaemon \<Rightarrow> string) \<Rightarrow> SupervisorIntentFile \<Rightarrow> string option" where
  "validatePreparedSupervisorIntent sha f =
     (if Version f \<noteq> 1 \<and> Version f \<noteq> 2 then Some ''SERENA_PREPARED_INTENT_VERSION_UNSUPPORTED''
      else case collect_descriptors [] (Daemons f) of
             Inl e \<Rightarrow> Some e
           | Inr descriptors \<Rightarrow>
               if Version f = 1
               then (if SerenaPreparedConsumers f \<noteq> None \<or> descriptors \<noteq> []
                     then Some ''SERENA_PREPARED_INTENT_FENCE_MISSING'' else None)
               else (case validateConsumers (SerenaPreparedConsumers f) of
                       Some e \<Rightarrow> Some e
                     | None \<Rightarrow>
                         check_rows sha descriptors
                           (case SerenaPreparedConsumers f of None \<Rightarrow> [] | Some c \<Rightarrow> rows_of c)))"

section \<open>Lookups\<close>

definition isLegacyOneshotDaemon :: "SupervisorDaemon \<Rightarrow> bool" where
  "isLegacyOneshotDaemon d =
     (if length (Args d) < 2 then False
      else Args d ! 0 = ''watchdog'' \<and> Args d ! 1 = ''--once'')"

definition filterSupervisorIntentOneshotDaemons :: "SupervisorIntentFile \<Rightarrow> SupervisorIntentFile" where
  "filterSupervisorIntentOneshotDaemons f =
     f\<lparr>Daemons := filter (\<lambda>d. \<not> isLegacyOneshotDaemon d) (Daemons f)\<rparr>"

definition FindSupervisorDaemonByTaskName ::
  "SupervisorIntentFile option \<Rightarrow> string \<Rightarrow> SupervisorDaemon option" where
  "FindSupervisorDaemonByTaskName f taskName =
     (case f of None \<Rightarrow> None | Some f \<Rightarrow> find (\<lambda>d. d_TaskName d = taskName) (Daemons f))"

definition HasRuntimeSpecRow :: "SupervisorIntentFile option \<Rightarrow> bool" where
  "HasRuntimeSpecRow f =
     (case f of None \<Rightarrow> False | Some f \<Rightarrow> list_ex (\<lambda>d. RuntimeSpec d \<noteq> None) (Daemons f))"

definition serena_row :: "string \<Rightarrow> SupervisorDaemon \<Rightarrow> bool" where
  "serena_row key d = (trim_prefix (d_TaskName d) [backslash] = ''mcp-local-hub-serena-'' @ key)"

definition HasSerenaDaemonForWorkspaceKey :: "SupervisorIntentFile option \<Rightarrow> string \<Rightarrow> bool" where
  "HasSerenaDaemonForWorkspaceKey f key =
     (case f of None \<Rightarrow> False | Some f \<Rightarrow> list_ex (serena_row key) (Daemons f))"

definition SpecBearingSerenaDaemonForWorkspaceKey ::
  "SupervisorIntentFile option \<Rightarrow> string \<Rightarrow> SupervisorDaemon option" where
  "SpecBearingSerenaDaemonForWorkspaceKey f key =
     (case f of
        None \<Rightarrow> None
      | Some f \<Rightarrow> find (\<lambda>d. serena_row key d \<and> RuntimeSpec d \<noteq> None) (Daemons f))"

text \<open>The stop source every reader consults; the legacy file is ignored.\<close>

definition StopsAsDaemonIntentFile :: "SupervisorIntentFile option \<Rightarrow> intent_map" where
  "StopsAsDaemonIntentFile f = (case f of None \<Rightarrow> [] | Some f \<Rightarrow> Stops f)"

definition UnifiedStopsFile :: "SupervisorIntentFile option \<Rightarrow> intent_map option \<Rightarrow> intent_map" where
  "UnifiedStopsFile supervisorIntent daemonIntentFile = StopsAsDaemonIntentFile supervisorIntent"

section \<open>Stop maps, reading and writing\<close>

definition canonicalizeSupervisorIntentStopMaps :: "SupervisorIntentFile \<Rightarrow> SupervisorIntentFile" where
  "canonicalizeSupervisorIntentStopMaps f =
     f\<lparr>Stops := normalizeDaemonIntentMapKeys (Stops f),
       LegacyStopWatermarks := normalizeDaemonIntentMapKeys (LegacyStopWatermarks f)\<rparr>"

text \<open>A watermark is kept only for a task that has no stop.\<close>

definition normalizeAbsentOnlyStopWatermarks :: "SupervisorIntentFile \<Rightarrow> SupervisorIntentFile" where
  "normalizeAbsentOnlyStopWatermarks f =
     (let f = canonicalizeSupervisorIntentStopMaps f
      in f\<lparr>LegacyStopWatermarks :=
             filter (\<lambda>(taskName, w). taskName \<notin> set (map fst (Stops f))) (LegacyStopWatermarks f)\<rparr>)"

type_synonym raw_stop_maps = "intent_map \<times> intent_map"

definition decodeSupervisorIntentFile ::
  "(SupervisorDaemon \<Rightarrow> string) \<Rightarrow> SupervisorIntentFile
     \<Rightarrow> string + SupervisorIntentFile \<times> raw_stop_maps" where
  "decodeSupervisorIntentFile sha f =
     (case validatePreparedSupervisorIntent sha f of
        Some e \<Rightarrow> Inl e
      | None \<Rightarrow>
          Inr (filterSupervisorIntentOneshotDaemons (canonicalizeSupervisorIntentStopMaps f),
               (Stops f, LegacyStopWatermarks f)))"

text \<open>A missing file reads as an empty one of version 1.\<close>

definition readSupervisorIntentForMergeWithRawStopMaps ::
  "(SupervisorDaemon \<Rightarrow> string) \<Rightarrow> SupervisorIntentFile option
     \<Rightarrow> string + SupervisorIntentFile \<times> raw_stop_maps" where
  "readSupervisorIntentForMergeWithRawStopMaps sha disk =
     (case disk of
        None \<Rightarrow> Inr (zero_file\<lparr>Version := 1\<rparr>, ([], []))
      | Some f \<Rightarrow> decodeSupervisorIntentFile sha f)"

definition marshalSupervisorIntent ::
  "(SupervisorDaemon \<Rightarrow> string) \<Rightarrow> SupervisorIntentFile \<Rightarrow> string + SupervisorIntentFile" where
  "marshalSupervisorIntent sha f =
     (let f = f\<lparr>SerenaPreparedConsumers :=
                  map_option canonicalizeConsumers (SerenaPreparedConsumers f)\<rparr>
      in case validatePreparedSupervisorIntent sha f of
           Some e \<Rightarrow> Inl e
         | None \<Rightarrow> Inr (normalizeAbsentOnlyStopWatermarks f))"

definition marshalNextSupervisorIntent ::
  "(SupervisorDaemon \<Rightarrow> string) \<Rightarrow> SupervisorIntentFile \<Rightarrow> string + SupervisorIntentFile" where
  "marshalNextSupervisorIntent sha f =
     (if IntentGeneration f = - 1 then Inl ''supervisor intent generation overflow''
      else marshalSupervisorIntent sha (f\<lparr>IntentGeneration := IntentGeneration f + 1\<rparr>))"

text \<open>
  The write under the held lock: \<open>write\<close> is the error of the secure write of these bytes, if any;
  it leaves the old file in place when it fails.
\<close>

definition writeSupervisorIntentLockHeld ::
  "(SupervisorDaemon \<Rightarrow> string) \<Rightarrow> (SupervisorIntentFile \<Rightarrow> string option)
     \<Rightarrow> SupervisorIntentFile option \<Rightarrow> SupervisorIntentFile \<Rightarrow> string option \<times> SupervisorIntentFile option"
  where
  "writeSupervisorIntentLockHeld sha write disk f =
     (case marshalNextSupervisorIntent sha f of
        Inl e \<Rightarrow> (Some e, disk)
      | Inr g \<Rightarrow> (case write g of Some e \<Rightarrow> (Some e, disk) | None \<Rightarrow> (None, Some g)))"

section \<open>Lemmas\<close>

text \<open>The stop maps of a file: distinct canonical keys, and no watermark beside a stop.\<close>

definition canonical_keys :: "intent_map \<Rightarrow> bool" where
  "canonical_keys m \<longleftrightarrow> distinct (map fst m) \<and> (\<forall>k \<in> fst ` set m. canonicalIntentTaskKey k = k)"

definition stops_wf :: "SupervisorIntentFile \<Rightarrow> bool" where
  "stops_wf f \<longleftrightarrow> canonical_keys (Stops f) \<and> canonical_keys (LegacyStopWatermarks f)
     \<and> fst ` set (Stops f) \<inter> fst ` set (LegacyStopWatermarks f) = {}"

definition maps_distinct :: "SupervisorIntentFile \<Rightarrow> bool" where
  "maps_distinct f \<longleftrightarrow> distinct (map fst (Stops f)) \<and> distinct (map fst (LegacyStopWatermarks f))"

lemma canonical_keys_normalize:
  assumes "distinct (map fst m)"
  shows "canonical_keys (normalizeDaemonIntentMapKeys m)"
proof -
  have "canonicalIntentTaskKey k = k" if "k \<in> fst ` set (normalizeDaemonIntentMapKeys m)" for k
  proof -
    from that obtain i where "map_of (normalizeDaemonIntentMapKeys m) k = Some i"
      using set_map_fst_map_of [of k "normalizeDaemonIntentMapKeys m"] by auto
    then show ?thesis by (metis map_of_normalize [OF assms] canonical_view_SomeD)
  qed
  then show ?thesis by (simp add: canonical_keys_def)
qed

lemma map_of_normalize_canonical:
  assumes "canonical_keys m"
  shows "map_of (normalizeDaemonIntentMapKeys m) = map_of m"
proof -
  have "canonicalIntentTaskKey k = k" if "map_of m k = Some i" for k i
    using assms map_of_SomeD [OF that] by (force simp: canonical_keys_def)
  then have "canonical_view (map_of m) = map_of m" by (rule canonical_view_fixed)
  with assms show ?thesis by (simp add: map_of_normalize canonical_keys_def)
qed

lemma map_of_filter_absent:
  "map_of (filter (\<lambda>(t, w). t \<notin> K) m) k = (if k \<in> K then None else map_of m k)"
  by (induction m) auto

lemma map_of_filter_absent' [simp]:
  "map_of (filter (\<lambda>p. case p of (t, w) \<Rightarrow> t \<notin> K) m) = (map_of m |` (- K))"
  by (rule ext) (simp add: map_of_filter_absent restrict_map_def)

lemma distinct_fst_filter: "distinct (map fst m) \<Longrightarrow> distinct (map fst (filter P m))"
  by (simp add: distinct_map_filter)

lemma canonical_keys_filter: "canonical_keys m \<Longrightarrow> canonical_keys (filter P m)"
  by (auto simp: canonical_keys_def distinct_fst_filter)

lemma canonical_keys_update:
  "canonical_keys m \<Longrightarrow> canonicalIntentTaskKey k = k \<Longrightarrow> canonical_keys (AList.update k v m)"
  unfolding canonical_keys_def by (simp only: dom_update distinct_update) auto

lemma canonical_keys_delete: "canonical_keys m \<Longrightarrow> canonical_keys (AList.delete k m)"
  by (auto simp: canonical_keys_def AList.delete_eq distinct_fst_filter)

lemma stops_wf_normalize:
  assumes "maps_distinct f"
  shows "stops_wf (normalizeAbsentOnlyStopWatermarks f)"
proof -
  from assms have "canonical_keys (normalizeDaemonIntentMapKeys (Stops f))"
    and "canonical_keys (normalizeDaemonIntentMapKeys (LegacyStopWatermarks f))"
    by (simp_all add: maps_distinct_def canonical_keys_normalize)
  then show ?thesis
    by (force simp: stops_wf_def normalizeAbsentOnlyStopWatermarks_def Let_def
          canonicalizeSupervisorIntentStopMaps_def canonical_keys_filter)
qed

lemma stops_wf_distinct: "stops_wf f \<Longrightarrow> maps_distinct f"
  by (simp add: stops_wf_def maps_distinct_def canonical_keys_def)

lemma normalize_map_of:
  assumes "maps_distinct f"
  shows "map_of (Stops (normalizeAbsentOnlyStopWatermarks f)) = canonical_view (map_of (Stops f))"
    and "map_of (LegacyStopWatermarks (normalizeAbsentOnlyStopWatermarks f))
           = canonical_view (map_of (LegacyStopWatermarks f))
               |` (- dom (canonical_view (map_of (Stops f))))"
  using assms
  by (simp_all add: normalizeAbsentOnlyStopWatermarks_def Let_def maps_distinct_def
        canonicalizeSupervisorIntentStopMaps_def map_of_normalize
        dom_map_of_conv_image_fst [symmetric])

lemma normalize_frame [simp]:
  "Version (normalizeAbsentOnlyStopWatermarks f) = Version f"
  "Daemons (normalizeAbsentOnlyStopWatermarks f) = Daemons f"
  "SerenaPreparedConsumers (normalizeAbsentOnlyStopWatermarks f) = SerenaPreparedConsumers f"
  "IntentGeneration (normalizeAbsentOnlyStopWatermarks f) = IntentGeneration f"
  "MaintenanceTimers (normalizeAbsentOnlyStopWatermarks f) = MaintenanceTimers f"
  "StrictMode (normalizeAbsentOnlyStopWatermarks f) = StrictMode f"
  "OwnerMode (normalizeAbsentOnlyStopWatermarks f) = OwnerMode f"
  by (simp_all add: normalizeAbsentOnlyStopWatermarks_def canonicalizeSupervisorIntentStopMaps_def
        Let_def)

lemma validate_normalize [simp]:
  "validatePreparedSupervisorIntent sha (normalizeAbsentOnlyStopWatermarks f)
     = validatePreparedSupervisorIntent sha f"
  unfolding validatePreparedSupervisorIntent_def normalize_frame ..

lemma validate_cong:
  assumes "Version f = Version g" and "Daemons f = Daemons g"
    and "SerenaPreparedConsumers f = SerenaPreparedConsumers g"
  shows "validatePreparedSupervisorIntent sha f = validatePreparedSupervisorIntent sha g"
  unfolding validatePreparedSupervisorIntent_def assms ..

lemma marshalNext_InrD:
  assumes "marshalNextSupervisorIntent sha f = Inr g"
  shows "IntentGeneration f \<noteq> - 1"
    and "\<exists>f'. f' = f\<lparr>IntentGeneration := IntentGeneration f + 1, SerenaPreparedConsumers :=
                    map_option canonicalizeConsumers (SerenaPreparedConsumers f)\<rparr>
              \<and> validatePreparedSupervisorIntent sha f' = None
              \<and> g = normalizeAbsentOnlyStopWatermarks f'"
  using assms
  by (auto simp: marshalNextSupervisorIntent_def marshalSupervisorIntent_def Let_def
        split: if_splits option.splits)

lemma unat_plus_one: "w \<noteq> - 1 \<Longrightarrow> unat (w + 1) = unat (w :: 64 word) + 1"
  by (metis Suc_eq_plus1 add.commute add_eq_0_iff unatSuc)



end
