(* ===== verification/Stop_Writers.thy ===== *)
theory Stop_Writers
  imports Supervisor_Intent
begin

text \<open>
  The stop write path of \<open>internal/api/stop_intent_subblock.go\<close>: the read-modify-write of the stops
  sub-block under the supervisor-intent lock, the four writers over it, the compensation that
  restores one task's snapshot by compare-and-swap, and the audit records they emit. The disk is the
  file that the JSON decodes to, if there is one; clocks are arguments.
\<close>

section \<open>The read-modify-write under the lock\<close>

text \<open>
  What the writers take from outside: the descriptor hash, the failure of resolving and locking the
  file, of the secure write and of the release of the lock.
\<close>

record intent_env =
  sha :: "SupervisorDaemon \<Rightarrow> string"
  lock_error :: "string option"
  secure_write :: "SupervisorIntentFile \<Rightarrow> string option"
  release_error :: "string option"

definition daemonIntentRecordsEqual :: "DaemonIntent \<Rightarrow> DaemonIntent \<Rightarrow> bool" where
  "daemonIntentRecordsEqual a b =
     (Desired a = Desired b \<and> Reason a = Reason b \<and> UpdatedAt a = UpdatedAt b)"

definition stopEntriesEqual :: "DaemonIntent option \<Rightarrow> DaemonIntent option \<Rightarrow> bool" where
  "stopEntriesEqual a b =
     (case (a, b) of
        (Some x, Some y) \<Rightarrow> Desired x = Desired y \<and> Reason x = Reason y \<and> UpdatedAt x = UpdatedAt y
      | _ \<Rightarrow> a = None \<and> b = None)"

definition stopsMapsEqual :: "intent_map \<Rightarrow> intent_map \<Rightarrow> bool" where
  "stopsMapsEqual a b =
     (length a = length b
      \<and> list_all (\<lambda>(k, av). case map_of b k of None \<Rightarrow> False
                                             | Some bv \<Rightarrow> daemonIntentRecordsEqual av bv) a)"

record stopIntentTaskSnapshot =
  snap_stop :: "DaemonIntent option"
  snap_watermark :: "DaemonIntent option"
  appliedStop :: "DaemonIntent option"
  appliedWatermark :: "DaemonIntent option"

text \<open>
  The outcome of a mutation: the named results of the Go function, the disk after it, the snapshot
  handed to the compensation hook, and what the closure captured.
\<close>

record 'x mutation =
  before :: "DaemonIntent option"
  after :: "DaemonIntent option"
  changed :: bool
  merr :: "string option"
  disk :: "SupervisorIntentFile option"
  prearmed :: "stopIntentTaskSnapshot option"
  captured :: "'x option"

definition failed ::
  "SupervisorIntentFile option \<Rightarrow> stopIntentTaskSnapshot option \<Rightarrow> string \<Rightarrow> 'x mutation" where
  "failed d s e = \<lparr>before = None, after = None, changed = False, merr = Some e, disk = d,
                   prearmed = s, captured = None\<rparr>"

text \<open>
  The common tail of the mutation and of its rollback: the candidate maps are normalised, an
  unchanged file is not rewritten, the compensation hook is armed with a snapshot before the write,
  and only the two stop maps of the freshly read file are replaced.
\<close>

definition commit ::
  "intent_env \<Rightarrow> SupervisorIntentFile option \<Rightarrow> SupervisorIntentFile \<Rightarrow> raw_stop_maps \<Rightarrow> string
     \<Rightarrow> intent_map \<Rightarrow> intent_map \<Rightarrow> (SupervisorIntentFile \<Rightarrow> stopIntentTaskSnapshot option) \<Rightarrow> 'x option
     \<Rightarrow> 'x mutation" where
  "commit env d f raw taskName stops watermarks snap cap =
     (let bef = map_of (Stops f) taskName;
          aft = map_of stops taskName;
          candidate = normalizeAbsentOnlyStopWatermarks
            ((cloneSupervisorIntentFile (Some f))\<lparr>Stops := stops, LegacyStopWatermarks := watermarks\<rparr>)
      in if stopsMapsEqual (fst raw) (Stops candidate)
            \<and> stopsMapsEqual (snd raw) (LegacyStopWatermarks candidate)
         then \<lparr>before = bef, after = aft, changed = False, merr = None, disk = d, prearmed = None,
               captured = cap\<rparr>
         else case writeSupervisorIntentLockHeld (sha env) (secure_write env) d
                     (f\<lparr>Stops := Stops candidate,
                        LegacyStopWatermarks := LegacyStopWatermarks candidate\<rparr>) of
                (Some e, d') \<Rightarrow> failed d' (snap candidate) e
              | (None, d') \<Rightarrow>
                  \<lparr>before = bef, after = aft, changed = \<not> stopEntriesEqual bef aft,
                   merr = None, disk = d', prearmed = snap candidate, captured = cap\<rparr>)"

definition mutate_core ::
  "intent_env \<Rightarrow> SupervisorIntentFile option \<Rightarrow> string \<Rightarrow> (intent_map \<Rightarrow> intent_map \<times> 'x option)
     \<Rightarrow> 'x mutation" where
  "mutate_core env d taskName mutate =
     (case lock_error env of
        Some e \<Rightarrow> failed d None e
      | None \<Rightarrow>
          (case readSupervisorIntentForMergeWithRawStopMaps (sha env) d of
             Inl e \<Rightarrow> failed d None e
           | Inr (f, raw) \<Rightarrow>
               (let (stops, cap) = mutate (Stops f);
                    bef = map_of (Stops f) taskName;
                    watermarks = (case (bef, map_of stops taskName) of
                          (Some b, None) \<Rightarrow> AList.update taskName b (LegacyStopWatermarks f)
                        | _ \<Rightarrow> LegacyStopWatermarks f);
                    snap = (\<lambda>candidate.
                      Some \<lparr>snap_stop = bef, snap_watermark = map_of (LegacyStopWatermarks f) taskName,
                            appliedStop = map_of (Stops candidate) taskName,
                            appliedWatermark = map_of (LegacyStopWatermarks candidate) taskName\<rparr>)
                in commit env d f raw taskName stops watermarks snap cap)))"

text \<open>The deferred release joins its error to the result; the lock is held only if it was taken.\<close>

definition join_error :: "string option \<Rightarrow> string option \<Rightarrow> string option" where
  "join_error a b = (case (a, b) of
     (None, _) \<Rightarrow> b | (_, None) \<Rightarrow> a | (Some x, Some y) \<Rightarrow> Some (x @ [CHR 0x0A] @ y))"

definition mutateStopSubBlockWithPrearm ::
  "intent_env \<Rightarrow> SupervisorIntentFile option \<Rightarrow> string \<Rightarrow> (intent_map \<Rightarrow> intent_map \<times> 'x option)
     \<Rightarrow> 'x mutation" where
  "mutateStopSubBlockWithPrearm env d taskName mutate =
     (let m = mutate_core env d taskName mutate
      in if lock_error env = None then m\<lparr>merr := join_error (merr m) (release_error env)\<rparr> else m)"

section \<open>The writers\<close>

datatype audit_entry =
  AuditEntry (audit_action: string) (audit_task: string) (audit_who: string) (audit_reason: string)
    (audit_before: "DaemonIntent option") (audit_after: "DaemonIntent option")

definition emitStopIntentAudit ::
  "DaemonIntent option \<Rightarrow> DaemonIntent option \<Rightarrow> string \<Rightarrow> string \<Rightarrow> audit_entry list" where
  "emitStopIntentAudit bef aft taskName w =
     (case aft of
        Some a \<Rightarrow> [AuditEntry ''set-intent'' taskName w (Reason a) bef aft]
      | None \<Rightarrow> (case bef of
                   Some b \<Rightarrow> [AuditEntry ''clear-intent'' taskName w (Reason b) bef None]
                 | None \<Rightarrow> []))"

text \<open>A writer's result: its error, the disk, the audit records, and its extra result.\<close>

type_synonym 'r outcome = "string option \<times> SupervisorIntentFile option \<times> audit_entry list \<times> 'r"

definition ErrEntryOversize :: string where "ErrEntryOversize = ''entry oversize''"

definition oversize :: "string \<Rightarrow> string \<Rightarrow> bool" where
  "oversize w taskName =
     (length w > IdentityFieldByteCap
      \<or> length (canonicalIntentTaskKey taskName) > IdentityFieldByteCap)"

definition stamp_intent :: "gotime \<Rightarrow> DaemonIntent \<Rightarrow> DaemonIntent" where
  "stamp_intent now i = (if UpdatedAt i = 0 then i\<lparr>UpdatedAt := now\<rparr> else i)"

definition set_or_drop :: "string \<Rightarrow> DaemonIntent \<Rightarrow> gotime \<Rightarrow> intent_map \<Rightarrow> intent_map" where
  "set_or_drop k i now stops =
     (if active_stop i now then AList.update k i stops else AList.delete k stops)"

definition writeStopIntentWithCompensation ::
  "intent_env \<Rightarrow> gotime \<Rightarrow> gotime \<Rightarrow> SupervisorIntentFile option \<Rightarrow> string \<Rightarrow> DaemonIntent \<Rightarrow> string
     \<Rightarrow> stopIntentTaskSnapshot option outcome" where
  "writeStopIntentWithCompensation env t_stamp t_eval d taskName i w =
     (if oversize w taskName then (Some ErrEntryOversize, d, [], None)
      else let k = canonicalIntentTaskKey taskName;
               i = stamp_intent t_stamp i;
               m = mutateStopSubBlockWithPrearm env d k
                     (\<lambda>stops. (set_or_drop k i t_eval stops, None :: unit option))
           in (merr m, disk m,
               (if changed m then emitStopIntentAudit (before m) (after m) k w else []),
               prearmed m))"

definition idle_guard ::
  "string \<Rightarrow> DaemonIntent \<Rightarrow> gotime \<Rightarrow> intent_map \<Rightarrow> intent_map \<times> DaemonIntent option" where
  "idle_guard k i now stops =
     (case map_of stops k of
        Some prior \<Rightarrow>
          if active_stop prior now \<and> snd (IsActiveStop prior now) \<noteq> IntentReasonIdle
          then (stops, Some prior) else (set_or_drop k i now stops, None)
      | None \<Rightarrow> (set_or_drop k i now stops, None))"

definition WriteStopIntentIdleGuardedResult ::
  "intent_env \<Rightarrow> gotime \<Rightarrow> SupervisorIntentFile option \<Rightarrow> string \<Rightarrow> DaemonIntent \<Rightarrow> string \<Rightarrow> gotime
     \<Rightarrow> bool outcome" where
  "WriteStopIntentIdleGuardedResult env t_stamp d taskName i w now =
     (if oversize w taskName then (Some ErrEntryOversize, d, [], False)
      else let k = canonicalIntentTaskKey taskName;
               i = stamp_intent t_stamp i;
               m = mutateStopSubBlockWithPrearm env d k (idle_guard k i now)
           in case merr m of
                Some e \<Rightarrow> (Some e, disk m, [], False)
              | None \<Rightarrow>
                  (None, disk m,
                   (if changed m then emitStopIntentAudit (before m) (after m) k w
                    else case captured m of
                           Some p \<Rightarrow> [AuditEntry ''idle-stop-refused-operator-stop-active'' k w
                                        (Reason p) (Some p) None]
                         | None \<Rightarrow> []),
                   changed m))"

definition clear_if_reason :: "string \<Rightarrow> string \<Rightarrow> intent_map \<Rightarrow> intent_map \<times> unit option" where
  "clear_if_reason k want stops =
     (case map_of stops k of
        Some prior \<Rightarrow> (if Reason prior = want then AList.delete k stops else stops, None)
      | None \<Rightarrow> (stops, None))"

definition ClearStopIntentIfReason ::
  "intent_env \<Rightarrow> SupervisorIntentFile option \<Rightarrow> string \<Rightarrow> string \<Rightarrow> string \<Rightarrow> bool outcome" where
  "ClearStopIntentIfReason env d taskName wantReason w =
     (if oversize w taskName then (Some ErrEntryOversize, d, [], False)
      else let k = canonicalIntentTaskKey taskName;
               m = mutateStopSubBlockWithPrearm env d k (clear_if_reason k wantReason)
           in case merr m of
                Some e \<Rightarrow> (Some e, disk m, [], False)
              | None \<Rightarrow>
                  (None, disk m,
                   (case before m of
                      Some b \<Rightarrow> if changed m \<and> Reason b = wantReason
                                then [AuditEntry ''clear-intent'' k w (Reason b) (Some b) None] else []
                    | None \<Rightarrow> []),
                   (case before m of None \<Rightarrow> True | Some b \<Rightarrow> Reason b = wantReason)))"

definition ClearStopIntent ::
  "intent_env \<Rightarrow> SupervisorIntentFile option \<Rightarrow> string \<Rightarrow> string \<Rightarrow> unit outcome" where
  "ClearStopIntent env d taskName w =
     (if oversize w taskName then (Some ErrEntryOversize, d, [], ())
      else let k = canonicalIntentTaskKey taskName;
               m = mutateStopSubBlockWithPrearm env d k
                     (\<lambda>stops. (AList.delete k stops, None :: unit option))
           in case merr m of
                Some e \<Rightarrow> (Some e, disk m, [], ())
              | None \<Rightarrow>
                  (None, disk m,
                   (case before m of
                      Some b \<Rightarrow> if changed m
                                then [AuditEntry ''clear-intent'' k w (Reason b) (Some b) None] else []
                    | None \<Rightarrow> []),
                   ()))"

section \<open>Compensation\<close>

definition ErrStopIntentRollbackConflict :: string where
  "ErrStopIntentRollbackConflict = ''stop-intent rollback compare-and-swap conflict''"

definition set_opt :: "string \<Rightarrow> DaemonIntent option \<Rightarrow> intent_map \<Rightarrow> intent_map" where
  "set_opt k v m = (case v of None \<Rightarrow> AList.delete k m | Some i \<Rightarrow> AList.update k i m)"

definition restore_core ::
  "intent_env \<Rightarrow> SupervisorIntentFile option \<Rightarrow> string \<Rightarrow> stopIntentTaskSnapshot \<Rightarrow> unit mutation" where
  "restore_core env d taskName s =
     (case lock_error env of
        Some e \<Rightarrow> failed d None e
      | None \<Rightarrow>
          (case readSupervisorIntentForMergeWithRawStopMaps (sha env) d of
             Inl e \<Rightarrow> failed d None e
           | Inr (f, raw) \<Rightarrow>
               (let bef = map_of (Stops f) taskName;
                    cur = map_of (LegacyStopWatermarks f) taskName
                in if \<not> stopEntriesEqual bef (appliedStop s) \<or> \<not> stopEntriesEqual cur (appliedWatermark s)
                   then \<lparr>before = bef, after = bef, changed = False,
                         merr = Some ErrStopIntentRollbackConflict, disk = d, prearmed = None,
                         captured = None\<rparr>
                   else commit env d f raw taskName (set_opt taskName (snap_stop s) (Stops f))
                          (set_opt taskName (snap_watermark s) (LegacyStopWatermarks f))
                          (\<lambda>_. None) None)))"

definition restoreStopIntentTaskSnapshot ::
  "intent_env \<Rightarrow> SupervisorIntentFile option \<Rightarrow> string \<Rightarrow> stopIntentTaskSnapshot \<Rightarrow> unit mutation" where
  "restoreStopIntentTaskSnapshot env d taskName s =
     (let m = restore_core env d taskName s
      in if lock_error env = None then m\<lparr>merr := join_error (merr m) (release_error env)\<rparr> else m)"

section \<open>The abstract stop directory\<close>

text \<open>
  What a disk means: which stop each canonical task name has, and which watermark where it has no
  stop. The writers refine updates of these two maps at one key.
\<close>

definition file_ok :: "SupervisorIntentFile option \<Rightarrow> bool" where
  "file_ok d \<longleftrightarrow> (case d of None \<Rightarrow> True | Some f \<Rightarrow> maps_distinct f)"

definition stops_of :: "SupervisorIntentFile option \<Rightarrow> string \<rightharpoonup> DaemonIntent" where
  "stops_of d = (case d of None \<Rightarrow> Map.empty | Some f \<Rightarrow> canonical_view (map_of (Stops f)))"

definition marks_of :: "SupervisorIntentFile option \<Rightarrow> string \<rightharpoonup> DaemonIntent" where
  "marks_of d =
     (case d of None \<Rightarrow> Map.empty | Some f \<Rightarrow> canonical_view (map_of (LegacyStopWatermarks f)))"

definition watermarks_of :: "SupervisorIntentFile option \<Rightarrow> string \<rightharpoonup> DaemonIntent" where
  "watermarks_of d = marks_of d |` (- dom (stops_of d))"

lemma records_equal [simp]: "daemonIntentRecordsEqual a b \<longleftrightarrow> a = b"
  by (cases a; cases b) (simp add: daemonIntentRecordsEqual_def)

lemma entries_equal [simp]: "stopEntriesEqual a b \<longleftrightarrow> a = b"
  by (cases a; cases b) (auto simp: stopEntriesEqual_def)

lemma stopsMapsEqual_iff:
  assumes a: "distinct (map fst a)" and b: "distinct (map fst b)"
  shows "stopsMapsEqual a b \<longleftrightarrow> map_of a = map_of b"
proof
  assume eq: "stopsMapsEqual a b"
  then have sub: "set a \<subseteq> set b" using b
    by (fastforce simp: stopsMapsEqual_def list_all_iff split: option.splits dest: map_of_SomeD)
  moreover have "card (set a) = card (set b)"
    using eq a b by (simp add: stopsMapsEqual_def distinct_map distinct_card)
  ultimately have "set a = set b" by (simp add: card_subset_eq)
  then show "map_of a = map_of b" using a b by (simp add: map_of_inject_set)
next
  assume eq: "map_of a = map_of b"
  then have "set a = set b" using a b by (simp add: map_of_inject_set)
  then have "length a = length b"
    using a b by (metis distinct_card distinct_map)
  with eq a show "stopsMapsEqual a b"
    by (auto simp: stopsMapsEqual_def list_all_iff simp del: map_of_eq_Some_iff
          split: option.splits) (metis map_of_is_SomeI option.inject option.distinct(1))+
qed

lemma read_views:
  assumes "file_ok d"
    and "readSupervisorIntentForMergeWithRawStopMaps h d = Inr (f, rs, rw)"
  shows "map_of (Stops f) = stops_of d" "map_of (LegacyStopWatermarks f) = marks_of d"
    "canonical_keys (Stops f)" "canonical_keys (LegacyStopWatermarks f)"
    "stops_of d = canonical_view (map_of rs)" "marks_of d = canonical_view (map_of rw)"
    "distinct (map fst rs)" "distinct (map fst rw)"
  using assms
  by (auto simp: readSupervisorIntentForMergeWithRawStopMaps_def stops_of_def marks_of_def
        decodeSupervisorIntentFile_def filterSupervisorIntentOneshotDaemons_def
        canonicalizeSupervisorIntentStopMaps_def file_ok_def maps_distinct_def zero_file_def
        map_of_normalize canonical_keys_normalize canonical_keys_def [of "[]"]
      split: option.splits)

lemma canonical_view_of_keys: "canonical_keys m \<Longrightarrow> canonical_view (map_of m) = map_of m"
  using map_of_normalize_canonical [of m] map_of_normalize [of m] by (simp add: canonical_keys_def)

lemma candidate_views:
  assumes "canonical_keys S" and "canonical_keys W"
    and "c = normalizeAbsentOnlyStopWatermarks (h\<lparr>Stops := S, LegacyStopWatermarks := W\<rparr>)"
  shows "map_of (Stops c) = map_of S"
    "map_of (LegacyStopWatermarks c) = map_of W |` (- dom (map_of S))" "stops_wf c"
proof -
  let ?f = "h\<lparr>Stops := S, LegacyStopWatermarks := W\<rparr>"
  from assms have "maps_distinct ?f" by (simp add: maps_distinct_def canonical_keys_def)
  from normalize_map_of [OF this] stops_wf_normalize [OF this] assms
  show "map_of (Stops c) = map_of S"
    "map_of (LegacyStopWatermarks c) = map_of W |` (- dom (map_of S))" "stops_wf c"
    by (simp_all add: canonical_view_of_keys)
qed

lemma stops_wf_restrict:
  assumes "stops_wf f"
  shows "map_of (LegacyStopWatermarks f) |` (- dom (map_of (Stops f))) = map_of (LegacyStopWatermarks f)"
proof
  fix k
  have "map_of (LegacyStopWatermarks f) k = None" if "k \<in> dom (map_of (Stops f))"
    using that assms by (auto simp: map_of_eq_None_iff dom_map_of_conv_image_fst stops_wf_def)
  then show "(map_of (LegacyStopWatermarks f) |` (- dom (map_of (Stops f)))) k
               = map_of (LegacyStopWatermarks f) k"
    by (auto simp: restrict_map_def)
qed

lemma write_views:
  assumes "writeSupervisorIntentLockHeld h wr d f = (None, d')" and "stops_wf f"
  shows "stops_of d' = map_of (Stops f)" "marks_of d' = map_of (LegacyStopWatermarks f)" "file_ok d'"
proof -
  from assms obtain g where d': "d' = Some g" and m: "marshalNextSupervisorIntent h f = Inr g"
    by (auto simp: writeSupervisorIntentLockHeld_def split: sum.splits option.splits)
  from marshalNext_InrD(2) [OF m] obtain f' where
    f': "f' = f\<lparr>IntentGeneration := IntentGeneration f + 1, SerenaPreparedConsumers :=
                    map_option canonicalizeConsumers (SerenaPreparedConsumers f)\<rparr>"
    and g: "g = normalizeAbsentOnlyStopWatermarks f'" by blast
  have g': "g = normalizeAbsentOnlyStopWatermarks
                  (f'\<lparr>Stops := Stops f, LegacyStopWatermarks := LegacyStopWatermarks f\<rparr>)"
    by (simp add: g f')
  have k: "canonical_keys (Stops f)" "canonical_keys (LegacyStopWatermarks f)"
    using assms(2) by (simp_all add: stops_wf_def)
  note c = candidate_views [OF k g']
  from c stops_wf_restrict [OF assms(2)] show "stops_of d' = map_of (Stops f)" "marks_of d' = map_of (LegacyStopWatermarks f)"
    "file_ok d'"
    by (simp_all add: d' stops_of_def marks_of_def canonical_view_of_keys [OF k(1)]
          canonical_view_of_keys [OF k(2)] file_ok_def stops_wf_distinct)
qed

lemma write_error: "writeSupervisorIntentLockHeld h wr d f = (Some e, d') \<Longrightarrow> d' = d"
  by (auto simp: writeSupervisorIntentLockHeld_def split: sum.splits option.splits)

lemma noop_views:
  assumes "stopsMapsEqual rs (Stops c)" and "stopsMapsEqual rw (LegacyStopWatermarks c)"
    and "distinct (map fst rs)" and "distinct (map fst rw)" and "stops_wf c"
  shows "canonical_view (map_of rs) = map_of (Stops c)"
    "canonical_view (map_of rw) = map_of (LegacyStopWatermarks c)"
  using assms
  by (simp_all add: stopsMapsEqual_iff stops_wf_def canonical_keys_def canonical_view_of_keys
        [unfolded canonical_keys_def])

text \<open>A commit of canonical maps: both views of the disk are the committed ones, or nothing moved.\<close>

lemma commit_views:
  assumes "file_ok d" and "readSupervisorIntentForMergeWithRawStopMaps h d = Inr (f, raw)"
    and cS: "canonical_keys S" and cW: "canonical_keys W"
    and ok: "merr (commit env d f raw k S W snap cap) = None"
  shows "stops_of (disk (commit env d f raw k S W snap cap)) = map_of S"
    "marks_of (disk (commit env d f raw k S W snap cap)) = map_of W |` (- dom (map_of S))"
    "file_ok (disk (commit env d f raw k S W snap cap))"
    "before (commit env d f raw k S W snap cap) = map_of (Stops f) k"
    "after (commit env d f raw k S W snap cap) = map_of S k"
    "captured (commit env d f raw k S W snap cap) = cap"
    "changed (commit env d f raw k S W snap cap) \<Longrightarrow> map_of (Stops f) k \<noteq> map_of S k"
    "prearmed (commit env d f raw k S W snap cap) = Some s \<Longrightarrow>
       \<exists>c. snap c = Some s \<and> map_of (Stops c) = map_of S
           \<and> map_of (LegacyStopWatermarks c) = map_of W |` (- dom (map_of S))"
proof -
  let ?m = "commit env d f raw k S W snap cap"
  define c where "c = normalizeAbsentOnlyStopWatermarks
    ((cloneSupervisorIntentFile (Some f))\<lparr>Stops := S, LegacyStopWatermarks := W\<rparr>)"
  note cv = candidate_views [OF cS cW c_def]
  have "stops_of (disk ?m) = map_of S \<and> marks_of (disk ?m) = map_of W |` (- dom (map_of S))
        \<and> file_ok (disk ?m) \<and> before ?m = map_of (Stops f) k \<and> after ?m = map_of S k
        \<and> captured ?m = cap \<and> (changed ?m \<longrightarrow> map_of (Stops f) k \<noteq> map_of S k)
        \<and> (prearmed ?m = Some s \<longrightarrow> (\<exists>c. snap c = Some s \<and> map_of (Stops c) = map_of S
               \<and> map_of (LegacyStopWatermarks c) = map_of W |` (- dom (map_of S))))"
  proof (cases "stopsMapsEqual (fst raw) (Stops c) \<and> stopsMapsEqual (snd raw) (LegacyStopWatermarks c)")
    case True
    obtain rs rw where raw: "raw = (rs, rw)" by (cases raw)
    note v = read_views [OF assms(1) assms(2) [unfolded raw]]
    from True noop_views [OF _ _ v(7,8) cv(3)] cv(1,2) v(5,6) assms(1) raw show ?thesis
      by (simp add: commit_def Let_def c_def [symmetric])
  next
    case False
    let ?f = "f\<lparr>Stops := Stops c, LegacyStopWatermarks := LegacyStopWatermarks c\<rparr>"
    obtain e d' where w: "writeSupervisorIntentLockHeld (sha env) (secure_write env) d ?f = (e, d')"
      by (cases "writeSupervisorIntentLockHeld (sha env) (secure_write env) d ?f")
    with False have m: "?m = (case e of Some x \<Rightarrow> failed d' (snap c) x
        | None \<Rightarrow> \<lparr>before = map_of (Stops f) k, after = map_of S k,
                   changed = (map_of (Stops f) k \<noteq> map_of S k), merr = None, disk = d',
                   prearmed = snap c, captured = cap\<rparr>)"
      by (cases e) (auto simp: commit_def Let_def c_def [symmetric])
    with ok have e: "e = None" by (cases e) (simp_all add: failed_def)
    from cv(3) have "stops_wf ?f" by (simp add: stops_wf_def)
    from write_views [OF w [unfolded e] this] m e cv show ?thesis by auto
  qed
  then show "stops_of (disk ?m) = map_of S" "marks_of (disk ?m) = map_of W |` (- dom (map_of S))"
    "file_ok (disk ?m)" "before ?m = map_of (Stops f) k" "after ?m = map_of S k" "captured ?m = cap"
    "changed ?m \<Longrightarrow> map_of (Stops f) k \<noteq> map_of S k"
    "prearmed ?m = Some s \<Longrightarrow> \<exists>c. snap c = Some s \<and> map_of (Stops c) = map_of S
           \<and> map_of (LegacyStopWatermarks c) = map_of W |` (- dom (map_of S))"
    by blast+
qed

lemma commit_error: "merr (commit env d f raw k S W snap cap) = Some e
    \<Longrightarrow> disk (commit env d f raw k S W snap cap) = d \<and> \<not> changed (commit env d f raw k S W snap cap)"
  by (auto simp: commit_def failed_def Let_def dest: write_error
        split: option.splits prod.splits if_splits)

section \<open>Writers as updates at one key\<close>

text \<open>
  The interface between the read-modify-write and the closures of the writers: a closure updates one
  canonical key, by a decision on the record that was there, and keeps the keys canonical.
\<close>

locale task_mutation =
  fixes mutate :: "intent_map \<Rightarrow> intent_map \<times> 'x option" and k :: string
    and decide :: "DaemonIntent option \<Rightarrow> DaemonIntent option"
  assumes k_canonical: "canonicalIntentTaskKey k = k"
    and mutate_map: "canonical_keys S \<Longrightarrow> map_of (fst (mutate S)) = (map_of S)(k := decide (map_of S k))"
    and mutate_keys: "canonical_keys S \<Longrightarrow> canonical_keys (fst (mutate S))"
begin

lemma core_views:
  assumes "file_ok d" and "merr (mutate_core env d k mutate) = None"
  shows "stops_of (disk (mutate_core env d k mutate)) = (stops_of d)(k := decide (stops_of d k))
    \<and> marks_of (disk (mutate_core env d k mutate))
        = (case (stops_of d k, decide (stops_of d k)) of
             (Some b, None) \<Rightarrow> (marks_of d)(k \<mapsto> b) | _ \<Rightarrow> marks_of d)
            |` (- dom ((stops_of d)(k := decide (stops_of d k))))
    \<and> file_ok (disk (mutate_core env d k mutate))
    \<and> before (mutate_core env d k mutate) = stops_of d k
    \<and> after (mutate_core env d k mutate) = decide (stops_of d k)
    \<and> (changed (mutate_core env d k mutate) \<longrightarrow> stops_of d k \<noteq> decide (stops_of d k))
    \<and> (\<exists>S. map_of S = stops_of d \<and> captured (mutate_core env d k mutate) = snd (mutate S))
    \<and> (\<forall>s. prearmed (mutate_core env d k mutate) = Some s \<longrightarrow>
           s = \<lparr>snap_stop = stops_of d k, snap_watermark = marks_of d k,
                appliedStop = stops_of (disk (mutate_core env d k mutate)) k,
                appliedWatermark = marks_of (disk (mutate_core env d k mutate)) k\<rparr>)"
proof -
  from assms(2) obtain f raw where lk: "lock_error env = None"
    and rd: "readSupervisorIntentForMergeWithRawStopMaps (sha env) d = Inr (f, raw)"
    by (auto simp: mutate_core_def failed_def split: option.splits sum.splits)
  obtain rs rw where raw: "raw = (rs, rw)" by (cases raw)
  note v = read_views [OF assms(1) rd [unfolded raw]]
  obtain S cap where m: "mutate (Stops f) = (S, cap)" by (cases "mutate (Stops f)")
  have S: "map_of S = (stops_of d)(k := decide (stops_of d k))" and cS: "canonical_keys S"
    using mutate_map [OF v(3)] mutate_keys [OF v(3)] v(1) m by simp_all
  define W where "W = (case (map_of (Stops f) k, map_of S k) of
     (Some b, None) \<Rightarrow> AList.update k b (LegacyStopWatermarks f) | _ \<Rightarrow> LegacyStopWatermarks f)"
  have W: "map_of W = (case (stops_of d k, decide (stops_of d k)) of
             (Some b, None) \<Rightarrow> (marks_of d)(k \<mapsto> b) | _ \<Rightarrow> marks_of d)"
    by (simp add: W_def v S update_conv' split: option.splits)
  have cW: "canonical_keys W"
    using v(4) k_canonical by (simp add: W_def canonical_keys_update split: option.splits)
  define snap where "snap = (\<lambda>c :: SupervisorIntentFile. Some \<lparr>snap_stop = stops_of d k, snap_watermark = marks_of d k,
     appliedStop = map_of (Stops c) k, appliedWatermark = map_of (LegacyStopWatermarks c) k\<rparr>)"
  have mc: "mutate_core env d k mutate = commit env d f raw k S W snap cap"
    using lk rd m v(1,2) by (simp add: mutate_core_def Let_def W_def snap_def)
  have aft: "map_of S k = decide (stops_of d k)" by (simp add: S)
  from m v(1) have "\<exists>S'. map_of S' = stops_of d \<and> cap = snd (mutate S')" by force
  with commit_views [OF assms(1) rd cS cW assms(2) [unfolded mc]] mc v(1) aft [symmetric]
  show ?thesis unfolding W [symmetric] S [symmetric] by (auto simp: snap_def)
qed

lemma core_error: "merr (mutate_core env d k mutate) \<noteq> None \<Longrightarrow> disk (mutate_core env d k mutate) = d"
  by (auto simp: mutate_core_def failed_def Let_def dest: commit_error
        split: option.splits sum.splits prod.splits)

lemma mutate_disk [simp]:
  "disk (mutateStopSubBlockWithPrearm env d k mutate) = disk (mutate_core env d k mutate)"
  "before (mutateStopSubBlockWithPrearm env d k mutate) = before (mutate_core env d k mutate)"
  "after (mutateStopSubBlockWithPrearm env d k mutate) = after (mutate_core env d k mutate)"
  by (simp_all add: mutateStopSubBlockWithPrearm_def Let_def)

lemma mutate_error:
  "merr (mutateStopSubBlockWithPrearm env d k mutate) = None \<Longrightarrow> merr (mutate_core env d k mutate) = None"
  by (auto simp: mutateStopSubBlockWithPrearm_def Let_def join_error_def mutate_core_def failed_def
        split: option.splits if_splits)

text \<open>Either the disk means what it meant before, or exactly the decided key has changed.\<close>

lemma view_or_unchanged:
  assumes "file_ok d"
  shows "let d' = disk (mutateStopSubBlockWithPrearm env d k mutate) in
     (d' = d \<or> stops_of d' = (stops_of d)(k := decide (stops_of d k))) \<and> file_ok d'"
  using core_views [OF assms, of env] core_error [of env d] assms
  by (cases "merr (mutate_core env d k mutate)") (auto simp: Let_def)

lemma success_view:
  assumes "file_ok d" and "merr (mutateStopSubBlockWithPrearm env d k mutate) = None"
  shows "stops_of (disk (mutateStopSubBlockWithPrearm env d k mutate))
           = (stops_of d)(k := decide (stops_of d k))"
  using core_views [OF assms(1) mutate_error [OF assms(2)]] by simp

end

lemma map_of_set_or_drop:
  "map_of (set_or_drop k i now S) = (map_of S)(k := (if active_stop i now then Some i else None))"
  by (auto simp: set_or_drop_def update_conv' delete_conv')

lemma canonical_keys_set_or_drop:
  "canonical_keys S \<Longrightarrow> canonicalIntentTaskKey k = k \<Longrightarrow> canonical_keys (set_or_drop k i now S)"
  by (simp add: set_or_drop_def canonical_keys_update canonical_keys_delete)

interpretation set_stop: task_mutation
  "\<lambda>stops. (set_or_drop (canonicalIntentTaskKey t) i now stops, None :: unit option)"
  "canonicalIntentTaskKey t" "\<lambda>_. if active_stop i now then Some i else None" for t i now
  by unfold_locales
     (simp_all add: ik.canon_idem map_of_set_or_drop canonical_keys_set_or_drop)

text \<open>The decision of the idle writer on the record it finds.\<close>

definition idle_decision :: "DaemonIntent \<Rightarrow> gotime \<Rightarrow> DaemonIntent option \<Rightarrow> DaemonIntent option" where
  "idle_decision i now old =
     (case old of
        Some p \<Rightarrow> if active_stop p now \<and> snd (IsActiveStop p now) \<noteq> IntentReasonIdle then Some p
                  else if active_stop i now then Some i else None
      | None \<Rightarrow> if active_stop i now then Some i else None)"

interpretation idle_stop: task_mutation "idle_guard (canonicalIntentTaskKey t) i now"
  "canonicalIntentTaskKey t" "idle_decision i now" for t i now
proof unfold_locales
  fix S
  assume "canonical_keys S"
  then show "canonical_keys (fst (idle_guard (canonicalIntentTaskKey t) i now S))"
    by (simp add: idle_guard_def canonical_keys_set_or_drop ik.canon_idem split: option.splits)
  show "map_of (fst (idle_guard (canonicalIntentTaskKey t) i now S)) =
         (map_of S)(canonicalIntentTaskKey t := idle_decision i now (map_of S (canonicalIntentTaskKey t)))"
    by (simp add: idle_guard_def idle_decision_def map_of_set_or_drop fun_upd_idem
          del: map_of_eq_Some_iff split: option.splits)
qed (simp add: ik.canon_idem)

interpretation clear_reason: task_mutation "clear_if_reason (canonicalIntentTaskKey t) want"
  "canonicalIntentTaskKey t"
  "\<lambda>old. case old of Some p \<Rightarrow> if Reason p = want then None else Some p | None \<Rightarrow> None" for t want
proof unfold_locales
  fix S
  assume "canonical_keys S"
  then show "canonical_keys (fst (clear_if_reason (canonicalIntentTaskKey t) want S))"
    by (simp add: clear_if_reason_def canonical_keys_delete split: option.splits)
  show "map_of (fst (clear_if_reason (canonicalIntentTaskKey t) want S)) =
         (map_of S)(canonicalIntentTaskKey t :=
           case map_of S (canonicalIntentTaskKey t) of
             Some p \<Rightarrow> if Reason p = want then None else Some p | None \<Rightarrow> None)"
    by (simp add: clear_if_reason_def delete_conv' fun_upd_idem del: map_of_eq_Some_iff
          split: option.splits)
qed (simp add: ik.canon_idem)

interpretation clear_stop: task_mutation
  "\<lambda>stops. (AList.delete (canonicalIntentTaskKey t) stops, None :: unit option)"
  "canonicalIntentTaskKey t" "\<lambda>_. None" for t
  by unfold_locales (simp_all add: ik.canon_idem delete_conv' canonical_keys_delete)


text \<open>A file system that always accepts, and a stop written on an empty host.\<close>

definition calm_env :: intent_env where
  "calm_env = \<lparr>sha = (\<lambda>d. []), lock_error = None, secure_write = (\<lambda>f. None), release_error = None\<rparr>"

lemma calm_write_succeeds:
  "fst (writeStopIntentWithCompensation calm_env 50 60 None ''a''
          \<lparr>Desired = ''stopped'', Reason = ''user-disabled'', UpdatedAt = 0\<rparr> ''cli'') = None"
  by code_simp


text \<open>
  C8. The idle sweeper never takes a stop away from an operator: while the task has a stop in force
  whose reason is not idle (a suspect future timestamp included), the guarded idle write leaves every
  stop as it was and reports that nothing was written, and on success the one audit record says that
  it was refused. Otherwise a successful idle stop that is itself in force is recorded.
\<close>

theorem idle_write_respects_operator:
  assumes "file_ok d" and "\<not> oversize w taskName"
    and "WriteStopIntentIdleGuardedResult env t_stamp d taskName i w now = (err, d', audits, written)"
  shows "let k = canonicalIntentTaskKey taskName; i' = stamp_intent t_stamp i;
             blocked = (\<exists>p. stops_of d k = Some p \<and> active_stop p now
                            \<and> snd (IsActiveStop p now) \<noteq> IntentReasonIdle)
         in (blocked \<longrightarrow> stops_of d' = stops_of d \<and> \<not> written
               \<and> (err = None \<longrightarrow> map audit_action audits = [''idle-stop-refused-operator-stop-active'']))
          \<and> (\<not> blocked \<and> active_stop i' now \<and> err = None \<longrightarrow> stops_of d' = (stops_of d)(k \<mapsto> i'))"
proof -
  let ?k = "canonicalIntentTaskKey taskName" and ?i = "stamp_intent t_stamp i"
  let ?m = "mutateStopSubBlockWithPrearm env d ?k (idle_guard ?k ?i now)"
  let ?c = "mutate_core env d ?k (idle_guard ?k ?i now)"
  have d': "d' = disk ?c" and wr: "written = (err = None \<and> changed ?c)" and err: "err = merr ?m"
    using assms(2,3)
    by (auto simp: WriteStopIntentIdleGuardedResult_def Let_def mutateStopSubBlockWithPrearm_def
          split: option.splits if_splits)
  show ?thesis
  proof (cases "merr ?c")
    case (Some e)
    then have "err \<noteq> None"
      unfolding err by (auto simp: mutateStopSubBlockWithPrearm_def Let_def join_error_def split: option.splits)
    moreover have "d' = d" using idle_stop.core_error [of env d taskName ?i now] Some d' by simp
    ultimately show ?thesis using wr by (auto simp: Let_def)
  next
    case None
    note v = idle_stop.core_views [OF assms(1) None]
    from v obtain S where S: "map_of S = stops_of d" "captured ?c = snd (idle_guard ?k ?i now S)" by blast
    have aud: "audits = (if changed ?c then emitStopIntentAudit (before ?c) (after ?c) ?k w
        else case captured ?c of
               Some p \<Rightarrow> [AuditEntry ''idle-stop-refused-operator-stop-active'' ?k w (Reason p) (Some p) None]
             | None \<Rightarrow> [])" if "err = None"
      using assms(2,3) that err
      by (auto simp: WriteStopIntentIdleGuardedResult_def Let_def mutateStopSubBlockWithPrearm_def)
    show ?thesis
      using v d' wr aud S
      by (auto simp: Let_def idle_decision_def idle_guard_def fun_upd_idem
            simp del: map_of_eq_Some_iff split: option.splits if_splits)
  qed
qed

definition operator_file :: SupervisorIntentFile where
  "operator_file = zero_file\<lparr>Version := 1, Stops :=
     [(''a'', \<lparr>Desired = ''stopped'', Reason = ''user-disabled'', UpdatedAt = 50\<rparr>)]\<rparr>"

theorem idle_write_respects_operator_witness:
  "let i = \<lparr>Desired = ''stopped'', Reason = ''idle'', UpdatedAt = 90\<rparr>;
       d' = fst (snd (WriteStopIntentIdleGuardedResult calm_env 90 (Some operator_file) ''a'' i ''gui'' 100))
   in stops_of d' (backslash # ''a'')
        = Some \<lparr>Desired = ''stopped'', Reason = ''user-disabled'', UpdatedAt = 50\<rparr>"
proof -
  let ?i = "\<lparr>Desired = ''stopped'', Reason = ''idle'', UpdatedAt = 90\<rparr>"
  let ?r = "WriteStopIntentIdleGuardedResult calm_env 90 (Some operator_file) ''a'' ?i ''gui'' 100"
  obtain err d' audits wr where w: "?r = (err, d', audits, wr)" by (cases ?r) auto
  have "stops_of (Some operator_file) (backslash # ''a'')
          = Some \<lparr>Desired = ''stopped'', Reason = ''user-disabled'', UpdatedAt = 50\<rparr>"
    by (simp add: stops_of_def operator_file_def canonical_view_def later_of_def bare_def
          canonicalIntentTaskKey_def)
  moreover have "file_ok (Some operator_file)"
    by (simp add: file_ok_def operator_file_def maps_distinct_def zero_file_def)
  moreover have "\<not> oversize ''gui'' ''a''"
    by (simp add: oversize_def IdentityFieldByteCap_def canonicalIntentTaskKey_def)
  ultimately show ?thesis
    using idle_write_respects_operator [OF _ _ w]
    by (auto simp: w Let_def canonicalIntentTaskKey_def IsActiveStop_def time_sub_def
          intent_durations)
qed

section \<open>Rollback\<close>

lemma set_opt_map [simp]: "map_of (set_opt k v m) = (map_of m)(k := v)"
  by (cases v) (simp_all add: set_opt_def update_conv' delete_conv')

lemma canonical_keys_set_opt:
  "canonical_keys m \<Longrightarrow> canonicalIntentTaskKey k = k \<Longrightarrow> canonical_keys (set_opt k v m)"
  by (cases v) (simp_all add: set_opt_def canonical_keys_update canonical_keys_delete)

lemma restore_conflict:
  assumes "file_ok d" and "stops_of d k \<noteq> appliedStop s \<or> marks_of d k \<noteq> appliedWatermark s"
  shows "merr (restore_core env d k s) \<noteq> None \<and> disk (restore_core env d k s) = d"
  using assms(2) read_views(1,2) [OF assms(1)]
  by (auto simp: restore_core_def failed_def Let_def split: option.splits sum.splits)

lemma restore_views:
  assumes "file_ok d" and k: "canonicalIntentTaskKey k = k" and "merr (restore_core env d k s) = None"
  shows "stops_of (disk (restore_core env d k s)) = (stops_of d)(k := snap_stop s)
    \<and> marks_of (disk (restore_core env d k s))
        = (marks_of d)(k := snap_watermark s) |` (- dom ((stops_of d)(k := snap_stop s)))"
proof -
  from assms(3) obtain f raw where
    rd: "readSupervisorIntentForMergeWithRawStopMaps (sha env) d = Inr (f, raw)"
    and rc: "restore_core env d k s = commit env d f raw k (set_opt k (snap_stop s) (Stops f))
               (set_opt k (snap_watermark s) (LegacyStopWatermarks f)) (\<lambda>_. None) None"
    by (auto simp: restore_core_def failed_def Let_def split: option.splits sum.splits if_splits)
  obtain rs rw where raw: "raw = (rs, rw)" by (cases raw)
  note v = read_views [OF assms(1) rd [unfolded raw]]
  from commit_views(1,2) [OF assms(1) rd canonical_keys_set_opt canonical_keys_set_opt,
      OF v(3) k v(4) k assms(3) [unfolded rc]] rc v(1,2)
  show ?thesis by simp
qed

lemma restore_disk [simp]:
  "disk (restoreStopIntentTaskSnapshot env d k s) = disk (restore_core env d k s)"
  by (simp add: restoreStopIntentTaskSnapshot_def Let_def)

lemma restore_error:
  "merr (restoreStopIntentTaskSnapshot env d k s) = None \<Longrightarrow> merr (restore_core env d k s) = None"
  by (auto simp: restoreStopIntentTaskSnapshot_def Let_def join_error_def split: option.splits if_splits)

lemma write_snapshot:
  assumes "file_ok d"
    and "writeStopIntentWithCompensation env t_stamp t_eval d taskName i w = (None, d', audits, Some s)"
  shows "file_ok d' \<and> stops_of d' = (stops_of d)(canonicalIntentTaskKey taskName :=
             if active_stop (stamp_intent t_stamp i) t_eval then Some (stamp_intent t_stamp i) else None)
    \<and> marks_of d' |` (- {canonicalIntentTaskKey taskName})
        = watermarks_of d |` (- {canonicalIntentTaskKey taskName})
    \<and> s = \<lparr>snap_stop = stops_of d (canonicalIntentTaskKey taskName),
           snap_watermark = marks_of d (canonicalIntentTaskKey taskName),
           appliedStop = stops_of d' (canonicalIntentTaskKey taskName),
           appliedWatermark = marks_of d' (canonicalIntentTaskKey taskName)\<rparr>"
proof -
  let ?k = "canonicalIntentTaskKey taskName" and ?i = "stamp_intent t_stamp i"
  let ?m = "mutateStopSubBlockWithPrearm env d ?k (\<lambda>stops. (set_or_drop ?k ?i t_eval stops, None :: unit option))"
  let ?c = "mutate_core env d ?k (\<lambda>stops. (set_or_drop ?k ?i t_eval stops, None :: unit option))"
  from assms(2) have m: "merr ?m = None" "d' = disk ?c" "prearmed ?c = Some s"
    by (auto simp: writeStopIntentWithCompensation_def Let_def mutateStopSubBlockWithPrearm_def
          split: if_splits)
  from set_stop.core_views [OF assms(1) set_stop.mutate_error [OF m(1)]] m(2,3)
  show ?thesis
    by (auto simp: watermarks_of_def restrict_map_def fun_eq_iff domIff split: option.splits)
qed

text \<open>
  C9. Compensation of a stop write is a compare-and-swap. Directly after the write it applies: the
  snapshot's expectation matches the disk, and a successful restore brings back the stops and the
  watermarks of every task as they were before. If anyone has changed that task's stop or watermark
  meanwhile, it refuses and leaves the disk alone.
\<close>

theorem compensation_restores:
  assumes "file_ok d"
    and "writeStopIntentWithCompensation env t_stamp t_eval d taskName i w = (None, d', audits, Some s)"
  shows "let k = canonicalIntentTaskKey taskName in
      (\<forall>env'. merr (restoreStopIntentTaskSnapshot env' d' k s) = None \<longrightarrow>
         stops_of (disk (restoreStopIntentTaskSnapshot env' d' k s)) = stops_of d
         \<and> watermarks_of (disk (restoreStopIntentTaskSnapshot env' d' k s)) = watermarks_of d)
    \<and> stops_of d' k = appliedStop s \<and> marks_of d' k = appliedWatermark s
    \<and> (\<forall>env' d2. file_ok d2 \<and> (stops_of d2 k \<noteq> stops_of d' k \<or> marks_of d2 k \<noteq> marks_of d' k) \<longrightarrow>
         merr (restoreStopIntentTaskSnapshot env' d2 k s) \<noteq> None
         \<and> disk (restoreStopIntentTaskSnapshot env' d2 k s) = d2)"
proof -
  let ?k = "canonicalIntentTaskKey taskName"
  note ws = write_snapshot [OF assms]
  have undone: "stops_of (disk (restore_core env' d' ?k s)) = stops_of d
         \<and> watermarks_of (disk (restore_core env' d' ?k s)) = watermarks_of d"
    if ok: "merr (restore_core env' d' ?k s) = None" for env'
  proof -
    note rv = restore_views [OF conjunct1 [OF ws] ik.canon_idem ok]
    have s: "stops_of (disk (restore_core env' d' ?k s)) = stops_of d"
      using rv ws by (auto simp: fun_upd_idem_iff)
    have m: "marks_of d' t = watermarks_of d t" if "t \<noteq> ?k" for t
    proof -
      from ws have "(marks_of d' |` (- {?k})) t = (watermarks_of d |` (- {?k})) t" by simp
      with that show ?thesis by simp
    qed
    have dom: "(stops_of d')(?k := snap_stop s) = stops_of d" using ws by (auto simp: fun_eq_iff)
    have "watermarks_of (disk (restore_core env' d' ?k s)) t = watermarks_of d t" for t
      using rv ws m [of t] unfolding dom
      by (cases "t = ?k") (auto simp: watermarks_of_def restrict_map_def)
    with s show ?thesis by blast
  qed
  from ws have ap: "appliedStop s = stops_of d' ?k" "appliedWatermark s = marks_of d' ?k"
    by (metis stopIntentTaskSnapshot.select_convs(3), metis stopIntentTaskSnapshot.select_convs(4))
  have "merr (restoreStopIntentTaskSnapshot env' d2 ?k s) \<noteq> None
         \<and> disk (restoreStopIntentTaskSnapshot env' d2 ?k s) = d2"
    if "file_ok d2" and "stops_of d2 ?k \<noteq> stops_of d' ?k \<or> marks_of d2 ?k \<noteq> marks_of d' ?k" for env' d2
    using restore_conflict [OF that(1), of ?k s env'] restore_error [of env' d2 ?k s] that(2) ap
    by (metis restore_disk)
  with undone ap restore_error show ?thesis by (simp add: Let_def)
qed

definition compensation_run ::
  "string option \<times> SupervisorIntentFile option \<times> stopIntentTaskSnapshot option" where
  "compensation_run =
     (case writeStopIntentWithCompensation calm_env 90 100 (Some operator_file) ''a''
             \<lparr>Desired = ''running'', Reason = ''install'', UpdatedAt = 90\<rparr> ''cli'' of
        (e, d, _, s) \<Rightarrow> (e, d, s))"

lemma compensation_run_applies:
  "fst compensation_run = None \<and> (case snd (snd compensation_run) of
      None \<Rightarrow> False
    | Some s \<Rightarrow> merr (restoreStopIntentTaskSnapshot calm_env (fst (snd compensation_run))
                      (canonicalIntentTaskKey ''a'') s) = None)"
  by code_simp

theorem compensation_restores_witness:
  "\<exists>s. snd (snd compensation_run) = Some s
     \<and> stops_of (fst (snd compensation_run)) (backslash # ''a'') = appliedStop s
     \<and> stops_of (disk (restoreStopIntentTaskSnapshot calm_env (fst (snd compensation_run))
                        (canonicalIntentTaskKey ''a'') s)) = stops_of (Some operator_file)"
proof -
  from compensation_run_applies obtain s where s: "snd (snd compensation_run) = Some s"
    and ok: "merr (restoreStopIntentTaskSnapshot calm_env (fst (snd compensation_run))
               (canonicalIntentTaskKey ''a'') s) = None"
    by (auto split: option.splits)
  obtain audits where "writeStopIntentWithCompensation calm_env 90 100 (Some operator_file) ''a''
             \<lparr>Desired = ''running'', Reason = ''install'', UpdatedAt = 90\<rparr> ''cli''
             = (None, fst (snd compensation_run), audits, Some s)"
    using compensation_run_applies s
    by (auto simp: compensation_run_def split: prod.splits)
  from compensation_restores [OF _ this] ok s show ?thesis
    by (auto simp: Let_def file_ok_def operator_file_def maps_distinct_def zero_file_def
          canonicalIntentTaskKey_def)
qed

text \<open>
  C10. The wake path clears by compare-and-clear: a successful call reports permission exactly when
  the task has no stop or one with the wanted reason; with permission the task ends without a stop
  and the cleared record is kept as its watermark, without permission no stop changes. Every other
  task keeps its stop.
\<close>

theorem clear_if_reason_compares:
  assumes "file_ok d" and "\<not> oversize w taskName"
    and "ClearStopIntentIfReason env d taskName want w = (None, d', audits, allowed)"
  shows "let k = canonicalIntentTaskKey taskName in
      (allowed \<longleftrightarrow> (case stops_of d k of None \<Rightarrow> True | Some p \<Rightarrow> Reason p = want))
    \<and> stops_of d' = (if allowed then (stops_of d)(k := None) else stops_of d)
    \<and> (allowed \<and> stops_of d k \<noteq> None \<longrightarrow> watermarks_of d' k = stops_of d k)"
proof -
  let ?k = "canonicalIntentTaskKey taskName"
  let ?m = "mutateStopSubBlockWithPrearm env d ?k (clear_if_reason ?k want)"
  let ?c = "mutate_core env d ?k (clear_if_reason ?k want)"
  have m: "merr ?m = None" "d' = disk ?c"
    "allowed = (case before ?c of None \<Rightarrow> True | Some b \<Rightarrow> Reason b = want)"
    using assms(2,3)
    by (auto simp: ClearStopIntentIfReason_def Let_def split: option.splits if_splits)
  from clear_reason.core_views [OF assms(1) clear_reason.mutate_error [OF m(1)]] m
  show ?thesis
    by (auto simp: Let_def watermarks_of_def fun_upd_idem_iff split: option.splits if_splits)
qed

definition idle_file :: SupervisorIntentFile where
  "idle_file = zero_file\<lparr>Version := 1, Stops :=
     [(backslash # ''a'', \<lparr>Desired = ''stopped'', Reason = ''idle'', UpdatedAt = 50\<rparr>)]\<rparr>"

lemma clear_run_succeeds:
  "fst (ClearStopIntentIfReason calm_env (Some idle_file) ''a'' ''idle'' ''router'') = None"
  by code_simp

theorem clear_if_reason_compares_witness:
  "stops_of (fst (snd (ClearStopIntentIfReason calm_env (Some idle_file) ''a'' ''idle'' ''router'')))
     (backslash # ''a'') = None"
proof -
  let ?r = "ClearStopIntentIfReason calm_env (Some idle_file) ''a'' ''idle'' ''router''"
  obtain d' audits ok where r: "?r = (None, d', audits, ok)"
    using clear_run_succeeds by (cases ?r) auto
  have k: "canonicalIntentTaskKey ''a'' = backslash # ''a''" by (simp add: canonicalIntentTaskKey_def)
  have "stops_of (Some idle_file) (backslash # ''a'')
          = Some \<lparr>Desired = ''stopped'', Reason = ''idle'', UpdatedAt = 50\<rparr>"
    by (simp add: stops_of_def idle_file_def canonical_view_def later_of_def bare_def
          canonicalIntentTaskKey_def)
  moreover have "file_ok (Some idle_file)" "\<not> oversize ''router'' ''a''"
    by (simp_all add: file_ok_def idle_file_def maps_distinct_def zero_file_def oversize_def
          IdentityFieldByteCap_def canonicalIntentTaskKey_def)
  ultimately show ?thesis
    using clear_if_reason_compares [OF _ _ r] by (simp add: r k Let_def)
qed

end
