(* ===== verification/Intent_Collapse.thy ===== *)
theory Intent_Collapse
  imports Stop_Writers
begin

text \<open>
  The one-time merge of the legacy \<open>daemon-intent.json\<close> into the stops sub-block
  (\<open>internal/api/intent_collapse.go\<close>): the pure merge, the gate before the legacy file is deleted,
  and the whole pass with its reads, its re-reads under the locks and its ordered deletion. The legacy
  file is its decoded task map in iteration order; what concurrent writers may have put on disk
  between two reads is an argument.
\<close>

section \<open>The merge\<close>

datatype MergeStopsAction = MergeStopAdded | MergeStopUpdated | MergeStopDroppedExpired

record MergeStopsEntry =
  me_TaskName :: string
  me_Action :: MergeStopsAction
  me_Reason :: string

record DaemonIntentCollapseResult =
  Entries :: "MergeStopsEntry list"
  MergedStops :: intent_map
  MergedLegacyStopWatermarks :: intent_map
  Changed :: bool
  Wrote :: bool
  BackupDir :: string
  DeletedLegacyFile :: bool

definition zero_result :: DaemonIntentCollapseResult where
  "zero_result = \<lparr>Entries = [], MergedStops = [], MergedLegacyStopWatermarks = [], Changed = False,
                  Wrote = False, BackupDir = [], DeletedLegacyFile = False\<rparr>"

type_synonym merge_state = "intent_map \<times> intent_map \<times> MergeStopsEntry list"

definition merge_task :: "gotime \<Rightarrow> string \<times> DaemonIntent \<Rightarrow> merge_state \<Rightarrow> merge_state" where
  "merge_task now task s =
     (let (taskName, di) = task; (merged, watermarks, entries) = s;
          key = canonicalIntentTaskKey taskName
      in if active_stop di now
         then (case map_of merged key of
                 None \<Rightarrow>
                   if (case map_of watermarks key of
                         Some watermark \<Rightarrow> daemonIntentRecordsEqual watermark di | None \<Rightarrow> False)
                   then (merged, watermarks, entries)
                   else (AList.update key di merged, AList.delete key watermarks,
                         entries @ [\<lparr>me_TaskName = key, me_Action = MergeStopAdded,
                                     me_Reason = Reason di\<rparr>])
               | Some prior \<Rightarrow>
                   if \<not> daemonIntentRecordsEqual prior di \<and> UpdatedAt di > UpdatedAt prior
                   then (AList.update key di merged, AList.delete key watermarks,
                         entries @ [\<lparr>me_TaskName = key, me_Action = MergeStopUpdated,
                                     me_Reason = Reason di\<rparr>])
                   else (merged, AList.delete key watermarks, entries))
         else (merged, watermarks,
               entries @ [\<lparr>me_TaskName = key, me_Action = MergeStopDroppedExpired,
                           me_Reason = Reason di\<rparr>]))"

definition priorStops :: "SupervisorIntentFile option \<Rightarrow> intent_map" where
  "priorStops f = (case f of None \<Rightarrow> [] | Some f \<Rightarrow> Stops f)"

definition priorLegacyStopWatermarks :: "SupervisorIntentFile option \<Rightarrow> intent_map" where
  "priorLegacyStopWatermarks f = (case f of None \<Rightarrow> [] | Some f \<Rightarrow> LegacyStopWatermarks f)"

definition mergeDaemonIntentStops ::
  "SupervisorIntentFile option \<Rightarrow> intent_map option \<Rightarrow> gotime \<Rightarrow> DaemonIntentCollapseResult" where
  "mergeDaemonIntentStops supervisorIntent daemonIntentFile now =
     (let normalizedPrior = normalizeAbsentOnlyStopWatermarks (cloneSupervisorIntentFile supervisorIntent);
          (merged, mergedWatermarks, entries) =
            fold (merge_task now) (case daemonIntentFile of None \<Rightarrow> [] | Some ts \<Rightarrow> ts)
              (Stops normalizedPrior, LegacyStopWatermarks normalizedPrior, [])
      in zero_result\<lparr>Entries := sort_key me_TaskName entries, MergedStops := merged,
           MergedLegacyStopWatermarks := mergedWatermarks,
           Changed := (\<not> stopsMapsEqual (priorStops supervisorIntent) merged
                       \<or> \<not> stopsMapsEqual (priorLegacyStopWatermarks supervisorIntent) mergedWatermarks)\<rparr>)"

section \<open>The deletion gate and the pass\<close>

definition daemonIntentRecordMergedOrSuperseded :: "DaemonIntent \<Rightarrow> DaemonIntent \<Rightarrow> bool" where
  "daemonIntentRecordMergedOrSuperseded subBlock legacy =
     (daemonIntentRecordsEqual subBlock legacy \<or> UpdatedAt subBlock > UpdatedAt legacy)"

definition captured_stop :: "intent_map \<Rightarrow> intent_map \<Rightarrow> string \<Rightarrow> DaemonIntent \<Rightarrow> bool" where
  "captured_stop subBlock watermarks taskName di =
     (let key = canonicalIntentTaskKey taskName
      in (case map_of subBlock key of
            Some got \<Rightarrow> daemonIntentRecordMergedOrSuperseded got di | None \<Rightarrow> False)
         \<or> (case map_of watermarks key of
              Some w \<Rightarrow> daemonIntentRecordsEqual w di | None \<Rightarrow> False))"

text \<open>
  What the deletion takes from outside: the descriptor hash for the re-read and the failure of
  removing the file. The legacy file on disk is absent or its task map; the map the caller has read
  is a separate argument.
\<close>

definition deleteLegacyDaemonIntentIfMerged ::
  "(SupervisorDaemon \<Rightarrow> string) \<Rightarrow> string option \<Rightarrow> SupervisorIntentFile option \<Rightarrow> intent_map option
     \<Rightarrow> intent_map option \<Rightarrow> gotime \<Rightarrow> (string + bool) \<times> intent_map option" where
  "deleteLegacyDaemonIntentIfMerged h remove_error d legacy daemonIntent now =
     (case legacy of
        None \<Rightarrow> (Inr False, None)
      | Some _ \<Rightarrow>
          (case readSupervisorIntentForMergeWithRawStopMaps h d of
             Inl e \<Rightarrow> (Inl e, legacy)
           | Inr (current, _) \<Rightarrow>
               if list_all (\<lambda>(taskName, di). active_stop di now \<longrightarrow>
                     captured_stop (Stops current) (LegacyStopWatermarks current) taskName di)
                    (case daemonIntent of None \<Rightarrow> [] | Some ts \<Rightarrow> ts)
               then (case remove_error of Some e \<Rightarrow> (Inl e, legacy) | None \<Rightarrow> (Inr True, None))
               else (Inr False, legacy)))"

record collapse_env =
  ce_env :: intent_env
  daemon_lock_error :: "string option"
  legacy_error :: "string option"
  backup_error :: "string option"
  backup_dir :: string
  remove_error :: "string option"

text \<open>The deletion as the tail of a pass: its error or its report joins the merge result.\<close>

definition delete_tail ::
  "collapse_env \<Rightarrow> SupervisorIntentFile option \<Rightarrow> intent_map option \<Rightarrow> gotime
     \<Rightarrow> DaemonIntentCollapseResult \<Rightarrow> string option
     \<Rightarrow> (DaemonIntentCollapseResult \<times> string option) \<times> SupervisorIntentFile option \<times> intent_map option"
  where
  "delete_tail env d legacy now result err =
     (case deleteLegacyDaemonIntentIfMerged (sha (ce_env env)) (remove_error env) d legacy legacy now of
        (Inl e, l) \<Rightarrow> ((result, join_error (Some e) err), d, l)
      | (Inr b, l) \<Rightarrow> ((result\<lparr>DeletedLegacyFile := b\<rparr>, err), d, l))"

text \<open>
  The pass. The daemon-intent lock is held throughout, so \<open>legacy\<close> is the legacy file at every read
  and the merge after the defensive re-read is the first merge again; a legacy file that does not
  parse is \<open>legacy_error\<close>.
  The supervisor-intent file is \<open>d0\<close> at the first read and \<open>d1\<close> once its own lock is taken. The
  result is the report and the error, and the two files after the pass; the deletion of the
  unchanged branches runs without the supervisor-intent lock, on \<open>d1\<close> too.
\<close>

definition runDaemonIntentCollapse ::
  "collapse_env \<Rightarrow> bool \<Rightarrow> gotime \<Rightarrow> SupervisorIntentFile option \<Rightarrow> SupervisorIntentFile option
     \<Rightarrow> intent_map option
     \<Rightarrow> (DaemonIntentCollapseResult \<times> string option) \<times> SupervisorIntentFile option \<times> intent_map option"
  where
  "runDaemonIntentCollapse env dryRun now d0 d1 legacy =
     (if dryRun
      then (case readSupervisorIntentForMergeWithRawStopMaps (sha (ce_env env)) d0 of
              Inl e \<Rightarrow> ((zero_result, Some e), d1, legacy)
            | Inr (f, _) \<Rightarrow>
                (case legacy_error env of
                   Some e \<Rightarrow> ((zero_result, Some e), d1, legacy)
                 | None \<Rightarrow> ((mergeDaemonIntentStops (Some f) legacy now, None), d1, legacy)))
      else case daemon_lock_error env of
             Some e \<Rightarrow> ((zero_result, Some e), d1, legacy)
           | None \<Rightarrow>
        (case readSupervisorIntentForMergeWithRawStopMaps (sha (ce_env env)) d0 of
           Inl e \<Rightarrow> ((zero_result, Some e), d1, legacy)
         | Inr (f0, _) \<Rightarrow>
             (case legacy_error env of Some e \<Rightarrow> ((zero_result, Some e), d1, legacy) | None \<Rightarrow>
             (let result = mergeDaemonIntentStops (Some f0) legacy now
              in if \<not> Changed result then delete_tail env d1 legacy now result None
                 else case lock_error (ce_env env) of
                        Some e \<Rightarrow> ((zero_result, Some e), d1, legacy)
                      | None \<Rightarrow>
                   (let rel = release_error (ce_env env)
                    in case readSupervisorIntentForMergeWithRawStopMaps (sha (ce_env env)) d1 of
                         Inl e \<Rightarrow> ((zero_result, join_error (Some e) rel), d1, legacy)
                       | Inr (f1, _) \<Rightarrow>
                           (let result = mergeDaemonIntentStops (Some f1) legacy now
                            in if \<not> Changed result then delete_tail env d1 legacy now result rel
                               else case backup_error env of
                                      Some e \<Rightarrow> ((zero_result, join_error (Some e) rel), d1, legacy)
                                    | None \<Rightarrow>
                                 (case writeSupervisorIntentLockHeld (sha (ce_env env))
                                         (secure_write (ce_env env)) d1
                                         (f1\<lparr>Stops := MergedStops result,
                                             LegacyStopWatermarks := MergedLegacyStopWatermarks result\<rparr>) of
                                    (Some e, d2) \<Rightarrow> ((zero_result, join_error (Some e) rel), d2, legacy)
                                  | (None, d2) \<Rightarrow>
                                      delete_tail env d2 legacy now
                                        (result\<lparr>BackupDir := backup_dir env, Wrote := True\<rparr>) rel)))))))"

section \<open>The merge on maps\<close>

definition merge_maps ::
  "gotime \<Rightarrow> string \<times> DaemonIntent \<Rightarrow> (string \<rightharpoonup> DaemonIntent) \<times> (string \<rightharpoonup> DaemonIntent)
     \<Rightarrow> (string \<rightharpoonup> DaemonIntent) \<times> (string \<rightharpoonup> DaemonIntent)" where
  "merge_maps now x s =
     (let k = canonicalIntentTaskKey (fst x); di = snd x; M = fst s; W = snd s
      in if \<not> active_stop di now then (M, W)
         else case M k of
                None \<Rightarrow> if W k = Some di then (M, W) else (M(k \<mapsto> di), W(k := None))
              | Some p \<Rightarrow> if UpdatedAt di > UpdatedAt p then (M(k \<mapsto> di), W(k := None))
                          else (M, W(k := None)))"

definition keys_ok :: "merge_state \<Rightarrow> bool" where
  "keys_ok s \<longleftrightarrow> canonical_keys (fst s) \<and> canonical_keys (fst (snd s))"

lemma merge_task_maps:
  "(map_of (fst (merge_task now x s)), map_of (fst (snd (merge_task now x s))))
     = merge_maps now x (map_of (fst s), map_of (fst (snd s)))"
  by (cases x; cases s)
     (auto simp: merge_task_def merge_maps_def Let_def update_conv' delete_conv'
        simp del: map_of_eq_Some_iff split: option.splits)

lemma merge_task_keys: "keys_ok s \<Longrightarrow> keys_ok (merge_task now x s)"
  by (cases x; cases s)
     (auto simp: merge_task_def keys_ok_def Let_def ik.canon_idem
        intro!: canonical_keys_update canonical_keys_delete split: option.splits)

lemma fold_merge_keys: "keys_ok s \<Longrightarrow> keys_ok (fold (merge_task now) ts s)"
  by (induction ts arbitrary: s) (simp_all add: merge_task_keys)

lemma fold_merge_maps:
  "(map_of (fst (fold (merge_task now) ts s)), map_of (fst (snd (fold (merge_task now) ts s))))
     = fold (merge_maps now) ts (map_of (fst s), map_of (fst (snd s)))"
  by (induction ts arbitrary: s) (simp_all add: merge_task_maps)

text \<open>A directive is accounted for by a stop at least as recent or by its own watermark.\<close>

definition accounted ::
  "(string \<rightharpoonup> DaemonIntent) \<times> (string \<rightharpoonup> DaemonIntent) \<Rightarrow> string \<Rightarrow> DaemonIntent \<Rightarrow> bool" where
  "accounted s t di \<longleftrightarrow>
     (\<exists>r. fst s (canonicalIntentTaskKey t) = Some r \<and> UpdatedAt di \<le> UpdatedAt r)
     \<or> snd s (canonicalIntentTaskKey t) = Some di"

abbreviation task_keys :: "intent_map \<Rightarrow> string list" where
  "task_keys ts \<equiv> map (\<lambda>x. canonicalIntentTaskKey (fst x)) ts"

lemma merge_maps_accounts: "active_stop di now \<Longrightarrow> accounted (merge_maps now (t, di) s) t di"
  by (auto simp: accounted_def merge_maps_def Let_def split: option.splits)

lemma merge_maps_other:
  "canonicalIntentTaskKey (fst x) \<noteq> k \<Longrightarrow>
     fst (merge_maps now x s) k = fst s k \<and> snd (merge_maps now x s) k = snd s k"
  by (auto simp: merge_maps_def Let_def split: option.splits)

lemma fold_merge_other:
  "k \<notin> set (task_keys ts) \<Longrightarrow>
     fst (fold (merge_maps now) ts s) k = fst s k \<and> snd (fold (merge_maps now) ts s) k = snd s k"
  by (induction ts arbitrary: s) (auto simp: merge_maps_other)

lemma accounted_cong:
  "fst s (canonicalIntentTaskKey t) = fst s' (canonicalIntentTaskKey t) \<Longrightarrow>
   snd s (canonicalIntentTaskKey t) = snd s' (canonicalIntentTaskKey t) \<Longrightarrow>
   accounted s t di = accounted s' t di"
  by (simp add: accounted_def)

lemma fold_merge_accounts:
  assumes "distinct (task_keys ts)" and "(t, di) \<in> set ts" and "active_stop di now"
  shows "accounted (fold (merge_maps now) ts s) t di"
  using assms
proof (induction ts arbitrary: s)
  case (Cons x ts)
  show ?case
  proof (cases "x = (t, di)")
    case True
    with Cons.prems have "canonicalIntentTaskKey t \<notin> set (task_keys ts)" by simp
    from fold_merge_other [OF this, of now "merge_maps now x s"]
      merge_maps_accounts [OF Cons.prems(3), of t s] True
    show ?thesis by (simp add: accounted_def)
  next
    case False
    with Cons show ?thesis by auto
  qed
qed simp

lemma merge_maps_grows:
  "fst s k = Some p \<Longrightarrow> \<exists>r. fst (merge_maps now x s) k = Some r \<and> UpdatedAt p \<le> UpdatedAt r"
  by (auto simp: merge_maps_def Let_def split: option.splits)

lemma fold_merge_grows:
  "fst s k = Some p \<Longrightarrow> \<exists>r. fst (fold (merge_maps now) ts s) k = Some r \<and> UpdatedAt p \<le> UpdatedAt r"
proof (induction ts arbitrary: s p)
  case (Cons x ts)
  from merge_maps_grows [OF Cons.prems] obtain q where
    q: "fst (merge_maps now x s) k = Some q" "UpdatedAt p \<le> UpdatedAt q" by blast
  from Cons.IH [OF q(1)] q(2) show ?case by fastforce
qed simp

lemma fold_merge_origin:
  "fst (fold (merge_maps now) ts s) k = Some r \<Longrightarrow>
     fst s k = Some r \<or> (\<exists>t. (t, r) \<in> set ts \<and> canonicalIntentTaskKey t = k \<and> active_stop r now)"
proof (induction ts arbitrary: s)
  case (Cons x ts)
  then have "fst (fold (merge_maps now) ts (merge_maps now x s)) k = Some r" by simp
  from Cons.IH [OF this]
  consider "fst (merge_maps now x s) k = Some r"
    | "\<exists>t. (t, r) \<in> set ts \<and> canonicalIntentTaskKey t = k \<and> active_stop r now" by blast
  then show ?case
  proof cases
    case 1
    then show ?thesis
      by (cases x) (auto simp: merge_maps_def Let_def split: if_splits option.splits)
  qed auto
qed simp

text \<open>No watermark stands beside a stop.\<close>

definition apart :: "(string \<rightharpoonup> DaemonIntent) \<times> (string \<rightharpoonup> DaemonIntent) \<Rightarrow> bool" where
  "apart s \<longleftrightarrow> (\<forall>k. fst s k \<noteq> None \<longrightarrow> snd s k = None)"

lemma merge_maps_apart: "apart s \<Longrightarrow> apart (merge_maps now x s)"
  by (auto simp: apart_def merge_maps_def Let_def split: option.splits)

lemma fold_merge_apart: "apart s \<Longrightarrow> apart (fold (merge_maps now) ts s)"
  by (induction ts arbitrary: s) (simp_all add: merge_maps_apart)

lemma merge_maps_fixed:
  assumes "apart s" and "active_stop (snd x) now \<Longrightarrow> accounted s (fst x) (snd x)"
  shows "merge_maps now x s = s"
  using assms
  by (cases s) (auto simp: merge_maps_def accounted_def apart_def Let_def fun_upd_idem_iff
      split: option.splits)

lemma fold_merge_fixed:
  assumes "apart s" and "\<And>x. x \<in> set ts \<Longrightarrow> active_stop (snd x) now \<Longrightarrow> accounted s (fst x) (snd x)"
  shows "fold (merge_maps now) ts s = s"
  using assms by (induction ts) (simp_all add: merge_maps_fixed)

section \<open>What the merge guarantees\<close>

abbreviation tasks_of :: "intent_map option \<Rightarrow> intent_map" where
  "tasks_of l \<equiv> (case l of None \<Rightarrow> [] | Some ts \<Rightarrow> ts)"

lemma apart_views: "apart (stops_of d, watermarks_of d)"
  by (auto simp: apart_def watermarks_of_def restrict_map_def)

lemma clone_stop_maps [simp]:
  "Stops (cloneSupervisorIntentFile (Some f)) = Stops f"
  "LegacyStopWatermarks (cloneSupervisorIntentFile (Some f)) = LegacyStopWatermarks f"
  "Stops (cloneSupervisorIntentFile None) = []"
  "LegacyStopWatermarks (cloneSupervisorIntentFile None) = []"
  by (simp_all add: cloneSupervisorIntentFile_def zero_file_def)

lemma merge_views:
  fixes d :: "SupervisorIntentFile option" and legacy :: "intent_map option" and now :: gotime
  assumes "file_ok d"
  defines "R \<equiv> mergeDaemonIntentStops d legacy now"
  shows "(map_of (MergedStops R), map_of (MergedLegacyStopWatermarks R))
           = fold (merge_maps now) (tasks_of legacy) (stops_of d, watermarks_of d)"
    and "canonical_keys (MergedStops R)" and "canonical_keys (MergedLegacyStopWatermarks R)"
    and "Changed R \<longleftrightarrow> \<not> (stopsMapsEqual (priorStops d) (MergedStops R)
           \<and> stopsMapsEqual (priorLegacyStopWatermarks d) (MergedLegacyStopWatermarks R))"
proof -
  let ?n = "normalizeAbsentOnlyStopWatermarks (cloneSupervisorIntentFile d)"
  let ?s = "(Stops ?n, LegacyStopWatermarks ?n, [])"
  let ?f = "fold (merge_task now) (tasks_of legacy) ?s"
  have ok: "maps_distinct (cloneSupervisorIntentFile d)"
    using assms(1) by (cases d) (simp_all add: file_ok_def maps_distinct_def)
  have v: "map_of (Stops ?n) = stops_of d" "map_of (LegacyStopWatermarks ?n) = watermarks_of d"
    using normalize_map_of [OF ok]
    by (cases d; simp add: stops_of_def watermarks_of_def marks_of_def)+
  have "keys_ok ?s" using stops_wf_normalize [OF ok] by (simp add: keys_ok_def stops_wf_def)
  then have k: "keys_ok ?f" by (rule fold_merge_keys)
  have R: "MergedStops R = fst ?f" "MergedLegacyStopWatermarks R = fst (snd ?f)"
    "Changed R \<longleftrightarrow> \<not> (stopsMapsEqual (priorStops d) (MergedStops R)
           \<and> stopsMapsEqual (priorLegacyStopWatermarks d) (MergedLegacyStopWatermarks R))"
    by (simp_all add: R_def mergeDaemonIntentStops_def Let_def split_beta)
  from R fold_merge_maps [of now "tasks_of legacy" ?s] v
  show "(map_of (MergedStops R), map_of (MergedLegacyStopWatermarks R))
           = fold (merge_maps now) (tasks_of legacy) (stops_of d, watermarks_of d)" by simp
  from k R show "canonical_keys (MergedStops R)" "canonical_keys (MergedLegacyStopWatermarks R)"
    by (simp_all add: keys_ok_def)
  show "Changed R \<longleftrightarrow> \<not> (stopsMapsEqual (priorStops d) (MergedStops R)
           \<and> stopsMapsEqual (priorLegacyStopWatermarks d) (MergedLegacyStopWatermarks R))"
    by (rule R(3))
qed


definition legacy_tasks :: intent_map where
  "legacy_tasks = [(''b'', \<lparr>Desired = ''stopped'', Reason = ''user-disabled'', UpdatedAt = 70\<rparr>),
                   (''c'', \<lparr>Desired = ''running'', Reason = ''install'', UpdatedAt = 71\<rparr>)]"


text \<open>
  C12. The merge is idempotent: merging the same legacy file, at the same instant, into the file the
  first merge produced reports no change, so a second boot rewrites nothing.
\<close>

theorem merge_idempotent:
  assumes "file_ok d" and "distinct (task_keys ts)"
  shows "let R = mergeDaemonIntentStops d (Some ts) now
         in \<not> Changed (mergeDaemonIntentStops
              (Some (f\<lparr>Stops := MergedStops R, LegacyStopWatermarks := MergedLegacyStopWatermarks R\<rparr>))
              (Some ts) now)"
proof -
  define R where "R = mergeDaemonIntentStops d (Some ts) now"
  define d' where "d' = Some (f\<lparr>Stops := MergedStops R, LegacyStopWatermarks := MergedLegacyStopWatermarks R\<rparr>)"
  let ?s = "(map_of (MergedStops R), map_of (MergedLegacyStopWatermarks R))"
  note v = merge_views [OF assms(1), of "Some ts" now, folded R_def, simplified]
  have ap: "apart ?s" unfolding v(1) by (rule fold_merge_apart [OF apart_views])
  have ok: "file_ok d'" using v(2,3) by (simp add: d'_def file_ok_def maps_distinct_def canonical_keys_def)
  have "stops_of d' = map_of (MergedStops R)"
    and "watermarks_of d' = map_of (MergedLegacyStopWatermarks R)"
    using v(2,3) ap
    by (auto simp: d'_def stops_of_def watermarks_of_def marks_of_def canonical_view_of_keys apart_def
          restrict_map_def fun_eq_iff domIff)
  moreover have "fold (merge_maps now) ts ?s = ?s"
    using fold_merge_accounts [OF assms(2), of _ _ now "(stops_of d, watermarks_of d)", folded v(1)]
    by (intro fold_merge_fixed ap) (metis prod.collapse)
  moreover define R' where "R' = mergeDaemonIntentStops d' (Some ts) now"
  note v' = merge_views [OF ok, of "Some ts" now, folded R'_def, simplified]
  ultimately have "map_of (MergedStops R') = map_of (MergedStops R)"
    and "map_of (MergedLegacyStopWatermarks R') = map_of (MergedLegacyStopWatermarks R)"
    using v'(1) by simp_all
  then have "\<not> Changed R'"
    using v'(2,3,4) v(2,3)
    by (simp add: stopsMapsEqual_iff priorStops_def priorLegacyStopWatermarks_def d'_def canonical_keys_def)
  then show ?thesis by (simp add: R'_def d'_def R_def Let_def)
qed

theorem merge_idempotent_witness:
  "let R = mergeDaemonIntentStops (Some operator_file) (Some legacy_tasks) 100
   in \<not> Changed (mergeDaemonIntentStops (Some (operator_file\<lparr>Stops := MergedStops R,
          LegacyStopWatermarks := MergedLegacyStopWatermarks R\<rparr>)) (Some legacy_tasks) 100)"
  by (rule merge_idempotent)
     (simp_all add: file_ok_def operator_file_def maps_distinct_def zero_file_def legacy_tasks_def
        canonicalIntentTaskKey_def)

section \<open>The deletion gate\<close>

text \<open>The record is in the sub-block or strictly superseded there, or it has its own watermark.\<close>

definition settled ::
  "(string \<rightharpoonup> DaemonIntent) \<Rightarrow> (string \<rightharpoonup> DaemonIntent) \<Rightarrow> string \<Rightarrow> DaemonIntent \<Rightarrow> bool" where
  "settled M W t di \<longleftrightarrow>
     (\<exists>r. M (canonicalIntentTaskKey t) = Some r \<and> (r = di \<or> UpdatedAt di < UpdatedAt r))
     \<or> W (canonicalIntentTaskKey t) = Some di"

lemma captured_stop_iff: "captured_stop S W t di \<longleftrightarrow> settled (map_of S) (map_of W) t di"
  by (auto simp: captured_stop_def settled_def Let_def daemonIntentRecordMergedOrSuperseded_def
        simp del: map_of_eq_Some_iff split: option.splits)

lemma delete_gate:
  assumes "file_ok d"
    and "deleteLegacyDaemonIntentIfMerged h re d (Some l) (Some ts) now = (res, l')"
  shows "(l' = None \<longrightarrow> (\<forall>(t, di) \<in> set ts. active_stop di now \<longrightarrow>
                         settled (stops_of d) (marks_of d) t di))
    \<and> (re = None \<and> (\<exists>b. res = Inr b) \<and>
         (\<forall>(t, di) \<in> set ts. active_stop di now \<longrightarrow> settled (stops_of d) (marks_of d) t di)
         \<longrightarrow> l' = None)"
proof (cases "readSupervisorIntentForMergeWithRawStopMaps h d")
  case (Inl e)
  with assms(2) show ?thesis by (auto simp: deleteLegacyDaemonIntentIfMerged_def)
next
  case (Inr r)
  obtain f rs rw where r: "r = (f, rs, rw)" by (cases r)
  note v = read_views(1,2) [OF assms(1) Inr [unfolded r]]
  let ?ok = "list_all (\<lambda>(taskName, di). active_stop di now \<longrightarrow>
     captured_stop (Stops f) (LegacyStopWatermarks f) taskName di) ts"
  have "?ok \<longleftrightarrow> (\<forall>(t, di) \<in> set ts. active_stop di now \<longrightarrow> settled (stops_of d) (marks_of d) t di)"
    by (simp add: captured_stop_iff v list_all_iff)
  moreover have "(res, l') = (if ?ok then (case re of Some e \<Rightarrow> (Inl e, Some l) | None \<Rightarrow> (Inr True, None))
                              else (Inr False, Some l))"
    using assms(2) Inr r by (simp add: deleteLegacyDaemonIntentIfMerged_def)
  ultimately show ?thesis by (auto split: option.splits if_splits)
qed

lemma delete_tail_gate:
  assumes "file_ok d" and "delete_tail env d (Some ts) now R e = ((R', e'), d', l')"
  shows "d' = d
    \<and> (l' = None \<longrightarrow> (\<forall>(t, di) \<in> set ts. active_stop di now \<longrightarrow>
                         settled (stops_of d) (marks_of d) t di))
    \<and> (remove_error env = None \<and> e' = None \<and>
         (\<forall>(t, di) \<in> set ts. active_stop di now \<longrightarrow> settled (stops_of d) (marks_of d) t di)
         \<longrightarrow> l' = None)"
proof -
  let ?x = "deleteLegacyDaemonIntentIfMerged (sha (ce_env env)) (remove_error env) d (Some ts) (Some ts) now"
  obtain res l where x: "?x = (res, l)" by (cases ?x)
  from assms(2) x have "d' = d" "l' = l" "e' = None \<Longrightarrow> \<exists>b. res = Inr b"
    by (auto simp: delete_tail_def join_error_def split: sum.splits option.splits)
  with delete_gate [OF assms(1) x] show ?thesis by blast
qed

lemma merged_file_wf:
  assumes "file_ok d"
  shows "stops_wf (f\<lparr>Stops := MergedStops (mergeDaemonIntentStops d legacy now),
     LegacyStopWatermarks := MergedLegacyStopWatermarks (mergeDaemonIntentStops d legacy now)\<rparr>)"
proof -
  let ?R = "mergeDaemonIntentStops d legacy now"
  note v = merge_views [OF assms, of legacy now]
  have "apart (map_of (MergedStops ?R), map_of (MergedLegacyStopWatermarks ?R))"
    unfolding v(1) by (rule fold_merge_apart [OF apart_views])
  then have "fst ` set (MergedStops ?R) \<inter> fst ` set (MergedLegacyStopWatermarks ?R) = {}"
    by (auto simp: apart_def dom_map_of_conv_image_fst [symmetric] domIff disjoint_iff
          simp del: dom_map_of_conv_image_fst)
  with v(2,3) show ?thesis by (simp add: stops_wf_def)
qed

lemma read_file_views:
  assumes "file_ok d" and "readSupervisorIntentForMergeWithRawStopMaps h d = Inr (f, raw)"
  shows "file_ok (Some f)" "stops_of (Some f) = stops_of d" "marks_of (Some f) = marks_of d"
    "watermarks_of (Some f) = watermarks_of d"
proof -
  obtain rs rw where raw: "raw = (rs, rw)" by (cases raw)
  note v = read_views [OF assms(1) assms(2) [unfolded raw]]
  show "file_ok (Some f)" using v(3,4) by (simp add: file_ok_def maps_distinct_def canonical_keys_def)
  show "stops_of (Some f) = stops_of d" "marks_of (Some f) = marks_of d"
    using v(1,2) canonical_view_of_keys [OF v(3)] canonical_view_of_keys [OF v(4)]
    by (simp_all add: stops_of_def [of "Some f"] marks_of_def [of "Some f"])
  then show "watermarks_of (Some f) = watermarks_of d" by (simp add: watermarks_of_def)
qed

text \<open>The three ways a pass can end: nothing done, a deletion attempt on the file, or after a write.\<close>

lemma collapse_cases:
  assumes "runDaemonIntentCollapse env False now d0 d1 (Some ts) = ((R, err), d2, l2)"
  obtains (untouched) "d2 = d1" "l2 = Some ts" "err \<noteq> None"
  | (unchanged) R0 e0 where "delete_tail env d1 (Some ts) now R0 e0 = ((R, err), d2, l2)"
      "\<exists>d f raw. d \<in> {d0, d1} \<and> readSupervisorIntentForMergeWithRawStopMaps (sha (ce_env env)) d = Inr (f, raw)
         \<and> \<not> Changed (mergeDaemonIntentStops (Some f) (Some ts) now)"
  | (written) f raw d R0 e0 where "readSupervisorIntentForMergeWithRawStopMaps (sha (ce_env env)) d1 = Inr (f, raw)"
      "writeSupervisorIntentLockHeld (sha (ce_env env)) (secure_write (ce_env env)) d1
         (f\<lparr>Stops := MergedStops (mergeDaemonIntentStops (Some f) (Some ts) now),
            LegacyStopWatermarks :=
              MergedLegacyStopWatermarks (mergeDaemonIntentStops (Some f) (Some ts) now)\<rparr>) = (None, d)"
      "delete_tail env d (Some ts) now R0 e0 = ((R, err), d2, l2)"
proof -
  have cases: "(d2 = d1 \<and> l2 = Some ts \<and> err \<noteq> None)
    \<or> (\<exists>R0 e0. delete_tail env d1 (Some ts) now R0 e0 = ((R, err), d2, l2) \<and>
         (\<exists>d f raw. d \<in> {d0, d1} \<and> readSupervisorIntentForMergeWithRawStopMaps (sha (ce_env env)) d = Inr (f, raw)
         \<and> \<not> Changed (mergeDaemonIntentStops (Some f) (Some ts) now)))
    \<or> (\<exists>f raw d R0 e0. readSupervisorIntentForMergeWithRawStopMaps (sha (ce_env env)) d1 = Inr (f, raw) \<and>
         writeSupervisorIntentLockHeld (sha (ce_env env)) (secure_write (ce_env env)) d1
         (f\<lparr>Stops := MergedStops (mergeDaemonIntentStops (Some f) (Some ts) now),
            LegacyStopWatermarks :=
              MergedLegacyStopWatermarks (mergeDaemonIntentStops (Some f) (Some ts) now)\<rparr>) = (None, d) \<and>
         delete_tail env d (Some ts) now R0 e0 = ((R, err), d2, l2))"
    using assms
    by (auto simp: runDaemonIntentCollapse_def Let_def join_error_def dest: write_error
          split: option.splits sum.splits prod.splits if_splits)
  with untouched unchanged written show thesis by blast
qed

text \<open>
  C13. The legacy file is deleted only when it is safe, whatever other writers put into the
  supervisor-intent file between the first read and the lock: if it is gone after the pass, then on
  the final disk every legacy stop in force is present, strictly superseded, or marked as migrated and
  cleared. The pass changes nothing of the file but the stop maps and the generation, read back under
  the lock, and the check mode changes no file at all.
\<close>

theorem collapse_deletes_only_settled:
  assumes "file_ok d1" and "runDaemonIntentCollapse env dryRun now d0 d1 (Some ts) = ((R, err), d2, l2)"
  shows "(l2 = None \<longrightarrow> (\<forall>(t, di) \<in> set ts. active_stop di now \<longrightarrow>
                         settled (stops_of d2) (marks_of d2) t di))
    \<and> (d2 \<noteq> d1 \<longrightarrow> (\<exists>f raw g. readSupervisorIntentForMergeWithRawStopMaps (sha (ce_env env)) d1 = Inr (f, raw)
          \<and> d2 = Some g \<and> Daemons g = Daemons f \<and> MaintenanceTimers g = MaintenanceTimers f
          \<and> StrictMode g = StrictMode f \<and> OwnerMode g = OwnerMode f \<and> Version g = Version f))
    \<and> (dryRun \<longrightarrow> d2 = d1 \<and> l2 = Some ts)"
proof (cases dryRun)
  case True
  with assms(2) show ?thesis
    by (auto simp: runDaemonIntentCollapse_def split: sum.splits option.splits)
next
  case False
  with assms(2) have run: "runDaemonIntentCollapse env False now d0 d1 (Some ts) = ((R, err), d2, l2)"
    by simp
  from run show ?thesis
  proof (cases rule: collapse_cases)
    case untouched
    with False show ?thesis by simp
  next
    case (unchanged R0 e0)
    from delete_tail_gate [OF assms(1) unchanged(1)] False show ?thesis by auto
  next
    case (written f raw d R0 e0)
    note r = read_file_views [OF assms(1) written(1)]
    have ok: "file_ok d" by (rule write_views(3) [OF written(2) merged_file_wf [OF r(1)]])
    from delete_tail_gate [OF ok written(3)] have d2: "d2 = d" and
      gate: "l2 = None \<longrightarrow> (\<forall>(t, di) \<in> set ts. active_stop di now \<longrightarrow>
                         settled (stops_of d) (marks_of d) t di)" by blast+
    from written(2) obtain g where g: "d = Some g" and "marshalNextSupervisorIntent (sha (ce_env env))
        (f\<lparr>Stops := MergedStops (mergeDaemonIntentStops (Some f) (Some ts) now),
           LegacyStopWatermarks := MergedLegacyStopWatermarks (mergeDaemonIntentStops (Some f) (Some ts) now)\<rparr>) = Inr g"
      by (auto simp: writeSupervisorIntentLockHeld_def split: sum.splits option.splits)
    from marshalNext_InrD(2) [OF this(2)] have "Daemons g = Daemons f" "MaintenanceTimers g = MaintenanceTimers f"
      "StrictMode g = StrictMode f" "OwnerMode g = OwnerMode f" "Version g = Version f" by auto
    with written(1) g d2 gate False show ?thesis by auto
  qed
qed

definition calm_collapse :: collapse_env where
  "calm_collapse = \<lparr>ce_env = calm_env, daemon_lock_error = None, legacy_error = None,
     backup_error = None, backup_dir = ''pre-collapse-backup'', remove_error = None\<rparr>"

definition collapse_demo ::
  "(DaemonIntentCollapseResult \<times> string option) \<times> SupervisorIntentFile option \<times> intent_map option" where
  "collapse_demo = runDaemonIntentCollapse calm_collapse False 100 None (Some operator_file) (Some legacy_tasks)"

lemma collapse_demo_deletes: "snd (snd collapse_demo) = None \<and> snd (fst collapse_demo) = None"
  by code_simp

theorem collapse_deletes_only_settled_witness:
  "settled (stops_of (fst (snd collapse_demo))) (marks_of (fst (snd collapse_demo))) ''b''
     \<lparr>Desired = ''stopped'', Reason = ''user-disabled'', UpdatedAt = 70\<rparr>"
proof -
  obtain R err d2 l2 where run: "runDaemonIntentCollapse calm_collapse False 100 None (Some operator_file)
      (Some legacy_tasks) = ((R, err), d2, l2)"
    by (cases "runDaemonIntentCollapse calm_collapse False 100 None (Some operator_file)
      (Some legacy_tasks)") auto
  have ok: "file_ok (Some operator_file)"
    by (simp add: file_ok_def operator_file_def maps_distinct_def zero_file_def)
  from collapse_demo_deletes run have "l2 = None" and d2: "fst (snd collapse_demo) = d2"
    by (simp_all add: collapse_demo_def)
  with collapse_deletes_only_settled [OF ok run] show ?thesis
    unfolding d2
    by (simp add: legacy_tasks_def active_stop_iff stop_lifetime_def intent_durations)
qed

section \<open>Completion, and the tie that prevents it\<close>

text \<open>No legacy stop in force meets a different record with the same timestamp.\<close>

definition no_tie :: "(string \<rightharpoonup> DaemonIntent) \<Rightarrow> intent_map \<Rightarrow> gotime \<Rightarrow> bool" where
  "no_tie M ts now \<longleftrightarrow> (\<forall>(t, di) \<in> set ts. active_stop di now \<longrightarrow>
     (\<forall>p. M (canonicalIntentTaskKey t) = Some p \<longrightarrow> UpdatedAt p = UpdatedAt di \<longrightarrow> p = di))"

lemma merge_maps_settles:
  assumes "active_stop di now"
    and "\<And>p. fst s (canonicalIntentTaskKey t) = Some p \<Longrightarrow> UpdatedAt p = UpdatedAt di \<Longrightarrow> p = di"
  shows "settled (fst (merge_maps now (t, di) s)) (snd (merge_maps now (t, di) s)) t di"
proof (cases "fst s (canonicalIntentTaskKey t)")
  case None
  with assms(1) show ?thesis by (simp add: settled_def merge_maps_def Let_def)
next
  case (Some p)
  with assms show ?thesis
    by (cases "UpdatedAt p" "UpdatedAt di" rule: linorder_cases)
       (simp_all add: settled_def merge_maps_def Let_def)
qed

lemma fold_merge_settles:
  assumes "distinct (task_keys ts)" and "(t, di) \<in> set ts" and "active_stop di now"
    and "\<And>p. fst s (canonicalIntentTaskKey t) = Some p \<Longrightarrow> UpdatedAt p = UpdatedAt di \<Longrightarrow> p = di"
  shows "settled (fst (fold (merge_maps now) ts s)) (snd (fold (merge_maps now) ts s)) t di"
  using assms
proof (induction ts arbitrary: s)
  case (Cons x ts)
  show ?case
  proof (cases "x = (t, di)")
    case True
    with Cons.prems have "canonicalIntentTaskKey t \<notin> set (task_keys ts)" by simp
    from fold_merge_other [OF this, of now "merge_maps now x s"]
      merge_maps_settles [OF Cons.prems(3,4)] True
    show ?thesis by (simp add: settled_def)
  next
    case False
    with Cons.prems have k: "canonicalIntentTaskKey (fst x) \<noteq> canonicalIntentTaskKey t" by force
    from Cons.prems merge_maps_other [OF k, of now s] False show ?thesis
      by (auto intro!: Cons.IH)
  qed
qed simp


lemma collapse_same_file_succeeds:
  "snd (fst (runDaemonIntentCollapse calm_collapse False 100 (Some operator_file) (Some operator_file)
      (Some legacy_tasks))) = None"
  by code_simp


text \<open>
  With a tie it never completes: the merge keeps the sub-block record when the timestamps are equal,
  the gate asks for an identical or strictly newer one, so the pass reports no change and the legacy
  file stays.
\<close>

definition tied_tasks :: intent_map where
  "tied_tasks = [(''a'', \<lparr>Desired = ''stopped'', Reason = ''idle'', UpdatedAt = 50\<rparr>)]"

lemma tie_keeps_legacy_file:
  "case runDaemonIntentCollapse calm_collapse False 100 (Some operator_file) (Some operator_file)
      (Some tied_tasks) of
     ((R, err), d2, l2) \<Rightarrow> err = None \<and> \<not> DeletedLegacyFile R \<and> l2 = Some tied_tasks"
  by code_simp

text \<open>
  With both spellings of a task in the legacy file and equal timestamps, the merged record depends on
  the iteration order of the map; the key normalisation of the sub-block breaks the same tie.
\<close>

definition two_spellings :: intent_map where
  "two_spellings = [(''b'', \<lparr>Desired = ''stopped'', Reason = ''idle'', UpdatedAt = 60\<rparr>),
     (backslash # ''b'', \<lparr>Desired = ''stopped'', Reason = ''user-disabled'', UpdatedAt = 60\<rparr>)]"

lemma merge_depends_on_order:
  "MergedStops (mergeDaemonIntentStops None (Some two_spellings) 100)
     = [(backslash # ''b'', \<lparr>Desired = ''stopped'', Reason = ''idle'', UpdatedAt = 60\<rparr>)]
   \<and> MergedStops (mergeDaemonIntentStops None (Some (rev two_spellings)) 100)
     = [(backslash # ''b'', \<lparr>Desired = ''stopped'', Reason = ''user-disabled'', UpdatedAt = 60\<rparr>)]"
  by code_simp

end
