(* ===== verification/Readiness.thy ===== *)
theory Readiness
  imports Hub_Prelude "HOL-Library.List_Lexorder" "HOL-Library.Char_ord" "HOL-Library.Product_Lexorder"
begin

text \<open>
  The pure readiness reducer of \<open>internal/api/readiness_v1.go\<close>: one daemon observation to its service
  state, the causal order of failures, and the snapshot over all daemons and client bindings. The
  lemmas say exactly when a daemon counts as running, that every observation settles once its
  deadline has passed, and what a settled snapshot guarantees.
\<close>

section \<open>Vocabulary\<close>

datatype ReadinessStageV1 =
  StageIntentAccess | StageSupervisorBootstrap | StageSupervisorIPC | StageTaskIntent
| StageWrapperStart | StageUpstreamListener | StageMCPInitialize | StageMCPToolsList
| StageClientBinding | StageComplete | StageOther string

datatype ServiceStateV1 =
  ServiceStateAbsent | ServiceStateDisabled | ServiceStateStarting | ServiceStateRunning
| ServiceStateDegraded | ServiceStateFailed | ServiceStateStopped

datatype MaterializationStateV1 =
  MaterializationAbsent | MaterializationIntentOnly | MaterializationStarting | MaterializationReady
| MaterializationDegraded | MaterializationFailed | MaterializationStopped | MaterializationDisabled

datatype BindingStateV1 =
  BindingStateNone | BindingStateHub | BindingStateDirect | BindingStateDisabled
| BindingStateMixed | BindingStateUnreadable

datatype ReadinessClassificationV1 =
  UnhealthyDegraded | InstalledAndBound | InstalledUnbound | ConfiguredDirectCanMigrate
| ClassifiedDisabled | GenuinelyNotInstalled

datatype ReadinessPolicyV1 = PolicyMCPUpstream | PolicyProcessOnly | PolicySyntheticProxy | PolicyOther string

datatype BindingRouteV1 = BindingRouteNone | BindingRouteHub | BindingRouteDirect | BindingRouteOther string

record ReadinessFailureV1 =
  f_Stage :: ReadinessStageV1
  FailureID :: string
  Retryable :: bool
  Detail :: string
  f_TaskName :: string
  f_Client :: string
  f_Port :: int

record DaemonReadinessObservationV1 =
  o_TaskName :: string
  o_Server :: string
  o_Daemon :: string
  o_Port :: int
  o_PID :: int
  ProcessState :: string
  CurrentPIDGeneration :: "64 word"
  ObservedPIDGeneration :: "64 word"
  IntentPresent :: bool
  IntentRunnable :: bool
  IntentDisabled :: bool
  o_Stopped :: bool
  WrapperStarted :: bool
  ListenerReady :: bool
  MCPInitializeReady :: bool
  MCPToolsListReady :: bool
  DeadlineExceeded :: bool
  Policy :: ReadinessPolicyV1
  o_Failures :: "ReadinessFailureV1 list"

record BindingObservationV1 =
  Client :: string
  Present :: bool
  b_Enabled :: bool
  Disabled :: bool
  Readable :: bool
  Route :: BindingRouteV1
  ExactHubRoute :: bool
  Requested :: bool

record ReadinessRequest =
  Selectors :: "string list"
  req_Bindings :: "BindingObservationV1 list"
  RequireBinding :: bool
  CanMigrate :: bool
  req_Now :: gotime
  Observations :: "DaemonReadinessObservationV1 list"

record DaemonReadinessV1 =
  r_TaskName :: string
  r_Server :: string
  r_Daemon :: string
  r_Port :: int
  r_PID :: int
  r_PIDGeneration :: "64 word"
  r_ProcessState :: string
  ServiceState :: ServiceStateV1
  Stage :: ReadinessStageV1
  Settled :: bool
  Failure :: "ReadinessFailureV1 option"

record ReadinessSnapshotV1 =
  ObservedAt :: gotime
  s_Settled :: bool
  s_Daemons :: "DaemonReadinessV1 list"
  s_Bindings :: "BindingObservationV1 list"
  MaterializationState :: MaterializationStateV1
  BindingState :: BindingStateV1
  Classification :: ReadinessClassificationV1
  PrimaryFailure :: "ReadinessFailureV1 option"
  s_Failures :: "ReadinessFailureV1 list"

section \<open>The reducer\<close>

definition readinessStageOrder :: "ReadinessStageV1 \<Rightarrow> int" where
  "readinessStageOrder stage = (case stage of
     StageIntentAccess \<Rightarrow> 1 | StageSupervisorBootstrap \<Rightarrow> 2 | StageSupervisorIPC \<Rightarrow> 3
   | StageTaskIntent \<Rightarrow> 4 | StageWrapperStart \<Rightarrow> 5 | StageUpstreamListener \<Rightarrow> 6
   | StageMCPInitialize \<Rightarrow> 7 | StageMCPToolsList \<Rightarrow> 8 | StageClientBinding \<Rightarrow> 9
   | StageComplete \<Rightarrow> 10 | StageOther _ \<Rightarrow> 0)"

definition validReadinessStage :: "ReadinessStageV1 \<Rightarrow> bool" where
  "validReadinessStage stage = (readinessStageOrder stage > 0 \<and> stage \<noteq> StageComplete)"

abbreviation failure_rank :: "ReadinessFailureV1 \<Rightarrow> int \<times> string \<times> string" where
  "failure_rank f \<equiv> (readinessStageOrder (f_Stage f), f_TaskName f, f_Client f)"

text \<open>A stable sort, as \<open>sort.SliceStable\<close>.\<close>

definition sortReadinessFailures :: "ReadinessFailureV1 list \<Rightarrow> ReadinessFailureV1 list" where
  "sortReadinessFailures fs = sort_key failure_rank fs"

definition safeReadinessFailures ::
  "ReadinessFailureV1 list \<Rightarrow> DaemonReadinessObservationV1 \<Rightarrow> ReadinessFailureV1 list" where
  "safeReadinessFailures fs ob =
     sortReadinessFailures
       (map (\<lambda>f. f\<lparr>Detail := [],
                  f_TaskName := (if f_TaskName f = [] then o_TaskName ob else f_TaskName f),
                  f_Port := (if f_Port f = 0 then o_Port ob else f_Port f)\<rparr>)
         (filter (\<lambda>f. \<not> (\<not> validReadinessStage (f_Stage f) \<or> FailureID f = [])) fs))"

definition settleOrDegrade ::
  "DaemonReadinessV1 \<Rightarrow> DaemonReadinessObservationV1 \<Rightarrow> string
     \<Rightarrow> DaemonReadinessV1 \<times> ReadinessFailureV1 list" where
  "settleOrDegrade daemon ob failureID =
     (if \<not> DeadlineExceeded ob then (daemon, [])
      else let failure = \<lparr>f_Stage = Stage daemon, FailureID = failureID, Retryable = False, Detail = [],
                          f_TaskName = r_TaskName daemon, f_Client = [], f_Port = r_Port daemon\<rparr>
           in (daemon\<lparr>ServiceState := ServiceStateDegraded, Settled := True, Failure := Some failure\<rparr>,
               [failure]))"

definition reduceDaemonReadinessV1 ::
  "DaemonReadinessObservationV1 \<Rightarrow> DaemonReadinessV1 \<times> ReadinessFailureV1 list" where
  "reduceDaemonReadinessV1 ob =
     (let daemon = \<lparr>r_TaskName = o_TaskName ob, r_Server = o_Server ob, r_Daemon = o_Daemon ob,
                    r_Port = o_Port ob, r_PID = o_PID ob, r_PIDGeneration = ObservedPIDGeneration ob,
                    r_ProcessState = ProcessState ob, ServiceState = ServiceStateAbsent,
                    Stage = StageOther [], Settled = False, Failure = None\<rparr>
      in case safeReadinessFailures (o_Failures ob) ob of
           failure # rest \<Rightarrow>
             (let daemon = daemon\<lparr>Failure := Some failure, Stage := f_Stage failure\<rparr>
              in if Retryable failure \<and> \<not> DeadlineExceeded ob
                 then (daemon\<lparr>ServiceState := ServiceStateStarting\<rparr>, failure # rest)
                 else (daemon\<lparr>ServiceState :=
                         (if f_Stage failure \<in> {StageIntentAccess, StageSupervisorBootstrap,
                               StageSupervisorIPC, StageTaskIntent, StageWrapperStart}
                          then ServiceStateFailed else ServiceStateDegraded),
                         Settled := True\<rparr>, failure # rest))
         | [] \<Rightarrow>
             if \<not> IntentPresent ob
             then (daemon\<lparr>ServiceState := ServiceStateAbsent, Stage := StageIntentAccess, Settled := True\<rparr>, [])
             else if IntentDisabled ob
             then (daemon\<lparr>ServiceState := ServiceStateDisabled, Stage := StageTaskIntent, Settled := True\<rparr>, [])
             else if o_Stopped ob
             then (daemon\<lparr>ServiceState := ServiceStateStopped, Stage := StageWrapperStart, Settled := True\<rparr>, [])
             else if \<not> IntentRunnable ob
             then settleOrDegrade (daemon\<lparr>ServiceState := ServiceStateStarting, Stage := StageTaskIntent\<rparr>)
                    ob ''task_intent_missing''
             else if ObservedPIDGeneration ob = 0 \<or> ObservedPIDGeneration ob \<noteq> CurrentPIDGeneration ob
                     \<or> \<not> WrapperStarted ob
             then settleOrDegrade (daemon\<lparr>ServiceState := ServiceStateStarting, Stage := StageWrapperStart\<rparr>)
                    ob ''wrapper_start_timeout''
             else if Policy ob = PolicySyntheticProxy
             then settleOrDegrade (daemon\<lparr>ServiceState := ServiceStateStarting, Stage := StageUpstreamListener\<rparr>)
                    ob ''synthetic_proxy_not_materialized''
             else if \<not> ListenerReady ob
             then settleOrDegrade (daemon\<lparr>ServiceState := ServiceStateStarting, Stage := StageUpstreamListener\<rparr>)
                    ob ''upstream_listener_unbound''
             else if Policy ob \<noteq> PolicyProcessOnly \<and> \<not> MCPInitializeReady ob
             then settleOrDegrade (daemon\<lparr>ServiceState := ServiceStateStarting, Stage := StageMCPInitialize\<rparr>)
                    ob ''mcp_initialize_failed''
             else if Policy ob \<noteq> PolicyProcessOnly \<and> \<not> MCPToolsListReady ob
             then settleOrDegrade (daemon\<lparr>ServiceState := ServiceStateStarting, Stage := StageMCPToolsList\<rparr>)
                    ob ''mcp_tools_list_failed''
             else (daemon\<lparr>ServiceState := ServiceStateRunning, Stage := StageComplete, Settled := True\<rparr>, []))"

definition selectedReadinessObservations :: "ReadinessRequest \<Rightarrow> DaemonReadinessObservationV1 list" where
  "selectedReadinessObservations request =
     (if Selectors request = [] then Observations request
      else filter (\<lambda>ob. o_TaskName ob \<in> set (Selectors request)) (Observations request))"

definition materializationPrecedence :: "MaterializationStateV1 \<Rightarrow> int" where
  "materializationPrecedence state = (case state of
     MaterializationFailed \<Rightarrow> 8 | MaterializationDegraded \<Rightarrow> 7 | MaterializationStarting \<Rightarrow> 6
   | MaterializationReady \<Rightarrow> 5 | MaterializationIntentOnly \<Rightarrow> 4 | MaterializationStopped \<Rightarrow> 3
   | MaterializationDisabled \<Rightarrow> 2 | MaterializationAbsent \<Rightarrow> 1)"

definition daemon_materialization :: "DaemonReadinessV1 \<Rightarrow> MaterializationStateV1" where
  "daemon_materialization daemon = (case ServiceState daemon of
     ServiceStateRunning \<Rightarrow> MaterializationReady
   | ServiceStateDegraded \<Rightarrow> MaterializationDegraded
   | ServiceStateFailed \<Rightarrow> MaterializationFailed
   | ServiceStateStarting \<Rightarrow>
       if Stage daemon = StageTaskIntent then MaterializationIntentOnly else MaterializationStarting
   | ServiceStateStopped \<Rightarrow> MaterializationStopped
   | ServiceStateDisabled \<Rightarrow> MaterializationDisabled
   | ServiceStateAbsent \<Rightarrow> MaterializationAbsent)"

definition deriveMaterializationState :: "DaemonReadinessV1 list \<Rightarrow> MaterializationStateV1" where
  "deriveMaterializationState daemons =
     fold (\<lambda>daemon state.
        let nxt = daemon_materialization daemon
        in if materializationPrecedence nxt > materializationPrecedence state then nxt else state)
       daemons MaterializationAbsent"

definition binding_state :: "BindingObservationV1 \<Rightarrow> BindingStateV1" where
  "binding_state b =
     (if \<not> Readable b then BindingStateUnreadable
      else if Disabled b \<or> \<not> b_Enabled b then BindingStateDisabled
      else case Route b of
             BindingRouteHub \<Rightarrow> BindingStateHub
           | BindingRouteDirect \<Rightarrow> BindingStateDirect
           | _ \<Rightarrow> BindingStateNone)"

definition deriveBindingState :: "BindingObservationV1 list \<Rightarrow> BindingStateV1" where
  "deriveBindingState bindings =
     (let states = remdups (filter (\<lambda>s. s \<noteq> BindingStateNone)
                     (map binding_state (filter Present bindings)))
      in case states of
           [] \<Rightarrow> BindingStateNone
         | [s] \<Rightarrow> s
         | _ \<Rightarrow> BindingStateMixed)"

definition deriveReadinessClassification ::
  "MaterializationStateV1 \<Rightarrow> BindingStateV1 \<Rightarrow> bool \<Rightarrow> ReadinessClassificationV1" where
  "deriveReadinessClassification materialization binding canMigrate =
     (if materialization \<in> {MaterializationStarting, MaterializationDegraded, MaterializationFailed}
      then UnhealthyDegraded
      else if materialization = MaterializationReady
      then (if binding = BindingStateHub \<or> binding = BindingStateMixed then InstalledAndBound
            else InstalledUnbound)
      else if (binding = BindingStateDirect \<or> binding = BindingStateMixed) \<and> canMigrate
      then ConfiguredDirectCanMigrate
      else if binding = BindingStateDisabled then ClassifiedDisabled
      else GenuinelyNotInstalled)"

definition binding_exact :: "BindingObservationV1 \<Rightarrow> bool" where
  "binding_exact b \<longleftrightarrow> Present b \<and> Readable b \<and> b_Enabled b \<and> \<not> Disabled b
     \<and> Route b = BindingRouteHub \<and> ExactHubRoute b"

definition readinessSnapshotSettled :: "ReadinessSnapshotV1 \<Rightarrow> bool \<Rightarrow> bool" where
  "readinessSnapshotSettled snapshot requireBinding =
     (if PrimaryFailure snapshot \<noteq> None then False
      else if \<not> list_all (\<lambda>d. ServiceState d = ServiceStateRunning) (s_Daemons snapshot) then False
      else if \<not> requireBinding then True
      else list_all (\<lambda>b. \<not> (Requested b \<and> \<not> binding_exact b)) (s_Bindings snapshot))"

definition ReduceReadinessV1 :: "ReadinessRequest \<Rightarrow> ReadinessSnapshotV1" where
  "ReduceReadinessV1 request =
     (let reduced = map reduceDaemonReadinessV1 (selectedReadinessObservations request);
          daemons = sort_key r_TaskName (map fst reduced);
          failures = sortReadinessFailures (concat (map snd reduced));
          bindings = sort_key Client (req_Bindings request);
          materialization = deriveMaterializationState daemons;
          binding = deriveBindingState bindings;
          snapshot = \<lparr>ObservedAt = req_Now request, s_Settled = False, s_Daemons = daemons,
                      s_Bindings = bindings, MaterializationState = materialization,
                      BindingState = binding,
                      Classification = deriveReadinessClassification materialization binding (CanMigrate request),
                      PrimaryFailure = (case failures of [] \<Rightarrow> None | f # _ \<Rightarrow> Some f),
                      s_Failures = failures\<rparr>
      in snapshot\<lparr>s_Settled := readinessSnapshotSettled snapshot (RequireBinding request)\<rparr>)"

text \<open>The operation: a cancelled context reports itself ahead of every other failure.\<close>

definition AssessReadiness ::
  "bool \<Rightarrow> ReadinessRequest \<Rightarrow> ReadinessSnapshotV1 \<times> (ReadinessStageV1 \<times> string) option" where
  "AssessReadiness cancelled request =
     (let snapshot = ReduceReadinessV1 request
      in if cancelled
         then let failure = \<lparr>f_Stage = StageWrapperStart, FailureID = ''readiness_cancelled'',
                             Retryable = False, Detail = [], f_TaskName = [], f_Client = [], f_Port = 0\<rparr>
              in (snapshot\<lparr>PrimaryFailure := Some failure, s_Failures := failure # s_Failures snapshot,
                           s_Settled := False, MaterializationState := MaterializationDegraded,
                           Classification := UnhealthyDegraded\<rparr>,
                  Some (f_Stage failure, FailureID failure))
         else (snapshot, map_option (\<lambda>f. (f_Stage f, FailureID f)) (PrimaryFailure snapshot)))"

section \<open>What the states mean\<close>

lemma sort_key_Nil_iff: "sort_key k xs = [] \<longleftrightarrow> xs = []"
  by (metis length_0_conv length_sort)

lemma settleOrDegrade_simps [simp]:
  "ServiceState (fst (settleOrDegrade d ob fid))
     = (if DeadlineExceeded ob then ServiceStateDegraded else ServiceState d)"
  "Settled (fst (settleOrDegrade d ob fid)) = (DeadlineExceeded ob \<or> Settled d)"
  "snd (settleOrDegrade d ob fid) = [] \<longleftrightarrow> \<not> DeadlineExceeded ob"
  "f \<in> set (snd (settleOrDegrade d ob fid)) \<Longrightarrow> Detail f = []"
  by (auto simp: settleOrDegrade_def Let_def split: if_splits)

text \<open>The facts of an observation that make a daemon usable.\<close>

definition usable :: "DaemonReadinessObservationV1 \<Rightarrow> bool" where
  "usable ob \<longleftrightarrow> IntentPresent ob \<and> \<not> IntentDisabled ob \<and> \<not> o_Stopped ob \<and> IntentRunnable ob
     \<and> ObservedPIDGeneration ob \<noteq> 0 \<and> ObservedPIDGeneration ob = CurrentPIDGeneration ob
     \<and> WrapperStarted ob \<and> Policy ob \<noteq> PolicySyntheticProxy \<and> ListenerReady ob
     \<and> (Policy ob = PolicyProcessOnly \<or> MCPInitializeReady ob \<and> MCPToolsListReady ob)"

lemma reduce_Running_iff:
  "ServiceState (fst (reduceDaemonReadinessV1 ob)) = ServiceStateRunning
     \<longleftrightarrow> safeReadinessFailures (o_Failures ob) ob = [] \<and> usable ob"
  by (cases "safeReadinessFailures (o_Failures ob) ob")
     (auto simp: reduceDaemonReadinessV1_def usable_def Let_def split: if_splits)

lemma reduce_failures_Nil:
  "snd (reduceDaemonReadinessV1 ob) = [] \<Longrightarrow> safeReadinessFailures (o_Failures ob) ob = []"
  by (cases "safeReadinessFailures (o_Failures ob) ob")
     (auto simp: reduceDaemonReadinessV1_def Let_def split: if_splits)

lemma reduce_Running_failures:
  "ServiceState (fst (reduceDaemonReadinessV1 ob)) = ServiceStateRunning
     \<Longrightarrow> snd (reduceDaemonReadinessV1 ob) = []"
  by (cases "safeReadinessFailures (o_Failures ob) ob")
     (auto simp: reduceDaemonReadinessV1_def Let_def split: if_splits)

lemma reduce_settles:
  "Settled (fst (reduceDaemonReadinessV1 ob))
   \<or> ServiceState (fst (reduceDaemonReadinessV1 ob)) = ServiceStateStarting \<and> \<not> DeadlineExceeded ob"
  by (cases "safeReadinessFailures (o_Failures ob) ob")
     (auto simp: reduceDaemonReadinessV1_def Let_def split: if_splits)

lemma safe_failures_detail:
  "f \<in> set (safeReadinessFailures fs ob) \<Longrightarrow> Detail f = [] \<and> validReadinessStage (f_Stage f)"
  by (auto simp: safeReadinessFailures_def sortReadinessFailures_def)

lemma reduce_failures_detail: "f \<in> set (snd (reduceDaemonReadinessV1 ob)) \<Longrightarrow> Detail f = []"
  using safe_failures_detail [of _ "o_Failures ob" ob]
  by (cases "safeReadinessFailures (o_Failures ob) ob")
     (auto simp: reduceDaemonReadinessV1_def Let_def split: if_splits)

text \<open>
  C15. When the reducer calls a daemon running: exactly when no well-formed failure was reported and
  the observation shows a runnable intent and a started wrapper of the current, non-zero process
  generation whose listener, and unless it is a bare process also its MCP handshake, is ready. Once
  the deadline of an observation has passed its state is settled, so nothing stays starting forever.
\<close>

theorem daemon_running_iff:
  "(ServiceState (fst (reduceDaemonReadinessV1 ob)) = ServiceStateRunning \<longleftrightarrow>
      list_all (\<lambda>f. \<not> validReadinessStage (f_Stage f) \<or> FailureID f = []) (o_Failures ob)
      \<and> IntentPresent ob \<and> \<not> IntentDisabled ob \<and> \<not> o_Stopped ob \<and> IntentRunnable ob
      \<and> ObservedPIDGeneration ob \<noteq> 0 \<and> ObservedPIDGeneration ob = CurrentPIDGeneration ob
      \<and> WrapperStarted ob \<and> Policy ob \<noteq> PolicySyntheticProxy \<and> ListenerReady ob
      \<and> (Policy ob = PolicyProcessOnly \<or> MCPInitializeReady ob \<and> MCPToolsListReady ob))
   \<and> (Settled (fst (reduceDaemonReadinessV1 ob))
      \<or> ServiceState (fst (reduceDaemonReadinessV1 ob)) = ServiceStateStarting \<and> \<not> DeadlineExceeded ob)"
proof -
  have "safeReadinessFailures (o_Failures ob) ob = [] \<longleftrightarrow>
        list_all (\<lambda>f. \<not> validReadinessStage (f_Stage f) \<or> FailureID f = []) (o_Failures ob)"
    by (auto simp: safeReadinessFailures_def sortReadinessFailures_def sort_key_Nil_iff
          filter_empty_conv list_all_iff)
  then show ?thesis using reduce_Running_iff [of ob] reduce_settles [of ob] by (simp add: usable_def)
qed

theorem daemon_running_iff_witness:
  "let ob = \<lparr>o_TaskName = ''a'', o_Server = [], o_Daemon = [], o_Port = 9000, o_PID = 7,
             ProcessState = [], CurrentPIDGeneration = 2, ObservedPIDGeneration = 2,
             IntentPresent = True, IntentRunnable = True, IntentDisabled = False, o_Stopped = False,
             WrapperStarted = True, ListenerReady = True, MCPInitializeReady = True,
             MCPToolsListReady = True, DeadlineExceeded = True, Policy = PolicyMCPUpstream, o_Failures = []\<rparr>
   in ServiceState (fst (reduceDaemonReadinessV1 ob)) = ServiceStateRunning
      \<and> Settled (fst (reduceDaemonReadinessV1 ob))
      \<and> ServiceState (fst (reduceDaemonReadinessV1 (ob\<lparr>ListenerReady := False\<rparr>))) \<noteq> ServiceStateRunning"
  unfolding Let_def
  apply (intro conjI)
    apply (subst daemon_running_iff [THEN conjunct1], simp)
   apply (rule daemon_running_iff [THEN conjunct2, THEN disjE], assumption, simp)
  apply (subst daemon_running_iff [THEN conjunct1], simp)
  done

section \<open>The snapshot\<close>

lemma snapshot_fields:
  "s_Daemons (ReduceReadinessV1 request)
     = sort_key r_TaskName (map (fst \<circ> reduceDaemonReadinessV1) (selectedReadinessObservations request))"
  "s_Failures (ReduceReadinessV1 request)
     = sortReadinessFailures
         (concat (map (snd \<circ> reduceDaemonReadinessV1) (selectedReadinessObservations request)))"
  "PrimaryFailure (ReduceReadinessV1 request)
     = (case s_Failures (ReduceReadinessV1 request) of [] \<Rightarrow> None | f # _ \<Rightarrow> Some f)"
  "s_Bindings (ReduceReadinessV1 request) = sort_key Client (req_Bindings request)"
  by (simp_all add: ReduceReadinessV1_def Let_def comp_def)

lemma snapshot_settled_def:
  "s_Settled (ReduceReadinessV1 request) \<longleftrightarrow>
     PrimaryFailure (ReduceReadinessV1 request) = None
     \<and> (\<forall>d \<in> set (s_Daemons (ReduceReadinessV1 request)). ServiceState d = ServiceStateRunning)
     \<and> (RequireBinding request \<longrightarrow>
          (\<forall>b \<in> set (s_Bindings (ReduceReadinessV1 request)). Requested b \<longrightarrow> binding_exact b))"
  by (auto simp: ReduceReadinessV1_def Let_def readinessSnapshotSettled_def list_all_iff)

lemma primary_None_iff:
  "PrimaryFailure (ReduceReadinessV1 request) = None \<longleftrightarrow>
     (\<forall>ob \<in> set (selectedReadinessObservations request). snd (reduceDaemonReadinessV1 ob) = [])"
proof -
  have "PrimaryFailure (ReduceReadinessV1 request) = None \<longleftrightarrow> s_Failures (ReduceReadinessV1 request) = []"
    by (simp add: snapshot_fields(3) split: list.splits)
  then show ?thesis
    by (simp add: snapshot_fields(2) sortReadinessFailures_def sort_key_Nil_iff)
qed

text \<open>
  C16. A snapshot is settled exactly when every selected daemon is usable and reported no well-formed
  failure and, if bindings are required, every requested client binding is the enabled, readable,
  exact hub route. In particular a stale process generation or a failing binding never settles.
\<close>

theorem snapshot_settled_iff:
  "s_Settled (ReduceReadinessV1 request) \<longleftrightarrow>
     (\<forall>ob \<in> set (selectedReadinessObservations request).
        usable ob \<and> safeReadinessFailures (o_Failures ob) ob = [])
     \<and> (RequireBinding request \<longrightarrow>
          (\<forall>b \<in> set (req_Bindings request). Requested b \<longrightarrow> binding_exact b))"
  unfolding snapshot_settled_def primary_None_iff snapshot_fields(1,4)
  using reduce_Running_iff reduce_Running_failures by auto

theorem snapshot_settled_iff_witness:
  "let ob = \<lparr>o_TaskName = ''a'', o_Server = [], o_Daemon = [], o_Port = 9000, o_PID = 7,
             ProcessState = ''Running'', CurrentPIDGeneration = 2, ObservedPIDGeneration = 2,
             IntentPresent = True, IntentRunnable = True, IntentDisabled = False, o_Stopped = False,
             WrapperStarted = True, ListenerReady = True, MCPInitializeReady = False,
             MCPToolsListReady = False, DeadlineExceeded = False, Policy = PolicyProcessOnly,
             o_Failures = []\<rparr>;
       rq = \<lparr>Selectors = [], req_Bindings = [], RequireBinding = True, CanMigrate = False, req_Now = 5,
             Observations = [ob]\<rparr>
   in s_Settled (ReduceReadinessV1 rq)
      \<and> \<not> s_Settled (ReduceReadinessV1 (rq\<lparr>Observations := [ob\<lparr>CurrentPIDGeneration := 3\<rparr>]\<rparr>))"
  by (simp add: Let_def snapshot_settled_iff selectedReadinessObservations_def usable_def
        safeReadinessFailures_def sortReadinessFailures_def)

text \<open>
  C17. The failures of a snapshot carry no detail text of the observations, and the primary one has
  the earliest stage of the causal order among them all.
\<close>

theorem primary_failure_is_first:
  assumes "PrimaryFailure (ReduceReadinessV1 request) = Some f" and "g \<in> set (s_Failures (ReduceReadinessV1 request))"
  shows "readinessStageOrder (f_Stage f) \<le> readinessStageOrder (f_Stage g) \<and> Detail f = [] \<and> Detail g = []
    \<and> f \<in> set (s_Failures (ReduceReadinessV1 request))"
proof -
  let ?fs = "s_Failures (ReduceReadinessV1 request)"
  from assms(1) obtain rest where fs: "?fs = f # rest"
    by (auto simp: snapshot_fields(3) split: list.splits)
  have "sorted (map failure_rank ?fs)"
    unfolding snapshot_fields(2) sortReadinessFailures_def by (rule sorted_sort_key)
  with fs assms(2) have "failure_rank f \<le> failure_rank g" by auto
  then have "readinessStageOrder (f_Stage f) \<le> readinessStageOrder (f_Stage g)"
    by (auto simp: less_eq_prod_def)
  moreover have "Detail h = []" if "h \<in> set ?fs" for h
    using that reduce_failures_detail by (auto simp: snapshot_fields(2) sortReadinessFailures_def)
  ultimately show ?thesis using assms(2) fs by simp
qed

theorem primary_failure_is_first_witness:
  "let fl = (\<lambda>st. \<lparr>f_Stage = st, FailureID = ''x'', Retryable = False, Detail = ''secret'', f_TaskName = [],
                  f_Client = [], f_Port = 0\<rparr>);
       ob = \<lparr>o_TaskName = ''a'', o_Server = [], o_Daemon = [], o_Port = 9000, o_PID = 7,
             ProcessState = [], CurrentPIDGeneration = 2, ObservedPIDGeneration = 2,
             IntentPresent = True, IntentRunnable = True, IntentDisabled = False, o_Stopped = False,
             WrapperStarted = True, ListenerReady = True, MCPInitializeReady = False,
             MCPToolsListReady = False, DeadlineExceeded = False, Policy = PolicyMCPUpstream,
             o_Failures = [fl StageMCPInitialize, fl StageTaskIntent]\<rparr>;
       rq = \<lparr>Selectors = [], req_Bindings = [], RequireBinding = False, CanMigrate = False, req_Now = 5,
             Observations = [ob]\<rparr>
   in \<exists>f. PrimaryFailure (ReduceReadinessV1 rq) = Some f \<and> Detail f = []
        \<and> readinessStageOrder (f_Stage f) \<le> 7"
proof -
  define fl where "fl = (\<lambda>st. \<lparr>f_Stage = st, FailureID = ''x'', Retryable = False, Detail = ''secret'',
       f_TaskName = [], f_Client = [], f_Port = 0\<rparr> :: ReadinessFailureV1)"
  define ob where "ob = \<lparr>o_TaskName = ''a'', o_Server = [], o_Daemon = [], o_Port = 9000, o_PID = 7,
             ProcessState = [], CurrentPIDGeneration = 2, ObservedPIDGeneration = 2,
             IntentPresent = True, IntentRunnable = True, IntentDisabled = False, o_Stopped = False,
             WrapperStarted = True, ListenerReady = True, MCPInitializeReady = False,
             MCPToolsListReady = False, DeadlineExceeded = False, Policy = PolicyMCPUpstream,
             o_Failures = [fl StageMCPInitialize, fl StageTaskIntent]\<rparr>"
  define rq where "rq = \<lparr>Selectors = [], req_Bindings = [], RequireBinding = False, CanMigrate = False,
             req_Now = 5, Observations = [ob]\<rparr>"
  have g: "(fl StageMCPInitialize)\<lparr>Detail := [], f_TaskName := ''a'', f_Port := 9000\<rparr>
             \<in> set (s_Failures (ReduceReadinessV1 rq))"
    unfolding rq_def ob_def fl_def by code_simp
  then obtain f where f: "PrimaryFailure (ReduceReadinessV1 rq) = Some f"
    by (cases "s_Failures (ReduceReadinessV1 rq)") (auto simp: snapshot_fields(3))
  from primary_failure_is_first [OF f g] f show ?thesis
    unfolding Let_def rq_def ob_def fl_def by (auto simp: readinessStageOrder_def)
qed

end
