(* ===== verification/Restart_SM.thy ===== *)
theory Restart_SM
  imports Hub_Prelude
begin

text \<open>
  The restart-policy state machine of \<open>internal/api/supervisor_state_machine.go\<close>: the states, the
  events, the per-daemon context and the transition table \<open>Transition\<close>, with its side-effect
  descriptions kept as the strings the controller later searches. The lemmas give the exact
  conditions under which the table creates a process or terminates one, and that it refines a
  one-child protocol.
\<close>

datatype SMState =
  StIdle | StSpawning | StRunning | StExiting | StBackoffWaiting | StQuarantined

text \<open>
  The last constructor stands for the controller's own event kinds (\<open>evReapScan\<close> and its like),
  which are values of the same Go string type and have no row in the table.
\<close>

datatype SMEvent =
  EvStart | EvHealthOK | EvChildExit | EvTimerDue | EvIntentUpdate | EvManualRestart
| EvRequestGraceful | EvQuiesceComplete | EvSupervisorRestart | EvControllerInternal string

record SMContext =
  IntentDesired :: string
  IntentIsActiveStop :: bool
  Failures :: int
  QueuedAction :: string
  GracefulInProgress :: bool

definition Transition :: "SMState \<Rightarrow> SMEvent \<Rightarrow> SMContext \<Rightarrow> SMState \<times> string \<times> bool \<times> bool" where
  "Transition state ev ctx =
    (case state of
      StIdle \<Rightarrow>
       (case ev of
          EvStart \<Rightarrow>
            if IntentDesired ctx = ''running'' \<and> \<not> IntentIsActiveStop ctx
            then (StSpawning, ''bump pid_generation, create-process'', True, True)
            else (StIdle, ''intent suppresses spawn'', False, True)
        | EvIntentUpdate \<Rightarrow>
            if IntentDesired ctx = ''stopped'' then (StIdle, '''', False, True)
            else if IntentDesired ctx = ''running'' \<and> \<not> IntentIsActiveStop ctx
            then (StSpawning, ''bump pid_generation, create-process'', True, True)
            else (state, '''', False, False)
        | EvManualRestart \<Rightarrow>
            if IntentDesired ctx = ''running'' \<and> \<not> IntentIsActiveStop ctx
            then (StSpawning, ''bump pid_generation, create-process'', True, True)
            else (StIdle, ''RESTART_REFUSED_INTENT_STOPPED'', False, True)
        | EvRequestGraceful \<Rightarrow> (StIdle, ''no-op (already drained)'', False, True)
        | EvQuiesceComplete \<Rightarrow> (StIdle, ''clear quiesce_in_progress'', False, True)
        | _ \<Rightarrow> (state, '''', False, False))
    | StSpawning \<Rightarrow>
       (case ev of
          EvHealthOK \<Rightarrow>
            if QueuedAction ctx = ''stop''
            then (StExiting, ''issue terminate, queued_action=none'', True, True)
            else (StRunning, '''', False, True)
        | EvChildExit \<Rightarrow>
            if QueuedAction ctx = ''stop'' \<or> IntentDesired ctx = ''stopped''
            then (StIdle, ''clear queued_action'', True, True)
            else (StBackoffWaiting, ''arm timer at backoff(failures)'', True, True)
        | EvIntentUpdate \<Rightarrow>
            if IntentDesired ctx = ''stopped''
            then (StSpawning, ''set queued_action=stop'', False, True)
            else (StSpawning, ''clear queued_action'', False, True)
        | EvRequestGraceful \<Rightarrow> (StExiting, ''issue terminate, queued_action=none'', True, True)
        | _ \<Rightarrow> (state, '''', False, False))
    | StRunning \<Rightarrow>
       (case ev of
          EvChildExit \<Rightarrow> (StBackoffWaiting, ''arm timer'', True, True)
        | EvIntentUpdate \<Rightarrow>
            if IntentDesired ctx = ''stopped''
            then (StExiting, ''issue terminate, queued_action=none'', True, True)
            else (state, '''', False, False)
        | EvManualRestart \<Rightarrow> (StExiting, ''issue terminate, queued_action=respawn'', True, True)
        | EvRequestGraceful \<Rightarrow> (StExiting, ''issue terminate, queued_action=none'', True, True)
        | _ \<Rightarrow> (state, '''', False, False))
    | StExiting \<Rightarrow>
       (case ev of
          EvChildExit \<Rightarrow>
            if GracefulInProgress ctx
            then (StIdle, ''drain wins (graceful-exit suppresses respawn)'', False, True)
            else if QueuedAction ctx = ''respawn''
            then (StSpawning, ''bump pid_generation, create-process'', True, True)
            else (StIdle, '''', False, True)
        | EvManualRestart \<Rightarrow>
            if GracefulInProgress ctx
            then (StExiting, ''deferred via graceful-exit'', False, True)
            else (StExiting, ''coalesce '' @ [CHR 0xE2, CHR 0x80, CHR 0x94] @ '' set queued_action=respawn'',
                  True, True)
        | EvIntentUpdate \<Rightarrow>
            if GracefulInProgress ctx \<and> IntentDesired ctx = ''running''
            then (StExiting, ''deferred via graceful-exit'', False, True)
            else if IntentDesired ctx = ''stopped''
            then (StExiting, ''clear queued_action'', True, True)
            else if IntentDesired ctx = ''running''
            then (StExiting, ''set queued_action=respawn'', True, True)
            else (state, '''', False, False)
        | EvRequestGraceful \<Rightarrow>
            (StExiting, ''coalesce, set queued_action=none (drain wins)'', True, True)
        | EvTimerDue \<Rightarrow> (StExiting, ''log + ignore'', False, True)
        | _ \<Rightarrow> (state, '''', False, False))
    | StBackoffWaiting \<Rightarrow>
       (case ev of
          EvTimerDue \<Rightarrow>
            if QueuedAction ctx = ''stop'' \<or> IntentDesired ctx = ''stopped''
            then (StIdle, ''cancel timer, clear queued_action'', True, True)
            else if Failures ctx < 10
            then (StSpawning, ''bump pid_generation, create-process'', True, True)
            else (StQuarantined, ''clear timer'', True, True)
        | EvIntentUpdate \<Rightarrow>
            if IntentDesired ctx = ''stopped'' then (StIdle, ''cancel timer'', True, True)
            else if IntentDesired ctx = ''running''
            then (StSpawning, ''cancel timer, bump pid_generation, create-process'', True, True)
            else (state, '''', False, False)
        | EvManualRestart \<Rightarrow>
            (StSpawning, ''cancel timer, bump pid_generation, create-process'', True, True)
        | EvRequestGraceful \<Rightarrow> (StIdle, ''cancel timer'', True, True)
        | _ \<Rightarrow> (state, '''', False, False))
    | StQuarantined \<Rightarrow>
       (case ev of
          EvIntentUpdate \<Rightarrow>
            if IntentDesired ctx = ''stopped'' then (StQuarantined, '''', False, True)
            else if IntentDesired ctx = ''running''
            then (StSpawning, ''reset failures, bump pid_generation, create-process'', True, True)
            else (state, '''', False, False)
        | EvManualRestart \<Rightarrow>
            (StSpawning, ''reset failures, bump pid_generation, create-process'', True, True)
        | EvRequestGraceful \<Rightarrow> (StQuarantined, ''no-op (already not running)'', False, True)
        | _ \<Rightarrow> (state, '''', False, False)))"

text \<open>The four results of a transition by name.\<close>

abbreviation new_state :: "SMState \<Rightarrow> SMEvent \<Rightarrow> SMContext \<Rightarrow> SMState" where
  "new_state st ev ctx \<equiv> fst (Transition st ev ctx)"
abbreviation side :: "SMState \<Rightarrow> SMEvent \<Rightarrow> SMContext \<Rightarrow> string" where
  "side st ev ctx \<equiv> fst (snd (Transition st ev ctx))"
abbreviation persist_before :: "SMState \<Rightarrow> SMEvent \<Rightarrow> SMContext \<Rightarrow> bool" where
  "persist_before st ev ctx \<equiv> fst (snd (snd (Transition st ev ctx)))"
abbreviation matched :: "SMState \<Rightarrow> SMEvent \<Rightarrow> SMContext \<Rightarrow> bool" where
  "matched st ev ctx \<equiv> snd (snd (snd (Transition st ev ctx)))"

text \<open>The row asks for a new process, or for the termination of the current one.\<close>

definition creates :: "SMState \<Rightarrow> SMEvent \<Rightarrow> SMContext \<Rightarrow> bool" where
  "creates st ev ctx = str_contains (side st ev ctx) ''create-process''"

definition terminates :: "SMState \<Rightarrow> SMEvent \<Rightarrow> SMContext \<Rightarrow> bool" where
  "terminates st ev ctx = str_contains (side st ev ctx) ''issue terminate''"

section \<open>Exact characterisation of the rows that act\<close>

lemmas Transition_cases = Transition_def
lemmas SM_splits = SMState.splits SMEvent.splits if_splits

lemma unmatched_keeps_state:
  "\<not> matched st ev ctx \<Longrightarrow> Transition st ev ctx = (st, '''', False, False)"
  by (cases st; cases ev) (auto simp: Transition_def split: if_splits)

lemma creates_iff:
  "creates st ev ctx \<longleftrightarrow>
     (st = StIdle \<and> ev \<in> {EvStart, EvIntentUpdate, EvManualRestart}
        \<and> IntentDesired ctx = ''running'' \<and> \<not> IntentIsActiveStop ctx)
   \<or> (st = StExiting \<and> ev = EvChildExit \<and> \<not> GracefulInProgress ctx \<and> QueuedAction ctx = ''respawn'')
   \<or> (st = StBackoffWaiting \<and> ev = EvTimerDue \<and> QueuedAction ctx \<noteq> ''stop''
        \<and> IntentDesired ctx \<noteq> ''stopped'' \<and> Failures ctx < 10)
   \<or> (st \<in> {StBackoffWaiting, StQuarantined} \<and> ev = EvIntentUpdate \<and> IntentDesired ctx = ''running'')
   \<or> (st \<in> {StBackoffWaiting, StQuarantined} \<and> ev = EvManualRestart)"
  by (cases st; cases ev) (auto simp: creates_def Transition_def)

text \<open>The rows that terminate are the ones that leave a live child for \<open>StExiting\<close>.\<close>

lemma terminates_iff:
  "terminates st ev ctx \<longleftrightarrow>
     (st = StSpawning \<and> ev = EvHealthOK \<and> QueuedAction ctx = ''stop'')
   \<or> (st = StSpawning \<and> ev = EvRequestGraceful)
   \<or> (st = StRunning \<and> ev = EvIntentUpdate \<and> IntentDesired ctx = ''stopped'')
   \<or> (st = StRunning \<and> ev \<in> {EvManualRestart, EvRequestGraceful})"
  by (cases st; cases ev) (auto simp: terminates_def Transition_def)

text \<open>
  C1. The backoff timer (\<open>EvTimerDue\<close>) creates a process only from \<open>StBackoffWaiting\<close>, and then
  only with no stop queued, an intent that is not stopped and fewer than ten failures; a stopped
  intent lets the table create a process only for a manual restart of a task in backoff or
  quarantine, or to replace a child whose restart was queued before.
\<close>

theorem create_process_gates:
  "(creates st EvTimerDue ctx \<longleftrightarrow>
      st = StBackoffWaiting \<and> QueuedAction ctx \<noteq> ''stop'' \<and> IntentDesired ctx \<noteq> ''stopped''
      \<and> Failures ctx < 10)
   \<and> (IntentDesired ctx = ''stopped'' \<longrightarrow>
       (creates st ev ctx \<longleftrightarrow>
          st \<in> {StBackoffWaiting, StQuarantined} \<and> ev = EvManualRestart
          \<or> st = StExiting \<and> ev = EvChildExit \<and> \<not> GracefulInProgress ctx
             \<and> QueuedAction ctx = ''respawn''))"
  by (auto simp: creates_iff)

theorem create_process_gates_witness:
  "creates StQuarantined EvManualRestart
     \<lparr>IntentDesired = ''stopped'', IntentIsActiveStop = True, Failures = 12,
      QueuedAction = '''', GracefulInProgress = False\<rparr>"
  using create_process_gates [of StQuarantined
      "\<lparr>IntentDesired = ''stopped'', IntentIsActiveStop = True, Failures = 12,
      QueuedAction = '''', GracefulInProgress = False\<rparr>" EvManualRestart]
  by simp



section \<open>Refinement of a one-child protocol\<close>

text \<open>
  The specification knows only whether a task has no child, a live one, or one that has been told
  to exit. A child may be created where there is none, or at the moment the previous one is
  observed to have exited.
\<close>

datatype child = NoChild | Live | Dying

datatype child_action = Create | Kill | Gone | GoneCreate | Tau

inductive child_step :: "child \<Rightarrow> child_action \<Rightarrow> child \<Rightarrow> bool" where
  create: "child_step NoChild Create Live"
| kill: "child_step Live Kill Dying"
| live_gone: "child_step Live Gone NoChild"
| dying_gone: "child_step Dying Gone NoChild"
| replace: "child_step Dying GoneCreate Live"
| tau: "child_step c Tau c"

inductive_simps child_step_simps [simp]:
  "child_step c Create d" "child_step c Kill d" "child_step c Gone d"
  "child_step c GoneCreate d" "child_step c Tau d"

fun child_of :: "SMState \<Rightarrow> child" where
  "child_of StIdle = NoChild"
| "child_of StSpawning = Live"
| "child_of StRunning = Live"
| "child_of StExiting = Dying"
| "child_of StBackoffWaiting = NoChild"
| "child_of StQuarantined = NoChild"

definition action_of :: "SMState \<Rightarrow> SMEvent \<Rightarrow> SMContext \<Rightarrow> child_action" where
  "action_of st ev ctx =
     (if creates st ev ctx then (if ev = EvChildExit then GoneCreate else Create)
      else if terminates st ev ctx then Kill
      else if matched st ev ctx \<and> ev = EvChildExit then Gone
      else Tau)"

lemma Transition_child_step:
  "child_step (child_of st) (action_of st ev ctx) (child_of (new_state st ev ctx))"
  by (cases st; cases ev)
     (auto simp: action_of_def creates_iff terminates_iff Transition_def split: if_splits)

text \<open>A run of the table over a sequence of events with the contexts they are handled in.\<close>

fun sm_run :: "SMState \<Rightarrow> (SMEvent \<times> SMContext) list \<Rightarrow> SMState" where
  "sm_run st [] = st"
| "sm_run st ((ev, ctx) # es) = sm_run (new_state st ev ctx) es"

fun created :: "SMState \<Rightarrow> (SMEvent \<times> SMContext) list \<Rightarrow> nat" where
  "created st [] = 0"
| "created st ((ev, ctx) # es) =
     (if creates st ev ctx then 1 else 0) + created (new_state st ev ctx) es"

fun exited :: "SMState \<Rightarrow> (SMEvent \<times> SMContext) list \<Rightarrow> nat" where
  "exited st [] = 0"
| "exited st ((ev, ctx) # es) =
     (if ev = EvChildExit \<and> matched st ev ctx then 1 else 0) + exited (new_state st ev ctx) es"

definition held :: "SMState \<Rightarrow> nat" where
  "held st = (if child_of st = NoChild then 0 else 1)"

lemma held_step:
  "held st + (if creates st ev ctx then 1 else 0)
     = held (new_state st ev ctx) + (if ev = EvChildExit \<and> matched st ev ctx then 1 else 0)"
  by (cases st; cases ev)
     (auto simp: held_def creates_iff Transition_def split: if_splits)

text \<open>
  C3. Every transition of the table, matched or dropped, is a step of the one-child protocol; so
  however events and contexts interleave, a task started idle has created exactly as many processes
  as it has seen exit, plus one while it holds a child: never two children at once.
\<close>

theorem one_child_at_a_time:
  "child_step (child_of st) (action_of st ev ctx) (child_of (new_state st ev ctx))
   \<and> created StIdle es = exited StIdle es + held (sm_run StIdle es)
   \<and> held (sm_run StIdle es) \<le> 1"
proof -
  have "created st es + held st = exited st es + held (sm_run st es)" for st
  proof (induction es arbitrary: st)
    case Nil
    then show ?case by simp
  next
    case (Cons e es)
    obtain ev ctx where e: "e = (ev, ctx)" by (cases e)
    from Cons.IH [of "new_state st ev ctx"] held_step [of st ev ctx]
    show ?case by (simp add: e split: if_splits)
  qed
  from this [of StIdle] Transition_child_step show ?thesis by (simp add: held_def)
qed

end
