(* ===== verification/Event_Loop.thy ===== *)
theory Event_Loop
  imports Restart_SM
begin

text \<open>
  The supervisor's event loop of \<open>internal/api/supervisor_event_loop.go\<close>: a bounded main channel for
  external producers, a bounded priority channel for the posts of handlers, the posting operations,
  the dispatch to the registered handlers with its panic observer, and \<open>Run\<close> as a step relation
  that interleaves with external producers and with cancellation. The lemmas show the bounds, the
  order of delivery, and that handler posts are delivered before any external event.
\<close>

section \<open>Events and channels\<close>

text \<open>
  An event's \<open>Body\<close> is a Go map to dynamically typed values; the loop never looks inside, so the
  type of the values is a parameter.
\<close>

record 'b LoopEvent =
  Kind :: SMEvent
  TaskName :: string
  Body :: "string \<rightharpoonup> 'b"

record 'b EventLoop =
  capacity :: nat
  ch :: "'b LoopEvent list"
  selfCh :: "'b LoopEvent list"

definition NewEventLoop :: "int \<Rightarrow> 'b EventLoop" where
  "NewEventLoop cap =
     (let cap = (if cap < 16 then 16 else cap)
      in \<lparr>capacity = nat cap, ch = [], selfCh = []\<rparr>)"

text \<open>\<open>None\<close> where the send blocks: the buffer is full.\<close>

definition Post :: "'b EventLoop \<Rightarrow> 'b LoopEvent \<Rightarrow> 'b EventLoop option" where
  "Post l e = (if length (ch l) < capacity l then Some (l\<lparr>ch := ch l @ [e]\<rparr>) else None)"

definition TryPost :: "'b EventLoop \<Rightarrow> 'b LoopEvent \<Rightarrow> bool \<times> 'b EventLoop" where
  "TryPost l e =
     (if length (ch l) < capacity l then (True, l\<lparr>ch := ch l @ [e]\<rparr>) else (False, l))"

text \<open>
  \<open>PostCtx\<close> selects between the send and the cancellation of its context, given as the error the
  context reports once done; both may be ready, so its outcomes are a list, and no outcome means
  that the call is still blocked. A nil context is the plain blocking send.
\<close>

definition PostCtx :: "'b EventLoop \<Rightarrow> string option option \<Rightarrow> 'b LoopEvent \<Rightarrow> (string option \<times> 'b EventLoop) list"
  where
  "PostCtx l ctx e =
     (case ctx of
        None \<Rightarrow> (case Post l e of Some l' \<Rightarrow> [(None, l')] | None \<Rightarrow> [])
      | Some done \<Rightarrow>
          (case Post l e of Some l' \<Rightarrow> [(None, l')] | None \<Rightarrow> [])
          @ (case done of Some err \<Rightarrow> [(Some err, l)] | None \<Rightarrow> []))"

definition PostSelf :: "'b EventLoop \<Rightarrow> 'b LoopEvent \<Rightarrow> bool \<times> 'b EventLoop" where
  "PostSelf l e =
     (if length (selfCh l) < capacity l then (True, l\<lparr>selfCh := selfCh l @ [e]\<rparr>) else (False, l))"

section \<open>Handlers and dispatch\<close>

text \<open>
  A handler runs on the loop goroutine over the controller's state and may post to the loop. It
  panics with a value (\<open>Inl\<close>) or returns the new loop and state.
\<close>

type_synonym ('b, 's) handler = "'b LoopEvent \<Rightarrow> 'b EventLoop \<times> 's \<Rightarrow> string + 'b EventLoop \<times> 's"

text \<open>The copy-on-write registration: the stored slice pointer is nil until the first one.\<close>

definition RegisterHandler :: "('b, 's) handler list option \<Rightarrow> ('b, 's) handler \<Rightarrow> ('b, 's) handler list option" where
  "RegisterHandler old h = Some ((case old of Some hs \<Rightarrow> hs | None \<Rightarrow> []) @ [h])"

fun run_handlers :: "('b, 's) handler list \<Rightarrow> ('b, 's) handler" where
  "run_handlers [] e c = Inr c"
| "run_handlers (h # hs) e c =
     (case h e c of Inl r \<Rightarrow> Inl r | Inr c' \<Rightarrow> run_handlers hs e c')"

text \<open>
  The result of a dispatch: what the panic observer was called with, if it is installed and a
  handler panicked, and the panic that goes on or the new state.
\<close>

definition dispatch ::
  "bool \<Rightarrow> ('b, 's) handler list option \<Rightarrow> 'b LoopEvent \<Rightarrow> 'b EventLoop \<times> 's
     \<Rightarrow> (string \<times> 'b LoopEvent) option \<times> (string + 'b EventLoop \<times> 's)" where
  "dispatch onPanic handlers e c =
     (case (case handlers of None \<Rightarrow> Inr c | Some hs \<Rightarrow> run_handlers hs e c) of
        Inl r \<Rightarrow> ((if onPanic then Some (r, e) else None), Inl r)
      | Inr c' \<Rightarrow> (None, Inr c'))"

section \<open>Run\<close>

text \<open>
  The control points of \<open>Run\<close>: the priority drain, the outer select, returned after
  cancellation, and the process dead of a re-raised panic. The record carries, beside the state,
  what happened: the events accepted on the main channel, those accepted on the priority channel,
  the dispatches in order with the channel each event came from, and the observer calls.
\<close>

datatype run_pc = Draining | Selecting | Returned | Crashed string

datatype origin = FromSelf | FromMain

record ('b, 's) run =
  pc :: run_pc
  loop :: "'b EventLoop"
  st :: 's
  canceled :: bool
  posted :: "'b LoopEvent list"
  self_posted :: "'b LoopEvent list"
  trace :: "(origin \<times> 'b LoopEvent) list"
  observed :: "(string \<times> 'b LoopEvent) list"

definition init_run :: "int \<Rightarrow> 's \<Rightarrow> ('b, 's) run" where
  "init_run cap s =
     \<lparr>pc = Draining, loop = NewEventLoop cap, st = s, canceled = False, posted = [],
      self_posted = [], trace = [], observed = []\<rparr>"

text \<open>One dispatch at a control point of \<open>Run\<close>, with the event already taken off its channel.\<close>

definition dispatch_run ::
  "bool \<Rightarrow> ('b, 's) handler list option \<Rightarrow> origin \<Rightarrow> 'b LoopEvent \<Rightarrow> 'b EventLoop
     \<Rightarrow> ('b, 's) run \<Rightarrow> ('b, 's) run" where
  "dispatch_run onPanic handlers og e l r =
     (case dispatch onPanic handlers e (l, st r) of
        (obs, Inl p) \<Rightarrow>
          r\<lparr>pc := Crashed p, loop := l, trace := trace r @ [(og, e)],
            observed := observed r @ (case obs of Some x \<Rightarrow> [x] | None \<Rightarrow> [])\<rparr>
      | (obs, Inr (l', s')) \<Rightarrow>
          r\<lparr>pc := Draining, loop := l', st := s', trace := trace r @ [(og, e)],
            self_posted := self_posted r @ drop (length (selfCh l)) (selfCh l')\<rparr>)"

inductive run_step :: "bool \<Rightarrow> ('b, 's) handler list option \<Rightarrow> ('b, 's) run \<Rightarrow> ('b, 's) run \<Rightarrow> bool"
  for onPanic :: bool and handlers :: "('b, 's) handler list option" where
  drain_self: "pc r = Draining \<Longrightarrow> selfCh (loop r) = e # es \<Longrightarrow>
     run_step onPanic handlers r
       (dispatch_run onPanic handlers FromSelf e ((loop r)\<lparr>selfCh := es\<rparr>) r)"
| drain_done: "pc r = Draining \<Longrightarrow> selfCh (loop r) = [] \<Longrightarrow>
     run_step onPanic handlers r (r\<lparr>pc := Selecting\<rparr>)"
| select_done: "pc r = Selecting \<Longrightarrow> canceled r \<Longrightarrow>
     run_step onPanic handlers r (r\<lparr>pc := Returned\<rparr>)"
| select_self: "pc r = Selecting \<Longrightarrow> selfCh (loop r) = e # es \<Longrightarrow>
     run_step onPanic handlers r
       (dispatch_run onPanic handlers FromSelf e ((loop r)\<lparr>selfCh := es\<rparr>) r)"
| select_main: "pc r = Selecting \<Longrightarrow> ch (loop r) = e # es \<Longrightarrow>
     run_step onPanic handlers r
       (dispatch_run onPanic handlers FromMain e ((loop r)\<lparr>ch := es\<rparr>) r)"
| env_post: "Post (loop r) e = Some l \<Longrightarrow>
     run_step onPanic handlers r (r\<lparr>loop := l, posted := posted r @ [e]\<rparr>)"
| env_cancel: "run_step onPanic handlers r (r\<lparr>canceled := True\<rparr>)"

text \<open>The invariant of \<open>Run\<close> over a handler that posts only to the priority channel.\<close>

definition run_inv :: "('b, 's) run \<Rightarrow> bool" where
  "run_inv r \<longleftrightarrow>
     16 \<le> capacity (loop r)
   \<and> length (ch (loop r)) \<le> capacity (loop r)
   \<and> length (selfCh (loop r)) \<le> capacity (loop r)
   \<and> (pc r = Selecting \<longrightarrow> selfCh (loop r) = [])
   \<and> posted r = map snd (filter (\<lambda>x. fst x = FromMain) (trace r)) @ ch (loop r)
   \<and> self_posted r = map snd (filter (\<lambda>x. fst x = FromSelf) (trace r)) @ selfCh (loop r)"

lemma run_inv_init: "run_inv (init_run cap s)"
  by (auto simp: run_inv_def init_run_def NewEventLoop_def le_nat_iff)

section \<open>The contract of a handler\<close>

text \<open>
  What \<open>Run\<close> relies on: a handler posts only through \<open>PostSelf\<close>. It leaves the main channel and
  the capacity alone and only appends to the priority channel, within its capacity.
\<close>

locale loop_handler =
  fixes h :: "('b, 's) handler"
  assumes h_ch: "h e (l, s) = Inr (l', s') \<Longrightarrow> ch l' = ch l"
    and h_capacity: "h e (l, s) = Inr (l', s') \<Longrightarrow> capacity l' = capacity l"
    and h_self: "h e (l, s) = Inr (l', s') \<Longrightarrow> \<exists>ps. selfCh l' = selfCh l @ ps"
    and h_bound: "h e (l, s) = Inr (l', s') \<Longrightarrow> length (selfCh l) \<le> capacity l
                    \<Longrightarrow> length (selfCh l') \<le> capacity l"
begin

lemma dispatch_frame:
  assumes "dispatch onPanic (Some [h]) e (l, s) = (obs, Inr (l', s'))"
  shows "ch l' = ch l" "capacity l' = capacity l" "\<exists>ps. selfCh l' = selfCh l @ ps"
    "length (selfCh l) \<le> capacity l \<Longrightarrow> length (selfCh l') \<le> capacity l"
proof -
  from assms have "h e (l, s) = Inr (l', s')"
    by (auto simp: dispatch_def split: sum.splits)
  then show "ch l' = ch l" "capacity l' = capacity l" "\<exists>ps. selfCh l' = selfCh l @ ps"
    "length (selfCh l) \<le> capacity l \<Longrightarrow> length (selfCh l') \<le> capacity l"
    using h_ch h_capacity h_self h_bound by blast+
qed

lemma run_inv_dispatch_self:
  assumes inv: "run_inv r" and e: "selfCh (loop r) = e # es"
  shows "run_inv (dispatch_run onPanic (Some [h]) FromSelf e ((loop r)\<lparr>selfCh := es\<rparr>) r)"
proof (cases "dispatch onPanic (Some [h]) e ((loop r)\<lparr>selfCh := es\<rparr>, st r)")
  case (Pair obs res)
  show ?thesis
  proof (cases res)
    case (Inl p)
    with Pair inv e show ?thesis by (simp add: dispatch_run_def run_inv_def)
  next
    case (Inr c)
    obtain l' s' where c: "c = (l', s')" by (cases c)
    from dispatch_frame [OF Pair [unfolded Inr c]] inv e Pair Inr c show ?thesis
      by (auto simp: dispatch_run_def run_inv_def)
  qed
qed

lemma run_inv_dispatch_main:
  assumes inv: "run_inv r" and e: "ch (loop r) = e # es"
  shows "run_inv (dispatch_run onPanic (Some [h]) FromMain e ((loop r)\<lparr>ch := es\<rparr>) r)"
proof (cases "dispatch onPanic (Some [h]) e ((loop r)\<lparr>ch := es\<rparr>, st r)")
  case (Pair obs res)
  show ?thesis
  proof (cases res)
    case (Inl p)
    with Pair inv e show ?thesis by (simp add: dispatch_run_def run_inv_def)
  next
    case (Inr c)
    obtain l' s' where c: "c = (l', s')" by (cases c)
    from dispatch_frame [OF Pair [unfolded Inr c]] inv e Pair Inr c show ?thesis
      by (auto simp: dispatch_run_def run_inv_def)
  qed
qed

lemma run_inv_step: "run_inv r \<Longrightarrow> run_step onPanic (Some [h]) r r' \<Longrightarrow> run_inv r'"
  by (erule run_step.cases)
     (auto intro: run_inv_dispatch_self run_inv_dispatch_main,
      auto simp: run_inv_def Post_def split: if_splits)

end

text \<open>The loop of a process: one registered handler, an observer or not, and a capacity.\<close>

locale supervised_loop = loop_handler h for h :: "('b, 's) handler" +
  fixes onPanic :: bool and cap :: int

sublocale supervised_loop \<subseteq> run: invariant_system
  "\<lambda>r. \<exists>s. r = init_run cap s" "run_step onPanic (Some [h])" run_inv
  by unfold_locales (auto intro: run_inv_init run_inv_step)

context supervised_loop
begin

abbreviation reached :: "('b, 's) run \<Rightarrow> bool" where
  "reached \<equiv> reachable (\<lambda>r. \<exists>s. r = init_run cap s) (run_step onPanic (Some [h]))"

text \<open>When an external event is taken, every accepted handler post has been dispatched.\<close>

lemma self_before_main:
  assumes "reached r" and "pc r = Selecting"
  shows "self_posted r = map snd (filter (\<lambda>x. fst x = FromSelf) (trace r))"
  using run.inv_reachable [OF assms(1)] assms(2) by (simp add: run_inv_def)

lemma external_fifo:
  assumes "reached r"
  shows "posted r = map snd (filter (\<lambda>x. fst x = FromMain) (trace r)) @ ch (loop r)"
  using run.inv_reachable [OF assms] by (simp add: run_inv_def)

lemma channels_bounded:
  assumes "reached r"
  shows "length (ch (loop r)) \<le> capacity (loop r) \<and> length (selfCh (loop r)) \<le> capacity (loop r)"
  using run.inv_reachable [OF assms] by (simp add: run_inv_def)

end

end
