(* ===== verification/Windows_Argv.thy ===== *)
theory Windows_Argv
  imports Hub_Prelude
begin

text \<open>
  The command-line parser of \<open>internal/process/windows_command_line.go\<close>, by which the hub reads the
  arguments of a process it did not start, and the quoting that the Go runtime applies when the hub
  starts one (\<open>syscall.EscapeArg\<close>). The lemmas show that the parser recovers exactly the arguments a
  child was started with.
\<close>

section \<open>The parser\<close>

abbreviation (input) dquote :: char where "dquote \<equiv> CHR 0x22"

definition argv_space :: "char \<Rightarrow> bool" where
  "argv_space c = (c = CHR '' '' \<or> c = CHR 0x09)"

definition appendWindowsBackslashes :: "string \<Rightarrow> nat \<Rightarrow> string" where
  "appendWindowsBackslashes out count = out @ replicate count backslash"

text \<open>\<open>inQuote\<close> and \<open>slashCount\<close> are the local variables of the loop, \<open>out\<close> the bytes collected.\<close>

fun readNextWindowsArg :: "string \<Rightarrow> bool \<Rightarrow> nat \<Rightarrow> string \<Rightarrow> string \<times> string" where
  "readNextWindowsArg out inQuote slashCount [] = (appendWindowsBackslashes out slashCount, [])"
| "readNextWindowsArg out inQuote slashCount (c # cs) =
     (if argv_space c \<and> \<not> inQuote then (appendWindowsBackslashes out slashCount, cs)
      else if c = dquote
      then let out = appendWindowsBackslashes out (slashCount div 2)
           in if slashCount mod 2 = 0
              then (case cs of
                      c' # cs' \<Rightarrow>
                        if inQuote \<and> c' = dquote then readNextWindowsArg (out @ [c]) (\<not> inQuote) 0 cs'
                        else readNextWindowsArg out (\<not> inQuote) 0 cs
                    | [] \<Rightarrow> readNextWindowsArg out (\<not> inQuote) 0 cs)
              else readNextWindowsArg (out @ [c]) inQuote 0 cs
      else if c = backslash then readNextWindowsArg out inQuote (slashCount + 1) cs
      else readNextWindowsArg (appendWindowsBackslashes out slashCount @ [c]) inQuote 0 cs)"

lemmas read_simps = readNextWindowsArg.simps
declare read_simps (2) [simp del]

text \<open>One round of the loop stops, or goes on with the text after one or two bytes.\<close>

lemma read_round:
  assumes "\<And>o' q' n'. length (snd (readNextWindowsArg o' q' n' cs)) \<le> k"
    and "\<And>o' q' n'. length (snd (readNextWindowsArg o' q' n' (tl cs))) \<le> k" and "length cs \<le> k"
  shows "length (snd (readNextWindowsArg out q n (c # cs))) \<le> k"
proof (cases cs)
  case Nil
  with assms show ?thesis by (simp add: Let_def read_simps (2) [of _ _ _ _ "[]"])
next
  case (Cons d ds)
  with assms show ?thesis by (simp add: Let_def read_simps (2) [of _ _ _ _ "d # ds"])
qed

lemma readNext_shorter: "length (snd (readNextWindowsArg out q n cs)) \<le> length cs"
proof (induction cs arbitrary: out q n rule: length_induct)
  case (1 cs)
  show ?case
  proof (cases cs)
    case (Cons c cs')
    have IH: "length (snd (readNextWindowsArg o' q' n' ds)) \<le> length cs" if "length ds \<le> length cs'" for o' q' n' ds
    proof -
      from that Cons have "length ds < length cs" by simp
      with 1 have "length (snd (readNextWindowsArg o' q' n' ds)) \<le> length ds" by blast
      with \<open>length ds < length cs\<close> show ?thesis by simp
    qed
    show ?thesis unfolding Cons by (rule read_round) (use IH Cons in auto)
  qed simp
qed

lemma readNext_progress: "cs \<noteq> [] \<Longrightarrow> length (snd (readNextWindowsArg out q n cs)) < length cs"
proof (cases cs)
  case (Cons c cs')
  have "length (snd (readNextWindowsArg out q n (c # cs'))) \<le> length cs'"
    by (rule read_round) (auto intro: readNext_shorter le_trans [OF readNext_shorter])
  with Cons show ?thesis by simp
qed simp

function TokenizeWindowsCommandLine :: "string \<Rightarrow> string list" where
  "TokenizeWindowsCommandLine [] = []"
| "TokenizeWindowsCommandLine (c # cs) =
     (if argv_space c then TokenizeWindowsCommandLine cs
      else let (arg, rest) = readNextWindowsArg [] False 0 (c # cs)
           in arg # TokenizeWindowsCommandLine rest)"
  by pat_completeness auto
termination
proof (relation "measure length", goal_cases)
  case (3 c cs x arg rest)
  then show ?case using readNext_progress [of "c # cs" "[]" False 0] by (metis in_measure list.distinct(1) snd_conv)
qed auto

section \<open>The quoting of the Go runtime\<close>

definition needs_backslash :: "string \<Rightarrow> bool" where
  "needs_backslash s = list_ex (\<lambda>c. c = dquote \<or> c = backslash) s"

definition has_space :: "string \<Rightarrow> bool" where
  "has_space s = list_ex argv_space s"

fun escape_loop :: "nat \<Rightarrow> string \<Rightarrow> string \<times> nat" where
  "escape_loop slashes [] = ([], slashes)"
| "escape_loop slashes (c # cs) =
     (if c = backslash then let (b, n) = escape_loop (slashes + 1) cs in (c # b, n)
      else if c = dquote
      then let (b, n) = escape_loop 0 cs in (replicate slashes backslash @ [backslash, c] @ b, n)
      else let (b, n) = escape_loop 0 cs in (c # b, n))"

definition EscapeArg :: "string \<Rightarrow> string" where
  "EscapeArg s =
     (if s = [] then [dquote, dquote]
      else if \<not> needs_backslash s \<and> \<not> has_space s then s
      else if \<not> needs_backslash s then dquote # s @ [dquote]
      else let (b, slashes) = escape_loop 0 s
           in if has_space s then dquote # b @ replicate slashes backslash @ [dquote] else b)"

fun makeCmdLine :: "string list \<Rightarrow> string" where
  "makeCmdLine [] = []"
| "makeCmdLine [a] = EscapeArg a"
| "makeCmdLine (a # as) = EscapeArg a @ CHR '' '' # makeCmdLine as"

section \<open>Parsing undoes quoting\<close>

text \<open>The quoted text of an argument, and the closing quote where there is an opening one.\<close>

definition arg_text :: "bool \<Rightarrow> string \<times> nat \<Rightarrow> string" where
  "arg_text q bn = fst bn @ (if q then replicate (snd bn) backslash @ [dquote] else [])"

lemma escape_plain: "\<not> needs_backslash s \<Longrightarrow> escape_loop n s = (s, if s = [] then n else 0)"
  by (induction s arbitrary: n) (auto simp: needs_backslash_def)

lemma EscapeArg_eq:
  "EscapeArg s = (if s = [] \<or> has_space s then [dquote] else []) @ arg_text (s = [] \<or> has_space s) (escape_loop 0 s)"
  by (auto simp: EscapeArg_def arg_text_def escape_plain has_space_def split: prod.splits)

lemma replicate_snoc: "replicate n x @ x # xs = x # replicate n x @ xs"
  by (metis append_Cons replicate_app_Cons_same)

lemma read_slashes:
  "readNextWindowsArg out q n (replicate m backslash @ cs) = readNextWindowsArg out q (n + m) cs"
  by (induction m arbitrary: n) (auto simp: argv_space_def read_simps)

text \<open>The text after an argument: nothing, or a space and more.\<close>

definition ends_arg :: "string \<Rightarrow> bool" where
  "ends_arg tl' = (tl' = [] \<or> hd tl' = CHR '' '')"

lemma read_end:
  "ends_arg tl' \<Longrightarrow> readNextWindowsArg out False n tl' = (out @ replicate n backslash, tl tl')"
  by (cases tl') (auto simp: ends_arg_def argv_space_def appendWindowsBackslashes_def read_simps)

lemma read_closing:
  assumes "ends_arg tl'"
  shows "readNextWindowsArg out True n (replicate n backslash @ dquote # tl') = (out @ replicate n backslash, tl tl')"
  using assms read_end [OF assms, of "out @ replicate n backslash" 0] read_simps (2) [of out True "n + n" dquote tl']
  by (auto simp: read_slashes argv_space_def appendWindowsBackslashes_def Let_def ends_arg_def split: list.splits)

lemma arg_text_cons:
  "arg_text q (escape_loop n (c # s)) =
     (if c = backslash then c # arg_text q (escape_loop (n + 1) s)
      else if c = dquote then replicate n backslash @ [backslash, c] @ arg_text q (escape_loop 0 s)
      else c # arg_text q (escape_loop 0 s))"
  by (simp add: arg_text_def split_beta Let_def)

lemma read_odd_quote:
  "readNextWindowsArg out q (n + Suc n) (dquote # cs) = readNextWindowsArg (out @ replicate n backslash @ [dquote]) q 0 cs"
proof -
  have "(n + Suc n) div 2 = n" "(n + Suc n) mod 2 = 1" by presburger+
  then show ?thesis 
    by (simp add: argv_space_def appendWindowsBackslashes_def Let_def read_simps (2) [of _ _ _ _ cs] del: add_Suc_right)
qed

lemma read_escaped:
  assumes "ends_arg tl'" and "q \<or> \<not> has_space s"
  shows "readNextWindowsArg out q n (arg_text q (escape_loop n s) @ tl') = (out @ replicate n backslash @ s, tl tl')"
  using assms(2)
proof (induction s arbitrary: out n)
  case Nil
  then show ?case
    using assms(1) by (cases q) (simp_all add: arg_text_def read_closing read_end)
next
  case (Cons c s)
  from Cons.prems have nosp: "q \<or> \<not> has_space s" and c: "q \<or> \<not> argv_space c" by (auto simp: has_space_def)
  consider "c = backslash" | "c = dquote" | "c \<noteq> backslash" "c \<noteq> dquote" by blast
  then show ?case
  proof cases
    case 1
    from Cons.IH [OF nosp, of out "n + 1"] 1 show ?thesis
      by (simp add: read_simps arg_text_cons argv_space_def replicate_snoc del: escape_loop.simps)
  next
    case 2
    have "arg_text q (escape_loop n (c # s)) @ tl'
      = replicate (Suc n) backslash @ dquote # arg_text q (escape_loop 0 s) @ tl'"
      using 2 by (simp add: arg_text_cons replicate_snoc del: escape_loop.simps)
    then have "readNextWindowsArg out q n (arg_text q (escape_loop n (c # s)) @ tl')
      = readNextWindowsArg (out @ replicate n backslash @ [dquote]) q 0 (arg_text q (escape_loop 0 s) @ tl')"
      by (simp only: read_slashes read_odd_quote)
    with Cons.IH [OF nosp, of "out @ replicate n backslash @ [dquote]" 0] 2 show ?thesis by simp
  next
    case 3
    with Cons.IH [OF nosp, of "out @ replicate n backslash @ [c]" 0] c show ?thesis
      by (auto simp add: read_simps arg_text_cons appendWindowsBackslashes_def simp del: escape_loop.simps)
  qed
qed

lemma read_EscapeArg:
  assumes "ends_arg tl'"
  shows "readNextWindowsArg [] False 0 (EscapeArg s @ tl') = (s, tl tl')"
proof (cases "s = [] \<or> has_space s")
  case True
  have "readNextWindowsArg [] False 0 (dquote # x) = readNextWindowsArg [] True 0 x" for x
    by (subst read_simps, cases x) (simp_all add: argv_space_def appendWindowsBackslashes_def)
  with True read_escaped [OF assms, of True s "[]" 0] show ?thesis
    by (simp add: EscapeArg_eq)
next
  case False
  with read_escaped [OF assms, of False s "[]" 0] show ?thesis
    by (simp add: EscapeArg_eq)
qed

lemma EscapeArg_starts: "\<exists>c cs. EscapeArg s = c # cs \<and> \<not> argv_space c"
proof (cases "s = [] \<or> has_space s")
  case True
  then show ?thesis by (auto simp: EscapeArg_eq argv_space_def)
next
  case False
  then obtain c cs where s: "s = c # cs" by (cases s) auto
  with False show ?thesis
    by (auto simp: EscapeArg_eq arg_text_def has_space_def argv_space_def split_beta Let_def)
qed

lemma tokenize_arg:
  assumes "ends_arg tl'"
  shows "TokenizeWindowsCommandLine (EscapeArg s @ tl') = s # TokenizeWindowsCommandLine (tl tl')"
proof -
  obtain c cs where e: "EscapeArg s = c # cs" and c: "\<not> argv_space c" using EscapeArg_starts by blast
  have "readNextWindowsArg [] False 0 (c # cs @ tl') = (s, tl tl')" using read_EscapeArg [OF assms, of s] e by simp
  with e c show ?thesis by simp
qed

lemma tokenize_makeCmdLine: "TokenizeWindowsCommandLine (makeCmdLine argv) = argv"
proof (induction argv rule: makeCmdLine.induct)
  case (2 a)
  then show ?case using tokenize_arg [of "[]" a] by (simp add: ends_arg_def)
next
  case (3 a b bs)
  then show ?case using tokenize_arg [of "CHR '' '' # makeCmdLine (b # bs)" a] by (simp add: ends_arg_def)
qed simp

text \<open>
  C38. Parsing undoes quoting: the hub's command-line parser, applied to the command line that the Go
  runtime composes for any list of arguments (empty ones, and ones with spaces, tabs, quotes and
  backslashes anywhere included), returns exactly that list; so different argument lists never share
  a command line.
\<close>

theorem command_line_round_trip:
  "TokenizeWindowsCommandLine (makeCmdLine argv) = argv
   \<and> (makeCmdLine argv = makeCmdLine argv' \<longleftrightarrow> argv = argv')"
  by (metis tokenize_makeCmdLine)

end
