(* ===== verification/Daemon_Port.thy ===== *)
theory Daemon_Port
  imports Supervisor_Intent
begin

text \<open>
  The identity and the port of a daemon descriptor, from \<open>internal/api/supervisor_port_owner.go\<close>, and
  the move of a dynamic-pool descriptor to another port, from
  \<open>internal/api/reallocate_dynamic_pool.go\<close>. A descriptor states its port in three places: the
  \<open>Port\<close> field, the \<open>--port\<close> argument and the runtime spec. The lemmas show that the decimal
  texts round-trip and that a move changes the three places together and nothing else. The manifest
  lookup, which reads files, is a parameter.
\<close>

section \<open>Decimal numbers\<close>

text \<open>\<open>strconv.Itoa\<close> and \<open>strconv.Atoi\<close>.\<close>

definition digit_char :: "nat \<Rightarrow> char" where
  "digit_char n = char_of (48 + n)"

fun itoa_nat :: "nat \<Rightarrow> string" where
  "itoa_nat n = (if n < 10 then [digit_char n] else itoa_nat (n div 10) @ [digit_char (n mod 10)])"

declare itoa_nat.simps [simp del]

definition Itoa :: "int \<Rightarrow> string" where
  "Itoa n = (if n < 0 then CHR ''-'' # itoa_nat (nat (- n)) else itoa_nat (nat n))"

fun digits_val :: "nat \<Rightarrow> string \<Rightarrow> nat option" where
  "digits_val acc [] = Some acc"
| "digits_val acc (c # s) =
     (if 48 \<le> (of_char c :: nat) \<and> (of_char c :: nat) \<le> 57
      then digits_val (10 * acc + (of_char c - 48)) s else None)"

definition Atoi :: "string \<Rightarrow> int option" where
  "Atoi s =
     (let (neg, body) = (case s of [] \<Rightarrow> (False, [])
                         | c # r \<Rightarrow> if c = CHR ''-'' then (True, r) else if c = CHR ''+'' then (False, r)
                                  else (False, s))
      in if body = [] then None
         else case digits_val 0 body of
                None \<Rightarrow> None
              | Some v \<Rightarrow> let n = (if neg then - int v else int v)
                          in if - (2 ^ 63) \<le> n \<and> n < 2 ^ 63 then Some n else None)"

lemma of_char_digit [simp]: "n < 10 \<Longrightarrow> (of_char (digit_char n) :: nat) = 48 + n"
  by (simp add: digit_char_def of_char_of take_bit_eq_mod)

lemma digits_val_append:
  "digits_val acc (s @ t) = (case digits_val acc s of None \<Rightarrow> None | Some v \<Rightarrow> digits_val v t)"
  by (induction s arbitrary: acc) auto

lemma digits_val_itoa: "digits_val 0 (itoa_nat n) = Some n"
proof (induction n rule: itoa_nat.induct)
  case (1 n)
  show ?case
  proof (cases "n < 10")
    case True
    then show ?thesis by (simp add: itoa_nat.simps [of n])
  next
    case False
    then show ?thesis using 1 by (simp add: itoa_nat.simps [of n] digits_val_append)
  qed
qed

lemma itoa_nat_nonempty: "itoa_nat n \<noteq> []"
  by (subst itoa_nat.simps) simp

lemma itoa_nat_digits: "c \<in> set (itoa_nat n) \<Longrightarrow> 48 \<le> (of_char c :: nat) \<and> (of_char c :: nat) \<le> 57"
proof (induction n rule: itoa_nat.induct)
  case (1 n)
  then show ?case by (subst (asm) itoa_nat.simps) (auto split: if_splits)
qed

lemma Atoi_Itoa:
  assumes "- (2 ^ 63) \<le> n" and "n < 2 ^ 63"
  shows "Atoi (Itoa n) = Some n"
proof (cases "n < 0")
  case True
  with assms show ?thesis by (simp add: Atoi_def Itoa_def itoa_nat_nonempty digits_val_itoa)
next
  case False
  obtain c s where cs: "itoa_nat (nat n) = c # s" using itoa_nat_nonempty by (cases "itoa_nat (nat n)") auto
  with itoa_nat_digits [of c "nat n"] have "c \<noteq> CHR ''-''" "c \<noteq> CHR ''+''" by auto
  with cs False assms digits_val_itoa [of "nat n"] show ?thesis
    by (simp add: Atoi_def Itoa_def)
qed

section \<open>Identity and port of a descriptor\<close>

definition IsSerenaProxyDescriptor :: "SupervisorDaemon \<Rightarrow> bool" where
  "IsSerenaProxyDescriptor d =
     (length (Args d) \<ge> 2 \<and> Args d ! 0 = ''daemon'' \<and> Args d ! 1 = ''serena-proxy'')"

definition IsWorkspaceLSPProxyDescriptor :: "SupervisorDaemon \<Rightarrow> bool" where
  "IsWorkspaceLSPProxyDescriptor d =
     (length (Args d) \<ge> 2 \<and> Args d ! 0 = ''daemon'' \<and> Args d ! 1 = ''workspace-proxy'')"

definition isDynamicPoolProxyDescriptor :: "SupervisorDaemon \<Rightarrow> bool" where
  "isDynamicPoolProxyDescriptor d = (IsSerenaProxyDescriptor d \<or> IsWorkspaceLSPProxyDescriptor d)"

text \<open>The value after the first occurrence of a flag that has one.\<close>

fun arg_value :: "string \<Rightarrow> string list \<Rightarrow> string" where
  "arg_value flag (a # b # rest) = (if a = flag then b else arg_value flag (b # rest))"
| "arg_value flag _ = []"

definition DescriptorServerName :: "SupervisorDaemon \<Rightarrow> string" where
  "DescriptorServerName d =
     (let fieldServer = Server d;
          argServer = (if Args d \<noteq> [] \<and> hd (Args d) = ''daemon'' then arg_value ''--server'' (Args d) else [])
      in if fieldServer \<noteq> [] \<and> argServer \<noteq> [] \<and> fieldServer \<noteq> argServer then []
         else if fieldServer \<noteq> [] then fieldServer else argServer)"

definition DescriptorServerDaemon :: "SupervisorDaemon \<Rightarrow> (string \<times> string) option" where
  "DescriptorServerDaemon d =
     (let isDaemon = (Args d \<noteq> [] \<and> hd (Args d) = ''daemon'');
          argServer = (if isDaemon then arg_value ''--server'' (Args d) else []);
          argDaemon = (if isDaemon then arg_value ''--daemon'' (Args d) else []);
          server = (if Server d = [] then argServer else Server d);
          dm = (if Daemon d = [] then argDaemon else Daemon d)
      in if Server d \<noteq> [] \<and> argServer \<noteq> [] \<and> Server d \<noteq> argServer then None
         else if Daemon d \<noteq> [] \<and> argDaemon \<noteq> [] \<and> Daemon d \<noteq> argDaemon then None
         else if server = [] \<or> dm = [] then None else Some (server, dm))"

text \<open>
  The scan of \<open>descriptorArgPort\<close> outside its strict mode, on the arguments from index 2: a
  \<open>--port\<close> without a value or with an unusable value is passed over.
\<close>

fun scan_port :: "string list \<Rightarrow> int" where
  "scan_port (a # b # rest) =
     (if a = ''--port''
      then case Atoi b of Some p \<Rightarrow> if p > 0 then p else scan_port (b # rest) | None \<Rightarrow> scan_port (b # rest)
      else scan_port (b # rest))"
| "scan_port _ = 0"

definition descriptorArgPort :: "SupervisorDaemon \<Rightarrow> int" where
  "descriptorArgPort d =
     (if \<not> IsSerenaProxyDescriptor d \<and> \<not> IsWorkspaceLSPProxyDescriptor d then 0
      else scan_port (drop 2 (Args d)))"

type_synonym manifest_resolve = "string \<Rightarrow> string \<Rightarrow> (int \<times> int) option"

definition EffectiveDaemonPort :: "manifest_resolve \<Rightarrow> SupervisorDaemon \<Rightarrow> int option" where
  "EffectiveDaemonPort resolve d =
     (if Port d > 0 then Some (Port d)
      else if descriptorArgPort d > 0 then Some (descriptorArgPort d)
      else case DescriptorServerDaemon d of
             None \<Rightarrow> None
           | Some (server, dm) \<Rightarrow>
               (case resolve server dm of
                  None \<Rightarrow> None
                | Some (port, deadline) \<Rightarrow> if port > 0 then Some port else None))"

lemma EffectiveDaemonPort_positive: "EffectiveDaemonPort resolve d = Some p \<Longrightarrow> 0 < p"
  by (auto simp: EffectiveDaemonPort_def split: if_splits option.splits)

section \<open>Moving a descriptor to another port\<close>

definition NativeHTTPInternalPortOffset :: int where "NativeHTTPInternalPortOffset = 10000"

text \<open>On the arguments from index 2; \<open>None\<close> where no \<open>--port\<close> with a value is found.\<close>

fun rewrite_port :: "int \<Rightarrow> string list \<Rightarrow> string list option" where
  "rewrite_port p (a # b # rest) =
     (if a = ''--port'' then Some (a # Itoa p # rest)
      else map_option ((#) a) (rewrite_port p (b # rest)))"
| "rewrite_port p _ = None"

definition rewriteDescriptorPortArg :: "string list \<Rightarrow> int \<Rightarrow> string list option" where
  "rewriteDescriptorPortArg args newPort = map_option ((@) (take 2 args)) (rewrite_port newPort (drop 2 args))"

definition applyReallocatedPortToDescriptor :: "SupervisorDaemon \<Rightarrow> int \<Rightarrow> SupervisorDaemon option" where
  "applyReallocatedPortToDescriptor d newPort =
     (if newPort \<le> 0 then None
      else case rewriteDescriptorPortArg (Args d) newPort of
             None \<Rightarrow> None
           | Some args \<Rightarrow>
               Some (d\<lparr>Args := args, Port := newPort,
                 RuntimeSpec := map_option (\<lambda>rs. rs\<lparr>ExternalPort := newPort,
                   UpstreamPort := newPort + NativeHTTPInternalPortOffset\<rparr>) (RuntimeSpec d)\<rparr>))"

fun replace_first :: "('a \<Rightarrow> bool) \<Rightarrow> ('a \<Rightarrow> 'a option) \<Rightarrow> 'a list \<Rightarrow> 'a list option" where
  "replace_first P f [] = None"
| "replace_first P f (x # xs) =
     (if P x then map_option (\<lambda>y. y # xs) (f x) else map_option ((#) x) (replace_first P f xs))"

definition CloneIntentWithReallocatedPort ::
  "SupervisorIntentFile option \<Rightarrow> string \<Rightarrow> int \<Rightarrow> SupervisorIntentFile option" where
  "CloneIntentWithReallocatedPort src taskName newPort =
     (case src of
        None \<Rightarrow> None
      | Some f \<Rightarrow>
          if newPort \<le> 0 then None
          else map_option (\<lambda>ds. f\<lparr>Daemons := ds\<rparr>)
                 (replace_first (\<lambda>d. canonicalIntentTaskKey (d_TaskName d) = canonicalIntentTaskKey taskName)
                    (\<lambda>d. applyReallocatedPortToDescriptor d newPort) (Daemons f)))"

lemma rewrite_port_scan:
  "rewrite_port p as = Some as' \<Longrightarrow> 0 < p \<Longrightarrow> p < 2 ^ 63 \<Longrightarrow> scan_port as' = p \<and> length as' = length as"
proof (induction p as arbitrary: as' rule: rewrite_port.induct)
  case (1 p a b rest)
  show ?case
  proof (cases "a = ''--port''")
    case True
    have "Atoi (Itoa p) = Some p" using 1(3,4) by (intro Atoi_Itoa) auto
    with 1 True show ?thesis by auto
  next
    case False
    with 1(2) obtain r where r: "rewrite_port p (b # rest) = Some r" and as': "as' = a # r" by auto
    from 1(1) [OF False r 1(3,4)] have ih: "scan_port r = p" "length r = length (b # rest)" by auto
    from ih(2) obtain x y where "r = x # y" by (cases r) auto
    with ih as' False show ?thesis by simp
  qed
qed auto

lemma rewrite_port_args:
  "rewrite_port p (drop 2 args) = Some r \<Longrightarrow> 2 \<le> length args"
  by (cases "drop 2 args = []") auto

text \<open>A moved descriptor resolves to its new port, by its field and by its launch arguments alike.\<close>

lemma applyReallocatedPort_moves:
  assumes app: "applyReallocatedPortToDescriptor d p = Some d'" and p: "p < 2 ^ 63"
  shows "EffectiveDaemonPort resolve d' = Some p"
    and "isDynamicPoolProxyDescriptor d' = isDynamicPoolProxyDescriptor d"
    and "isDynamicPoolProxyDescriptor d \<Longrightarrow> descriptorArgPort d' = p"
    and "RuntimeSpec d' = Some rs \<Longrightarrow> ExternalPort rs = p \<and> UpstreamPort rs = p + 10000"
    and "d' = d\<lparr>Args := Args d', Port := p, RuntimeSpec := RuntimeSpec d'\<rparr>"
    and "d_TaskName d' = d_TaskName d"
proof -
  from app have pos: "0 < p" by (auto simp: applyReallocatedPortToDescriptor_def split: if_splits)
  from app obtain args where args: "rewriteDescriptorPortArg (Args d) p = Some args"
    and d': "d' = d\<lparr>Args := args, Port := p, RuntimeSpec := map_option (\<lambda>rs. rs\<lparr>ExternalPort := p,
                   UpstreamPort := p + NativeHTTPInternalPortOffset\<rparr>) (RuntimeSpec d)\<rparr>"
    by (auto simp: applyReallocatedPortToDescriptor_def split: if_splits option.splits)
  from args obtain r where r: "rewrite_port p (drop 2 (Args d)) = Some r" and a: "args = take 2 (Args d) @ r"
    by (auto simp: rewriteDescriptorPortArg_def)
  from r have two: "2 \<le> length (Args d)" by (rule rewrite_port_args)
  from rewrite_port_scan [OF r pos p] have scan: "scan_port r = p" and len: "length r = length (Args d) - 2" by auto
  have same: "args ! 0 = Args d ! 0" "args ! 1 = Args d ! 1" "length args = length (Args d)"
    using two len by (auto simp: a nth_append)
  show "EffectiveDaemonPort resolve d' = Some p" using pos d' by (simp add: EffectiveDaemonPort_def)
  show dyn: "isDynamicPoolProxyDescriptor d' = isDynamicPoolProxyDescriptor d"
    using same d' by (simp add: isDynamicPoolProxyDescriptor_def IsSerenaProxyDescriptor_def
      IsWorkspaceLSPProxyDescriptor_def)
  have drop: "drop 2 (Args d') = r" using d' a two by simp
  show "descriptorArgPort d' = p" if "isDynamicPoolProxyDescriptor d"
    using that dyn unfolding descriptorArgPort_def drop isDynamicPoolProxyDescriptor_def scan by auto
  show "RuntimeSpec d' = Some rs \<Longrightarrow> ExternalPort rs = p \<and> UpstreamPort rs = p + 10000"
    using d' by (auto simp: NativeHTTPInternalPortOffset_def)
  show "d' = d\<lparr>Args := Args d', Port := p, RuntimeSpec := RuntimeSpec d'\<rparr>" by (simp add: d')
  show "d_TaskName d' = d_TaskName d" by (simp add: d')
qed

lemma replace_first_Some:
  "replace_first P f xs = Some ys \<Longrightarrow>
     \<exists>i x'. i < length xs \<and> P (xs ! i) \<and> (\<forall>j<i. \<not> P (xs ! j)) \<and> f (xs ! i) = Some x' \<and> ys = xs[i := x']"
proof (induction xs arbitrary: ys)
  case (Cons x xs)
  show ?case
  proof (cases "P x")
    case True
    with Cons.prems obtain y where "f x = Some y" "ys = y # xs" by auto
    with True show ?thesis by (intro exI [of _ 0] exI [of _ y]) simp
  next
    case False
    with Cons.prems obtain zs where zs: "replace_first P f xs = Some zs" "ys = x # zs" by auto
    from Cons.IH [OF zs(1)] obtain i x' where "i < length xs" "P (xs ! i)" "\<forall>j<i. \<not> P (xs ! j)"
      "f (xs ! i) = Some x'" "zs = xs[i := x']" by blast
    with False zs(2) show ?thesis
      by (intro exI [of _ "Suc i"] exI [of _ x']) (auto simp: less_Suc_eq_0_disj nth_Cons')
  qed
qed simp


definition demo_proxy :: SupervisorDaemon where
  "demo_proxy = \<lparr>PreparedRuntime = None, d_TaskName = ''x'', Server = ''serena'', Daemon = ''d'',
     Command = ''mcphub'', Args = [''daemon'', ''serena-proxy'', ''--port'', ''9150''], WorkingDir = [],
     Env = [], Workspace = [], Port = 9150, ManifestHash = [], StartupBindDeadlineSeconds = 0,
     RuntimeSpec = None\<rparr>"


end
