(* ===== verification/Respawn_Backoff.thy ===== *)
theory Respawn_Backoff
  imports Complex_Main Hub_Prelude
begin

text \<open>
  The delays of the restart policy in \<open>internal/cli/supervisor_controller.go\<close>: the exponential backoff
  ladder with its upward jitter, computed in 64-bit integers and IEEE doubles as the source does, and
  the cooldown ladder of a quarantined daemon. The lemmas give both ladders in closed form and show
  that neither the shift, nor the doubling, nor the floating-point spread ever leaves its bounds.
\<close>

section \<open>Double-precision arithmetic\<close>

text \<open>
  A \<open>float64\<close> is a rational with 53 significant bits. \<open>norm_exp\<close> finds the exponent of the last
  place by scaling into \<open>[2^52, 2^53)\<close>; 1074 downward steps reach the exponent of the subnormal
  numbers. \<open>fl64\<close> rounds to the nearest such number, ties to even. Only finite values occur here.
\<close>

definition round_half_even :: "rat \<Rightarrow> int" where
  "round_half_even x =
     (let f = \<lfloor>x\<rfloor>; d = x - of_int f
      in if d < 1 / 2 then f else if 1 / 2 < d then f + 1 else if even f then f else f + 1)"

fun norm_exp :: "nat \<Rightarrow> rat \<Rightarrow> int \<Rightarrow> int" where
  "norm_exp 0 x e = e"
| "norm_exp (Suc n) x e =
     (if x < 2 ^ 52 then norm_exp n (2 * x) (e - 1)
      else if 2 ^ 53 \<le> x then norm_exp n (x / 2) (e + 1) else e)"

definition fl64 :: "rat \<Rightarrow> rat" where
  "fl64 x =
     (let e = norm_exp 1074 x 0 in of_int (round_half_even (x * power_int 2 (- e))) * power_int 2 e)"

text \<open>The conversion to an integer drops the fraction.\<close>

definition trunc :: "rat \<Rightarrow> int" where
  "trunc x = (if 0 \<le> x then \<lfloor>x\<rfloor> else \<lceil>x\<rceil>)"

lemma round_half_even_le: "x \<le> of_int m \<Longrightarrow> round_half_even x \<le> m"
proof -
  assume x: "x \<le> of_int m"
  show ?thesis
  proof (cases "\<lfloor>x\<rfloor> = m")
    case True
    with x have "x = of_int m" using of_int_floor_le [of x] by simp
    then show ?thesis by (simp add: round_half_even_def)
  next
    case False
    from x have "\<lfloor>x\<rfloor> \<le> m" by linarith
    with False show ?thesis by (simp add: round_half_even_def Let_def)
  qed
qed

lemma round_half_even_ge: "of_int m \<le> x \<Longrightarrow> m \<le> round_half_even x"
  by (auto simp: round_half_even_def Let_def le_floor_iff intro: order_trans [of m "\<lfloor>x\<rfloor>"])

lemma round_half_even_of_int [simp]: "round_half_even (of_int m) = m"
  by (simp add: round_half_even_def)

lemma norm_exp_le: "x < 2 ^ 53 \<Longrightarrow> norm_exp n x e \<le> e"
proof (induction n x e rule: norm_exp.induct)
  case (2 n x e)
  show ?case
  proof (cases "x < 2 ^ 52")
    case True
    then have "2 * x < 2 ^ 53" by simp
    with 2 True show ?thesis by fastforce
  next
    case False
    with 2 show ?thesis by simp
  qed
qed simp

text \<open>Below \<open>2^53\<close> the last place is a power \<open>2^(-k)\<close>, and below \<open>2^52\<close> at most one half.\<close>

lemma fl64_scale:
  assumes "x < 2 ^ 53"
  obtains k where "fl64 x = of_int (round_half_even (x * 2 ^ k)) / 2 ^ k"
    and "x < 2 ^ 52 \<longrightarrow> 0 < k"
proof -
  let ?e = "norm_exp 1074 x 0"
  from norm_exp_le [OF assms, of 1074 0] have e: "?e \<le> 0" .
  define k where "k = nat (- ?e)"
  from e have ek: "?e = - int k" by (simp add: k_def)
  have "fl64 x = of_int (round_half_even (x * 2 ^ k)) / 2 ^ k"
    by (simp add: fl64_def ek power_int_minus divide_inverse)
  moreover have "0 < k" if "x < 2 ^ 52"
  proof -
    from that have "?e = norm_exp 1073 (2 * x) (- 1)"
      using norm_exp.simps(2) [of 1073 x 0] by simp
    moreover from that have "2 * x < 2 ^ 53" by simp
    ultimately have "?e \<le> - 1" using norm_exp_le [of "2 * x" 1073 "- 1"] by simp
    then show ?thesis by (simp add: k_def)
  qed
  ultimately show thesis using that by blast
qed

lemma fl64_le: "x \<le> of_int n \<Longrightarrow> n < 2 ^ 53 \<Longrightarrow> fl64 x \<le> of_int n"
proof -
  assume x: "x \<le> of_int n" and n: "n < 2 ^ 53"
  from n have "of_int n < (of_int (2 ^ 53) :: rat)" by (simp only: of_int_less_iff)
  with x have "x < 2 ^ 53" by simp
  then obtain k where k: "fl64 x = of_int (round_half_even (x * 2 ^ k)) / 2 ^ k"
    by (rule fl64_scale)
  from x have "x * 2 ^ k \<le> of_int (n * 2 ^ k)" by simp
  then have "round_half_even (x * 2 ^ k) \<le> n * 2 ^ k" by (rule round_half_even_le)
  then have "of_int (round_half_even (x * 2 ^ k)) \<le> (of_int (n * 2 ^ k) :: rat)"
    by (simp only: of_int_le_iff)
  then show ?thesis by (simp add: k divide_le_eq)
qed

lemma fl64_nonneg: "0 \<le> x \<Longrightarrow> x < 2 ^ 53 \<Longrightarrow> 0 \<le> fl64 x"
proof -
  assume x: "0 \<le> x" and lt: "x < 2 ^ 53"
  from lt obtain k where k: "fl64 x = of_int (round_half_even (x * 2 ^ k)) / 2 ^ k"
    by (rule fl64_scale)
  from x have "0 \<le> round_half_even (x * 2 ^ k)" using round_half_even_ge [of 0] by simp
  then show ?thesis by (simp add: k)
qed

lemma fl64_int: "n < 2 ^ 53 \<Longrightarrow> fl64 (of_int n) = of_int n"
proof -
  assume n: "n < 2 ^ 53"
  then have "of_int n < (of_int (2 ^ 53) :: rat)" by (simp only: of_int_less_iff)
  then have "(of_int n :: rat) < 2 ^ 53" by simp
  then obtain k where "fl64 (of_int n) = of_int (round_half_even (of_int n * 2 ^ k)) / 2 ^ k"
    by (rule fl64_scale)
  then show ?thesis using round_half_even_of_int [of "n * 2 ^ k"] by simp
qed

lemma fl64_half: "n < 2 ^ 53 \<Longrightarrow> fl64 (of_int n / 2) = of_int n / 2"
proof -
  assume n: "n < 2 ^ 53"
  then have "of_int n < (of_int (2 ^ 53) :: rat)" by (simp only: of_int_less_iff)
  then have lt: "(of_int n :: rat) / 2 < 2 ^ 52" by simp
  then have "(of_int n :: rat) / 2 < 2 ^ 53" by simp
  then obtain k where k: "fl64 (of_int n / 2) = of_int (round_half_even (of_int n / 2 * 2 ^ k)) / 2 ^ k"
    and "(of_int n :: rat) / 2 < 2 ^ 52 \<longrightarrow> 0 < k"
    by (rule fl64_scale)
  with lt obtain j where j: "k = Suc j" by (cases k) auto
  have "(of_int n :: rat) / 2 * 2 ^ k = of_int (n * 2 ^ j)" by (simp add: j)
  then have "round_half_even (of_int n / 2 * 2 ^ k) = n * 2 ^ j"
    by (simp only: round_half_even_of_int)
  then show ?thesis using k by (simp add: j)
qed

section \<open>The backoff ladder\<close>

definition respawnBackoffStep :: duration where "respawnBackoffStep = 1 * Second"
definition respawnBackoffMax :: duration where "respawnBackoffMax = 60 * Second"
definition respawnBackoffJitterMax :: duration where "respawnBackoffJitterMax = 10 * Second"
definition respawnFailureWindow :: duration where "respawnFailureWindow = 30 * Minute"
definition respawnQuarantineThreshold :: int where "respawnQuarantineThreshold = 10"

definition computeRespawnBackoff :: "int \<Rightarrow> duration" where
  "computeRespawnBackoff failures =
     (if failures \<le> 0 then 0
      else let n = failures - 1;
               n = (if n > 30 then 30 else n);
               d = i64 (i64 (2 ^ nat n) * respawnBackoffStep)
           in if d > respawnBackoffMax \<or> d \<le> 0 then respawnBackoffMax else d)"

definition jitteredRespawnBackoff :: "duration \<Rightarrow> rat \<Rightarrow> duration" where
  "jitteredRespawnBackoff base r =
     (if base \<le> 0 then base
      else let r = (if r < 0 then 0 else r);
               r = (if r > 1 then 1 else r);
               span = trunc (fl64 (fl64 (of_int base) * (1 / 2)));
               span = (if span > respawnBackoffJitterMax then respawnBackoffJitterMax else span)
           in i64 (base + trunc (fl64 (fl64 (of_int span) * r))))"

lemmas backoff_const_defs = respawnBackoffStep_def respawnBackoffMax_def respawnBackoffJitterMax_def
  respawnFailureWindow_def respawnQuarantineThreshold_def duration_defs

lemma computeRespawnBackoff_closed:
  "0 < f \<Longrightarrow> computeRespawnBackoff f = min (2 ^ nat (f - 1) * Second) (60 * Second)"
proof -
  assume f: "0 < f"
  define n where "n = nat (min (f - 1) 30)"
  have n: "n \<le> 30" by (simp add: n_def)
  have pow: "(2 :: int) ^ n \<le> 2 ^ 30" using n by (rule power_increasing) simp
  have pos: "(0 :: int) < 2 ^ n" by simp
  have "- (2 ^ 63) \<le> (2 :: int) ^ n" by (rule order_trans [OF _ less_imp_le [OF pos]]) simp
  then have i: "i64 (2 ^ n) = 2 ^ n" using pow by (intro i64_id) auto
  have "- (2 ^ 63) \<le> 2 ^ n * respawnBackoffStep"
    by (rule order_trans [of _ 0]) (simp_all add: backoff_const_defs)
  then have "i64 (2 ^ n * respawnBackoffStep) = 2 ^ n * respawnBackoffStep"
    using pow by (intro i64_id) (auto simp: backoff_const_defs)
  with i have d: "i64 (i64 (2 ^ n) * respawnBackoffStep) = 2 ^ n * Second"
    by (simp add: respawnBackoffStep_def)
  have comp: "computeRespawnBackoff f = min (2 ^ n * Second) (60 * Second)"
    using f d pos
    by (auto simp: computeRespawnBackoff_def Let_def n_def respawnBackoffMax_def Second_def min_def)
  show ?thesis
  proof (cases "f - 1 \<le> 30")
    case True
    with comp f show ?thesis by (simp add: n_def)
  next
    case False
    then have "30 \<le> nat (f - 1)" by linarith
    then have "(2 :: int) ^ 30 \<le> 2 ^ nat (f - 1)" by (rule power_increasing) simp
    moreover have "n = 30" using False by (simp add: n_def)
    ultimately show ?thesis using comp by (simp add: Second_def)
  qed
qed

lemma jitter_span: "0 < base \<Longrightarrow> base < 2 ^ 53 \<Longrightarrow> trunc (fl64 (fl64 (of_int base) * (1 / 2))) = base div 2"
proof -
  assume b: "0 < base" "base < 2 ^ 53"
  have "fl64 (fl64 (of_int base) * (1 / 2)) = of_int base / 2"
    using b by (simp add: fl64_int fl64_half)
  moreover have "\<lfloor>(of_int base :: rat) / 2\<rfloor> = base div 2"
    by (metis floor_divide_of_int_eq of_int_numeral)
  ultimately show ?thesis using b by (simp only: trunc_def) simp
qed

lemma jitter_amount:
  assumes "0 \<le> sp" and "sp < 2 ^ 53" and "0 \<le> r" and "r \<le> 1"
  shows "0 \<le> trunc (fl64 (fl64 (of_int sp) * r)) \<and> trunc (fl64 (fl64 (of_int sp) * r)) \<le> sp"
proof -
  from assms(1,4) have le: "of_int sp * r \<le> of_int sp" by (simp add: mult_left_le)
  from assms have nn: "0 \<le> of_int sp * r" by simp
  have f: "fl64 (of_int sp) = of_int sp" using assms(2) by (rule fl64_int)
  from le assms(2) have up: "fl64 (of_int sp * r) \<le> of_int sp" by (rule fl64_le)
  from assms(2) have "of_int sp < (of_int (2 ^ 53) :: rat)" by (simp only: of_int_less_iff)
  with le have "of_int sp * r < 2 ^ 53" by simp
  with nn have lo: "0 \<le> fl64 (of_int sp * r)" by (rule fl64_nonneg)
  from up lo show ?thesis by (simp add: f trunc_def floor_le_iff)
qed

lemma jitteredRespawnBackoff_closed:
  assumes "0 < base" and "base < 2 ^ 53"
  shows "jitteredRespawnBackoff base r =
    i64 (base + trunc (fl64 (fl64 (of_int (min (base div 2) (10 * Second))) * min (max r 0) 1)))"
proof -
  have r: "(if (if r < 0 then 0 else r) > 1 then 1 else (if r < 0 then 0 else r)) = min (max r 0) 1"
    by (simp add: min_def max_def)
  have s: "(if base div 2 > respawnBackoffJitterMax then respawnBackoffJitterMax else base div 2)
             = min (base div 2) (10 * Second)"
    by (simp add: respawnBackoffJitterMax_def min_def)
  from assms(1) have "\<not> base \<le> 0" by simp
  then show ?thesis
    by (simp only: jitteredRespawnBackoff_def if_False Let_def jitter_span [OF assms] r s)
qed

section \<open>The cooldown of a quarantined daemon\<close>

record quarantineParoleEntry =
  attempts :: int
  nextAttemptAt :: gotime
  healthySince :: gotime

definition quarantineParoleBaseDelay :: duration where "quarantineParoleBaseDelay = 15 * Minute"
definition quarantineParoleMaxDelay :: duration where "quarantineParoleMaxDelay = 2 * Hour"
definition quarantineParoleStabilizeDwell :: duration where "quarantineParoleStabilizeDwell = 2 * Minute"

text \<open>The loop doubles at most \<open>attempts\<close> times, and stops at the ceiling.\<close>

fun parole_double :: "nat \<Rightarrow> duration \<Rightarrow> duration" where
  "parole_double 0 d = d"
| "parole_double (Suc n) d = (if d < quarantineParoleMaxDelay then parole_double n (i64 (d * 2)) else d)"

definition quarantineParoleDelay :: "int \<Rightarrow> duration" where
  "quarantineParoleDelay att =
     (let att = (if att < 0 then 0 else att);
          d = parole_double (nat att) quarantineParoleBaseDelay
      in if d > quarantineParoleMaxDelay then quarantineParoleMaxDelay else d)"

lemmas parole_const_defs = quarantineParoleBaseDelay_def quarantineParoleMaxDelay_def
  quarantineParoleStabilizeDwell_def duration_defs

lemma parole_double_stop: "\<not> d < quarantineParoleMaxDelay \<Longrightarrow> parole_double n d = d"
  by (cases n) simp_all

lemma quarantineParoleDelay_closed:
  "quarantineParoleDelay a =
     (if a \<le> 0 then 15 * Minute else if a = 1 then 30 * Minute else if a = 2 then Hour else 2 * Hour)"
proof -
  consider "a \<le> 0" | "a = 1" | "a = 2" | k where "nat a = Suc (Suc (Suc k))" "2 < a"
  proof (cases "2 < a")
    case True
    then have "nat a = Suc (Suc (Suc (nat (a - 3))))" by linarith
    with True that(4) show thesis by blast
  next
    case False
    then have "a \<le> 0 \<or> a = 1 \<or> a = 2" by linarith
    with that(1,2,3) show thesis by blast
  qed
  then show ?thesis
    by cases (simp_all add: quarantineParoleDelay_def Let_def parole_const_defs i64_def
      numeral_2_eq_2 parole_double_stop)
qed

lemma quarantineParoleDelay_bounds:
  "15 * Minute \<le> quarantineParoleDelay a \<and> quarantineParoleDelay a \<le> 2 * Hour"
  by (simp add: quarantineParoleDelay_closed duration_defs)

lemma quarantineParoleDelay_mono: "a \<le> b \<Longrightarrow> quarantineParoleDelay a \<le> quarantineParoleDelay b"
  by (auto simp: quarantineParoleDelay_closed duration_defs)

section \<open>What the ladders guarantee\<close>

text \<open>
  C39. The delay before a respawn is zero without a failure, and otherwise the ladder \<open>2^(n-1)\<close>
  seconds capped at a minute, with no overflow for any 64-bit failure count; the jitter only adds,
  never more than half the base nor than ten seconds, whatever fraction is drawn, so that a daemon
  is never retried earlier than the ladder says and never later than 70 seconds.
\<close>

theorem respawn_delay_bounds:
  "computeRespawnBackoff f = (if f \<le> 0 then 0 else min (2 ^ nat (f - 1) * Second) (60 * Second))
   \<and> computeRespawnBackoff f \<le> jitteredRespawnBackoff (computeRespawnBackoff f) r
   \<and> jitteredRespawnBackoff (computeRespawnBackoff f) r
       \<le> computeRespawnBackoff f + min (computeRespawnBackoff f div 2) (10 * Second)
   \<and> jitteredRespawnBackoff (computeRespawnBackoff f) r \<le> 70 * Second"
proof (cases "f \<le> 0")
  case True
  then show ?thesis by (simp add: computeRespawnBackoff_def jitteredRespawnBackoff_def Second_def)
next
  case False
  let ?b = "computeRespawnBackoff f"
  have b: "?b = min (2 ^ nat (f - 1) * Second) (60 * Second)"
    using False by (simp add: computeRespawnBackoff_closed)
  then have pos: "0 < ?b" and le: "?b \<le> 60 * Second" by (simp_all add: Second_def)
  let ?s = "min (?b div 2) (10 * Second)" and ?r = "min (max r 0) 1"
  let ?j = "trunc (fl64 (fl64 (of_int ?s) * ?r))"
  have j: "0 \<le> ?j \<and> ?j \<le> ?s"
    using pos by (intro jitter_amount) (simp_all add: Second_def)
  have "?b < 2 ^ 53" by (rule le_less_trans [OF le]) (simp add: Second_def)
  with pos have "jitteredRespawnBackoff ?b r = i64 (?b + ?j)" by (rule jitteredRespawnBackoff_closed)
  also have "\<dots> = ?b + ?j"
  proof (rule i64_id)
    show "- (2 ^ 63) \<le> ?b + ?j" by (rule order_trans [of _ 0]) (use pos j in simp_all)
    have "?b + ?j \<le> 70 * Second" using le j by simp
    then show "?b + ?j < 2 ^ 63" by (rule le_less_trans) (simp add: Second_def)
  qed
  finally have jit: "jitteredRespawnBackoff ?b r = ?b + ?j" .
  have "?b + ?j \<le> 70 * Second" using le j by simp
  with j False show ?thesis
    unfolding jit by (simp only: b if_False) simp
qed

end
