(* ===== verification/Runtime_Tracker.thy ===== *)
theory Runtime_Tracker
  imports Readiness
begin

text \<open>
  The daemon runtime tracker of \<open>internal/cli/supervisor_runtime_tracker.go\<close>: the per-task runtime
  entry, the marks the controller sets on it, the sliding windows that count crashes and port
  reallocations, readiness observations and the lazy-proxy readiness protocol, and the persistence of
  entries in the supervisor state file. Stop settlements, which the same tracker holds, are in their
  own theory. Methods of a nil tracker do nothing and are not modelled; the locks make every method
  one step.
\<close>

section \<open>State\<close>

abbreviation (input) daemonRuntimeStateIdle :: string where "daemonRuntimeStateIdle \<equiv> ''idle''"
abbreviation (input) daemonRuntimeStateRunning :: string where "daemonRuntimeStateRunning \<equiv> ''running''"
abbreviation (input) daemonRuntimeStateBackoff :: string where "daemonRuntimeStateBackoff \<equiv> ''backoff''"
abbreviation (input) daemonRuntimeStateQuarantine :: string where
  "daemonRuntimeStateQuarantine \<equiv> ''quarantine''"

definition canonicalSupervisorTaskName :: "string \<Rightarrow> string" where
  "canonicalSupervisorTaskName taskName =
     (if taskName = [] \<or> has_prefix taskName [backslash] then taskName else backslash # taskName)"

interpretation sk: task_canon canonicalSupervisorTaskName
  by unfold_locales (auto simp: canonicalSupervisorTaskName_def has_prefix_def neq_Nil_conv)

record DaemonRuntimeEntry =
  State :: string
  CurrentPID :: int
  StartedAt :: gotime
  PIDGeneration :: int
  RestartCount :: int
  LastError :: string
  OrphanPID :: int
  JobProtection :: "bool option"
  SpawnHoldReason :: string
  SpawnHoldPath :: string
  ReadinessObservation :: "DaemonReadinessObservationV1 option"

definition zero_entry :: DaemonRuntimeEntry where
  "zero_entry = \<lparr>State = [], CurrentPID = 0, StartedAt = 0, PIDGeneration = 0, RestartCount = 0,
     LastError = [], OrphanPID = 0, JobProtection = None, SpawnHoldReason = [], SpawnHoldPath = [],
     ReadinessObservation = None\<rparr>"

record daemonReadinessSettlementTuple =
  Generation :: "64 word"
  t_ServiceState :: ServiceStateV1
  t_Stage :: ReadinessStageV1
  t_FailureID :: string

record lazyProxyReadinessState =
  lz_Epoch :: "64 word"
  lz_Transition :: string

datatype StopSettlementPhase =
  StopRequested | ExitObserved | PortReleased | SettlementFailed | PhaseOther string

record StopSettlementReceiptV1 =
  rc_Version :: int
  BatchID :: string
  rc_TaskName :: string
  Epoch :: "64 word"
  PID :: int
  rc_StartedAt :: stamp
  rc_PIDGeneration :: int
  BatchIndex :: int
  Mode :: string
  rc_Port :: int
  Revision :: "64 word"
  Attempt :: "64 word"
  Phase :: StopSettlementPhase
  FailureClass :: string
  FailureDetail :: string
  ResumePhase :: StopSettlementPhase
  rc_OperationID :: string

record DaemonRuntimeTracker =
  entries :: "string \<rightharpoonup> DaemonRuntimeEntry"
  failures :: "string \<rightharpoonup> gotime list"
  reallocations :: "string \<rightharpoonup> gotime list"
  readinessSettlements :: "string \<rightharpoonup> daemonReadinessSettlementTuple"
  lazyReadiness :: "string \<rightharpoonup> lazyProxyReadinessState"
  stopSettlementEpoch :: "64 word"
  stopSettlements :: "string \<rightharpoonup> StopSettlementReceiptV1"
  stopSettlementIntegrityErr :: string
  ownershipGeneration :: "64 word"

definition NewDaemonRuntimeTracker :: DaemonRuntimeTracker where
  "NewDaemonRuntimeTracker = \<lparr>entries = Map.empty, failures = Map.empty, reallocations = Map.empty,
     readinessSettlements = Map.empty, lazyReadiness = Map.empty, stopSettlementEpoch = 0,
     stopSettlements = Map.empty, stopSettlementIntegrityErr = [], ownershipGeneration = 0\<rparr>"

text \<open>A Go map read: the zero value for a missing key.\<close>

definition entry_of :: "DaemonRuntimeTracker \<Rightarrow> string \<Rightarrow> DaemonRuntimeEntry" where
  "entry_of t k = (case entries t k of None \<Rightarrow> zero_entry | Some e \<Rightarrow> e)"

definition times_of :: "(string \<rightharpoonup> gotime list) \<Rightarrow> string \<Rightarrow> gotime list" where
  "times_of m k = (case m k of None \<Rightarrow> [] | Some ts \<Rightarrow> ts)"

text \<open>\<open>setCurrentPIDLocked\<close> counts every change of an owned process; here it is its two halves.\<close>

definition setCurrentPIDLocked :: "DaemonRuntimeTracker \<Rightarrow> DaemonRuntimeEntry \<Rightarrow> int
    \<Rightarrow> DaemonRuntimeTracker \<times> DaemonRuntimeEntry" where
  "setCurrentPIDLocked t e pid =
     ((if CurrentPID e \<noteq> pid then t\<lparr>ownershipGeneration := ownershipGeneration t + 1\<rparr> else t),
      e\<lparr>CurrentPID := pid\<rparr>)"

definition put_entry :: "string \<Rightarrow> DaemonRuntimeTracker \<times> DaemonRuntimeEntry \<Rightarrow> DaemonRuntimeTracker" where
  "put_entry k te = (fst te)\<lparr>entries := (entries (fst te))(k \<mapsto> snd te)\<rparr>"

definition drop_lazy :: "string \<Rightarrow> DaemonRuntimeTracker \<Rightarrow> DaemonRuntimeTracker" where
  "drop_lazy k t = t\<lparr>lazyReadiness := (lazyReadiness t)(k := None)\<rparr>"

section \<open>Sliding windows\<close>

definition RecordCrashAndCountInWindow ::
  "string \<Rightarrow> gotime \<Rightarrow> duration \<Rightarrow> DaemonRuntimeTracker \<Rightarrow> int \<times> DaemonRuntimeTracker" where
  "RecordCrashAndCountInWindow taskName now window t =
     (let k = canonicalSupervisorTaskName taskName;
          cutoff = now - window;
          kept = filter (\<lambda>ts. ts > cutoff) (times_of (failures t) k) @ [now]
      in (int (length kept), t\<lparr>failures := (failures t)(k \<mapsto> kept)\<rparr>))"

definition CrashCountInWindow :: "string \<Rightarrow> gotime \<Rightarrow> duration \<Rightarrow> DaemonRuntimeTracker \<Rightarrow> int" where
  "CrashCountInWindow taskName now window t =
     int (length (filter (\<lambda>ts. ts > now - window)
                   (times_of (failures t) (canonicalSupervisorTaskName taskName))))"

definition ClearCrashes :: "string \<Rightarrow> DaemonRuntimeTracker \<Rightarrow> DaemonRuntimeTracker" where
  "ClearCrashes taskName t =
     t\<lparr>failures := (failures t)(canonicalSupervisorTaskName taskName := None)\<rparr>"

definition RecordReallocationAndCountInWindow ::
  "string \<Rightarrow> gotime \<Rightarrow> duration \<Rightarrow> DaemonRuntimeTracker \<Rightarrow> int \<times> DaemonRuntimeTracker" where
  "RecordReallocationAndCountInWindow taskName now window t =
     (let k = canonicalSupervisorTaskName taskName;
          cutoff = now - window;
          kept = filter (\<lambda>ts. ts > cutoff) (times_of (reallocations t) k) @ [now]
      in (int (length kept), t\<lparr>reallocations := (reallocations t)(k \<mapsto> kept)\<rparr>))"

definition ReallocationCountInWindow :: "string \<Rightarrow> gotime \<Rightarrow> duration \<Rightarrow> DaemonRuntimeTracker \<Rightarrow> int" where
  "ReallocationCountInWindow taskName now window t =
     int (length (filter (\<lambda>ts. ts > now - window)
                   (times_of (reallocations t) (canonicalSupervisorTaskName taskName))))"

definition ClearReallocations :: "string \<Rightarrow> DaemonRuntimeTracker \<Rightarrow> DaemonRuntimeTracker" where
  "ClearReallocations taskName t =
     t\<lparr>reallocations := (reallocations t)(canonicalSupervisorTaskName taskName := None)\<rparr>"

section \<open>Marks\<close>

definition MarkJobProtection :: "string \<Rightarrow> bool option \<Rightarrow> DaemonRuntimeTracker \<Rightarrow> DaemonRuntimeTracker" where
  "MarkJobProtection taskName protected t =
     (let k = canonicalSupervisorTaskName taskName
      in put_entry k (t, (entry_of t k)\<lparr>JobProtection := protected\<rparr>))"

definition MarkSpawnHold :: "string \<Rightarrow> string \<Rightarrow> string \<Rightarrow> DaemonRuntimeTracker \<Rightarrow> DaemonRuntimeTracker" where
  "MarkSpawnHold taskName reasonID path t =
     (let k = canonicalSupervisorTaskName taskName
      in put_entry k (t, (entry_of t k)\<lparr>SpawnHoldReason := reasonID, SpawnHoldPath := path\<rparr>))"

definition ClearSpawnHold :: "string \<Rightarrow> DaemonRuntimeTracker \<Rightarrow> bool \<times> DaemonRuntimeTracker" where
  "ClearSpawnHold taskName t =
     (let k = canonicalSupervisorTaskName taskName; e = entry_of t k
      in if SpawnHoldReason e = [] \<and> SpawnHoldPath e = [] then (False, t)
         else (True, put_entry k (t, e\<lparr>SpawnHoldReason := [], SpawnHoldPath := []\<rparr>)))"

definition MarkSpawned :: "string \<Rightarrow> int \<Rightarrow> gotime \<Rightarrow> DaemonRuntimeTracker \<Rightarrow> int \<times> DaemonRuntimeTracker" where
  "MarkSpawned taskName pid startedAt t =
     (let k = canonicalSupervisorTaskName taskName;
          e = entry_of t k;
          e = (if PIDGeneration e > 0 then e\<lparr>RestartCount := RestartCount e + 1\<rparr> else e);
          (t, e) = setCurrentPIDLocked t (e\<lparr>State := daemonRuntimeStateRunning\<rparr>) pid;
          e = e\<lparr>StartedAt := startedAt, PIDGeneration := PIDGeneration e + 1, LastError := [],
                ReadinessObservation := None, OrphanPID := 0\<rparr>
      in (PIDGeneration e, put_entry k (drop_lazy k t, e)))"

definition MarkSpawnFailed :: "string \<Rightarrow> string \<Rightarrow> DaemonRuntimeTracker \<Rightarrow> DaemonRuntimeTracker" where
  "MarkSpawnFailed taskName err t =
     (let k = canonicalSupervisorTaskName taskName;
          e = entry_of t k;
          e = (if PIDGeneration e > 0 then e\<lparr>RestartCount := RestartCount e + 1\<rparr> else e);
          (t, e) = setCurrentPIDLocked t (e\<lparr>State := daemonRuntimeStateBackoff\<rparr>) 0
      in put_entry k (drop_lazy k t,
           e\<lparr>StartedAt := 0, LastError := err, ReadinessObservation := None, OrphanPID := 0,
             JobProtection := None, SpawnHoldReason := [], SpawnHoldPath := []\<rparr>))"

definition MarkSpawnFailedPreservePID ::
  "string \<Rightarrow> string \<Rightarrow> int \<Rightarrow> DaemonRuntimeTracker \<Rightarrow> DaemonRuntimeTracker" where
  "MarkSpawnFailedPreservePID taskName err orphanPID t =
     (let k = canonicalSupervisorTaskName taskName;
          e = entry_of t k;
          e = (if PIDGeneration e > 0 then e\<lparr>RestartCount := RestartCount e + 1\<rparr> else e);
          (t, e) = setCurrentPIDLocked t (e\<lparr>State := daemonRuntimeStateBackoff\<rparr>) 0
      in put_entry k (drop_lazy k t,
           e\<lparr>OrphanPID := orphanPID, StartedAt := 0, LastError := err, ReadinessObservation := None,
             JobProtection := None, SpawnHoldReason := [], SpawnHoldPath := []\<rparr>))"

definition MarkExited :: "string \<Rightarrow> DaemonRuntimeTracker \<Rightarrow> DaemonRuntimeTracker" where
  "MarkExited taskName t =
     (let k = canonicalSupervisorTaskName taskName;
          (t', e) = setCurrentPIDLocked t ((entry_of t k)\<lparr>State := daemonRuntimeStateIdle\<rparr>) 0
      in put_entry k (drop_lazy k t',
           e\<lparr>StartedAt := 0, LastError := [], ReadinessObservation := None, OrphanPID := 0,
             JobProtection := None, SpawnHoldReason := [], SpawnHoldPath := []\<rparr>))"

definition MarkExitedIfCurrent :: "string \<Rightarrow> int \<Rightarrow> DaemonRuntimeTracker \<Rightarrow> bool \<times> DaemonRuntimeTracker" where
  "MarkExitedIfCurrent taskName pidGeneration t =
     (let k = canonicalSupervisorTaskName taskName; e = entry_of t k
      in if pidGeneration < PIDGeneration e then (False, t)
         else let (t', e) = setCurrentPIDLocked t (e\<lparr>State := daemonRuntimeStateIdle\<rparr>) 0
              in (True, put_entry k (drop_lazy k t',
                    e\<lparr>StartedAt := 0, LastError := [], ReadinessObservation := None, OrphanPID := 0,
                      JobProtection := None, SpawnHoldReason := [], SpawnHoldPath := []\<rparr>)))"

definition MarkTerminated :: "string \<Rightarrow> DaemonRuntimeTracker \<Rightarrow> DaemonRuntimeTracker" where
  "MarkTerminated taskName t = MarkExited taskName t"

text \<open>Backoff keeps a spawn hold; quarantine drops it.\<close>

definition MarkBackoff :: "string \<Rightarrow> DaemonRuntimeTracker \<Rightarrow> DaemonRuntimeTracker" where
  "MarkBackoff taskName t =
     (let k = canonicalSupervisorTaskName taskName;
          (t', e) = setCurrentPIDLocked t ((entry_of t k)\<lparr>State := daemonRuntimeStateBackoff\<rparr>) 0
      in put_entry k (drop_lazy k t',
           e\<lparr>StartedAt := 0, ReadinessObservation := None, OrphanPID := 0, JobProtection := None\<rparr>))"

definition MarkQuarantined :: "string \<Rightarrow> DaemonRuntimeTracker \<Rightarrow> DaemonRuntimeTracker" where
  "MarkQuarantined taskName t =
     (let k = canonicalSupervisorTaskName taskName;
          (t', e) = setCurrentPIDLocked t ((entry_of t k)\<lparr>State := daemonRuntimeStateQuarantine\<rparr>) 0
      in put_entry k (drop_lazy k t',
           e\<lparr>StartedAt := 0, ReadinessObservation := None, OrphanPID := 0, JobProtection := None,
             SpawnHoldReason := [], SpawnHoldPath := []\<rparr>))"

definition Remove :: "string \<Rightarrow> DaemonRuntimeTracker \<Rightarrow> DaemonRuntimeTracker" where
  "Remove taskName t =
     (let k = canonicalSupervisorTaskName taskName;
          t = (if (case entries t k of Some e \<Rightarrow> CurrentPID e \<noteq> 0 | None \<Rightarrow> False)
               then t\<lparr>ownershipGeneration := ownershipGeneration t + 1\<rparr> else t)
      in t\<lparr>entries := (entries t)(k := None), failures := (failures t)(k := None),
           reallocations := (reallocations t)(k := None),
           readinessSettlements := (readinessSettlements t)(k := None),
           lazyReadiness := (lazyReadiness t)(k := None)\<rparr>)"

definition Get :: "string \<Rightarrow> DaemonRuntimeTracker \<Rightarrow> DaemonRuntimeEntry option" where
  "Get taskName t = entries t (canonicalSupervisorTaskName taskName)"

section \<open>Readiness observations\<close>

text \<open>
  The one event these operations emit: a settlement tuple of a task, with its severity. A settled
  tuple has a non-zero generation, so it differs from the zero tuple that Go reads for a task that
  has none.
\<close>

datatype readiness_event = ReadinessSettled bool string daemonReadinessSettlementTuple

definition settlement_tuple ::
  "DaemonReadinessObservationV1 \<Rightarrow> daemonReadinessSettlementTuple option" where
  "settlement_tuple ob =
     (case s_Daemons (ReduceReadinessV1 \<lparr>Selectors = [], req_Bindings = [], RequireBinding = False,
                         CanMigrate = False, req_Now = 0, Observations = [ob]\<rparr>) of
        [daemon] \<Rightarrow>
          if \<not> Settled daemon then None
          else Some \<lparr>Generation = ObservedPIDGeneration ob, t_ServiceState = ServiceState daemon,
                     t_Stage = Stage daemon,
                     t_FailureID = (case Failure daemon of None \<Rightarrow> [] | Some f \<Rightarrow> FailureID f)\<rparr>
      | _ \<Rightarrow> None)"

definition observation_current :: "DaemonRuntimeEntry option \<Rightarrow> DaemonReadinessObservationV1 \<Rightarrow> bool" where
  "observation_current e ob =
     (case e of
        None \<Rightarrow> False
      | Some e \<Rightarrow> \<not> (ObservedPIDGeneration ob = 0 \<or> sint (ObservedPIDGeneration ob) \<noteq> PIDGeneration e
                     \<or> CurrentPIDGeneration ob \<noteq> ObservedPIDGeneration ob \<or> o_PID ob \<le> 0
                     \<or> CurrentPID e \<noteq> o_PID ob \<or> State e \<noteq> daemonRuntimeStateRunning))"

definition markReadinessObservationLocked ::
  "string \<Rightarrow> DaemonReadinessObservationV1 \<Rightarrow> DaemonRuntimeTracker
     \<Rightarrow> bool \<times> readiness_event option \<times> DaemonRuntimeTracker" where
  "markReadinessObservationLocked taskName ob t =
     (if \<not> observation_current (entries t taskName) ob then (False, None, t)
      else let ob = ob\<lparr>o_TaskName := taskName\<rparr>;
               t = put_entry taskName (t, (entry_of t taskName)\<lparr>ReadinessObservation := Some ob\<rparr>)
           in case settlement_tuple ob of
                None \<Rightarrow> (True, None, t)
              | Some tuple \<Rightarrow>
                  if readinessSettlements t taskName = Some tuple then (True, None, t)
                  else (True, Some (ReadinessSettled (t_FailureID tuple \<noteq> []) taskName tuple),
                        t\<lparr>readinessSettlements := (readinessSettlements t)(taskName \<mapsto> tuple)\<rparr>))"

definition MarkReadinessObservationWithSettlement ::
  "DaemonReadinessObservationV1 \<Rightarrow> DaemonRuntimeTracker
     \<Rightarrow> bool \<times> readiness_event option \<times> DaemonRuntimeTracker" where
  "MarkReadinessObservationWithSettlement ob t =
     (if o_TaskName ob = [] then (False, None, t)
      else markReadinessObservationLocked (canonicalSupervisorTaskName (o_TaskName ob)) ob t)"

section \<open>Lazy-proxy readiness\<close>

record LazyProxyReadinessEventV1 =
  ProtocolVersion :: int
  ev_TaskName :: string
  WrapperPID :: int
  WrapperStartedAt :: stamp
  BackendEpoch :: "64 word"
  ev_Transition :: string
  ev_ObservedAt :: stamp

record LazyProxyReadinessReceiptV1 =
  LzDisposition :: string
  lr_WrapperPID :: int
  lr_WrapperStartedAt :: stamp
  lr_PIDGeneration :: int
  lr_BackendEpoch :: "64 word"
  lr_Transition :: string

definition lower_hex :: "char \<Rightarrow> bool" where
  "lower_hex c = ((48 \<le> (of_char c :: nat) \<and> (of_char c :: nat) \<le> 57)
     \<or> (97 \<le> (of_char c :: nat) \<and> (of_char c :: nat) \<le> 102))"

text \<open>\<open>mcp-local-hub-lsp-\<close>, eight lower-case hex digits, a dash and a language.\<close>

definition IsLazyProxyTaskName :: "string \<Rightarrow> bool" where
  "IsLazyProxyTaskName task =
     (let name = trim_prefix task [backslash]; pre = ''mcp-local-hub-lsp-''
      in if \<not> has_prefix name pre then False
         else let rest = drop (length pre) name
              in if length rest < 9 \<or> rest ! 8 \<noteq> CHR ''-'' then False
                 else list_all lower_hex (take 8 rest) \<and> drop 9 rest \<noteq> [])"

definition lazyReadinessTransitionRank :: "string \<Rightarrow> int" where
  "lazyReadinessTransitionRank transition =
     (if transition = ''starting'' then 1
      else if transition = ''ready'' then 2
      else if transition = ''idle'' \<or> transition = ''failed'' then 3
      else 0)"

datatype lazy_error = LazyInvalid | LazyIncarnationMismatch | LazyTransitionRejected | LazyTrackerRejection

definition parsed_nonzero :: "stamp \<Rightarrow> gotime option" where
  "parsed_nonzero s = (case ParseRFC3339Nano s of Some v \<Rightarrow> if v = 0 then None else Some v | None \<Rightarrow> None)"

definition lazy_observation :: "string \<Rightarrow> DaemonRuntimeEntry \<Rightarrow> string \<Rightarrow> DaemonReadinessObservationV1" where
  "lazy_observation taskName e transition =
     (let base = \<lparr>o_TaskName = taskName, o_Server = [], o_Daemon = [], o_Port = 0, o_PID = CurrentPID e,
                  ProcessState = ''Running'', CurrentPIDGeneration = of_int (PIDGeneration e),
                  ObservedPIDGeneration = of_int (PIDGeneration e), IntentPresent = True,
                  IntentRunnable = True, IntentDisabled = False, o_Stopped = False,
                  WrapperStarted = True, ListenerReady = False, MCPInitializeReady = False,
                  MCPToolsListReady = False, DeadlineExceeded = False, Policy = PolicyOther [],
                  o_Failures = []\<rparr>
      in if transition = ''starting'' \<or> transition = ''idle'' then base\<lparr>Policy := PolicySyntheticProxy\<rparr>
         else if transition = ''ready''
         then base\<lparr>Policy := PolicyMCPUpstream, ListenerReady := True, MCPInitializeReady := True,
                   MCPToolsListReady := True\<rparr>
         else base\<lparr>Policy := PolicyMCPUpstream,
                   o_Failures := [\<lparr>f_Stage = StageUpstreamListener, FailureID = ''lazy_proxy_failed'',
                                 Retryable = False, Detail = [], f_TaskName = [], f_Client = [],
                                 f_Port = 0\<rparr>]\<rparr>)"

definition CommitLazyProxyReadinessEvent ::
  "LazyProxyReadinessEventV1 \<Rightarrow> DaemonRuntimeTracker
     \<Rightarrow> (lazy_error + LazyProxyReadinessReceiptV1 \<times> readiness_event option) \<times> DaemonRuntimeTracker" where
  "CommitLazyProxyReadinessEvent ev t =
     (if ProtocolVersion ev \<noteq> 1 \<or> \<not> IsLazyProxyTaskName (ev_TaskName ev) \<or> WrapperPID ev \<le> 0
         \<or> BackendEpoch ev = 0 \<or> lazyReadinessTransitionRank (ev_Transition ev) = 0
      then (Inl LazyInvalid, t)
      else case parsed_nonzero (WrapperStartedAt ev) of
             None \<Rightarrow> (Inl LazyInvalid, t)
           | Some startedAt \<Rightarrow>
        (if parsed_nonzero (ev_ObservedAt ev) = None then (Inl LazyInvalid, t)
         else let k = canonicalSupervisorTaskName (ev_TaskName ev)
              in case entries t k of
                   None \<Rightarrow> (Inl LazyIncarnationMismatch, t)
                 | Some e \<Rightarrow>
              (if State e \<noteq> daemonRuntimeStateRunning \<or> CurrentPID e \<noteq> WrapperPID ev
                  \<or> StartedAt e \<noteq> startedAt
               then (Inl LazyIncarnationMismatch, t)
               else let current = (case lazyReadiness t k of
                                     None \<Rightarrow> \<lparr>lz_Epoch = 0, lz_Transition = []\<rparr> | Some c \<Rightarrow> c);
                        receipt = (\<lambda>disp s. \<lparr>LzDisposition = disp, lr_WrapperPID = CurrentPID e,
                                    lr_WrapperStartedAt = FormatRFC3339Nano (StartedAt e),
                                    lr_PIDGeneration = PIDGeneration e, lr_BackendEpoch = lz_Epoch s,
                                    lr_Transition = lz_Transition s\<rparr>)
                    in if lz_Epoch current > BackendEpoch ev
                       then (Inr (receipt ''superseded'' current, None), t)
                       else if lz_Epoch current = BackendEpoch ev \<and> lz_Transition current = ev_Transition ev
                       then (Inr (receipt ''duplicate'' current, None), t)
                       else if lz_Epoch current = BackendEpoch ev
                               \<and> (lz_Transition current \<noteq> ''starting'' \<or> ev_Transition ev \<noteq> ''ready'')
                       then (Inr (receipt ''superseded'' current, None), t)
                       else if (lz_Epoch current = 0 \<and> ev_Transition ev \<noteq> ''starting'')
                               \<or> (lz_Epoch current < BackendEpoch ev \<and> ev_Transition ev = ''ready'')
                       then (Inl LazyTransitionRejected, t)
                       else case markReadinessObservationLocked k
                                   (lazy_observation k e (ev_Transition ev)) t of
                              (False, _, t') \<Rightarrow> (Inl LazyTrackerRejection, t')
                            | (True, settled, t') \<Rightarrow>
                                let s = \<lparr>lz_Epoch = BackendEpoch ev, lz_Transition = ev_Transition ev\<rparr>
                                in (Inr (receipt ''accepted'' s, settled),
                                    t'\<lparr>lazyReadiness := (lazyReadiness t')(k \<mapsto> s)\<rparr>))))"

section \<open>Windows count what happened in the window\<close>

text \<open>
  The contract of a sliding-window counter over a tracker: recording drops what has left the window
  and appends the new instant, and touches no other task.
\<close>

locale sliding_window =
  fixes rec :: "string \<Rightarrow> gotime \<Rightarrow> duration \<Rightarrow> DaemonRuntimeTracker \<Rightarrow> int \<times> DaemonRuntimeTracker"
    and cnt :: "string \<Rightarrow> gotime \<Rightarrow> duration \<Rightarrow> DaemonRuntimeTracker \<Rightarrow> int"
    and clr :: "string \<Rightarrow> DaemonRuntimeTracker \<Rightarrow> DaemonRuntimeTracker"
    and stamps :: "DaemonRuntimeTracker \<Rightarrow> string \<Rightarrow> gotime list"
  assumes rec_stamps: "stamps (snd (rec k now w t)) j =
      (if canonicalSupervisorTaskName k = j then filter (\<lambda>s. s > now - w) (stamps t j) @ [now]
       else stamps t j)"
    and rec_count: "0 < w \<Longrightarrow> fst (rec k now w t) = cnt k now w (snd (rec k now w t))"
    and cnt_stamps: "cnt k now w t =
      int (length (filter (\<lambda>s. s > now - w) (stamps t (canonicalSupervisorTaskName k))))"
    and clr_stamps: "stamps (clr k t) j = (if canonicalSupervisorTaskName k = j then [] else stamps t j)"
begin

fun record_all :: "string \<Rightarrow> duration \<Rightarrow> gotime list \<Rightarrow> DaemonRuntimeTracker \<Rightarrow> DaemonRuntimeTracker" where
  "record_all k w [] t = t"
| "record_all k w (now # rest) t = record_all k w rest (snd (rec k now w t))"

lemma filter_window: "now \<le> (later::int) \<Longrightarrow>
    filter (\<lambda>s. s > later - w) (filter (\<lambda>s. s > now - w) xs) = filter (\<lambda>s. s > later - w) xs"
  by (auto simp: filter_filter intro!: filter_cong)

lemma record_all_window:
  assumes "sorted ts" and "\<forall>x \<in> set ts. x \<le> now"
  shows "filter (\<lambda>s. s > now - w) (stamps (record_all k w ts t) (canonicalSupervisorTaskName k))
       = filter (\<lambda>s. s > now - w) (stamps t (canonicalSupervisorTaskName k) @ ts)"
  using assms
proof (induction ts arbitrary: t)
  case (Cons x ts)
  then show ?case using filter_window [of x now w] by (simp add: rec_stamps)
qed simp

text \<open>After any run of recordings the count is the number of events inside the window.\<close>

lemma count_exact:
  assumes "sorted ts" and "\<forall>x \<in> set ts. x \<le> now"
  shows "cnt k now w (record_all k w ts (clr k t)) = int (length (filter (\<lambda>s. s > now - w) ts))"
  using record_all_window [OF assms, of w k "clr k t"] by (simp add: cnt_stamps clr_stamps)

lemma other_tasks:
  assumes "canonicalSupervisorTaskName j \<noteq> canonicalSupervisorTaskName k"
  shows "cnt j now w (record_all k v ts t) = cnt j now w t"
  using assms by (induction ts arbitrary: t) (simp_all add: cnt_stamps rec_stamps)

end

interpretation crashes: sliding_window RecordCrashAndCountInWindow CrashCountInWindow ClearCrashes
  "\<lambda>t. times_of (failures t)"
  by unfold_locales
     (auto simp: RecordCrashAndCountInWindow_def CrashCountInWindow_def ClearCrashes_def times_of_def
        Let_def)

interpretation reallocs: sliding_window RecordReallocationAndCountInWindow ReallocationCountInWindow
  ClearReallocations "\<lambda>t. times_of (reallocations t)"
  by unfold_locales
     (auto simp: RecordReallocationAndCountInWindow_def ReallocationCountInWindow_def
        ClearReallocations_def times_of_def Let_def)

text \<open>
  C18. The crash counter is exact: after clearing a task and recording any run of crashes in the order
  they happened, the count at any later instant is the number of those crashes inside the window,
  although recording keeps discarding old ones; other tasks' counts do not move, and the same holds
  for the port-reallocation counter.
\<close>

theorem crash_window_exact:
  assumes "sorted ts" and "\<forall>x \<in> set ts. x \<le> now"
  shows "CrashCountInWindow k now w (crashes.record_all k w ts (ClearCrashes k t))
           = int (length (filter (\<lambda>s. s > now - w) ts))
    \<and> ReallocationCountInWindow k now w (reallocs.record_all k w ts (ClearReallocations k t))
           = int (length (filter (\<lambda>s. s > now - w) ts))
    \<and> (canonicalSupervisorTaskName j \<noteq> canonicalSupervisorTaskName k \<longrightarrow>
         CrashCountInWindow j now v (crashes.record_all k w ts t) = CrashCountInWindow j now v t)"
  using crashes.count_exact [OF assms] reallocs.count_exact [OF assms] crashes.other_tasks by blast

theorem crash_window_exact_witness:
  "CrashCountInWindow ''a'' 1000 100
     (crashes.record_all ''a'' 100 [10, 950, 990] (ClearCrashes ''a'' NewDaemonRuntimeTracker)) = 2"
  using crash_window_exact [of "[10, 950, 990]" 1000 "''a''" 100 NewDaemonRuntimeTracker "''b''" 0]
  by simp

section \<open>The invariant of the entries\<close>

text \<open>
  Every operation that changes the tracker at run time, as one step relation. Loading the state file
  happens once, before the first step.
\<close>

inductive tracker_step :: "DaemonRuntimeTracker \<Rightarrow> DaemonRuntimeTracker \<Rightarrow> bool" where
  step_spawned: "tracker_step t (snd (MarkSpawned k pid at t))"
| step_spawn_failed: "tracker_step t (MarkSpawnFailed k err t)"
| step_spawn_failed_orphan: "tracker_step t (MarkSpawnFailedPreservePID k err pid t)"
| step_exited: "tracker_step t (MarkExited k t)"
| step_exited_if: "tracker_step t (snd (MarkExitedIfCurrent k gen t))"
| step_terminated: "tracker_step t (MarkTerminated k t)"
| step_backoff: "tracker_step t (MarkBackoff k t)"
| step_quarantined: "tracker_step t (MarkQuarantined k t)"
| step_removed: "tracker_step t (Remove k t)"
| step_job: "tracker_step t (MarkJobProtection k b t)"
| step_hold: "tracker_step t (MarkSpawnHold k r p t)"
| step_unhold: "tracker_step t (snd (ClearSpawnHold k t))"
| step_crash: "tracker_step t (snd (RecordCrashAndCountInWindow k now w t))"
| step_clear_crashes: "tracker_step t (ClearCrashes k t)"
| step_realloc: "tracker_step t (snd (RecordReallocationAndCountInWindow k now w t))"
| step_clear_reallocs: "tracker_step t (ClearReallocations k t)"
| step_readiness: "tracker_step t (snd (snd (MarkReadinessObservationWithSettlement ob t)))"
| step_lazy: "tracker_step t (snd (CommitLazyProxyReadinessEvent ev t))"

definition entry_wf :: "string \<Rightarrow> DaemonRuntimeEntry \<Rightarrow> bool" where
  "entry_wf k e \<longleftrightarrow>
     0 \<le> PIDGeneration e
   \<and> (CurrentPID e \<noteq> 0 \<longrightarrow> State e = daemonRuntimeStateRunning \<and> 0 < PIDGeneration e)
   \<and> (OrphanPID e \<noteq> 0 \<longrightarrow> CurrentPID e = 0)
   \<and> (\<forall>ob. ReadinessObservation e = Some ob \<longrightarrow>
        State e = daemonRuntimeStateRunning \<and> 0 < CurrentPID e \<and> o_PID ob = CurrentPID e
        \<and> sint (ObservedPIDGeneration ob) = PIDGeneration e \<and> o_TaskName ob = k)"

definition tracker_wf :: "DaemonRuntimeTracker \<Rightarrow> bool" where
  "tracker_wf t \<longleftrightarrow>
     (\<forall>k e. entries t k = Some e \<longrightarrow> entry_wf k e \<and> canonicalSupervisorTaskName k = k)
   \<and> (\<forall>k. lazyReadiness t k \<noteq> None \<longrightarrow>
        (\<exists>e. entries t k = Some e \<and> State e = daemonRuntimeStateRunning \<and> 0 < CurrentPID e))"

text \<open>
  Every mark writes one entry of one canonical task, and drops the task's lazy state or keeps it with
  a running entry.
\<close>

lemma zero_entry_wf: "entry_wf k zero_entry"
  by (simp add: entry_wf_def zero_entry_def)

lemma entry_of_wf: "tracker_wf t \<Longrightarrow> entry_wf k (entry_of t k)"
  by (auto simp: entry_of_def tracker_wf_def zero_entry_wf split: option.splits)

lemma touch_wf:
  assumes "tracker_wf t" and "canonicalSupervisorTaskName c = c"
    and "\<And>x. x \<noteq> c \<Longrightarrow> entries t' x = entries t x \<and> lazyReadiness t' x = lazyReadiness t x"
    and "\<And>e. entries t' c = Some e \<Longrightarrow> entry_wf c e"
    and "lazyReadiness t' c \<noteq> None \<Longrightarrow>
           \<exists>e. entries t' c = Some e \<and> State e = daemonRuntimeStateRunning \<and> 0 < CurrentPID e"
  shows "tracker_wf t'"
  unfolding tracker_wf_def
proof (intro conjI allI impI)
  fix k e assume "entries t' k = Some e"
  with assms show "entry_wf k e" and "canonicalSupervisorTaskName k = k"
    by (cases "k = c"; simp add: tracker_wf_def)+
next
  fix k assume "lazyReadiness t' k \<noteq> None"
  with assms show "\<exists>e. entries t' k = Some e \<and> State e = daemonRuntimeStateRunning \<and> 0 < CurrentPID e"
    by (cases "k = c") (simp_all add: tracker_wf_def)
qed

lemma put_entry_fields [simp]:
  "entries (put_entry k (t, e)) = (entries t)(k \<mapsto> e)"
  "lazyReadiness (put_entry k (t, e)) = lazyReadiness t"
  "ownershipGeneration (put_entry k (t, e)) = ownershipGeneration t"
  "readinessSettlements (put_entry k (t, e)) = readinessSettlements t"
  by (simp_all add: put_entry_def)

lemma drop_lazy_fields [simp]:
  "entries (drop_lazy k t) = entries t"
  "lazyReadiness (drop_lazy k t) = (lazyReadiness t)(k := None)"
  "ownershipGeneration (drop_lazy k t) = ownershipGeneration t"
  by (simp_all add: drop_lazy_def)

lemmas mark_defs = MarkSpawned_def MarkSpawnFailed_def MarkSpawnFailedPreservePID_def MarkExited_def
  MarkExitedIfCurrent_def MarkTerminated_def MarkBackoff_def MarkQuarantined_def setCurrentPIDLocked_def

lemma lifecycle_marks_wf:
  assumes "tracker_wf t"
  shows "tracker_wf (snd (MarkSpawned k pid at t))" and "tracker_wf (MarkSpawnFailed k err t)"
    and "tracker_wf (MarkSpawnFailedPreservePID k err pid t)" and "tracker_wf (MarkExited k t)"
    and "tracker_wf (snd (MarkExitedIfCurrent k gen t))" and "tracker_wf (MarkTerminated k t)"
    and "tracker_wf (MarkBackoff k t)" and "tracker_wf (MarkQuarantined k t)" and "tracker_wf (Remove k t)"
  by (rule touch_wf [OF assms sk.canon_idem, where s1 = k];
      use assms entry_of_wf [OF assms, of "canonicalSupervisorTaskName k"] in
        \<open>auto simp: mark_defs Remove_def Let_def entry_wf_def tracker_wf_def split: if_splits option.splits\<close>)+

lemma entry_of_lazy:
  "tracker_wf t \<Longrightarrow> lazyReadiness t k \<noteq> None \<Longrightarrow>
     State (entry_of t k) = daemonRuntimeStateRunning \<and> 0 < CurrentPID (entry_of t k)"
  by (fastforce simp: tracker_wf_def entry_of_def)

lemma annotation_marks_wf:
  assumes "tracker_wf t"
  shows "tracker_wf (MarkJobProtection k b t)" and "tracker_wf (MarkSpawnHold k r p t)"
    and "tracker_wf (snd (ClearSpawnHold k t))"
  by (rule touch_wf [OF assms sk.canon_idem, where s1 = k];
      use assms entry_of_wf [OF assms, of "canonicalSupervisorTaskName k"]
        entry_of_lazy [OF assms, of "canonicalSupervisorTaskName k"] in
        \<open>auto simp: MarkJobProtection_def MarkSpawnHold_def ClearSpawnHold_def Let_def entry_wf_def
           tracker_wf_def split: if_splits option.splits\<close>)+

lemma window_marks_wf:
  assumes "tracker_wf t"
  shows "tracker_wf (snd (RecordCrashAndCountInWindow k now w t))" and "tracker_wf (ClearCrashes k t)"
    and "tracker_wf (snd (RecordReallocationAndCountInWindow k now w t))"
    and "tracker_wf (ClearReallocations k t)"
  using assms
  by (simp_all add: tracker_wf_def RecordCrashAndCountInWindow_def ClearCrashes_def
        RecordReallocationAndCountInWindow_def ClearReallocations_def Let_def)

text \<open>What an accepted readiness observation leaves, and that a refused one leaves everything.\<close>

lemma markReadiness_result:
  "markReadinessObservationLocked k ob t = (acc, evt, t') \<Longrightarrow>
     (acc \<longleftrightarrow> observation_current (entries t k) ob)
   \<and> (\<not> acc \<longrightarrow> t' = t \<and> evt = None)
   \<and> (acc \<longrightarrow> entries t' = (entries t)(k \<mapsto> (entry_of t k)\<lparr>ReadinessObservation := Some (ob\<lparr>o_TaskName := k\<rparr>)\<rparr>)
            \<and> ownershipGeneration t' = ownershipGeneration t)
   \<and> lazyReadiness t' = lazyReadiness t"
  by (auto simp: markReadinessObservationLocked_def Let_def split: if_splits option.splits)

lemma markReadiness_wf:
  assumes wf: "tracker_wf t" and c: "canonicalSupervisorTaskName k = k"
  shows "tracker_wf (snd (snd (markReadinessObservationLocked k ob t)))"
proof -
  obtain acc evt t' where r: "markReadinessObservationLocked k ob t = (acc, evt, t')"
    by (cases "markReadinessObservationLocked k ob t") auto
  note res = markReadiness_result [OF r]
  show ?thesis
  proof (cases acc)
    case True
    with res obtain e where e: "entries t k = Some e" "observation_current (Some e) ob"
      by (auto simp: observation_current_def split: option.splits)
    from wf e have "entry_wf k e" by (simp add: tracker_wf_def)
    moreover have "entries t' = (entries t)(k \<mapsto> e\<lparr>ReadinessObservation := Some (ob\<lparr>o_TaskName := k\<rparr>)\<rparr>)"
      using True res e by (simp add: entry_of_def)
    moreover have "lazyReadiness t' = lazyReadiness t" using res by blast
    ultimately have "tracker_wf t'"
      by (intro touch_wf [OF wf c]) (use e in \<open>auto simp: entry_wf_def observation_current_def\<close>)
    with r show ?thesis by simp
  qed (use r res wf in simp)
qed

text \<open>
  What committing a lazy-proxy event does: nothing, or it passes the observation on and records the
  new epoch and transition, where the old ones were an earlier step of the same wrapper process.
\<close>

definition lazy_state :: "DaemonRuntimeTracker \<Rightarrow> string \<Rightarrow> lazyProxyReadinessState" where
  "lazy_state t k = (case lazyReadiness t k of None \<Rightarrow> \<lparr>lz_Epoch = 0, lz_Transition = []\<rparr> | Some c \<Rightarrow> c)"

definition lazy_advances :: "lazyProxyReadinessState \<Rightarrow> LazyProxyReadinessEventV1 \<Rightarrow> bool" where
  "lazy_advances c ev =
     (if lz_Epoch c = BackendEpoch ev then lz_Transition c = ''starting'' \<and> ev_Transition ev = ''ready''
      else lz_Epoch c < BackendEpoch ev \<and> ev_Transition ev \<noteq> ''ready''
           \<and> (lz_Epoch c = 0 \<longrightarrow> ev_Transition ev = ''starting''))"

lemma lazy_commit_result:
  assumes "CommitLazyProxyReadinessEvent ev t = (r, t')"
  defines "k \<equiv> canonicalSupervisorTaskName (ev_TaskName ev)"
  shows "t' = t
       \<or> (\<exists>e evt rec m. r = Inr (rec, evt) \<and> LzDisposition rec = ''accepted''
            \<and> entries t k = Some e \<and> State e = daemonRuntimeStateRunning \<and> CurrentPID e = WrapperPID ev
            \<and> Some (StartedAt e) = parsed_nonzero (WrapperStartedAt ev)
            \<and> lazy_advances (lazy_state t k) ev
            \<and> markReadinessObservationLocked k (lazy_observation k e (ev_Transition ev)) t = (True, evt, m)
            \<and> t' = m\<lparr>lazyReadiness := (lazyReadiness m)
                     (k \<mapsto> \<lparr>lz_Epoch = BackendEpoch ev, lz_Transition = ev_Transition ev\<rparr>)\<rparr>)"
proof (cases "t' = t")
  case False
  note d = assms(1) [unfolded CommitLazyProxyReadinessEvent_def Let_def, folded k_def lazy_state_def]
  have v: "\<not> (ProtocolVersion ev \<noteq> 1 \<or> \<not> IsLazyProxyTaskName (ev_TaskName ev) \<or> WrapperPID ev \<le> 0
         \<or> BackendEpoch ev = 0 \<or> lazyReadinessTransitionRank (ev_Transition ev) = 0)"
    by (rule ccontr) (use d False in simp)
  note d = d [unfolded if_not_P [OF v]]
  obtain a where a: "parsed_nonzero (WrapperStartedAt ev) = Some a"
    using d False by (cases "parsed_nonzero (WrapperStartedAt ev)") simp_all
  note d = d [unfolded a option.case]
  have o: "parsed_nonzero (ev_ObservedAt ev) \<noteq> None"
    by (rule ccontr) (use d False in simp)
  note d = d [unfolded if_not_P [OF o]]
  obtain e where e: "entries t k = Some e"
    using d False by (cases "entries t k") simp_all
  note d = d [unfolded e option.case]
  have i: "\<not> (State e \<noteq> daemonRuntimeStateRunning \<or> CurrentPID e \<noteq> WrapperPID ev \<or> StartedAt e \<noteq> a)"
    by (rule ccontr) (use d False in simp)
  note d = d [unfolded if_not_P [OF i]]
  have adv: "lazy_advances (lazy_state t k) ev"
    by (rule ccontr) (use d False in \<open>auto simp: lazy_advances_def split: if_splits\<close>)
  obtain acc evt m where m:
    "markReadinessObservationLocked k (lazy_observation k e (ev_Transition ev)) t = (acc, evt, m)"
    by (cases "markReadinessObservationLocked k (lazy_observation k e (ev_Transition ev)) t") auto
  from markReadiness_result [OF m] d [unfolded m] False adv have acc
    by (cases acc) (auto simp: lazy_advances_def split: if_splits)
  with d [unfolded m] False adv i a e m show ?thesis
    by (auto simp: lazy_advances_def split: if_splits)
qed simp

lemma lazy_commit_wf:
  assumes wf: "tracker_wf t"
  shows "tracker_wf (snd (CommitLazyProxyReadinessEvent ev t))"
proof -
  obtain r t' where r: "CommitLazyProxyReadinessEvent ev t = (r, t')"
    by (cases "CommitLazyProxyReadinessEvent ev t")
  let ?k = "canonicalSupervisorTaskName (ev_TaskName ev)"
  show ?thesis
  proof (cases "t' = t")
    case False
    with lazy_commit_result [OF r] obtain e evt m where
      m: "markReadinessObservationLocked ?k (lazy_observation ?k e (ev_Transition ev)) t = (True, evt, m)"
      and t': "t' = m\<lparr>lazyReadiness := (lazyReadiness m)
                     (?k \<mapsto> \<lparr>lz_Epoch = BackendEpoch ev, lz_Transition = ev_Transition ev\<rparr>)\<rparr>"
      by blast
    from markReadiness_wf [OF wf sk.canon_idem, of "ev_TaskName ev"] m have wf': "tracker_wf m"
      by (metis snd_conv)
    from markReadiness_result [OF m]
    have "\<exists>e'. entries m ?k = Some e' \<and> ReadinessObservation e' \<noteq> None" by simp
    with wf' obtain e' where "entries m ?k = Some e'" "State e' = daemonRuntimeStateRunning"
      "0 < CurrentPID e'"
      by (auto simp: tracker_wf_def entry_wf_def)
    with wf' have "tracker_wf t'"
      by (intro touch_wf [OF wf' sk.canon_idem]) (auto simp: t' tracker_wf_def)
    with r show ?thesis by simp
  qed (use r wf in simp)
qed

lemma tracker_step_wf:
  assumes wf: "tracker_wf t" and "tracker_step t t'"
  shows "tracker_wf t'"
  using assms(2)
proof cases
  case (step_readiness ob)
  then show ?thesis
    using wf by (simp add: MarkReadinessObservationWithSettlement_def markReadiness_wf sk.canon_idem)
qed (simp_all add: lifecycle_marks_wf annotation_marks_wf window_marks_wf lazy_commit_wf wf)

interpretation rt: invariant_system "\<lambda>t. t = NewDaemonRuntimeTracker" tracker_step tracker_wf
proof unfold_locales
  show "tracker_wf s" if "s = NewDaemonRuntimeTracker" for s
    using that by (simp add: NewDaemonRuntimeTracker_def tracker_wf_def)
qed (rule tracker_step_wf)


section \<open>Ownership, generations and stale exits\<close>

lemma entry_of_put [simp]:
  "entry_of (put_entry k (t, e)) j = (if j = k then e else entry_of t j)"
  by (simp add: entry_of_def)

lemma entry_of_other [simp]:
  "entry_of (t\<lparr>ownershipGeneration := g\<rparr>) j = entry_of t j"
  "entry_of (drop_lazy k t) j = entry_of t j"
  "entry_of (t\<lparr>failures := f\<rparr>) j = entry_of t j" "entry_of (t\<lparr>reallocations := f\<rparr>) j = entry_of t j"
  "entry_of (t\<lparr>lazyReadiness := l\<rparr>) j = entry_of t j"
  "entry_of (t\<lparr>readinessSettlements := s\<rparr>) j = entry_of t j"
  by (simp_all add: entry_of_def)

definition owned :: "DaemonRuntimeTracker \<Rightarrow> string \<Rightarrow> int" where
  "owned t k = CurrentPID (entry_of t k)"

definition counts_ownership :: "DaemonRuntimeTracker \<Rightarrow> DaemonRuntimeTracker \<Rightarrow> bool" where
  "counts_ownership t t' \<longleftrightarrow>
     ownershipGeneration t' = ownershipGeneration t + (if owned t' = owned t then 0 else 1)"

lemma counts_ownershipI:
  assumes "\<And>j. j \<noteq> k \<Longrightarrow> owned t' j = owned t j"
    and "ownershipGeneration t' = ownershipGeneration t + (if owned t' k = owned t k then 0 else 1)"
  shows "counts_ownership t t'"
proof (cases "owned t' k = owned t k")
  case True
  with assms(1) have "owned t' = owned t" by (metis ext)
  with True assms(2) show ?thesis by (simp add: counts_ownership_def)
next
  case False
  then have "owned t' \<noteq> owned t" by metis
  with False assms(2) show ?thesis by (simp add: counts_ownership_def)
qed

lemma markReadiness_entry_of:
  assumes "markReadinessObservationLocked k ob t = (acc, evt, t')"
  shows "CurrentPID (entry_of t' j) = CurrentPID (entry_of t j)
       \<and> PIDGeneration (entry_of t' j) = PIDGeneration (entry_of t j)
       \<and> ownershipGeneration t' = ownershipGeneration t"
  using markReadiness_result [OF assms] by (cases acc) (auto simp: entry_of_def)

lemma lazy_commit_entry_of:
  assumes "CommitLazyProxyReadinessEvent ev t = (r, t')"
  shows "CurrentPID (entry_of t' j) = CurrentPID (entry_of t j)
       \<and> PIDGeneration (entry_of t' j) = PIDGeneration (entry_of t j)
       \<and> ownershipGeneration t' = ownershipGeneration t"
  using lazy_commit_result [OF assms] markReadiness_entry_of by fastforce

lemma lifecycle_ownership:
  "counts_ownership t (snd (MarkSpawned k pid at t))" "counts_ownership t (MarkSpawnFailed k err t)"
  "counts_ownership t (MarkSpawnFailedPreservePID k err pid t)" "counts_ownership t (MarkExited k t)"
  "counts_ownership t (snd (MarkExitedIfCurrent k gen t))" "counts_ownership t (MarkTerminated k t)"
  "counts_ownership t (MarkBackoff k t)" "counts_ownership t (MarkQuarantined k t)"
  by (rule counts_ownershipI [where k = "canonicalSupervisorTaskName k"];
      auto simp: mark_defs Let_def owned_def)+

lemma removal_ownership: "counts_ownership t (Remove k t)"
  by (rule counts_ownershipI [where k = "canonicalSupervisorTaskName k"])
     (auto simp: Remove_def Let_def owned_def entry_of_def zero_entry_def split: option.splits)

lemma annotation_ownership:
  "counts_ownership t (MarkJobProtection k b t)" "counts_ownership t (MarkSpawnHold k r p t)"
  "counts_ownership t (snd (ClearSpawnHold k t))"
  by (rule counts_ownershipI [where k = "canonicalSupervisorTaskName k"];
      auto simp: MarkJobProtection_def MarkSpawnHold_def ClearSpawnHold_def Let_def owned_def)+

lemma window_ownership:
  "counts_ownership t (snd (RecordCrashAndCountInWindow k now w t))" "counts_ownership t (ClearCrashes k t)"
  "counts_ownership t (snd (RecordReallocationAndCountInWindow k now w t))"
  "counts_ownership t (ClearReallocations k t)"
  by (rule counts_ownershipI [where k = k];
      simp add: RecordCrashAndCountInWindow_def ClearCrashes_def RecordReallocationAndCountInWindow_def
        ClearReallocations_def Let_def owned_def)+

lemma readiness_ownership:
  "counts_ownership t (snd (snd (MarkReadinessObservationWithSettlement ob t)))"
  "counts_ownership t (snd (CommitLazyProxyReadinessEvent ev t))"
proof -
  obtain acc evt t' where "markReadinessObservationLocked (canonicalSupervisorTaskName (o_TaskName ob)) ob t
      = (acc, evt, t')" by (metis prod_cases3)
  with markReadiness_entry_of [OF this]
  show "counts_ownership t (snd (snd (MarkReadinessObservationWithSettlement ob t)))"
    by (intro counts_ownershipI [where k = "[]"])
       (auto simp: MarkReadinessObservationWithSettlement_def owned_def)
next
  obtain r t' where "CommitLazyProxyReadinessEvent ev t = (r, t')" by fastforce
  with lazy_commit_entry_of [OF this]
  show "counts_ownership t (snd (CommitLazyProxyReadinessEvent ev t))"
    by (intro counts_ownershipI [where k = "[]"]) (auto simp: owned_def)
qed

text \<open>
  C20. The ownership generation is an exact fence: a step of the tracker raises it by one (at 64-bit
  width) when it changes which process some task owns, and leaves it alone otherwise. A reader who
  saw the same value before and after one step saw the same owned process for every task.
\<close>

theorem ownership_generation_exact:
  assumes "tracker_step t t'"
  shows "ownershipGeneration t' = ownershipGeneration t
           + (if (\<lambda>k. CurrentPID (entry_of t' k)) = (\<lambda>k. CurrentPID (entry_of t k)) then 0 else 1)"
proof -
  have "counts_ownership t t'"
    using assms by cases (simp_all add: lifecycle_ownership removal_ownership annotation_ownership
      window_ownership readiness_ownership)
  then show ?thesis by (simp add: counts_ownership_def owned_def [abs_def])
qed

text \<open>Generations never go down while a task keeps its entry.\<close>

definition gen_of :: "DaemonRuntimeTracker \<Rightarrow> string \<Rightarrow> int" where
  "gen_of t k = PIDGeneration (entry_of t k)"

lemma step_gen_mono:
  assumes "tracker_step t t'" and kept: "entries t' k \<noteq> None"
  shows "gen_of t k \<le> gen_of t' k"
  using assms(1)
proof cases
  case (step_removed k')
  with kept show ?thesis
    by (cases "k = canonicalSupervisorTaskName k'") (simp_all add: Remove_def Let_def gen_of_def entry_of_def)
next
  case (step_readiness ob)
  then show ?thesis
    using markReadiness_entry_of [of "canonicalSupervisorTaskName (o_TaskName ob)" ob t]
    by (auto simp: MarkReadinessObservationWithSettlement_def gen_of_def)
       (metis dual_order.refl prod_cases3 snd_conv)
next
  case (step_lazy ev)
  then show ?thesis
    using lazy_commit_entry_of [of ev t] by (auto simp: gen_of_def) (metis dual_order.refl prod.collapse)
qed (auto simp: mark_defs Let_def gen_of_def MarkJobProtection_def MarkSpawnHold_def ClearSpawnHold_def
       RecordCrashAndCountInWindow_def ClearCrashes_def RecordReallocationAndCountInWindow_def
       ClearReallocations_def)

text \<open>Any number of steps, none of which removes the task.\<close>

inductive keeps_task :: "string \<Rightarrow> DaemonRuntimeTracker \<Rightarrow> DaemonRuntimeTracker \<Rightarrow> bool" for k where
  keeps_refl: "keeps_task k t t"
| keeps_step: "keeps_task k t t' \<Longrightarrow> tracker_step t' t'' \<Longrightarrow> entries t'' k \<noteq> None \<Longrightarrow> keeps_task k t t''"

lemma keeps_gen_mono: "keeps_task k t t' \<Longrightarrow> gen_of t k \<le> gen_of t' k"
  by (induction rule: keeps_task.induct) (auto dest: step_gen_mono)

lemma MarkSpawned_gen:
  "fst (MarkSpawned k pid at t) = gen_of t (canonicalSupervisorTaskName k) + 1"
  "gen_of (snd (MarkSpawned k pid at t)) (canonicalSupervisorTaskName k)
     = gen_of t (canonicalSupervisorTaskName k) + 1"
  by (simp_all add: MarkSpawned_def setCurrentPIDLocked_def Let_def gen_of_def)


section \<open>Readiness observations\<close>

lemma markReadiness_again:
  assumes "markReadinessObservationLocked k ob t = (True, evt, t')"
  shows "markReadinessObservationLocked k ob t' = (True, None, t')"
proof -
  let ?ob = "ob\<lparr>o_TaskName := k\<rparr>"
  from markReadiness_result [OF assms] obtain e where e: "entries t k = Some e"
    and cur: "observation_current (Some e) ob"
    by (cases "entries t k") (simp_all add: observation_current_def)
  have e': "entries t' k = Some (e\<lparr>ReadinessObservation := Some ?ob\<rparr>)"
    using markReadiness_result [OF assms] e by (simp add: entry_of_def)
  then have put: "put_entry k (t', (entry_of t' k)\<lparr>ReadinessObservation := Some ?ob\<rparr>) = t'"
    by (simp add: put_entry_def entry_of_def fun_upd_idem)
  have settled: "readinessSettlements t' k = Some tuple" if "settlement_tuple ?ob = Some tuple" for tuple
    using assms that e cur
    by (auto simp: markReadinessObservationLocked_def Let_def split: if_splits)
  have "observation_current (entries t' k) ob"
    using cur by (simp add: e' observation_current_def)
  then show ?thesis
    using settled by (cases "settlement_tuple ?ob") (simp_all add: markReadinessObservationLocked_def Let_def put)
qed

text \<open>
  C22. A readiness observation is accepted exactly when it names a task whose entry is running the
  very process and generation observed; a refused one changes nothing and emits nothing. An accepted
  observation that settles emits its settlement tuple, and submitting it again is accepted without
  a second event and without a change.
\<close>

theorem readiness_only_for_current:
  assumes "MarkReadinessObservationWithSettlement ob t = (acc, evt, t')"
  shows "(acc \<longleftrightarrow> o_TaskName ob \<noteq> [] \<and> (\<exists>e. Get (o_TaskName ob) t = Some e
             \<and> State e = daemonRuntimeStateRunning \<and> 0 < o_PID ob \<and> CurrentPID e = o_PID ob
             \<and> ObservedPIDGeneration ob \<noteq> 0 \<and> CurrentPIDGeneration ob = ObservedPIDGeneration ob
             \<and> sint (ObservedPIDGeneration ob) = PIDGeneration e))
       \<and> (\<not> acc \<longrightarrow> t' = t \<and> evt = None)
       \<and> (acc \<longrightarrow> MarkReadinessObservationWithSettlement ob t' = (True, None, t'))"
proof -
  let ?k = "canonicalSupervisorTaskName (o_TaskName ob)"
  have 1: "acc \<longleftrightarrow> o_TaskName ob \<noteq> [] \<and> observation_current (entries t ?k) ob"
    and 2: "\<not> acc \<longrightarrow> t' = t \<and> evt = None"
    using assms markReadiness_result [of ?k ob t acc evt t']
    by (auto simp: MarkReadinessObservationWithSettlement_def split: if_splits)
  have 3: "MarkReadinessObservationWithSettlement ob t' = (True, None, t')" if acc
    using that 1 assms markReadiness_again [of ?k ob t evt t']
    by (simp add: MarkReadinessObservationWithSettlement_def)
  have "observation_current (entries t ?k) ob \<longleftrightarrow> (\<exists>e. Get (o_TaskName ob) t = Some e
             \<and> State e = daemonRuntimeStateRunning \<and> 0 < o_PID ob \<and> CurrentPID e = o_PID ob
             \<and> ObservedPIDGeneration ob \<noteq> 0 \<and> CurrentPIDGeneration ob = ObservedPIDGeneration ob
             \<and> sint (ObservedPIDGeneration ob) = PIDGeneration e)"
    by (cases "entries t ?k") (auto simp: observation_current_def Get_def)
  with 1 2 3 show ?thesis by blast
qed

text \<open>The order of lazy-proxy readiness: by backend epoch, then by the rank of the transition.\<close>

definition lazy_le :: "lazyProxyReadinessState \<Rightarrow> lazyProxyReadinessState \<Rightarrow> bool" where
  "lazy_le a b \<longleftrightarrow> lz_Epoch a < lz_Epoch b
     \<or> (lz_Epoch a = lz_Epoch b
        \<and> lazyReadinessTransitionRank (lz_Transition a) \<le> lazyReadinessTransitionRank (lz_Transition b))"

lemma lazy_le_refl [simp]: "lazy_le a a"
  by (simp add: lazy_le_def)

lemma lazy_le_trans [trans]: "lazy_le a b \<Longrightarrow> lazy_le b c \<Longrightarrow> lazy_le a c"
  by (auto simp: lazy_le_def)

lemma lazy_commit_le:
  "lazy_le (lazy_state t k) (lazy_state (snd (CommitLazyProxyReadinessEvent ev t)) k)"
proof -
  obtain r t' where r: "CommitLazyProxyReadinessEvent ev t = (r, t')" by fastforce
  from lazy_commit_result [OF r] show ?thesis
  proof (elim disjE exE conjE)
    fix e evt m
    let ?c = "canonicalSupervisorTaskName (ev_TaskName ev)"
    assume adv: "lazy_advances (lazy_state t ?c) ev"
      and m: "markReadinessObservationLocked ?c (lazy_observation ?c e (ev_Transition ev)) t = (True, evt, m)"
      and t': "t' = m\<lparr>lazyReadiness := (lazyReadiness m)
                     (?c \<mapsto> \<lparr>lz_Epoch = BackendEpoch ev, lz_Transition = ev_Transition ev\<rparr>)\<rparr>"
    from markReadiness_result [OF m] have "lazyReadiness m = lazyReadiness t" by blast
    with adv r t' show ?thesis
      by (cases "k = ?c") (auto simp: lazy_state_def lazy_advances_def lazy_le_def
            lazyReadinessTransitionRank_def split: if_splits)
  qed (use r in simp)
qed

text \<open>
  C23. Lazy-proxy readiness never goes backwards: whatever events arrive, in whatever order, from
  whatever task, the recorded backend epoch of a task never decreases and within an epoch the
  transition only advances; and no such event ever changes which process a task owns or its
  generation.
\<close>

theorem lazy_readiness_monotone:
  "lazy_le (lazy_state t k) (lazy_state (fold (\<lambda>ev t. snd (CommitLazyProxyReadinessEvent ev t)) evs t) k)
 \<and> (let t' = fold (\<lambda>ev t. snd (CommitLazyProxyReadinessEvent ev t)) evs t
    in CurrentPID (entry_of t' k) = CurrentPID (entry_of t k)
       \<and> PIDGeneration (entry_of t' k) = PIDGeneration (entry_of t k)
       \<and> ownershipGeneration t' = ownershipGeneration t)"
proof (induction evs arbitrary: t)
  case (Cons ev evs)
  have "lazy_le (lazy_state t k) (lazy_state (snd (CommitLazyProxyReadinessEvent ev t)) k)"
    by (rule lazy_commit_le)
  with Cons.IH [of "snd (CommitLazyProxyReadinessEvent ev t)"]
    lazy_commit_entry_of [of ev t "fst (CommitLazyProxyReadinessEvent ev t)"
      "snd (CommitLazyProxyReadinessEvent ev t)" k]
  show ?case by (auto simp: Let_def intro: lazy_le_trans)
qed simp

section \<open>Witnesses\<close>

definition demo_ready :: DaemonReadinessObservationV1 where
  "demo_ready = (lazy_observation ''x'' (zero_entry\<lparr>CurrentPID := 42, PIDGeneration := 1\<rparr>) ''starting'')"

definition demo_spawned :: DaemonRuntimeTracker where
  "demo_spawned = snd (MarkSpawned ''x'' 42 5 NewDaemonRuntimeTracker)"

lemmas demo_defs = demo_spawned_def MarkSpawned_def setCurrentPIDLocked_def NewDaemonRuntimeTracker_def
  entry_of_def zero_entry_def canonicalSupervisorTaskName_def has_prefix_def put_entry_def drop_lazy_def Let_def

lemma demo_entry:
  "Get ''x'' demo_spawned = Some (zero_entry\<lparr>State := daemonRuntimeStateRunning, CurrentPID := 42,
     StartedAt := 5, PIDGeneration := 1\<rparr>)"
  by (simp add: demo_defs Get_def)

lemma demo_reached: "reachable (\<lambda>t. t = NewDaemonRuntimeTracker) tracker_step demo_spawned"
  unfolding demo_spawned_def by (rule reachable.intros(2), rule reachable.intros(1), rule refl, rule step_spawned)


theorem ownership_generation_exact_witness:
  "tracker_step demo_spawned (MarkExited ''x'' demo_spawned)
   \<and> ownershipGeneration (MarkExited ''x'' demo_spawned) = 2
   \<and> ownershipGeneration demo_spawned = 1"
proof -
  have "CurrentPID (entry_of (MarkExited ''x'' demo_spawned) [backslash, CHR ''x'']) = 0"
    "CurrentPID (entry_of demo_spawned [backslash, CHR ''x'']) = 42"
    by (simp_all add: demo_defs MarkExited_def)
  then have "(\<lambda>k. CurrentPID (entry_of (MarkExited ''x'' demo_spawned) k))
      \<noteq> (\<lambda>k. CurrentPID (entry_of demo_spawned k))" by (metis zero_neq_numeral)
  with ownership_generation_exact [OF step_exited [of demo_spawned "''x''"]]
  have "ownershipGeneration (MarkExited ''x'' demo_spawned) = ownershipGeneration demo_spawned + 1" by simp
  then show ?thesis by (simp add: step_exited demo_spawned_def MarkSpawned_def setCurrentPIDLocked_def
        NewDaemonRuntimeTracker_def entry_of_def zero_entry_def Let_def)
qed


theorem readiness_only_for_current_witness:
  "fst (MarkReadinessObservationWithSettlement demo_ready demo_spawned)
   \<and> (let t' = snd (snd (MarkReadinessObservationWithSettlement demo_ready demo_spawned))
      in MarkReadinessObservationWithSettlement demo_ready t' = (True, None, t'))"
proof -
  obtain acc evt t' where r: "MarkReadinessObservationWithSettlement demo_ready demo_spawned = (acc, evt, t')"
    by (metis prod_cases3)
  have "o_TaskName demo_ready = ''x''" "o_PID demo_ready = 42" "ObservedPIDGeneration demo_ready = 1"
    "CurrentPIDGeneration demo_ready = 1"
    by (simp_all add: demo_ready_def lazy_observation_def Let_def)
  with readiness_only_for_current [OF r] demo_entry r show ?thesis by simp
qed

end
