(* ===== verification/Port_Squatter.thy ===== *)
theory Port_Squatter
  imports Windows_Argv Daemon_Port Respawn_Backoff Runtime_Tracker
begin

text \<open>
  When a process that the supervisor does not know holds the port of one of its daemons, it may be
  killed only if it is provably a lost child of that daemon. This theory has the classifier of
  \<open>internal/daemonrecovery/classifier.go\<close> and the rate-limited reaping of
  \<open>internal/cli/supervise_squatter.go\<close>. The lemmas show what a kill implies, that one command line
  never names two tasks, and how many kills any window can contain.
\<close>

section \<open>Identities and probes\<close>

datatype proc_error = ProcAlreadyExited | ProcIdentityMismatch | ProcOther string

record ProcessIdentity =
  id_PID :: int
  id_CommandLine :: string
  id_ExecutablePath :: string
  CreationDateUnix :: int

record PIDIdentityProof =
  pf_PID :: int
  pf_ExecutablePath :: string
  pf_CommandLine :: string
  pf_StartedAt :: stamp
  StartTolerance :: duration

text \<open>
  The operating system: the identity reader (absent outside Windows; it may fail), the executable
  test on a live handle, the identity-checking termination, and the path functions of the Go library.
\<close>

record squatter_os =
  LookupIdentity :: "(int \<Rightarrow> ProcessIdentity option) option"
  ExecutableMatches :: "int \<Rightarrow> string \<Rightarrow> bool"
  TerminatePIDWithIdentity :: "PIDIdentityProof \<Rightarrow> proc_error option"
  os_Executable :: string
  LookPath :: "string \<Rightarrow> string option"
  path_Base :: "string \<Rightarrow> string"
  path_Abs :: "string \<Rightarrow> string option"
  EvalSymlinks :: "string \<Rightarrow> string option"
  path_Clean :: "string \<Rightarrow> string"

definition expectedIdentityExecutable :: "squatter_os \<Rightarrow> string \<Rightarrow> string" where
  "expectedIdentityExecutable os command =
     (let exe = (if command = [] then os_Executable os
                 else if path_Base os command = command
                 then (case LookPath os command of Some l \<Rightarrow> l | None \<Rightarrow> os_Executable os)
                 else command)
      in if exe = [] then []
         else let exe = (case path_Abs os exe of Some a \<Rightarrow> a | None \<Rightarrow> exe);
                  exe = (case EvalSymlinks os exe of Some r \<Rightarrow> r | None \<Rightarrow> exe)
              in path_Clean os exe)"

text \<open>Unix seconds, rendered; the Unix epoch is 62135596800 seconds after Go's zero time.\<close>

definition identity_StartedAt :: "ProcessIdentity \<Rightarrow> stamp" where
  "identity_StartedAt i =
     (if CreationDateUnix i \<le> 0 then NoStamp
      else FormatRFC3339Nano ((CreationDateUnix i + 62135596800) * Second))"

definition KillProof :: "ProcessIdentity \<Rightarrow> PIDIdentityProof" where
  "KillProof i =
     \<lparr>pf_PID = id_PID i, pf_ExecutablePath = id_ExecutablePath i, pf_CommandLine = id_CommandLine i,
      pf_StartedAt = identity_StartedAt i,
      StartTolerance = (if id_PID i > 0 \<and> identity_StartedAt i \<noteq> NoStamp then Second else 0)\<rparr>"

section \<open>The task discriminator\<close>

text \<open>
  \<open>found\<close> is the value seen so far. A flag at the end of the arguments, or a second occurrence,
  refuses; a plain \<open>--\<close> ends the scan.
\<close>

fun unique_flag :: "string \<Rightarrow> string option \<Rightarrow> string list \<Rightarrow> string option" where
  "unique_flag flag found [] = found"
| "unique_flag flag found (t # ts) =
     (if t = ''--'' then found
      else if t = flag
      then (case ts of
              [] \<Rightarrow> None
            | v # rest \<Rightarrow> if found \<noteq> None then None else unique_flag flag (Some v) rest)
      else if has_prefix t (flag @ ''='')
      then if found \<noteq> None then None else unique_flag flag (Some (trim_prefix t (flag @ ''=''))) ts
      else unique_flag flag found ts)"

definition parserEffectiveUniqueFlagValue :: "string list \<Rightarrow> string \<Rightarrow> string option" where
  "parserEffectiveUniqueFlagValue tokens flag = unique_flag flag None tokens"

definition CommandLineHasAdjacentTokenPair :: "string list \<Rightarrow> string \<Rightarrow> string \<Rightarrow> bool" where
  "CommandLineHasAdjacentTokenPair tokens flag value =
     (parserEffectiveUniqueFlagValue tokens flag = Some value)"

definition hasSubcommandAnchor :: "string list \<Rightarrow> string list \<Rightarrow> bool" where
  "hasSubcommandAnchor tokens sub = (length tokens \<ge> 1 + length sub \<and> take (length sub) (drop 1 tokens) = sub)"

definition hasGlobalDaemonAnchor :: "string list \<Rightarrow> bool" where
  "hasGlobalDaemonAnchor tokens =
     (length tokens \<ge> 3 \<and> tokens ! 1 = ''daemon'' \<and> has_prefix (tokens ! 2) ''-'')"

definition DescriptorHasGlobalDaemonArgv :: "SupervisorDaemon \<Rightarrow> bool" where
  "DescriptorHasGlobalDaemonArgv d =
     (length (Args d) \<ge> 1 \<and> Args d ! 0 = ''daemon''
      \<and> \<not> IsSerenaProxyDescriptor d \<and> \<not> IsWorkspaceLSPProxyDescriptor d)"

text \<open>\<open>daemonrecovery.CanonicalTaskName\<close>, a second normaliser of task names.\<close>

definition recovery_CanonicalTaskName :: "string \<Rightarrow> string" where
  "recovery_CanonicalTaskName taskName =
     (if taskName = [] \<or> has_prefix taskName [backslash] then taskName else backslash # taskName)"

interpretation rk: task_canon recovery_CanonicalTaskName
  by unfold_locales (auto simp: recovery_CanonicalTaskName_def has_prefix_def neq_Nil_conv)

definition CommandLineMatchesTaskArgv :: "string list \<Rightarrow> SupervisorDaemon \<Rightarrow> bool" where
  "CommandLineMatchesTaskArgv tokens d =
     (if IsSerenaProxyDescriptor d
      then (case parserEffectiveUniqueFlagValue (Args d) ''--task-name'' of
              None \<Rightarrow> False
            | Some n \<Rightarrow> recovery_CanonicalTaskName (d_TaskName d) \<noteq> []
                \<and> recovery_CanonicalTaskName n = recovery_CanonicalTaskName (d_TaskName d)
                \<and> hasSubcommandAnchor tokens [''daemon'', ''serena-proxy'']
                \<and> CommandLineHasAdjacentTokenPair tokens ''--task-name'' n)
      else if IsWorkspaceLSPProxyDescriptor d
      then (case (parserEffectiveUniqueFlagValue (Args d) ''--workspace'',
                  parserEffectiveUniqueFlagValue (Args d) ''--language'') of
              (Some ws, Some lang) \<Rightarrow> ws \<noteq> [] \<and> lang \<noteq> []
                \<and> hasSubcommandAnchor tokens [''daemon'', ''workspace-proxy'']
                \<and> CommandLineHasAdjacentTokenPair tokens ''--workspace'' ws
                \<and> CommandLineHasAdjacentTokenPair tokens ''--language'' lang
            | _ \<Rightarrow> False)
      else if DescriptorHasGlobalDaemonArgv d
      then (case DescriptorServerDaemon d of
              None \<Rightarrow> False
            | Some (server, dm) \<Rightarrow> server \<noteq> [] \<and> dm \<noteq> []
                \<and> parserEffectiveUniqueFlagValue (Args d) ''--server'' = Some server
                \<and> parserEffectiveUniqueFlagValue (Args d) ''--daemon'' = Some dm
                \<and> hasGlobalDaemonAnchor tokens
                \<and> CommandLineHasAdjacentTokenPair tokens ''--server'' server
                \<and> CommandLineHasAdjacentTokenPair tokens ''--daemon'' dm)
      else False)"

section \<open>The classifier\<close>

datatype Verdict = VerdictOwnTask | VerdictForeign | VerdictUnverified

type_synonym tracked_map = "(string \<times> DaemonRuntimeEntry) list"

definition ClassifyPortOwner ::
  "squatter_os \<Rightarrow> SupervisorDaemon \<Rightarrow> int \<Rightarrow> int \<Rightarrow> tracked_map \<Rightarrow> Verdict \<times> ProcessIdentity option" where
  "ClassifyPortOwner os d ownerPID selfPID tracked =
     (let canon = recovery_CanonicalTaskName (d_TaskName d)
      in if ownerPID \<le> 0 \<or> (selfPID \<noteq> 0 \<and> ownerPID = selfPID) then (VerdictUnverified, None)
         else if (case map_of tracked canon of Some e \<Rightarrow> ownerPID = CurrentPID e | None \<Rightarrow> False)
         then (VerdictUnverified, None)
         else if list_ex (\<lambda>(task, e). recovery_CanonicalTaskName task \<noteq> canon
                   \<and> (ownerPID = CurrentPID e \<or> (OrphanPID e \<noteq> 0 \<and> ownerPID = OrphanPID e))) tracked
         then (VerdictForeign, None)
         else case LookupIdentity os of
                None \<Rightarrow> (VerdictUnverified, None)
              | Some look \<Rightarrow>
                  (case look ownerPID of
                     None \<Rightarrow> (VerdictUnverified, None)
                   | Some i \<Rightarrow>
                       if id_PID i \<noteq> ownerPID then (VerdictUnverified, None)
                       else let expectedExe = expectedIdentityExecutable os (Command d)
                            in if expectedExe = [] then (VerdictForeign, Some i)
                               else if \<not> ExecutableMatches os ownerPID expectedExe then (VerdictForeign, Some i)
                               else if \<not> CommandLineMatchesTaskArgv (TokenizeWindowsCommandLine (id_CommandLine i)) d
                               then (VerdictForeign, Some i)
                               else (VerdictOwnTask, Some i)))"

section \<open>The rate limiter\<close>

definition squatterLookupMinInterval :: duration where "squatterLookupMinInterval = 30 * Second"
definition squatterMaxReapsPerTaskWindow :: nat where "squatterMaxReapsPerTaskWindow = 3"
definition squatterMaxGlobalReapsPerWindow :: nat where "squatterMaxGlobalReapsPerWindow = 10"

record squatterReapLimiter =
  window :: duration
  lastLookup :: "string \<rightharpoonup> gotime"
  reapAttempts :: "string \<rightharpoonup> gotime list"
  globalReaps :: "gotime list"

definition newSquatterReapLimiter :: squatterReapLimiter where
  "newSquatterReapLimiter =
     \<lparr>window = respawnFailureWindow, lastLookup = Map.empty, reapAttempts = Map.empty, globalReaps = []\<rparr>"

definition allowLookup :: "string \<Rightarrow> gotime \<Rightarrow> squatterReapLimiter \<Rightarrow> bool" where
  "allowLookup task t l =
     (case lastLookup l task of None \<Rightarrow> True | Some u \<Rightarrow> time_sub t u \<ge> squatterLookupMinInterval)"

definition recordLookup :: "string \<Rightarrow> gotime \<Rightarrow> squatterReapLimiter \<Rightarrow> squatterReapLimiter" where
  "recordLookup task t l = l\<lparr>lastLookup := (lastLookup l)(task \<mapsto> t)\<rparr>"

definition pruneAbsent :: "string set \<Rightarrow> squatterReapLimiter \<Rightarrow> squatterReapLimiter" where
  "pruneAbsent seen l =
     l\<lparr>lastLookup := (\<lambda>k. if k \<in> seen then lastLookup l k else None),
       reapAttempts := (\<lambda>k. if k \<in> seen then reapAttempts l k else None)\<rparr>"

definition attempts_of :: "squatterReapLimiter \<Rightarrow> string \<Rightarrow> gotime list" where
  "attempts_of l task = (case reapAttempts l task of None \<Rightarrow> [] | Some ts \<Rightarrow> ts)"

definition pruneWindow :: "string \<Rightarrow> gotime \<Rightarrow> squatterReapLimiter \<Rightarrow> squatterReapLimiter" where
  "pruneWindow task t l =
     (let cutoff = t - window l; kept = filter (\<lambda>ts. ts > cutoff) (attempts_of l task)
      in l\<lparr>reapAttempts := (reapAttempts l)(task := (if kept = [] then None else Some kept)),
           globalReaps := filter (\<lambda>ts. ts > cutoff) (globalReaps l)\<rparr>)"

definition allowReap :: "string \<Rightarrow> gotime \<Rightarrow> squatterReapLimiter \<Rightarrow> bool \<times> squatterReapLimiter" where
  "allowReap task t l =
     (let l = pruneWindow task t l
      in (length (globalReaps l) < squatterMaxGlobalReapsPerWindow
          \<and> length (attempts_of l task) < squatterMaxReapsPerTaskWindow, l))"

definition recordReap :: "string \<Rightarrow> gotime \<Rightarrow> squatterReapLimiter \<Rightarrow> squatterReapLimiter" where
  "recordReap task t l =
     l\<lparr>reapAttempts := (reapAttempts l)(task \<mapsto> attempts_of l task @ [t]), globalReaps := globalReaps l @ [t]\<rparr>"

section \<open>Reaping\<close>

datatype squatterAutoOutcome = AutoForeign | AutoUnverified | AutoReaped | AutoReapFailed | AutoRateLimited

text \<open>The middle result is the proof handed to the terminator, when it is called.\<close>

definition reapSquatterForAutomaticTrigger ::
  "squatter_os \<Rightarrow> SupervisorDaemon \<Rightarrow> int \<Rightarrow> int \<Rightarrow> tracked_map \<Rightarrow> gotime \<Rightarrow> squatterReapLimiter
     \<Rightarrow> squatterAutoOutcome \<times> PIDIdentityProof option \<times> squatterReapLimiter" where
  "reapSquatterForAutomaticTrigger os d ownerPID selfPID tracked t l =
     (let task = canonicalSupervisorTaskName (d_TaskName d)
      in if \<not> allowLookup task t l then (AutoRateLimited, None, l)
         else let l = recordLookup task t l
              in case ClassifyPortOwner os d ownerPID selfPID tracked of
                   (VerdictForeign, _) \<Rightarrow> (AutoForeign, None, l)
                 | (VerdictUnverified, _) \<Rightarrow> (AutoUnverified, None, l)
                 | (VerdictOwnTask, None) \<Rightarrow> (AutoUnverified, None, l)
                 | (VerdictOwnTask, Some i) \<Rightarrow>
                     (case allowReap task t l of
                        (False, l) \<Rightarrow> (AutoRateLimited, None, l)
                      | (True, l) \<Rightarrow>
                          let l = recordReap task t l; proof' = KillProof i
                          in case TerminatePIDWithIdentity os proof' of
                               None \<Rightarrow> (AutoReaped, Some proof', l)
                             | Some ProcAlreadyExited \<Rightarrow> (AutoReaped, Some proof', l)
                             | Some _ \<Rightarrow> (AutoReapFailed, Some proof', l)))"

text \<open>
  The liveness sweep does the same with its own limiter and reap capability; the result says whether
  the task is to be restarted.
\<close>

definition handleSquatterMismatchOnSweep ::
  "squatter_os \<Rightarrow> SupervisorDaemon \<Rightarrow> int \<Rightarrow> int \<Rightarrow> tracked_map \<Rightarrow> gotime \<Rightarrow> squatterReapLimiter
     \<Rightarrow> bool \<times> PIDIdentityProof option \<times> squatterReapLimiter" where
  "handleSquatterMismatchOnSweep os d ownerPID selfPID tracked t l =
     (let task = canonicalSupervisorTaskName (d_TaskName d)
      in if \<not> allowLookup task t l then (False, None, l)
         else let l = recordLookup task t l
              in case ClassifyPortOwner os d ownerPID selfPID tracked of
                   (VerdictOwnTask, Some i) \<Rightarrow>
                     (case allowReap task t l of
                        (False, l) \<Rightarrow> (False, None, l)
                      | (True, l) \<Rightarrow>
                          let l = recordReap task t l; proof' = KillProof i
                          in case TerminatePIDWithIdentity os proof' of
                               None \<Rightarrow> (True, Some proof', l)
                             | Some ProcAlreadyExited \<Rightarrow> (True, Some proof', l)
                             | Some _ \<Rightarrow> (False, Some proof', l))
                 | _ \<Rightarrow> (False, None, l))"

text \<open>It is the automatic reap with its outcome coarsened.\<close>

lemma sweep_is_automatic_reap:
  "handleSquatterMismatchOnSweep os d ownerPID selfPID tracked t l =
     (case reapSquatterForAutomaticTrigger os d ownerPID selfPID tracked t l of (oc, r) \<Rightarrow> (oc = AutoReaped, r))"
  by (simp add: handleSquatterMismatchOnSweep_def reapSquatterForAutomaticTrigger_def Let_def
      split: prod.split Verdict.split option.split bool.split proc_error.split)

section \<open>What a kill implies\<close>

text \<open>
  What makes a process a lost child of a task: it is neither the supervisor nor the task's current
  child nor a process of another task, its identity was read, its image is the daemon's and its
  command line names the task.
\<close>

definition lost_child_of ::
  "squatter_os \<Rightarrow> SupervisorDaemon \<Rightarrow> int \<Rightarrow> int \<Rightarrow> tracked_map \<Rightarrow> ProcessIdentity \<Rightarrow> bool" where
  "lost_child_of os d ownerPID selfPID tracked i \<longleftrightarrow>
     0 < ownerPID \<and> (selfPID = 0 \<or> ownerPID \<noteq> selfPID)
   \<and> (\<forall>e. map_of tracked (recovery_CanonicalTaskName (d_TaskName d)) = Some e \<longrightarrow> ownerPID \<noteq> CurrentPID e)
   \<and> (\<forall>(k, e) \<in> set tracked. recovery_CanonicalTaskName k \<noteq> recovery_CanonicalTaskName (d_TaskName d)
        \<longrightarrow> ownerPID \<noteq> CurrentPID e \<and> (OrphanPID e = 0 \<or> ownerPID \<noteq> OrphanPID e))
   \<and> (\<exists>look. LookupIdentity os = Some look \<and> look ownerPID = Some i) \<and> id_PID i = ownerPID
   \<and> expectedIdentityExecutable os (Command d) \<noteq> []
   \<and> ExecutableMatches os ownerPID (expectedIdentityExecutable os (Command d))
   \<and> CommandLineMatchesTaskArgv (TokenizeWindowsCommandLine (id_CommandLine i)) d"

lemma own_task_iff:
  "ClassifyPortOwner os d ownerPID selfPID tracked = (VerdictOwnTask, x)
   \<longleftrightarrow> (\<exists>i. x = Some i \<and> lost_child_of os d ownerPID selfPID tracked i)"
proof -
  let ?k = "recovery_CanonicalTaskName (d_TaskName d)"
  define own where "own = (case map_of tracked ?k of Some e \<Rightarrow> ownerPID = CurrentPID e | None \<Rightarrow> False)"
  define others where "others = list_ex (\<lambda>(task, e). recovery_CanonicalTaskName task \<noteq> ?k
    \<and> (ownerPID = CurrentPID e \<or> (OrphanPID e \<noteq> 0 \<and> ownerPID = OrphanPID e))) tracked"
  have "(\<forall>e. map_of tracked ?k = Some e \<longrightarrow> ownerPID \<noteq> CurrentPID e) \<longleftrightarrow> \<not> own"
    by (simp add: own_def split: option.split)
  moreover have "(\<forall>(k, e) \<in> set tracked. recovery_CanonicalTaskName k \<noteq> ?k
      \<longrightarrow> ownerPID \<noteq> CurrentPID e \<and> (OrphanPID e = 0 \<or> ownerPID \<noteq> OrphanPID e)) \<longleftrightarrow> \<not> others"
    unfolding others_def list_ex_iff by blast
  ultimately have lost: "lost_child_of os d ownerPID selfPID tracked i \<longleftrightarrow>
      \<not> (ownerPID \<le> 0 \<or> (selfPID \<noteq> 0 \<and> ownerPID = selfPID)) \<and> \<not> own \<and> \<not> others
    \<and> (\<exists>look. LookupIdentity os = Some look \<and> look ownerPID = Some i) \<and> id_PID i = ownerPID
    \<and> expectedIdentityExecutable os (Command d) \<noteq> []
    \<and> ExecutableMatches os ownerPID (expectedIdentityExecutable os (Command d))
    \<and> CommandLineMatchesTaskArgv (TokenizeWindowsCommandLine (id_CommandLine i)) d" for i
    unfolding lost_child_of_def by (simp only: de_Morgan_disj de_Morgan_conj not_le not_not conj_assoc)
  show ?thesis
    unfolding ClassifyPortOwner_def Let_def own_def [symmetric] others_def [symmetric] lost
    by (cases "LookupIdentity os") (auto split: option.split)
qed

lemma killed_own_task:
  assumes "reapSquatterForAutomaticTrigger os d ownerPID selfPID tracked t l = (oc, Some pf, l')"
  obtains i where "ClassifyPortOwner os d ownerPID selfPID tracked = (VerdictOwnTask, Some i)" "pf = KillProof i"
  using assms unfolding reapSquatterForAutomaticTrigger_def Let_def
  by (auto split: if_splits prod.splits Verdict.splits option.splits bool.splits proc_error.splits)

text \<open>What names a task on its command line.\<close>

datatype task_identity =
  SerenaTask string | WorkspaceTask "string option" "string option" | GlobalTask "(string \<times> string) option" | Unnamed

definition task_identity_of :: "SupervisorDaemon \<Rightarrow> task_identity" where
  "task_identity_of d =
     (if IsSerenaProxyDescriptor d then SerenaTask (recovery_CanonicalTaskName (d_TaskName d))
      else if IsWorkspaceLSPProxyDescriptor d
      then WorkspaceTask (parserEffectiveUniqueFlagValue (Args d) ''--workspace'')
             (parserEffectiveUniqueFlagValue (Args d) ''--language'')
      else if DescriptorHasGlobalDaemonArgv d then GlobalTask (DescriptorServerDaemon d)
      else Unnamed)"

lemma anchor_tokens: "hasSubcommandAnchor tokens [a, b] \<Longrightarrow> tokens ! 1 = a \<and> tokens ! 2 = b"
  by (cases tokens; cases "tl tokens"; cases "tl (tl tokens)") (auto simp: hasSubcommandAnchor_def)

lemma anchors_differ:
  "hasSubcommandAnchor tokens [''daemon'', ''serena-proxy''] \<Longrightarrow> \<not> hasSubcommandAnchor tokens [''daemon'', ''workspace-proxy'']"
  "hasSubcommandAnchor tokens [''daemon'', ''serena-proxy''] \<Longrightarrow> \<not> hasGlobalDaemonAnchor tokens"
  "hasSubcommandAnchor tokens [''daemon'', ''workspace-proxy''] \<Longrightarrow> \<not> hasGlobalDaemonAnchor tokens"
  by (auto simp: hasGlobalDaemonAnchor_def has_prefix_def dest!: anchor_tokens)

lemma match_identity:
  assumes "CommandLineMatchesTaskArgv tokens d" and "CommandLineMatchesTaskArgv tokens e"
  shows "task_identity_of d = task_identity_of e"
  using assms anchors_differ [of tokens]
  unfolding CommandLineMatchesTaskArgv_def task_identity_of_def CommandLineHasAdjacentTokenPair_def
  by (auto split: if_splits option.splits)

text \<open>
  C36. A process on a daemon's port is killed only if it is a lost child of that daemon: it is not
  the supervisor, not the task's current child and not a current or orphaned process of another
  task, its identity was read for that very pid, its image is the daemon's executable, and its
  command line names the task. The proof handed to the terminator is made from that reading, and no
  descriptor of a different task accepts the same command line.
\<close>

theorem reap_only_verified_child:
  assumes "reapSquatterForAutomaticTrigger os d ownerPID selfPID tracked t l = (oc, Some pf, l')"
  shows "\<exists>i. lost_child_of os d ownerPID selfPID tracked i \<and> pf = KillProof i \<and> pf_PID pf = ownerPID
    \<and> (\<forall>e. CommandLineMatchesTaskArgv (TokenizeWindowsCommandLine (id_CommandLine i)) e
         \<longrightarrow> task_identity_of e = task_identity_of d)"
proof -
  obtain i where c: "ClassifyPortOwner os d ownerPID selfPID tracked = (VerdictOwnTask, Some i)" and pf: "pf = KillProof i"
    using killed_own_task [OF assms] .
  then have own: "lost_child_of os d ownerPID selfPID tracked i" by (simp add: own_task_iff)
  then have "id_PID i = ownerPID" "CommandLineMatchesTaskArgv (TokenizeWindowsCommandLine (id_CommandLine i)) d"
    by (simp_all add: lost_child_of_def)
  with own pf show ?thesis by (auto simp: KillProof_def intro: match_identity)
qed

section \<open>How often\<close>

text \<open>
  The calls that share one limiter, as the port-gate worker makes them: its state is the limiter,
  the kills attempted so far with their tasks and times, and the time of the last call. The clock
  does not go back.
\<close>

record reap_history =
  lim :: squatterReapLimiter
  attempted :: "(string \<times> gotime) list"
  clock :: gotime

definition start_history :: "reap_history \<Rightarrow> bool" where
  "start_history h \<longleftrightarrow> lim h = newSquatterReapLimiter \<and> attempted h = []"

inductive reap_step :: "reap_history \<Rightarrow> reap_history \<Rightarrow> bool" where
  reap_call: "clock h \<le> t \<Longrightarrow>
     reapSquatterForAutomaticTrigger os d ownerPID selfPID tracked t (lim h) = (oc, killed, l') \<Longrightarrow>
     reap_step h \<lparr>lim = l',
       attempted = attempted h @ (if killed = None then [] else [(canonicalSupervisorTaskName (d_TaskName d), t)]),
       clock = t\<rparr>"

text \<open>The attempts of a selection of tasks within the window that ends at an instant.\<close>

definition in_window :: "(string \<Rightarrow> bool) \<Rightarrow> gotime \<Rightarrow> (string \<times> gotime) list \<Rightarrow> gotime list" where
  "in_window P t xs = map snd (filter (\<lambda>(k, u). P k \<and> t - respawnFailureWindow < u \<and> u \<le> t) xs)"

lemma in_window_snoc [simp]:
  "in_window P t (xs @ [(k, u)]) =
     in_window P t xs @ (if P k \<and> t - respawnFailureWindow < u \<and> u \<le> t then [u] else [])"
  by (simp add: in_window_def)

text \<open>A limiter remembers, from an instant on, the attempts that are still in the window.\<close>

definition remembers :: "squatterReapLimiter \<Rightarrow> gotime \<Rightarrow> (string \<times> gotime) list \<Rightarrow> bool" where
  "remembers l t0 xs \<longleftrightarrow>
     window l = respawnFailureWindow \<and> (\<forall>x \<in> set xs. snd x \<le> t0)
   \<and> (\<forall>t \<ge> t0. filter (\<lambda>u. t - respawnFailureWindow < u) (globalReaps l) = in_window (\<lambda>_. True) t xs)
   \<and> (\<forall>k. \<forall>t \<ge> t0. filter (\<lambda>u. t - respawnFailureWindow < u) (attempts_of l k) = in_window (\<lambda>x. x = k) t xs)"

lemma remembers_later: "remembers l t0 xs \<Longrightarrow> t0 \<le> t \<Longrightarrow> remembers l t xs"
  unfolding remembers_def by fastforce

lemma remembers_lookup [simp]: "remembers (recordLookup k t l) t0 xs = remembers l t0 xs"
  by (simp add: remembers_def recordLookup_def attempts_of_def)

lemma in_window_filter:
  "t0 \<le> t \<Longrightarrow> filter (\<lambda>u. t - w < (u :: int)) (filter (\<lambda>u. t0 - w < u) xs) = filter (\<lambda>u. t - w < u) xs"
  unfolding filter_filter by (rule filter_cong) auto

lemma prune_fields:
  "attempts_of (pruneWindow k t l) k' =
     (if k' = k then filter (\<lambda>u. t - window l < u) (attempts_of l k) else attempts_of l k')"
  "globalReaps (pruneWindow k t l) = filter (\<lambda>u. t - window l < u) (globalReaps l)"
  "window (pruneWindow k t l) = window l"
  by (auto simp: pruneWindow_def attempts_of_def Let_def)

lemma remembers_prune:
  assumes "remembers l t0 xs"
  shows "remembers (pruneWindow k t0 l) t0 xs"
proof -
  from assms have w: "window l = respawnFailureWindow" by (simp add: remembers_def)
  have "filter (\<lambda>u. t - respawnFailureWindow < u) (globalReaps (pruneWindow k t0 l))
        = filter (\<lambda>u. t - respawnFailureWindow < u) (globalReaps l)"
    "filter (\<lambda>u. t - respawnFailureWindow < u) (attempts_of (pruneWindow k t0 l) k')
        = filter (\<lambda>u. t - respawnFailureWindow < u) (attempts_of l k')" if "t0 \<le> t" for t k'
    using in_window_filter [OF that] by (simp_all add: prune_fields w)
  with assms show ?thesis unfolding remembers_def by (simp add: prune_fields(3))
qed

lemma attempts_record: "attempts_of (recordReap k t l) k' = attempts_of l k' @ (if k' = k then [t] else [])"
  by (simp add: recordReap_def attempts_of_def)

lemma remembers_record: "remembers l t xs \<Longrightarrow> remembers (recordReap k t l) t (xs @ [(k, t)])"
  by (auto simp: remembers_def attempts_record) (auto simp: recordReap_def)

text \<open>A new attempt fits when the window that ends at it has room.\<close>

lemma window_room:
  assumes "\<forall>x \<in> set xs. snd x \<le> t0" and "length (in_window P t0 xs) < n" and "\<forall>t. length (in_window P t xs) \<le> n"
  shows "length (in_window P t (xs @ [(k, t0)])) \<le> n"
proof (cases "t0 \<le> t")
  case True
  have "length (in_window P t xs) \<le> length (in_window P t0 xs)"
    unfolding in_window_def length_map by (rule length_filter_mono) (use True assms(1) in auto)
  with assms(2) show ?thesis by simp
next
  case False
  with assms(3) show ?thesis by simp
qed

definition history_inv :: "reap_history \<Rightarrow> bool" where
  "history_inv h \<longleftrightarrow>
     remembers (lim h) (clock h) (attempted h)
   \<and> (\<forall>t. length (in_window (\<lambda>_. True) t (attempted h)) \<le> squatterMaxGlobalReapsPerWindow)
   \<and> (\<forall>k t. length (in_window (\<lambda>x. x = k) t (attempted h)) \<le> squatterMaxReapsPerTaskWindow)"

lemma allowReap_room:
  assumes "allowReap k t l = (True, l')" and "remembers l t xs"
  shows "remembers l' t xs" and "length (in_window (\<lambda>_. True) t xs) < squatterMaxGlobalReapsPerWindow"
    and "length (in_window (\<lambda>x. x = k) t xs) < squatterMaxReapsPerTaskWindow"
proof -
  from assms(1) have l': "l' = pruneWindow k t l" by (simp add: allowReap_def Let_def)
  with remembers_prune [OF assms(2)] show mem: "remembers l' t xs" by simp
  have "globalReaps l' = in_window (\<lambda>_. True) t xs" "attempts_of l' k = in_window (\<lambda>x. x = k) t xs"
    using assms(2) by (simp_all add: l' prune_fields remembers_def)
  with assms(1) show "length (in_window (\<lambda>_. True) t xs) < squatterMaxGlobalReapsPerWindow"
    and "length (in_window (\<lambda>x. x = k) t xs) < squatterMaxReapsPerTaskWindow"
    by (simp_all add: allowReap_def Let_def flip: l')
qed

text \<open>What a call does to the limiter, with and without an attempt.\<close>

lemma reap_limiter_cases:
  assumes "reapSquatterForAutomaticTrigger os d ownerPID selfPID tracked t l = (oc, killed, l')"
  shows "if killed = None
         then l' = l \<or> l' = recordLookup (canonicalSupervisorTaskName (d_TaskName d)) t l
              \<or> l' = pruneWindow (canonicalSupervisorTaskName (d_TaskName d)) t
                       (recordLookup (canonicalSupervisorTaskName (d_TaskName d)) t l)
         else \<exists>l1. allowReap (canonicalSupervisorTaskName (d_TaskName d)) t
                    (recordLookup (canonicalSupervisorTaskName (d_TaskName d)) t l) = (True, l1)
               \<and> l' = recordReap (canonicalSupervisorTaskName (d_TaskName d)) t l1"
proof (cases "allowReap (canonicalSupervisorTaskName (d_TaskName d)) t
                (recordLookup (canonicalSupervisorTaskName (d_TaskName d)) t l)")
  case (Pair ok l1)
  then have "l1 = pruneWindow (canonicalSupervisorTaskName (d_TaskName d)) t
               (recordLookup (canonicalSupervisorTaskName (d_TaskName d)) t l)"
    by (simp add: allowReap_def Let_def)
  with Pair assms show ?thesis
    unfolding reapSquatterForAutomaticTrigger_def Let_def
    by (auto split: if_splits prod.splits Verdict.splits option.splits bool.splits proc_error.splits)
qed

lemma history_inv_step:
  assumes inv: "history_inv h" and "reap_step h h'"
  shows "history_inv h'"
  using assms(2)
proof cases
  case (reap_call t os d ownerPID selfPID tracked oc killed l')
  define k where "k = canonicalSupervisorTaskName (d_TaskName d)"
  from inv reap_call(2) have mem: "remembers (lim h) t (attempted h)" by (auto simp: history_inv_def intro: remembers_later)
  note cs = reap_limiter_cases [OF reap_call(3), folded k_def]
  show ?thesis
  proof (cases "killed = None")
    case True
    with cs mem remembers_prune [of "recordLookup k t (lim h)" t "attempted h" k]
    have "remembers l' t (attempted h)" by auto
    with inv reap_call(1) True show ?thesis by (simp add: history_inv_def)
  next
    case False
    with cs obtain l1 where l1: "allowReap k t (recordLookup k t (lim h)) = (True, l1)" and l': "l' = recordReap k t l1" by auto
    from mem have "remembers (recordLookup k t (lim h)) t (attempted h)" by simp
    note room = allowReap_room [OF l1 this]
    from room(1) l' have "remembers l' t (attempted h @ [(k, t)])" by (simp add: remembers_record)
    moreover have "length (in_window (\<lambda>x. x = j) u (attempted h @ [(k, t)])) \<le> squatterMaxReapsPerTaskWindow" for j u
      using inv mem room(3) window_room [of "attempted h" t "\<lambda>x. x = k" squatterMaxReapsPerTaskWindow u k]
      by (cases "j = k") (auto simp: history_inv_def remembers_def)
    moreover have "length (in_window (\<lambda>_. True) u (attempted h @ [(k, t)])) \<le> squatterMaxGlobalReapsPerWindow" for u
      using inv mem room(2) by (intro window_room) (auto simp: history_inv_def remembers_def)
    ultimately show ?thesis using False reap_call(1) by (auto simp: history_inv_def simp flip: k_def)
  qed
qed

interpretation reaps: invariant_system start_history reap_step history_inv
proof
  show "history_inv h" if "start_history h" for h
    using that by (simp add: start_history_def history_inv_def remembers_def in_window_def newSquatterReapLimiter_def
        attempts_of_def squatterMaxGlobalReapsPerWindow_def squatterMaxReapsPerTaskWindow_def)
qed (rule history_inv_step)


text \<open>
  The limiter of the liveness sweep is pruned after every sweep to the tasks seen running, or
  quarantined on a taken port. A task that is waiting in backoff during one sweep gets a fresh budget.
\<close>

lemma prune_forgets_budget:
  assumes "task \<notin> seen"
  shows "allowLookup task t (pruneAbsent seen l)" and "attempts_of (pruneAbsent seen l) task = []"
  using assms by (simp_all add: allowLookup_def pruneAbsent_def attempts_of_def)

section \<open>Witnesses\<close>

text \<open>A lost child of the proxy \<open>x\<close> on pid 42, as Windows would describe it.\<close>

definition demo_lost_proxy :: SupervisorDaemon where
  "demo_lost_proxy = demo_proxy\<lparr>Args := [''daemon'', ''serena-proxy'', ''--task-name'', ''x'']\<rparr>"

definition demo_identity :: ProcessIdentity where
  "demo_identity = \<lparr>id_PID = 42, id_CommandLine = ''mcphub daemon serena-proxy --task-name x'',
     id_ExecutablePath = ''mcphub'', CreationDateUnix = 1\<rparr>"

definition demo_os :: squatter_os where
  "demo_os = \<lparr>LookupIdentity = Some (\<lambda>_. Some demo_identity), ExecutableMatches = (\<lambda>_ _. True),
     TerminatePIDWithIdentity = (\<lambda>_. None), os_Executable = ''mcphub'', LookPath = Some, path_Base = id,
     path_Abs = Some, EvalSymlinks = Some, path_Clean = id\<rparr>"

lemma demo_tokens: "TokenizeWindowsCommandLine ''mcphub daemon serena-proxy --task-name x''
    = [''mcphub'', ''daemon'', ''serena-proxy'', ''--task-name'', ''x'']"
  by code_simp

lemma demo_match: "CommandLineMatchesTaskArgv [''mcphub'', ''daemon'', ''serena-proxy'', ''--task-name'', ''x''] demo_lost_proxy"
  by code_simp

lemma demo_reap:
  "\<exists>l'. reapSquatterForAutomaticTrigger demo_os demo_lost_proxy 42 7 [] 100 newSquatterReapLimiter
     = (AutoReaped, Some (KillProof demo_identity), l')"
proof -
  have cmd: "Command demo_lost_proxy = ''mcphub''" by (simp add: demo_lost_proxy_def demo_proxy_def)
  have "CommandLineMatchesTaskArgv (TokenizeWindowsCommandLine (id_CommandLine demo_identity)) demo_lost_proxy"
    by (simp only: demo_identity_def ProcessIdentity.simps demo_tokens demo_match)
  then have "lost_child_of demo_os demo_lost_proxy 42 7 [] demo_identity"
    unfolding lost_child_of_def by (simp add: demo_os_def cmd expectedIdentityExecutable_def) (simp add: demo_identity_def)
  then have own: "ClassifyPortOwner demo_os demo_lost_proxy 42 7 [] = (VerdictOwnTask, Some demo_identity)"
    by (simp add: own_task_iff)
  have "allowLookup k 100 newSquatterReapLimiter"
    and "allowReap k 100 (recordLookup k 100 newSquatterReapLimiter)
      = (True, pruneWindow k 100 (recordLookup k 100 newSquatterReapLimiter))" for k
    by (simp_all add: allowLookup_def newSquatterReapLimiter_def allowReap_def pruneWindow_def attempts_of_def
        recordLookup_def squatterMaxGlobalReapsPerWindow_def squatterMaxReapsPerTaskWindow_def Let_def)
  then show ?thesis
    by (simp add: reapSquatterForAutomaticTrigger_def own Let_def) (simp add: demo_os_def)
qed

theorem reap_only_verified_child_witness:
  "\<exists>l'. reapSquatterForAutomaticTrigger demo_os demo_lost_proxy 42 7 [] 100 newSquatterReapLimiter
     = (AutoReaped, Some (KillProof demo_identity), l') \<and> pf_PID (KillProof demo_identity) = 42"
  using demo_reap reap_only_verified_child [of demo_os demo_lost_proxy 42 7 "[]" 100 newSquatterReapLimiter AutoReaped
      "KillProof demo_identity"]
  by blast


end
