(* ===== verification/Stop_Settlement.thy ===== *)
theory Stop_Settlement
  imports Runtime_Tracker "HOL-Library.AList"
begin

text \<open>
  Durable stop settlements: the supervisor state file of \<open>internal/api/supervisor_state.go\<close> and the
  part of \<open>internal/cli/supervisor_runtime_tracker.go\<close> that admits a stop batch, advances and
  removes its receipts, and persists and reloads the tracker. The file's maps are association lists
  in iteration order with distinct keys. SHA-256 over the canonical JSON of a receipt, and of a whole
  receipt map, are the parameters \<open>rdigest\<close> and \<open>mdigest\<close>; \<open>encoding/json\<close> writes map keys
  sorted, so the digest of a map depends on the map and not on an order. What the file system does
  in one read-modify-write is the record \<open>state_io\<close>. The tracker may take other marks between the
  two critical sections of an operation, so each operation takes the tracker before and after its
  file mutation.
\<close>

section \<open>The state file\<close>

record SupervisorDaemonState =
  sd_State :: string
  sd_CurrentPID :: int
  sd_PIDGeneration :: int
  sd_StartedAt :: stamp
  sd_OrphanPID :: int
  sd_JobProtection :: "bool option"
  sd_SpawnHoldReason :: string
  sd_SpawnHoldPath :: string

record TransientPID =
  tp_PID :: int
  tp_Kind :: string
  tp_StartedAt :: string

record SupervisorStateFile =
  sf_Version :: int
  sf_Daemons :: "(string \<times> SupervisorDaemonState) list"
  TransientPIDs :: "TransientPID list"
  MaintenanceFiredAt :: "(string \<times> string) list"
  StopSettlementEpoch :: "64 word"
  StopSettlementMapGeneration :: "64 word"
  StopSettlementDigest :: string
  StopSettlements :: "(string \<times> StopSettlementReceiptV1) list"

definition fresh_state_file :: SupervisorStateFile where
  "fresh_state_file = \<lparr>sf_Version = 1, sf_Daemons = [], TransientPIDs = [], MaintenanceFiredAt = [],
     StopSettlementEpoch = 0, StopSettlementMapGeneration = 0, StopSettlementDigest = [],
     StopSettlements = []\<rparr>"

type_synonym map_digest = "64 word \<Rightarrow> 64 word \<Rightarrow> (string \<rightharpoonup> StopSettlementReceiptV1) \<Rightarrow> string"
type_synonym receipt_digest = "StopSettlementReceiptV1 \<Rightarrow> string"

text \<open>
  One read-modify-write: the lock or the directory may fail, the present file may be unreadable, the
  atomic write may fail and then leaves the file alone. A missing file is \<open>None\<close>.
\<close>

record state_io =
  lock_fails :: bool
  read_fails :: bool
  write_fails :: bool

definition io_ok :: state_io where
  "io_ok = \<lparr>lock_fails = False, read_fails = False, write_fails = False\<rparr>"

datatype settle_error =
    InvalidBatch | RecoveryRequired | InvalidTarget nat | DuplicateTarget string
  | DescriptorPortMismatch string | NotAdmissible string | AlreadyPending string | EpochOverflow
  | AlreadyDurable string | GenerationOverflow | StateFileError
  | RacedGeneration string | ChangedDuring string | StaleReceipt string
  | InvalidTransition | IllegalFailure | IllegalResume | IllegalTransition | ConstructedInvalid
  | NotPortReleased | EmptyPath | FenceVersion | FenceTuple | FenceDigestShape | FenceDigest | FencePending

definition normalizeSupervisorStateForMutation :: "SupervisorStateFile \<Rightarrow> SupervisorStateFile" where
  "normalizeSupervisorStateForMutation f = (if sf_Version f = 0 then f\<lparr>sf_Version := 1\<rparr> else f)"

definition prepareSupervisorStateMutation ::
  "SupervisorStateFile \<Rightarrow> (SupervisorStateFile \<Rightarrow> settle_error + (bool \<times> SupervisorStateFile))
     \<Rightarrow> settle_error + SupervisorStateFile option" where
  "prepareSupervisorStateMutation file mutate =
     (case mutate (normalizeSupervisorStateForMutation file) of
        Inl e \<Rightarrow> Inl e
      | Inr (changed, f) \<Rightarrow>
          if \<not> changed then Inr None else Inr (Some (normalizeSupervisorStateForMutation f)))"

definition MutateSupervisorStateIfChanged ::
  "state_io \<Rightarrow> (SupervisorStateFile \<Rightarrow> settle_error + (bool \<times> SupervisorStateFile))
     \<Rightarrow> SupervisorStateFile option \<Rightarrow> settle_error option \<times> SupervisorStateFile option" where
  "MutateSupervisorStateIfChanged io mutate disk =
     (if lock_fails io then (Some StateFileError, disk)
      else if disk \<noteq> None \<and> read_fails io then (Some StateFileError, disk)
      else case prepareSupervisorStateMutation
                  (case disk of None \<Rightarrow> fresh_state_file | Some f \<Rightarrow> f) mutate of
             Inl e \<Rightarrow> (Some e, disk)
           | Inr None \<Rightarrow> (None, disk)
           | Inr (Some f) \<Rightarrow> if write_fails io then (Some StateFileError, disk) else (None, Some f))"

definition MutateSupervisorState ::
  "state_io \<Rightarrow> (SupervisorStateFile \<Rightarrow> settle_error + SupervisorStateFile)
     \<Rightarrow> SupervisorStateFile option \<Rightarrow> settle_error option \<times> SupervisorStateFile option" where
  "MutateSupervisorState io mutate disk =
     MutateSupervisorStateIfChanged io
       (\<lambda>file. case mutate file of Inl e \<Rightarrow> Inl e | Inr f \<Rightarrow> Inr (True, f)) disk"

text \<open>The read-only fence a rollback takes before it kills a successor.\<close>

definition lower_hex_digest :: "string \<Rightarrow> bool" where
  "lower_hex_digest s = (length s = 64 \<and> list_all lower_hex s)"

definition validateEmptyStopSettlementFence ::
  "map_digest \<Rightarrow> SupervisorStateFile \<Rightarrow> settle_error option" where
  "validateEmptyStopSettlementFence mdigest file =
     (let virgin = StopSettlementEpoch file = 0 \<and> StopSettlementMapGeneration file = 0
                     \<and> StopSettlementDigest file = [];
          bad = (if virgin then None
                 else if StopSettlementEpoch file = 0 \<or> StopSettlementMapGeneration file = 0
                 then Some FenceTuple
                 else if \<not> lower_hex_digest (StopSettlementDigest file) then Some FenceDigestShape
                 else if StopSettlementDigest file \<noteq>
                           mdigest (StopSettlementEpoch file) (StopSettlementMapGeneration file)
                             (map_of (StopSettlements file))
                 then Some FenceDigest else None)
      in case bad of Some e \<Rightarrow> Some e
         | None \<Rightarrow> if StopSettlements file \<noteq> [] then Some FencePending else None)"

text \<open>The callback runs (its result is returned) only behind the fence.\<close>

definition WithEmptyStopSettlementFence ::
  "map_digest \<Rightarrow> state_io \<Rightarrow> SupervisorStateFile option \<Rightarrow> 'r \<Rightarrow> settle_error + 'r" where
  "WithEmptyStopSettlementFence mdigest io disk critical =
     (if lock_fails io then Inl StateFileError
      else case disk of
             None \<Rightarrow> Inl StateFileError
           | Some file \<Rightarrow>
               if read_fails io then Inl StateFileError
               else if sf_Version file \<noteq> 1 then Inl FenceVersion
               else case validateEmptyStopSettlementFence mdigest file of
                      Some e \<Rightarrow> Inl e | None \<Rightarrow> Inr critical)"

section \<open>Receipts\<close>

definition failure_class_valid :: "string \<Rightarrow> bool" where
  "failure_class_valid c =
     (c \<in> {''process_alive'', ''listener_alive'', ''identity_unverified'', ''settlement_timeout'',
           ''settlement_cancelled'', ''runtime_generation_replaced'', ''termination_failed'',
           ''persistence_failed''})"

abbreviation (input) no_phase :: StopSettlementPhase where "no_phase \<equiv> PhaseOther []"

definition sameStopSettlementRevision ::
  "receipt_digest \<Rightarrow> StopSettlementReceiptV1 \<Rightarrow> StopSettlementReceiptV1 \<Rightarrow> bool" where
  "sameStopSettlementRevision rdigest a b = (rdigest a = rdigest b)"

definition sameStopSettlementToken :: "StopSettlementReceiptV1 \<Rightarrow> StopSettlementReceiptV1 \<Rightarrow> bool" where
  "sameStopSettlementToken a b =
     (rc_Version a = rc_Version b \<and> BatchID a = BatchID b \<and> rc_TaskName a = rc_TaskName b
      \<and> Epoch a = Epoch b \<and> PID a = PID b \<and> rc_StartedAt a = rc_StartedAt b
      \<and> rc_PIDGeneration a = rc_PIDGeneration b \<and> BatchIndex a = BatchIndex b \<and> Mode a = Mode b
      \<and> rc_Port a = rc_Port b \<and> rc_OperationID a = rc_OperationID b)"

definition valid_phase :: "StopSettlementReceiptV1 \<Rightarrow> bool" where
  "valid_phase r =
     (case Phase r of
        PhaseOther _ \<Rightarrow> False
      | SettlementFailed \<Rightarrow>
          if \<not> failure_class_valid (FailureClass r) \<or> TrimSpace (FailureDetail r) = [] then False
          else if Mode r = ''port_fence'' then ResumePhase r = ExitObserved \<or> ResumePhase r = PortReleased
          else ResumePhase r \<noteq> no_phase
      | _ \<Rightarrow>
          if FailureClass r \<noteq> [] \<or> FailureDetail r \<noteq> [] \<or> ResumePhase r \<noteq> no_phase then False
          else Mode r \<noteq> ''port_fence'' \<or> Phase r = ExitObserved \<or> Phase r = PortReleased)"

definition validStopSettlementReceipt :: "StopSettlementReceiptV1 \<Rightarrow> bool" where
  "validStopSettlementReceipt r =
     (if rc_Version r \<noteq> 1 \<or> BatchID r = [] \<or> rc_TaskName r = [] \<or> Epoch r = 0 \<or> BatchIndex r < 0
         \<or> (Mode r \<noteq> ''stop'' \<and> Mode r \<noteq> ''port_fence'') \<or> rc_Port r \<le> 0 \<or> rc_Port r > 65535
         \<or> Revision r = 0 \<or> Attempt r = 0 \<or> rc_OperationID r = []
      then False
      else if Mode r = ''stop'' \<and> (PID r \<le> 0 \<or> rc_StartedAt r = NoStamp \<or> rc_PIDGeneration r \<le> 0) then False
      else if Mode r \<noteq> ''stop'' \<and> (PID r \<noteq> 0 \<or> rc_StartedAt r \<noteq> NoStamp \<or> rc_PIDGeneration r < 0) then False
      else if rc_StartedAt r \<noteq> NoStamp \<and> ParseRFC3339Nano (rc_StartedAt r) = None then False
      else valid_phase r)"

definition nextStopSettlementReceipt ::
  "StopSettlementReceiptV1 \<Rightarrow> StopSettlementPhase \<Rightarrow> string \<Rightarrow> string \<Rightarrow> settle_error + StopSettlementReceiptV1" where
  "nextStopSettlementReceipt cur ph fclass fdetail =
     (if ph = Phase cur \<and> fclass = FailureClass cur \<and> fdetail = FailureDetail cur then Inr cur
      else if ph = SettlementFailed
      then if Phase cur = SettlementFailed \<or> \<not> failure_class_valid fclass then Inl IllegalFailure
           else Inr (cur\<lparr>Revision := Revision cur + 1, Phase := SettlementFailed, FailureClass := fclass,
                         FailureDetail := TrimSpace fdetail, ResumePhase := Phase cur\<rparr>)
      else if Phase cur = SettlementFailed
      then if ph \<noteq> ResumePhase cur then Inl IllegalResume
           else Inr (cur\<lparr>Revision := Revision cur + 1, Attempt := Attempt cur + 1, Phase := ph,
                         FailureClass := [], FailureDetail := [], ResumePhase := no_phase\<rparr>)
      else if (Phase cur = StopRequested \<and> ph \<noteq> ExitObserved)
              \<or> (Phase cur = ExitObserved \<and> ph \<noteq> PortReleased) \<or> Phase cur = PortReleased
      then Inl IllegalTransition
      else let nxt = cur\<lparr>Revision := Revision cur + 1, Phase := ph, FailureClass := [], FailureDetail := []\<rparr>
           in if \<not> validStopSettlementReceipt nxt then Inl ConstructedInvalid else Inr nxt)"

definition advanceStopSettlementMapMetadata ::
  "map_digest \<Rightarrow> SupervisorStateFile \<Rightarrow> settle_error + SupervisorStateFile" where
  "advanceStopSettlementMapMetadata mdigest file =
     (if StopSettlementMapGeneration file = - 1 then Inl GenerationOverflow
      else let g = StopSettlementMapGeneration file + 1
           in Inr (file\<lparr>StopSettlementMapGeneration := g,
                    StopSettlementDigest := mdigest (StopSettlementEpoch file) g (map_of (StopSettlements file))\<rparr>))"

section \<open>Admitting a batch\<close>

record StopBatchTargetV1 =
  tg_TaskName :: string
  ExpectedPort :: int

record StopBatchCommandV1 =
  cmd_ProtocolVersion :: int
  cmd_BatchID :: string
  Targets :: "StopBatchTargetV1 list"

definition stopSettlementAdmissionEntry :: "DaemonRuntimeEntry option \<Rightarrow> bool" where
  "stopSettlementAdmissionEntry present =
     (case present of
        None \<Rightarrow> False
      | Some e \<Rightarrow>
          if CurrentPID e > 0 then PIDGeneration e > 0 \<and> StartedAt e \<noteq> 0
          else State e = daemonRuntimeStateIdle \<or> State e = daemonRuntimeStateBackoff)"

definition sameStopSettlementRuntimeIdentity :: "DaemonRuntimeEntry \<Rightarrow> StopSettlementReceiptV1 \<Rightarrow> bool" where
  "sameStopSettlementRuntimeIdentity e r =
     (if Mode r = ''port_fence''
      then CurrentPID e = 0 \<and> stopSettlementAdmissionEntry (Some e) \<and> PIDGeneration e = rc_PIDGeneration r
      else CurrentPID e = PID r \<and> PIDGeneration e = rc_PIDGeneration r \<and> StartedAt e \<noteq> 0
           \<and> FormatRFC3339Nano (StartedAt e) = rc_StartedAt r)"

text \<open>The validation loop, under one snapshot of the tracker; it yields the entry of every target.\<close>

fun admit_targets ::
  "DaemonRuntimeTracker \<Rightarrow> (string \<rightharpoonup> int) \<Rightarrow> nat \<Rightarrow> string list \<Rightarrow> StopBatchTargetV1 list
     \<Rightarrow> settle_error + DaemonRuntimeEntry list" where
  "admit_targets t ports i seen [] = Inr []"
| "admit_targets t ports i seen (target # rest) =
     (let taskName = canonicalSupervisorTaskName (tg_TaskName target)
      in if tg_TaskName target \<noteq> taskName \<or> ExpectedPort target \<le> 0 \<or> ExpectedPort target > 65535
         then Inl (InvalidTarget i)
         else if taskName \<in> set seen then Inl (DuplicateTarget taskName)
         else if ports taskName \<noteq> Some (ExpectedPort target) then Inl (DescriptorPortMismatch taskName)
         else if \<not> stopSettlementAdmissionEntry (entries t taskName) then Inl (NotAdmissible taskName)
         else if stopSettlements t taskName \<noteq> None then Inl (AlreadyPending taskName)
         else case admit_targets t ports (Suc i) (taskName # seen) rest of
                Inl e \<Rightarrow> Inl e | Inr es \<Rightarrow> Inr (entry_of t taskName # es))"

definition stage_receipt ::
  "string \<Rightarrow> nat \<Rightarrow> 64 word \<Rightarrow> StopBatchTargetV1 \<Rightarrow> DaemonRuntimeEntry \<Rightarrow> StopSettlementReceiptV1" where
  "stage_receipt batch i ep target e =
     (let fence = CurrentPID e = 0
      in \<lparr>rc_Version = 1, BatchID = batch, rc_TaskName = tg_TaskName target, Epoch = ep, PID = CurrentPID e,
          rc_StartedAt = (if fence then NoStamp else FormatRFC3339Nano (StartedAt e)),
          rc_PIDGeneration = PIDGeneration e, BatchIndex = int i,
          Mode = (if fence then ''port_fence'' else ''stop''), rc_Port = ExpectedPort target,
          Revision = 1, Attempt = 1, Phase = (if fence then ExitObserved else StopRequested),
          FailureClass = [], FailureDetail = [], ResumePhase = no_phase, rc_OperationID = batch\<rparr>)"

fun stage_batch ::
  "string \<Rightarrow> nat \<Rightarrow> (StopBatchTargetV1 \<times> DaemonRuntimeEntry) list \<Rightarrow> SupervisorStateFile
     \<Rightarrow> settle_error + StopSettlementReceiptV1 list \<times> SupervisorStateFile" where
  "stage_batch batch i [] file = Inr ([], file)"
| "stage_batch batch i ((target, e) # rest) file =
     (if map_of (StopSettlements file) (tg_TaskName target) \<noteq> None
      then Inl (AlreadyDurable (tg_TaskName target))
      else let ep = StopSettlementEpoch file + 1;
               r = stage_receipt batch i ep target e
           in case stage_batch batch (Suc i) rest
                     (file\<lparr>StopSettlementEpoch := ep,
                          StopSettlements := AList.update (tg_TaskName target) r (StopSettlements file)\<rparr>) of
                Inl err \<Rightarrow> Inl err
              | Inr (rs, file) \<Rightarrow> Inr (r # rs, file))"

text \<open>The mutation: the receipts it stages are also its result, here recomputed from the same file.\<close>

definition batch_receipts ::
  "64 word \<Rightarrow> string \<Rightarrow> (StopBatchTargetV1 \<times> DaemonRuntimeEntry) list \<Rightarrow> SupervisorStateFile
     \<Rightarrow> settle_error + StopSettlementReceiptV1 list \<times> SupervisorStateFile" where
  "batch_receipts knownEpoch batch rows file =
     (let ep = (if knownEpoch > StopSettlementEpoch file then knownEpoch else StopSettlementEpoch file)
      in if int (length rows) > 2 ^ 64 - 1 - uint ep then Inl EpochOverflow
         else stage_batch batch 0 rows (file\<lparr>StopSettlementEpoch := ep\<rparr>))"

definition batch_mutation ::
  "map_digest \<Rightarrow> 64 word \<Rightarrow> string \<Rightarrow> (StopBatchTargetV1 \<times> DaemonRuntimeEntry) list
     \<Rightarrow> SupervisorStateFile \<Rightarrow> settle_error + SupervisorStateFile" where
  "batch_mutation mdigest knownEpoch batch rows file =
     (case batch_receipts knownEpoch batch rows file of
        Inl e \<Rightarrow> Inl e | Inr (_, f) \<Rightarrow> advanceStopSettlementMapMetadata mdigest f)"

definition staged_of ::
  "64 word \<Rightarrow> string \<Rightarrow> (StopBatchTargetV1 \<times> DaemonRuntimeEntry) list \<Rightarrow> SupervisorStateFile option
     \<Rightarrow> StopSettlementReceiptV1 list" where
  "staged_of knownEpoch batch rows disk =
     (case batch_receipts knownEpoch batch rows (normalizeSupervisorStateForMutation
             (case disk of None \<Rightarrow> fresh_state_file | Some f \<Rightarrow> f)) of
        Inl _ \<Rightarrow> [] | Inr (rs, _) \<Rightarrow> rs)"

text \<open>The second critical section: every staged identity must still be current.\<close>

fun check_install :: "DaemonRuntimeTracker \<Rightarrow> StopSettlementReceiptV1 list \<Rightarrow> settle_error option" where
  "check_install t [] = None"
| "check_install t (r # rs) =
     (case entries t (rc_TaskName r) of
        None \<Rightarrow> Some (RacedGeneration (rc_TaskName r))
      | Some e \<Rightarrow>
          if \<not> sameStopSettlementRuntimeIdentity e r then Some (RacedGeneration (rc_TaskName r))
          else if stopSettlements t (rc_TaskName r) \<noteq> None then Some (ChangedDuring (rc_TaskName r))
          else check_install t rs)"

definition install_receipt :: "StopSettlementReceiptV1 \<Rightarrow> DaemonRuntimeTracker \<Rightarrow> DaemonRuntimeTracker" where
  "install_receipt r t =
     t\<lparr>stopSettlements := (stopSettlements t)(rc_TaskName r \<mapsto> r),
       stopSettlementEpoch := (if Epoch r > stopSettlementEpoch t then Epoch r else stopSettlementEpoch t)\<rparr>"

definition fence_tracker :: "string \<Rightarrow> DaemonRuntimeTracker \<Rightarrow> DaemonRuntimeTracker" where
  "fence_tracker msg t = t\<lparr>stopSettlementIntegrityErr := msg\<rparr>"

definition install_message :: "settle_error \<Rightarrow> string" where
  "install_message e =
     (case e of
        RacedGeneration k \<Rightarrow> ''durable stop batch mirror not installed for '' @ k
      | ChangedDuring k \<Rightarrow> ''durable stop batch mirror changed during admission for '' @ k
      | _ \<Rightarrow> [])"

text \<open>
  \<open>t\<close> is the tracker in the first critical section, \<open>t'\<close> in the second. The result is the
  ordered receipts or the error, the file, and the tracker.
\<close>

definition BeginStopSettlementBatch ::
  "map_digest \<Rightarrow> state_io \<Rightarrow> string \<Rightarrow> StopBatchCommandV1 \<Rightarrow> (string \<rightharpoonup> int)
     \<Rightarrow> DaemonRuntimeTracker \<Rightarrow> DaemonRuntimeTracker \<Rightarrow> SupervisorStateFile option
     \<Rightarrow> (settle_error + StopSettlementReceiptV1 list) \<times> SupervisorStateFile option \<times> DaemonRuntimeTracker" where
  "BeginStopSettlementBatch mdigest io path command ports t t' disk =
     (if TrimSpace path = [] then (Inl EmptyPath, disk, t')
      else if cmd_ProtocolVersion command \<noteq> 1 \<or> TrimSpace (cmd_BatchID command) = [] \<or> Targets command = []
      then (Inl InvalidBatch, disk, t')
      else if stopSettlementIntegrityErr t \<noteq> [] then (Inl RecoveryRequired, disk, t')
      else case admit_targets t ports 0 [] (Targets command) of
             Inl e \<Rightarrow> (Inl e, disk, t')
           | Inr es \<Rightarrow>
        (if int (length (Targets command)) > 2 ^ 64 - 1 - uint (stopSettlementEpoch t)
         then (Inl EpochOverflow, disk, t')
         else let rows = zip (Targets command) es;
                  batch = cmd_BatchID command;
                  receipts = staged_of (stopSettlementEpoch t) batch rows disk
              in case MutateSupervisorState io
                        (batch_mutation mdigest (stopSettlementEpoch t) batch rows) disk of
                   (Some e, disk') \<Rightarrow> (Inl e, disk', t')
                 | (None, disk') \<Rightarrow>
                     case check_install t' receipts of
                       Some e \<Rightarrow> (Inl e, disk', fence_tracker (install_message e) t')
                     | None \<Rightarrow> (Inr receipts, disk', fold install_receipt receipts t')))"

section \<open>Advancing and removing a receipt\<close>

definition replace_row ::
  "map_digest \<Rightarrow> receipt_digest \<Rightarrow> StopSettlementReceiptV1
     \<Rightarrow> ((string \<times> StopSettlementReceiptV1) list \<Rightarrow> (string \<times> StopSettlementReceiptV1) list)
     \<Rightarrow> SupervisorStateFile \<Rightarrow> settle_error + SupervisorStateFile" where
  "replace_row mdigest rdigest expected upd file =
     (case map_of (StopSettlements file) (rc_TaskName expected) of
        None \<Rightarrow> Inl (StaleReceipt (rc_TaskName expected))
      | Some durable \<Rightarrow>
          if \<not> sameStopSettlementRevision rdigest durable expected
          then Inl (StaleReceipt (rc_TaskName expected))
          else advanceStopSettlementMapMetadata mdigest (file\<lparr>StopSettlements := upd (StopSettlements file)\<rparr>))"

definition mirror_current ::
  "receipt_digest \<Rightarrow> StopSettlementReceiptV1 \<Rightarrow> DaemonRuntimeTracker \<Rightarrow> bool" where
  "mirror_current rdigest expected t =
     (case stopSettlements t (rc_TaskName expected) of
        None \<Rightarrow> False | Some cur \<Rightarrow> sameStopSettlementRevision rdigest cur expected)"

definition AdvanceStopSettlement ::
  "map_digest \<Rightarrow> receipt_digest \<Rightarrow> state_io \<Rightarrow> string \<Rightarrow> StopSettlementReceiptV1
     \<Rightarrow> StopSettlementPhase \<Rightarrow> string \<Rightarrow> string
     \<Rightarrow> DaemonRuntimeTracker \<Rightarrow> DaemonRuntimeTracker \<Rightarrow> SupervisorStateFile option
     \<Rightarrow> (settle_error + StopSettlementReceiptV1) \<times> SupervisorStateFile option \<times> DaemonRuntimeTracker" where
  "AdvanceStopSettlement mdigest rdigest io path expected ph fclass fdetail t t' disk =
     (if TrimSpace path = [] then (Inl EmptyPath, disk, t')
      else if \<not> validStopSettlementReceipt expected \<or> ph = no_phase then (Inl InvalidTransition, disk, t')
      else if \<not> mirror_current rdigest expected t then (Inl (StaleReceipt (rc_TaskName expected)), disk, t')
      else case nextStopSettlementReceipt expected ph fclass fdetail of
             Inl e \<Rightarrow> (Inl e, disk, t')
           | Inr nxt \<Rightarrow>
        (if sameStopSettlementRevision rdigest nxt expected then (Inr expected, disk, t')
         else case MutateSupervisorState io
                     (replace_row mdigest rdigest expected (AList.update (rc_TaskName expected) nxt)) disk of
                (Some e, disk') \<Rightarrow> (Inl e, disk', t')
              | (None, disk') \<Rightarrow>
                  if \<not> mirror_current rdigest expected t'
                  then (Inl (ChangedDuring (rc_TaskName expected)), disk', fence_tracker
                         (''durable stop settlement transition mirror not installed for '' @ rc_TaskName expected) t')
                  else (Inr nxt, disk',
                        t'\<lparr>stopSettlements := (stopSettlements t')(rc_TaskName expected \<mapsto> nxt)\<rparr>)))"

definition RemoveStopSettlement ::
  "map_digest \<Rightarrow> receipt_digest \<Rightarrow> state_io \<Rightarrow> string \<Rightarrow> StopSettlementReceiptV1
     \<Rightarrow> DaemonRuntimeTracker \<Rightarrow> DaemonRuntimeTracker \<Rightarrow> SupervisorStateFile option
     \<Rightarrow> settle_error option \<times> SupervisorStateFile option \<times> DaemonRuntimeTracker" where
  "RemoveStopSettlement mdigest rdigest io path expected t t' disk =
     (if TrimSpace path = [] then (Some EmptyPath, disk, t')
      else if \<not> validStopSettlementReceipt expected \<or> Phase expected \<noteq> PortReleased
      then (Some NotPortReleased, disk, t')
      else if \<not> mirror_current rdigest expected t then (Some (StaleReceipt (rc_TaskName expected)), disk, t')
      else case MutateSupervisorState io
                  (replace_row mdigest rdigest expected (AList.delete (rc_TaskName expected))) disk of
             (Some e, disk') \<Rightarrow> (Some e, disk', t')
           | (None, disk') \<Rightarrow>
               if \<not> mirror_current rdigest expected t'
               then (Some (ChangedDuring (rc_TaskName expected)), disk', fence_tracker
                      (''durable stop settlement removal mirror not installed for '' @ rc_TaskName expected) t')
               else (None, disk',
                     t'\<lparr>stopSettlements := (stopSettlements t')(rc_TaskName expected := None)\<rparr>))"

definition StopSettlementReceipt :: "string \<Rightarrow> DaemonRuntimeTracker \<Rightarrow> StopSettlementReceiptV1 option" where
  "StopSettlementReceipt taskName t = stopSettlements t (canonicalSupervisorTaskName taskName)"

section \<open>Persistence\<close>

definition runtimeStateFromSupervisorState :: "string \<Rightarrow> string" where
  "runtimeStateFromSupervisorState s =
     (let k = ToLower (TrimSpace s)
      in if k = [] \<or> k = daemonRuntimeStateIdle then daemonRuntimeStateIdle
         else if k = daemonRuntimeStateRunning then daemonRuntimeStateRunning
         else if k = daemonRuntimeStateBackoff \<or> k = ''backoff-waiting'' then daemonRuntimeStateBackoff
         else if k = daemonRuntimeStateQuarantine \<or> k = ''quarantined'' then daemonRuntimeStateQuarantine
         else k)"

definition supervisorStateFromRuntimeState :: "string \<Rightarrow> string" where
  "supervisorStateFromRuntimeState s =
     (if runtimeStateFromSupervisorState s = daemonRuntimeStateRunning then daemonRuntimeStateRunning
      else daemonRuntimeStateIdle)"

definition hydrate_integrity :: "map_digest \<Rightarrow> SupervisorStateFile \<Rightarrow> string" where
  "hydrate_integrity mdigest file =
     (if StopSettlements file \<noteq> [] \<or> StopSettlementMapGeneration file \<noteq> 0 \<or> StopSettlementDigest file \<noteq> []
      then if StopSettlementMapGeneration file = 0 \<or> StopSettlementDigest file = []
           then ''missing durable stop settlement map integrity metadata''
           else if mdigest (StopSettlementEpoch file) (StopSettlementMapGeneration file)
                     (map_of (StopSettlements file)) \<noteq> StopSettlementDigest file
           then ''durable stop settlement map digest mismatch''
           else []
      else [])"

definition hydrate_receipt ::
  "string \<times> StopSettlementReceiptV1 \<Rightarrow> DaemonRuntimeTracker \<Rightarrow> DaemonRuntimeTracker" where
  "hydrate_receipt kr t =
     (let k = canonicalSupervisorTaskName (fst kr)
      in if rc_TaskName (snd kr) \<noteq> k \<or> \<not> validStopSettlementReceipt (snd kr)
         then if stopSettlementIntegrityErr t = []
              then t\<lparr>stopSettlementIntegrityErr := ''invalid durable receipt for '' @ fst kr\<rparr> else t
         else t\<lparr>stopSettlements := (stopSettlements t)(k \<mapsto> snd kr)\<rparr>)"

definition hydrate_entry :: "SupervisorDaemonState \<Rightarrow> DaemonRuntimeEntry" where
  "hydrate_entry d = zero_entry
     \<lparr>State := runtimeStateFromSupervisorState (sd_State d), CurrentPID := sd_CurrentPID d,
      StartedAt := (case ParseRFC3339Nano (sd_StartedAt d) of Some v \<Rightarrow> v | None \<Rightarrow> 0),
      PIDGeneration := sd_PIDGeneration d, RestartCount := 0, OrphanPID := sd_OrphanPID d,
      JobProtection := sd_JobProtection d, SpawnHoldReason := sd_SpawnHoldReason d,
      SpawnHoldPath := sd_SpawnHoldPath d\<rparr>"

definition HydrateFromState ::
  "map_digest \<Rightarrow> SupervisorStateFile \<Rightarrow> DaemonRuntimeTracker \<Rightarrow> DaemonRuntimeTracker" where
  "HydrateFromState mdigest file t =
     (let t = t\<lparr>stopSettlementIntegrityErr := hydrate_integrity mdigest file,
               stopSettlementEpoch := (if StopSettlementEpoch file > stopSettlementEpoch t
                                       then StopSettlementEpoch file else stopSettlementEpoch t)\<rparr>;
          t = fold hydrate_receipt (StopSettlements file) t
      in fold (\<lambda>kd t. t\<lparr>entries := (entries t)(canonicalSupervisorTaskName (fst kd) \<mapsto> hydrate_entry (snd kd))\<rparr>)
           (sf_Daemons file) t)"

definition persist_entry :: "DaemonRuntimeEntry \<Rightarrow> SupervisorDaemonState" where
  "persist_entry e =
     \<lparr>sd_State = supervisorStateFromRuntimeState (State e), sd_CurrentPID = CurrentPID e,
      sd_PIDGeneration = PIDGeneration e,
      sd_StartedAt = (if StartedAt e = 0 then NoStamp else FormatRFC3339Nano (StartedAt e)),
      sd_OrphanPID = OrphanPID e, sd_JobProtection = JobProtection e,
      sd_SpawnHoldReason = SpawnHoldReason e, sd_SpawnHoldPath = SpawnHoldPath e\<rparr>"

text \<open>
  The tracker's maps are written in some order of their keys: \<open>eks\<close> lists the keys of the entries
  and \<open>sks\<close> those of the receipts.
\<close>

definition rows_in_order :: "string list \<Rightarrow> (string \<rightharpoonup> 'a) \<Rightarrow> (string \<times> 'a) list" where
  "rows_in_order ks m = List.map_filter (\<lambda>k. map_option (Pair k) (m k)) ks"

definition persist_mutation ::
  "map_digest \<Rightarrow> string list \<Rightarrow> string list \<Rightarrow> DaemonRuntimeTracker
     \<Rightarrow> SupervisorStateFile \<Rightarrow> settle_error + SupervisorStateFile" where
  "persist_mutation mdigest eks sks t file =
     (let file = file\<lparr>sf_Daemons := rows_in_order eks (map_option persist_entry \<circ> entries t)\<rparr>;
          file = (if stopSettlementEpoch t > StopSettlementEpoch file
                  then file\<lparr>StopSettlementEpoch := stopSettlementEpoch t\<rparr> else file)
      in if stopSettlementIntegrityErr t \<noteq> [] then Inr file
         else advanceStopSettlementMapMetadata mdigest
                (file\<lparr>StopSettlements := rows_in_order sks (stopSettlements t)\<rparr>))"

definition PersistTo ::
  "map_digest \<Rightarrow> string list \<Rightarrow> string list \<Rightarrow> state_io \<Rightarrow> string \<Rightarrow> DaemonRuntimeTracker
     \<Rightarrow> SupervisorStateFile option \<Rightarrow> settle_error option \<times> SupervisorStateFile option" where
  "PersistTo mdigest eks sks io path t disk =
     (if TrimSpace path = [] then (Some EmptyPath, disk)
      else MutateSupervisorState io (persist_mutation mdigest eks sks t) disk)"

definition loadDaemonRuntimeTrackerFromStatePath ::
  "map_digest \<Rightarrow> state_io \<Rightarrow> SupervisorStateFile option \<Rightarrow> settle_error option \<times> DaemonRuntimeTracker" where
  "loadDaemonRuntimeTrackerFromStatePath mdigest io disk =
     (case disk of
        None \<Rightarrow> (None, NewDaemonRuntimeTracker)
      | Some f \<Rightarrow> if read_fails io then (Some StateFileError, NewDaemonRuntimeTracker)
                  else (None, HydrateFromState mdigest f NewDaemonRuntimeTracker))"

section \<open>One file mutation\<close>

definition disk_file :: "SupervisorStateFile option \<Rightarrow> SupervisorStateFile" where
  "disk_file disk = (case disk of None \<Rightarrow> fresh_state_file | Some f \<Rightarrow> f)"

lemma normalize_fields [simp]:
  "StopSettlements (normalizeSupervisorStateForMutation f) = StopSettlements f"
  "StopSettlementEpoch (normalizeSupervisorStateForMutation f) = StopSettlementEpoch f"
  "StopSettlementMapGeneration (normalizeSupervisorStateForMutation f) = StopSettlementMapGeneration f"
  "StopSettlementDigest (normalizeSupervisorStateForMutation f) = StopSettlementDigest f"
  "sf_Daemons (normalizeSupervisorStateForMutation f) = sf_Daemons f"
  by (simp_all add: normalizeSupervisorStateForMutation_def)

text \<open>A mutation fails and leaves the file, or writes what the callback made of the normalised file.\<close>

lemma mutate_cases:
  assumes "MutateSupervisorState io mut disk = (res, disk')"
  obtains (failed) e where "res = Some e" "disk' = disk"
  | (written) f where "res = None" "mut (normalizeSupervisorStateForMutation (disk_file disk)) = Inr f"
      "disk' = Some (normalizeSupervisorStateForMutation f)"
  using assms
  by (auto simp: MutateSupervisorState_def MutateSupervisorStateIfChanged_def disk_file_def
        prepareSupervisorStateMutation_def split: if_splits option.splits sum.splits)

lemma advance_metadata_Inr:
  "advanceStopSettlementMapMetadata mdigest f = Inr f' \<longleftrightarrow>
     StopSettlementMapGeneration f \<noteq> - 1
     \<and> f' = f\<lparr>StopSettlementMapGeneration := StopSettlementMapGeneration f + 1,
             StopSettlementDigest := mdigest (StopSettlementEpoch f) (StopSettlementMapGeneration f + 1)
               (map_of (StopSettlements f))\<rparr>"
  by (auto simp: advanceStopSettlementMapMetadata_def Let_def)

section \<open>Receipt transitions\<close>

text \<open>
  The stage a receipt has reached, whether or not it is failed there, and the receipts the tracker
  itself makes: those a failed stage can be resumed from.
\<close>

definition progress :: "StopSettlementReceiptV1 \<Rightarrow> StopSettlementPhase" where
  "progress r = (if Phase r = SettlementFailed then ResumePhase r else Phase r)"

fun phase_rank :: "StopSettlementPhase \<Rightarrow> nat" where
  "phase_rank StopRequested = 0"
| "phase_rank ExitObserved = 1"
| "phase_rank PortReleased = 2"
| "phase_rank _ = 3"

definition receipt_wf :: "StopSettlementReceiptV1 \<Rightarrow> bool" where
  "receipt_wf r \<longleftrightarrow> validStopSettlementReceipt r \<and> progress r \<in> {StopRequested, ExitObserved, PortReleased}"

text \<open>The part of validity that does not look at the phase.\<close>

definition valid_base :: "StopSettlementReceiptV1 \<Rightarrow> bool" where
  "valid_base r \<longleftrightarrow>
     rc_Version r = 1 \<and> BatchID r \<noteq> [] \<and> rc_TaskName r \<noteq> [] \<and> Epoch r \<noteq> 0 \<and> 0 \<le> BatchIndex r
   \<and> (Mode r = ''stop'' \<or> Mode r = ''port_fence'') \<and> 0 < rc_Port r \<and> rc_Port r \<le> 65535
   \<and> Revision r \<noteq> 0 \<and> Attempt r \<noteq> 0 \<and> rc_OperationID r \<noteq> []
   \<and> (if Mode r = ''stop'' then 0 < PID r \<and> rc_StartedAt r \<noteq> NoStamp \<and> 0 < rc_PIDGeneration r
      else PID r = 0 \<and> rc_StartedAt r = NoStamp \<and> 0 \<le> rc_PIDGeneration r)
   \<and> (rc_StartedAt r \<noteq> NoStamp \<longrightarrow> ParseRFC3339Nano (rc_StartedAt r) \<noteq> None)"

lemma valid_split: "validStopSettlementReceipt r \<longleftrightarrow> valid_base r \<and> valid_phase r"
  by (cases "valid_phase r"; cases "Mode r = ''stop''"; cases "rc_StartedAt r = NoStamp")
     (auto simp: validStopSettlementReceipt_def valid_base_def)

lemma valid_base_update [simp]:
  "rv \<noteq> 0 \<Longrightarrow> valid_base r \<Longrightarrow>
     valid_base (r\<lparr>Revision := rv, Phase := p, FailureClass := c, FailureDetail := d, ResumePhase := q\<rparr>)"
  "rv \<noteq> 0 \<Longrightarrow> at \<noteq> 0 \<Longrightarrow> valid_base r \<Longrightarrow>
     valid_base (r\<lparr>Revision := rv, Attempt := at, Phase := p, FailureClass := c, FailureDetail := d,
                   ResumePhase := q\<rparr>)"
  by (simp_all add: valid_base_def)

lemma succ_nonzero: "(w :: 64 word) \<noteq> - 1 \<Longrightarrow> w + 1 \<noteq> 0"
  by (simp add: add_eq_0_iff2)

text \<open>What a transition can be, from a receipt that is well formed.\<close>

lemma next_receipt_cases:
  assumes "receipt_wf cur" and "nextStopSettlementReceipt cur ph fclass fdetail = Inr nxt"
  obtains (same) "nxt = cur"
  | (fail) "ph = SettlementFailed" "Phase cur \<noteq> SettlementFailed" "failure_class_valid fclass"
      "nxt = cur\<lparr>Revision := Revision cur + 1, Phase := SettlementFailed, FailureClass := fclass,
                 FailureDetail := TrimSpace fdetail, ResumePhase := Phase cur\<rparr>"
  | (resume) "Phase cur = SettlementFailed" "ph = ResumePhase cur" "ph \<noteq> SettlementFailed"
      "nxt = cur\<lparr>Revision := Revision cur + 1, Attempt := Attempt cur + 1, Phase := ph,
                 FailureClass := [], FailureDetail := [], ResumePhase := no_phase\<rparr>"
  | (step) "Phase cur = StopRequested \<and> ph = ExitObserved \<or> Phase cur = ExitObserved \<and> ph = PortReleased"
      "validStopSettlementReceipt nxt"
      "nxt = cur\<lparr>Revision := Revision cur + 1, Phase := ph, FailureClass := [], FailureDetail := []\<rparr>"
proof -
  note d = assms(2) [unfolded nextStopSettlementReceipt_def Let_def]
  show thesis
  proof (cases "ph = Phase cur \<and> fclass = FailureClass cur \<and> fdetail = FailureDetail cur")
    case True
    with d show ?thesis by (intro same) simp
  next
    case False
    note d = d [unfolded if_not_P [OF False]]
    consider "ph = SettlementFailed" | "ph \<noteq> SettlementFailed" "Phase cur = SettlementFailed"
      | "ph \<noteq> SettlementFailed" "Phase cur \<noteq> SettlementFailed" by blast
    then show ?thesis
    proof cases
      case 1
      with d show ?thesis by (intro fail) (simp_all split: if_splits)
    next
      case 2
      with d show ?thesis by (intro resume) (simp_all split: if_splits)
    next
      case 3
      with assms(1) have "Phase cur \<in> {StopRequested, ExitObserved, PortReleased}"
        by (simp add: receipt_wf_def progress_def)
      with 3 d show ?thesis by (intro step) (auto split: if_splits)
    qed
  qed
qed

lemma next_receipt_wf:
  assumes wf: "receipt_wf cur" and nxt: "nextStopSettlementReceipt cur ph fclass fdetail = Inr nxt"
    and detail: "ph = SettlementFailed \<Longrightarrow> TrimSpace fdetail \<noteq> []"
    and room: "Revision cur \<noteq> - 1" "Attempt cur \<noteq> - 1"
  shows "receipt_wf nxt"
  using wf nxt
proof (cases rule: next_receipt_cases)
  case same
  with wf show ?thesis by simp
next
  case fail
  with wf have "valid_base cur" "Phase cur \<in> {StopRequested, ExitObserved, PortReleased}"
    "Mode cur = ''port_fence'' \<longrightarrow> Phase cur = ExitObserved \<or> Phase cur = PortReleased"
    by (auto simp: receipt_wf_def progress_def valid_split valid_phase_def
        split: if_splits StopSettlementPhase.splits)
  with fail detail succ_nonzero [OF room(1)] show ?thesis
    by (auto simp: receipt_wf_def progress_def valid_split valid_phase_def)
next
  case resume
  with wf have "valid_base cur" "ResumePhase cur \<in> {StopRequested, ExitObserved, PortReleased}"
    "Mode cur = ''port_fence'' \<longrightarrow> ResumePhase cur = ExitObserved \<or> ResumePhase cur = PortReleased"
    by (auto simp: receipt_wf_def progress_def valid_split valid_phase_def split: if_splits)
  with resume succ_nonzero [OF room(1)] succ_nonzero [OF room(2)] show ?thesis
    by (auto simp: receipt_wf_def progress_def valid_split valid_phase_def)
next
  case step
  with wf show ?thesis by (auto simp: receipt_wf_def progress_def)
qed

lemma next_receipt_token:
  assumes "receipt_wf cur" and "nextStopSettlementReceipt cur ph fclass fdetail = Inr nxt"
  shows "sameStopSettlementToken cur nxt"
  using assms by (cases rule: next_receipt_cases) (auto simp: sameStopSettlementToken_def)

text \<open>
  C24. A transition of a stop receipt keeps its identity token, changes the revision by exactly one if
  it changes anything, and never goes back: the stage reached stays or moves one step along
  requested, exit observed, port released, and it moves on only to the very phase asked for and
  never from a failed receipt. The result is again a valid receipt, provided a failure carries a
  detail and the 64-bit revision and attempt counters have room.
\<close>

theorem receipt_transition_lawful:
  assumes "receipt_wf cur" and "nextStopSettlementReceipt cur ph fclass fdetail = Inr nxt"
    and "ph = SettlementFailed \<Longrightarrow> TrimSpace fdetail \<noteq> []"
    and "Revision cur \<noteq> - 1" and "Attempt cur \<noteq> - 1"
  shows "receipt_wf nxt \<and> sameStopSettlementToken cur nxt
    \<and> (nxt = cur \<or> unat (Revision nxt) = unat (Revision cur) + 1)
    \<and> (progress nxt = progress cur
       \<or> phase_rank (progress nxt) = phase_rank (progress cur) + 1 \<and> progress nxt = ph
         \<and> Phase cur \<noteq> SettlementFailed)"
proof -
  have rev: "unat (Revision cur + 1) = unat (Revision cur) + 1"
    using assms(4) by (metis Suc_eq_plus1 add.commute add_eq_0_iff unatSuc)
  from assms(1,2) show ?thesis
    by (cases rule: next_receipt_cases)
       (use next_receipt_wf [OF assms] next_receipt_token [OF assms(1,2)] rev in \<open>auto simp: progress_def\<close>)
qed

text \<open>
  A failure reported with a blank detail is accepted and yields a receipt that no later transition
  accepts, and that a restart refuses to load.
\<close>

lemma blank_failure_strands_receipt:
  assumes "receipt_wf cur" and "Phase cur \<noteq> SettlementFailed" and "failure_class_valid fclass"
    and "TrimSpace fdetail = []"
  shows "\<exists>nxt. nextStopSettlementReceipt cur SettlementFailed fclass fdetail = Inr nxt
           \<and> \<not> validStopSettlementReceipt nxt"
  using assms by (simp add: nextStopSettlementReceipt_def valid_split valid_phase_def)

section \<open>Admission of a batch\<close>

definition admitted ::
  "DaemonRuntimeTracker \<Rightarrow> (string \<rightharpoonup> int) \<Rightarrow> StopBatchTargetV1 \<Rightarrow> DaemonRuntimeEntry \<Rightarrow> bool" where
  "admitted t ports tg e \<longleftrightarrow>
     canonicalSupervisorTaskName (tg_TaskName tg) = tg_TaskName tg
   \<and> 0 < ExpectedPort tg \<and> ExpectedPort tg \<le> 65535 \<and> ports (tg_TaskName tg) = Some (ExpectedPort tg)
   \<and> entries t (tg_TaskName tg) = Some e \<and> stopSettlementAdmissionEntry (Some e)
   \<and> stopSettlements t (tg_TaskName tg) = None"

lemma admit_targets_Inr:
  "admit_targets t ports i seen tgs = Inr es \<Longrightarrow>
     distinct (map tg_TaskName tgs) \<and> set (map tg_TaskName tgs) \<inter> set seen = {}
   \<and> list_all2 (admitted t ports) tgs es"
proof (induction tgs arbitrary: i seen es)
  case (Cons tg tgs)
  let ?k = "tg_TaskName tg"
  have c: "canonicalSupervisorTaskName ?k = ?k"
    by (rule ccontr) (use Cons.prems in \<open>simp add: Let_def\<close>)
  from Cons.prems obtain es' where es: "es = entry_of t ?k # es'"
    and rest: "admit_targets t ports (Suc i) (?k # seen) tgs = Inr es'"
    and ok: "?k \<notin> set seen" "admitted t ports tg (entry_of t ?k)"
    by (auto simp: Let_def c admitted_def entry_of_def stopSettlementAdmissionEntry_def
        split: if_splits sum.splits option.splits)
  from Cons.IH [OF rest] es ok show ?case by auto
qed simp

lemma stage_batch_Inr:
  assumes "stage_batch b i rows f = Inr (rs, f')" and "distinct (map (tg_TaskName \<circ> fst) rows)"
  shows "map rc_TaskName rs = map (tg_TaskName \<circ> fst) rows
    \<and> StopSettlementEpoch f' = StopSettlementEpoch f + of_nat (length rows)
    \<and> StopSettlementMapGeneration f' = StopSettlementMapGeneration f \<and> sf_Daemons f' = sf_Daemons f
    \<and> map_of (StopSettlements f') = map_of (StopSettlements f) ++ map_of (map (\<lambda>r. (rc_TaskName r, r)) rs)
    \<and> (distinct (map fst (StopSettlements f)) \<longrightarrow> distinct (map fst (StopSettlements f')))
    \<and> (\<forall>j < length rows. rs ! j = stage_receipt b (i + j) (StopSettlementEpoch f + of_nat j + 1)
                                    (fst (rows ! j)) (snd (rows ! j)))
    \<and> (\<forall>r \<in> set rs. map_of (StopSettlements f) (rc_TaskName r) = None)"
  using assms
proof (induction rows arbitrary: i f rs)
  case (Cons row rows)
  obtain tg e where row: "row = (tg, e)" by fastforce
  let ?ep = "StopSettlementEpoch f + 1" and ?k = "tg_TaskName tg"
  let ?r = "stage_receipt b i ?ep tg e"
  let ?f = "f\<lparr>StopSettlementEpoch := ?ep, StopSettlements := AList.update ?k ?r (StopSettlements f)\<rparr>"
  have k: "rc_TaskName ?r = ?k" by (simp add: stage_receipt_def Let_def)
  from Cons.prems(1) row obtain rs' where rest: "stage_batch b (Suc i) rows ?f = Inr (rs', f')"
    and rs: "rs = ?r # rs'" and free: "map_of (StopSettlements f) ?k = None"
    by (auto simp: Let_def split: if_splits sum.splits)
  from Cons.prems(2) row have fresh: "?k \<notin> set (map (tg_TaskName \<circ> fst) rows)"
    and d: "distinct (map (tg_TaskName \<circ> fst) rows)" by (simp_all add: comp_def)
  note IH = Cons.IH [OF rest d]
  have dom: "map_of (map (\<lambda>r. (rc_TaskName r, r)) rs') ?k = None"
    using fresh unfolding IH [THEN conjunct1, symmetric] by (simp add: map_of_eq_None_iff image_image)
  have "map_of (StopSettlements f') = map_of (StopSettlements f) ++ map_of (map (\<lambda>r. (rc_TaskName r, r)) rs)"
    using IH dom by (auto simp: rs k update_conv' map_add_def fun_eq_iff split: option.splits)
  moreover have "rs ! j = stage_receipt b (i + j) (StopSettlementEpoch f + of_nat j + 1)
      (fst ((row # rows) ! j)) (snd ((row # rows) ! j))" if "j < length (row # rows)" for j
    using that IH rs row by (cases j) (auto simp: algebra_simps)
  moreover have "map_of (StopSettlements f) (rc_TaskName r) = None" if "r \<in> set rs" for r
    using that IH rs free k by (auto simp: update_conv' split: if_splits)
  moreover have "map rc_TaskName rs = map (tg_TaskName \<circ> fst) (row # rows)"
    using IH rs row k by simp
  moreover have "StopSettlementEpoch f' = StopSettlementEpoch f + of_nat (length (row # rows))"
    using IH by (simp add: algebra_simps)
  moreover have "StopSettlementMapGeneration f' = StopSettlementMapGeneration f" "sf_Daemons f' = sf_Daemons f"
    using IH by simp_all
  moreover have "distinct (map fst (StopSettlements f)) \<longrightarrow> distinct (map fst (StopSettlements f'))"
    using IH by (simp add: distinct_update)
  ultimately show ?case by blast
qed simp

lemma epoch_room:
  assumes "int n \<le> 2 ^ 64 - 1 - uint (ep :: 64 word)"
  shows "unat ep + n < 2 ^ 64"
proof -
  have "int (unat ep + n) < 2 ^ 64" using assms unfolding of_nat_add uint_nat by linarith
  then show ?thesis by (metis of_nat_less_iff of_nat_numeral of_nat_power)
qed

lemma epoch_add:
  assumes "int n \<le> 2 ^ 64 - 1 - uint (ep :: 64 word)"
  shows "unat (ep + of_nat n) = unat ep + n"
proof -
  have "unat (ep + of_nat n) = (unat ep + n) mod 2 ^ 64"
    by (simp only: unat_word_ariths unsigned_of_nat take_bit_eq_mod mod_add_right_eq len_of_numeral_defs
          of_nat_id) simp
  with epoch_room [OF assms] show ?thesis by (metis mod_less)
qed

lemma stage_receipt_wf:
  assumes "admitted t ports tg e" and "entry_wf k e" and "ports [] = None" and "b \<noteq> []" and "ep \<noteq> 0"
  shows "receipt_wf (stage_receipt b i ep tg e)"
proof -
  have "tg_TaskName tg \<noteq> []" using assms(1,3) by (auto simp: admitted_def)
  moreover have "CurrentPID e = 0 \<or> 0 < CurrentPID e \<and> 0 < PIDGeneration e"
    using assms(1,2) by (auto simp: admitted_def entry_wf_def stopSettlementAdmissionEntry_def split: if_splits)
  moreover have "0 \<le> PIDGeneration e" using assms(2) by (simp add: entry_wf_def)
  ultimately show ?thesis
    using assms(1,4,5)
    by (auto simp: receipt_wf_def progress_def valid_split valid_base_def valid_phase_def stage_receipt_def
        Let_def admitted_def)
qed

section \<open>Witnesses\<close>

definition demo_receipt :: StopSettlementReceiptV1 where
  "demo_receipt = stage_receipt ''b'' 0 1 \<lparr>tg_TaskName = [backslash, CHR ''x''], ExpectedPort = 9000\<rparr>
     (zero_entry\<lparr>State := daemonRuntimeStateRunning, CurrentPID := 42, StartedAt := 5, PIDGeneration := 1\<rparr>)"

lemmas demo_receipt_simps = demo_receipt_def stage_receipt_def zero_entry_def Let_def

lemma demo_receipt_wf: "receipt_wf demo_receipt"
  by (simp add: receipt_wf_def progress_def valid_split valid_base_def valid_phase_def demo_receipt_simps)

theorem receipt_transition_lawful_witness:
  "\<exists>nxt. nextStopSettlementReceipt demo_receipt ExitObserved [] [] = Inr nxt
       \<and> receipt_wf nxt \<and> sameStopSettlementToken demo_receipt nxt \<and> progress nxt = ExitObserved"
proof -
  let ?nxt = "demo_receipt\<lparr>Revision := 2, Phase := ExitObserved\<rparr>"
  have n: "nextStopSettlementReceipt demo_receipt ExitObserved [] [] = Inr ?nxt"
    by (simp add: nextStopSettlementReceipt_def valid_split valid_base_def valid_phase_def demo_receipt_simps)
  have "progress ?nxt = ExitObserved" by (simp add: progress_def demo_receipt_simps)
  with receipt_transition_lawful [OF demo_receipt_wf n] n show ?thesis
    by (simp add: demo_receipt_simps)
qed

end
