(* ===== verification/Controller_State.thy ===== *)
theory Controller_State
  imports Event_Loop Port_Squatter Stop_Settlement
begin

text \<open>
  The state of the supervisor controller of \<open>internal/cli/supervisor_controller.go\<close>, with its intent
  caches, and everything an event handler asks the outside world. The controller runs on one
  goroutine, the event loop; a handler is a function from the world of its moment and the state
  before to the state after. The record has one field per field of the Go struct that a handler
  reads or writes, and five histories: the processes launched, the terminations attempted, the timers
  started, the replies sent and the settlements begun. The audit log is left out, as are the guards
  against parts that a production supervisor always has (a nil controller, tracker, cache or event
  loop).
\<close>

section \<open>Event payloads\<close>

datatype reallocOutcome = ReallocFailed | Reallocated | ReallocPoolExhausted

record StopBatchCommand = StopBatchCommandV1 +
  cmd_IntentGeneration :: "64 word"
  cmd_SupervisorIntent :: "SupervisorIntentFile option"
  cmd_UnifiedStops :: "intent_map option"

text \<open>
  The dynamic types that handlers assert on the values of an event body. A Go set of names is the
  list of its elements in iteration order; a reply channel is named by a number.
\<close>

datatype ctl_value =
    BBool bool | BInt int | BStr string | BStamp stamp
  | BNames "string list" | BIntent SupervisorIntentFile | BStops intent_map
  | BDescriptor SupervisorDaemon | BRealloc reallocOutcome
  | BStopBatch StopBatchCommand nat | BReply nat

type_synonym ctl_event = "ctl_value LoopEvent"

definition body_bool :: "ctl_event \<Rightarrow> string \<Rightarrow> bool" where
  "body_bool ev k = (case Body ev k of Some (BBool b) \<Rightarrow> b | _ \<Rightarrow> False)"

definition body_int :: "ctl_event \<Rightarrow> string \<Rightarrow> int option" where
  "body_int ev k = (case Body ev k of Some (BInt i) \<Rightarrow> Some i | _ \<Rightarrow> None)"

definition body_str :: "ctl_event \<Rightarrow> string \<Rightarrow> string" where
  "body_str ev k = (case Body ev k of Some (BStr s) \<Rightarrow> s | _ \<Rightarrow> [])"

definition plain_event :: "SMEvent \<Rightarrow> string \<Rightarrow> ctl_event" where
  "plain_event kind task = \<lparr>Kind = kind, TaskName = task, Body = Map.empty\<rparr>"

text \<open>The controller's own event kinds, which have no row in the transition table.\<close>

abbreviation (input) evReapScan :: SMEvent where "evReapScan \<equiv> EvControllerInternal ''reap-scan''"
abbreviation (input) evReapFollowup :: SMEvent where
  "evReapFollowup \<equiv> EvControllerInternal ''reap-followup''"
abbreviation (input) evControllerBarrier :: SMEvent where
  "evControllerBarrier \<equiv> EvControllerInternal ''controller-barrier''"
abbreviation (input) evStopBatch :: SMEvent where "evStopBatch \<equiv> EvControllerInternal ''stop-batch''"
abbreviation (input) evStopSettlementRecovery :: SMEvent where
  "evStopSettlementRecovery \<equiv> EvControllerInternal ''stop-settlement-recovery''"
abbreviation (input) evOwnedChildWaitExit :: SMEvent where
  "evOwnedChildWaitExit \<equiv> EvControllerInternal ''owned-child-wait-exit''"
abbreviation (input) evForeignTerminationExit :: SMEvent where
  "evForeignTerminationExit \<equiv> EvControllerInternal ''foreign-termination-exit''"
abbreviation (input) evParoleTick :: SMEvent where "evParoleTick \<equiv> EvControllerInternal ''parole-tick''"
abbreviation (input) evReallocApplied :: SMEvent where
  "evReallocApplied \<equiv> EvControllerInternal ''realloc-applied''"
abbreviation (input) evPreSpawnRealloc :: SMEvent where
  "evPreSpawnRealloc \<equiv> EvControllerInternal ''pre-spawn-realloc''"

section \<open>Errors\<close>

datatype ctl_error =
    ErrText string | ErrSettle settle_error | ErrProc proc_error | ErrTerminateTargetGone
  | ErrSpawnPreChild string | ErrSpawnJobProtectionRefused | ErrSpawnHeldPortSquatter
  | ErrSpawnHeldMissingPath | ErrIdleRespawnRefusedIntentStopped | ErrWrap string ctl_error

fun is_target_gone :: "ctl_error \<Rightarrow> bool" where
  "is_target_gone ErrTerminateTargetGone = True"
| "is_target_gone (ErrWrap _ e) = is_target_gone e"
| "is_target_gone _ = False"

text \<open>The fixed part of an error's message; operands of the format strings are left out.\<close>

fun err_message :: "ctl_error \<Rightarrow> string" where
  "err_message (ErrText s) = s"
| "err_message (ErrSettle _) = ''stop settlement refused''"
| "err_message (ErrProc (ProcOther s)) = ''process operation failed''"
| "err_message (ErrProc ProcAlreadyExited) = ''process already exited''"
| "err_message (ErrProc ProcIdentityMismatch) = ''process identity mismatch''"
| "err_message ErrTerminateTargetGone = ''supervise: terminate target already gone''"
| "err_message (ErrSpawnPreChild _) = ''spawn failed before a child existed''"
| "err_message ErrSpawnJobProtectionRefused = ''spawn refused: job protection''"
| "err_message ErrSpawnHeldPortSquatter = ''spawn deferred: intended port held''"
| "err_message ErrSpawnHeldMissingPath = ''spawn deferred: a path this daemon requires is absent''"
| "err_message ErrIdleRespawnRefusedIntentStopped = ''respawn refused: intent is stopped''"
| "err_message (ErrWrap s e) = s @ '': '' @ err_message e"

section \<open>The world of one event\<close>

datatype stat_result = StatOK | StatNotExist | StatError
datatype port_probe = ProbeFailed | PortFree | PortOwned int
datatype pid_state = PIDUnknown | PIDDead | PIDAlive

text \<open>
  What the operating system answers while a child is launched: whether the records of an earlier
  child of the task are still incomplete, whether the Job Object could be made (and the protection
  status to show), and the start. A failed start says whether a process was left behind (\<open>orphan\<close>),
  whether everything it left is confirmed gone (\<open>settled\<close>), and which pid to show otherwise.
\<close>

datatype start_result = Started int gotime | StartFailed string bool bool int

record spawn_os =
  creator_busy :: bool
  job_failed :: bool
  job_status :: "bool option"
  start_child :: start_result

text \<open>What it answers while a process is terminated; the last four answers are the Windows ones.\<close>

record kill_os =
  k_query :: "pid_state option"
  k_verify :: "proc_error option"
  k_signal :: "proc_error option"
  k_finish :: "proc_error option"
  k_requery :: "pid_state option"
  k_hold :: "proc_error option"
  k_held_verify :: "proc_error option"
  k_committed :: bool
  k_wait :: "proc_error option"

text \<open>How the allocation of another pool port can fail.\<close>

datatype realloc_error = ErrLockReleaseUnconfirmed | ErrPortPoolExhausted | ErrReallocOther string

record world =
  now :: gotime
  graceful :: bool
  io :: "nat \<Rightarrow> state_io"
  entry_order :: "DaemonRuntimeTracker \<Rightarrow> string list"
  receipt_order :: "DaemonRuntimeTracker \<Rightarrow> string list"
  mdigest :: map_digest
  rdigest :: receipt_digest
  jitter :: rat
  stat :: "string \<Rightarrow> stat_result"
  is_abs :: "string \<Rightarrow> bool"
  volume :: "string \<Rightarrow> string"
  windows :: bool
  strict_job :: bool
  port_owner :: "int \<Rightarrow> port_probe"
  resolve :: manifest_resolve
  spawning :: "SupervisorDaemon \<Rightarrow> spawn_os"
  killing :: "int \<Rightarrow> kill_os"
  disk_intent :: "SupervisorIntentFile option"
  parse_time :: "string \<Rightarrow> gotime option"
  realloc_port :: "SupervisorDaemon \<Rightarrow> int \<times> realloc_error option"
  squatter :: squatter_os
  self_pid :: int
  range_order :: "string list"

section \<open>The controller\<close>

record portGateReq =
  pg_d :: SupervisorDaemon
  ownerPID :: int

record reallocReq =
  rq_d :: SupervisorDaemon
  rq_attempt :: int

record respawn_timer =
  tm_task :: string
  tm_gen :: "64 word"
  tm_delay :: duration

text \<open>What is sent on a reply channel; a closed channel is an acknowledgement.\<close>

datatype ctl_reply =
    RespawnReply "ctl_error option" | Acknowledged
  | StopBatchReply "ctl_error option" "(string \<times> string) list"

record supervisorController =
  eventLoop :: "ctl_value EventLoop"
  intentCache :: "SupervisorIntentFile option"
  daemonIntent :: intent_map
  tracker :: DaemonRuntimeTracker
  statePath :: string
  disk :: "SupervisorStateFile option"
  writes :: nat
  runningPIDs :: "string \<rightharpoonup> int \<times> stamp"
  smStates :: "string \<rightharpoonup> SMState"
  queuedActions :: "string \<rightharpoonup> string"
  ownSpawned :: "string set"
  reaperOutstanding :: "string set"
  gateCleared :: "string set"
  pendingReap :: "string \<rightharpoonup> SupervisorDaemon"
  reapShadow :: "string \<rightharpoonup> SupervisorDaemon"
  reapFollowupArmed :: "string \<rightharpoonup> int"
  reapTimers :: "string \<rightharpoonup> int"
  reapGeneration :: "string \<rightharpoonup> int"
  reapDeferredTimerDue :: "string set"
  reapDeferredStop :: "string set"
  respawnArmEpoch :: "64 word"
  respawnArmGen :: "string \<rightharpoonup> 64 word"
  quarantineParole :: "string \<rightharpoonup> quarantineParoleEntry"
  portGateCh :: "portGateReq list"
  portGateInFlight :: "string set"
  reallocCh :: "reallocReq list"
  reallocInFlight :: "string set"
  reallocDwell :: "string \<rightharpoonup> gotime"
  reallocFailCount :: "string \<rightharpoonup> int"
  bindAccessDeniedTerminalEmitted :: "string set"
  stopSettlementRecoveryArmed :: "string set"
  squatterLimiter :: squatterReapLimiter
  launched :: "(string \<times> int) list"
  kills :: "string list"
  timers :: "respawn_timer list"
  replies :: "(nat \<times> ctl_reply) list"
  settling :: "StopBatchTargetV1 list"

section \<open>Names and caches\<close>

definition toggleSupervisorTaskNameBackslash :: "string \<Rightarrow> string" where
  "toggleSupervisorTaskNameBackslash taskName =
     (if taskName = [] then taskName
      else if has_prefix taskName [backslash] then trim_prefix taskName [backslash]
      else backslash # taskName)"

definition distinctTaskNameKeyForms :: "string \<Rightarrow> string list" where
  "distinctTaskNameKeyForms taskName =
     (let alt = toggleSupervisorTaskNameBackslash taskName
      in if alt = taskName then [taskName] else [taskName, alt])"

text \<open>\<open>daemonIntentCache.Lookup\<close>: an absent task has the zero record.\<close>

definition zero_intent :: DaemonIntent where
  "zero_intent = \<lparr>Desired = [], Reason = [], UpdatedAt = 0\<rparr>"

definition stops_Lookup :: "supervisorController \<Rightarrow> string \<Rightarrow> DaemonIntent" where
  "stops_Lookup c taskName =
     (case map_of (daemonIntent c) taskName of None \<Rightarrow> zero_intent | Some i \<Rightarrow> i)"

text \<open>The desired state a handler works with, and the stop gate of automatic restarts.\<close>

definition desired_of :: "DaemonIntent \<Rightarrow> string" where
  "desired_of i = (if Desired i = [] then IntentDesiredRunning else Desired i)"

definition task_stopped :: "supervisorController \<Rightarrow> gotime \<Rightarrow> string \<Rightarrow> bool" where
  "task_stopped c t task =
     (desired_of (stops_Lookup c task) \<noteq> IntentDesiredRunning \<or> fst (IsActiveStop (stops_Lookup c task) t))"

text \<open>\<open>IntentCache\<close>: the descriptor map of a snapshot; a later row of a name replaces an earlier one.\<close>

definition daemonByTask :: "SupervisorIntentFile option \<Rightarrow> string \<rightharpoonup> SupervisorDaemon" where
  "daemonByTask f =
     (case f of None \<Rightarrow> Map.empty
      | Some f \<Rightarrow> map_of (rev (map (\<lambda>d. (d_TaskName d, d)) (Daemons f))))"

definition LookupCanonical :: "supervisorController \<Rightarrow> string \<Rightarrow> SupervisorDaemon option" where
  "LookupCanonical c taskName =
     (case daemonByTask (intentCache c) taskName of
        Some d \<Rightarrow> Some d
      | None \<Rightarrow>
          let alt = (if has_prefix taskName [backslash] then trim_prefix taskName [backslash]
                     else backslash # taskName)
          in if alt \<noteq> taskName then daemonByTask (intentCache c) alt else None)"

definition intentCache_Refresh :: "SupervisorIntentFile option \<Rightarrow> supervisorController \<Rightarrow> supervisorController" where
  "intentCache_Refresh f c = c\<lparr>intentCache := f\<rparr>"

definition stops_Refresh :: "intent_map \<Rightarrow> supervisorController \<Rightarrow> supervisorController" where
  "stops_Refresh m c = c\<lparr>daemonIntent := m\<rparr>"

definition taskNameSetFromIntent :: "SupervisorIntentFile option \<Rightarrow> string list" where
  "taskNameSetFromIntent f =
     (case f of None \<Rightarrow> [] | Some f \<Rightarrow> remdups (map (canonicalSupervisorTaskName \<circ> d_TaskName) (Daemons f)))"

definition TaskNames :: "supervisorController \<Rightarrow> string list" where
  "TaskNames c = taskNameSetFromIntent (intentCache c)"

definition getSMStateCanonical :: "supervisorController \<Rightarrow> string \<Rightarrow> SMState option" where
  "getSMStateCanonical c taskName =
     (case smStates c taskName of
        Some s \<Rightarrow> Some s
      | None \<Rightarrow> let alt = toggleSupervisorTaskNameBackslash taskName
                in if alt \<noteq> taskName then smStates c alt else None)"

definition loadReapMarkerCanonical :: "string set \<Rightarrow> string \<Rightarrow> bool" where
  "loadReapMarkerCanonical m taskName =
     (taskName \<in> m \<or> (let alt = toggleSupervisorTaskNameBackslash taskName in alt \<noteq> taskName \<and> alt \<in> m))"

definition smStateIs :: "supervisorController \<Rightarrow> string \<Rightarrow> SMState \<Rightarrow> bool" where
  "smStateIs c taskName want = (getSMStateCanonical c (canonicalSupervisorTaskName taskName) = Some want)"

definition smStateIsReapable :: "supervisorController \<Rightarrow> string \<Rightarrow> bool" where
  "smStateIsReapable c taskName =
     (case getSMStateCanonical c taskName of
        None \<Rightarrow> False
      | Some s \<Rightarrow> s = StSpawning \<or> s = StRunning \<or> s = StBackoffWaiting \<or> s = StExiting)"

definition lookupDescriptorWithShadow :: "supervisorController \<Rightarrow> string \<Rightarrow> SupervisorDaemon option" where
  "lookupDescriptorWithShadow c taskName =
     (case LookupCanonical c taskName of
        Some d \<Rightarrow> Some d
      | None \<Rightarrow> (case List.map_filter (reapShadow c) (distinctTaskNameKeyForms taskName) of
                   [] \<Rightarrow> None | d # _ \<Rightarrow> Some d))"

definition queued_of :: "supervisorController \<Rightarrow> string \<Rightarrow> string" where
  "queued_of c k = (case queuedActions c k of None \<Rightarrow> [] | Some q \<Rightarrow> q)"

section \<open>Small effects\<close>

definition store_state :: "string \<Rightarrow> SMState \<Rightarrow> supervisorController \<Rightarrow> supervisorController" where
  "store_state k s c = c\<lparr>smStates := (smStates c)(k \<mapsto> s)\<rparr>"

definition store_queued :: "string \<Rightarrow> string \<Rightarrow> supervisorController \<Rightarrow> supervisorController" where
  "store_queued k q c = c\<lparr>queuedActions := (queuedActions c)(k \<mapsto> q)\<rparr>"

definition on_tracker ::
  "(DaemonRuntimeTracker \<Rightarrow> DaemonRuntimeTracker) \<Rightarrow> supervisorController \<Rightarrow> supervisorController" where
  "on_tracker f c = c\<lparr>tracker := f (tracker c)\<rparr>"

definition self_post :: "ctl_event \<Rightarrow> supervisorController \<Rightarrow> bool \<times> supervisorController" where
  "self_post ev c = (let (ok, l) = PostSelf (eventLoop c) ev in (ok, c\<lparr>eventLoop := l\<rparr>))"

definition persistDaemonRuntimeTracker ::
  "world \<Rightarrow> supervisorController \<Rightarrow> settle_error option \<times> supervisorController" where
  "persistDaemonRuntimeTracker w c =
     (if statePath c = [] then (None, c)
      else let (err, d) = PersistTo (mdigest w) (entry_order w (tracker c)) (receipt_order w (tracker c))
                            (io w (writes c)) (statePath c) (tracker c) (disk c)
           in (err, c\<lparr>disk := d, writes := Suc (writes c)\<rparr>))"

text \<open>Nearly every caller ignores the error of the write.\<close>

definition persist_quietly :: "world \<Rightarrow> supervisorController \<Rightarrow> supervisorController" where
  "persist_quietly w c = snd (persistDaemonRuntimeTracker w c)"

definition Advance ::
  "world \<Rightarrow> StopSettlementReceiptV1 \<Rightarrow> StopSettlementPhase \<Rightarrow> string \<Rightarrow> string \<Rightarrow> supervisorController
     \<Rightarrow> (settle_error + StopSettlementReceiptV1) \<times> supervisorController" where
  "Advance w r ph fclass fdetail c =
     (let (res, d, t) = AdvanceStopSettlement (mdigest w) (rdigest w) (io w (writes c)) (statePath c) r ph
                          fclass fdetail (tracker c) (tracker c) (disk c)
      in (res, c\<lparr>disk := d, tracker := t, writes := Suc (writes c)\<rparr>))"

definition send_reply :: "nat \<Rightarrow> ctl_reply \<Rightarrow> supervisorController \<Rightarrow> supervisorController" where
  "send_reply n e c = c\<lparr>replies := replies c @ [(n, e)]\<rparr>"

definition completeIdleRespawnEvent :: "ctl_event \<Rightarrow> ctl_error option \<Rightarrow> supervisorController \<Rightarrow> supervisorController" where
  "completeIdleRespawnEvent ev e c =
     (case Body ev ''idle_respawn_result'' of Some (BReply n) \<Rightarrow> send_reply n (RespawnReply e) c | _ \<Rightarrow> c)"

section \<open>Timers\<close>

definition nextRespawnArmGen :: "string \<Rightarrow> supervisorController \<Rightarrow> 64 word \<times> supervisorController" where
  "nextRespawnArmGen key c =
     (let gen = respawnArmEpoch c + 1
      in (gen, c\<lparr>respawnArmEpoch := gen, respawnArmGen := (respawnArmGen c)(key \<mapsto> gen)\<rparr>))"

text \<open>The goroutine that waits is an element of \<open>timers\<close>; \<open>timer_fires\<close> is what it does at its end.\<close>

definition armRespawnBackoffTimer ::
  "world \<Rightarrow> string \<Rightarrow> duration \<Rightarrow> supervisorController \<Rightarrow> duration \<times> supervisorController" where
  "armRespawnBackoffTimer w taskName backoff c =
     (let backoff = jitteredRespawnBackoff backoff (jitter w);
          (gen, c) = nextRespawnArmGen (canonicalSupervisorTaskName taskName) c
      in (backoff, c\<lparr>timers := timers c @ [\<lparr>tm_task = taskName, tm_gen = gen, tm_delay = backoff\<rparr>]\<rparr>))"

definition timer_fires :: "respawn_timer \<Rightarrow> supervisorController \<Rightarrow> ctl_event option" where
  "timer_fires tm c =
     (if (case smStates c (tm_task tm) of Some s \<Rightarrow> s \<noteq> StBackoffWaiting | None \<Rightarrow> False) then None
      else if respawnArmGen c (canonicalSupervisorTaskName (tm_task tm)) \<noteq> Some (tm_gen tm) then None
      else Some (plain_event EvTimerDue (tm_task tm)))"

definition holdInBackoffNoTimer :: "world \<Rightarrow> string \<Rightarrow> supervisorController \<Rightarrow> supervisorController" where
  "holdInBackoffNoTimer w taskName c =
     persist_quietly w (on_tracker (MarkBackoff taskName) (store_state taskName StBackoffWaiting c))"

definition holdSpawnInBackoff ::
  "world \<Rightarrow> SupervisorDaemon \<Rightarrow> ctl_event \<Rightarrow> duration \<Rightarrow> supervisorController \<Rightarrow> supervisorController" where
  "holdSpawnInBackoff w d ev rearm c =
     (let c = store_state (TaskName ev) StBackoffWaiting c;
          c = persist_quietly w (on_tracker (MarkBackoff (TaskName ev)) c)
      in snd (armRespawnBackoffTimer w (d_TaskName d) rearm c))"

section \<open>Parole bookkeeping\<close>

definition recordQuarantineParoleEligible :: "string \<Rightarrow> gotime \<Rightarrow> supervisorController \<Rightarrow> supervisorController" where
  "recordQuarantineParoleEligible taskName t c =
     (let key = canonicalSupervisorTaskName taskName
      in case quarantineParole c key of
           Some _ \<Rightarrow> c
         | None \<Rightarrow> c\<lparr>quarantineParole := (quarantineParole c)(key \<mapsto>
             \<lparr>attempts = 0, nextAttemptAt = t + quarantineParoleDelay 0, healthySince = 0\<rparr>)\<rparr>)"

definition clearQuarantineParole :: "string \<Rightarrow> supervisorController \<Rightarrow> supervisorController" where
  "clearQuarantineParole taskName c =
     c\<lparr>quarantineParole := (quarantineParole c)(canonicalSupervisorTaskName taskName := None)\<rparr>"

end
