(* ===== verification/Controller_Effects.thy ===== *)
theory Controller_Effects
  imports Controller_State
begin

text \<open>
  What the controller does when the transition table asks for it: launching a child behind the
  admission, existence and port gates, terminating one, waiting in backoff, and recording the exit of
  a child that was being stopped. Sources are \<open>internal/cli/supervisor_controller.go\<close>,
  \<open>internal/cli/supervise_prespawn_path_gate.go\<close>, \<open>internal/cli/termination_outcome.go\<close> and the
  spawn closure of \<open>internal/cli/supervise.go\<close>. Building the command line and environment of a child
  is not modelled.
\<close>

section \<open>Launching a child\<close>

datatype spawn_result = SpawnOK | SpawnFailed ctl_error

text \<open>
  The spawn closure. The child's exit is observed by a goroutine it starts; here that is the step
  \<open>publish_exit\<close>. A failing write of the state file after a successful start is reported as an error,
  although the child is alive.
\<close>

definition spawn :: "world \<Rightarrow> SupervisorDaemon \<Rightarrow> supervisorController \<Rightarrow> spawn_result \<times> supervisorController" where
  "spawn w d c =
     (let os = spawning w d; k = d_TaskName d
      in if creator_busy os then (SpawnFailed (ErrText ''daemon creator resources remain incomplete''), c)
         else let c = on_tracker (MarkJobProtection k (job_status os)) c
         in if job_failed os \<and> strict_job w
            then (SpawnFailed ErrSpawnJobProtectionRefused,
                  snd (persistDaemonRuntimeTracker w (on_tracker (MarkQuarantined k) c)))
            else case start_child os of
                   StartFailed err orphan settled pidForState \<Rightarrow>
                     let c = snd (persistDaemonRuntimeTracker w (on_tracker (MarkSpawnFailed k err) c))
                     in if orphan \<and> \<not> settled
                        then (SpawnFailed (ErrText err), snd (persistDaemonRuntimeTracker w
                                (on_tracker (MarkSpawnFailedPreservePID k err pidForState) c)))
                        else if \<not> settled then (SpawnFailed (ErrText err), c)
                        else (SpawnFailed (ErrSpawnPreChild err), c)
                 | Started pid startedAt \<Rightarrow>
                     let c = on_tracker (\<lambda>t. snd (MarkSpawned k pid startedAt t)) c;
                         c = c\<lparr>launched := launched c @ [(k, pid)]\<rparr>;
                         (err, c) = persistDaemonRuntimeTracker w c
                     in (case err of None \<Rightarrow> SpawnOK | Some e \<Rightarrow> SpawnFailed (ErrSettle e), c))"

text \<open>
  The waiting goroutine of a child of generation \<open>gen\<close>, and the bridge that posts its event. The
  result is the event to post, if the exit is current.
\<close>

definition publish_exit ::
  "world \<Rightarrow> string \<Rightarrow> int \<Rightarrow> int \<Rightarrow> gotime \<Rightarrow> int \<Rightarrow> bool \<Rightarrow> supervisorController
     \<Rightarrow> ctl_event option \<times> supervisorController" where
  "publish_exit w task pid gen startedAt exitCode waitErr c =
     (let (current, t) = MarkExitedIfCurrent task gen (tracker c); c = c\<lparr>tracker := t\<rparr>
      in if \<not> current then (None, c)
         else (Some \<lparr>Kind = evOwnedChildWaitExit, TaskName = task,
                 Body = [''exit_code'' \<mapsto> BInt exitCode, ''pid'' \<mapsto> BInt pid, ''pid_generation'' \<mapsto> BInt gen,
                         ''clean_exit'' \<mapsto> BBool (exitCode = 0 \<and> \<not> waitErr)]
                   ++ (if startedAt = 0 then Map.empty else [''started_at'' \<mapsto> BStamp (FormatRFC3339Nano startedAt)])\<rparr>,
               snd (persistDaemonRuntimeTracker w c)))"

section \<open>Terminating a child\<close>

record terminationExpectedTuple =
  CanonicalTaskName :: string
  tu_PID :: int
  tu_StartedAt :: stamp
  tu_PIDGeneration :: int
  Valid :: bool

datatype terminationOutcomeKind =
    TargetAbsent | OutcomeUncertain | OutcomeAlreadyExited | OutcomeIdentityMismatch | OutcomeFailed
  | OutcomeCommitted | OutcomeTerminated

record terminationOutcome =
  to_Kind :: terminationOutcomeKind
  Expected :: terminationExpectedTuple
  Cause :: "ctl_error option"

definition AllowsSynthetic :: "terminationOutcome \<Rightarrow> bool" where
  "AllowsSynthetic o' =
     (Valid (Expected o') \<and> (to_Kind o' = OutcomeAlreadyExited \<or> to_Kind o' = OutcomeTerminated))"

definition legacyError :: "terminationOutcome \<Rightarrow> ctl_error option" where
  "legacyError o' =
     (case to_Kind o' of
        OutcomeAlreadyExited \<Rightarrow> None
      | OutcomeTerminated \<Rightarrow> None
      | OutcomeCommitted \<Rightarrow>
          (case Cause o' of
             Some e \<Rightarrow> Some (ErrWrap ''termination committed but exit was not observed'' e)
           | None \<Rightarrow> Some (ErrText ''termination committed but exit was not observed''))
      | OutcomeIdentityMismatch \<Rightarrow> None
      | TargetAbsent \<Rightarrow>
          (case Cause o' of Some e \<Rightarrow> Some e | None \<Rightarrow> Some (ErrText ''termination target absent''))
      | OutcomeUncertain \<Rightarrow> Cause o'
      | OutcomeFailed \<Rightarrow>
          (case Cause o' of Some e \<Rightarrow> Some e | None \<Rightarrow> Some (ErrText ''termination outcome uncertain'')))"

definition terminationExpectedTupleForTask :: "DaemonRuntimeTracker \<Rightarrow> string \<Rightarrow> terminationExpectedTuple" where
  "terminationExpectedTupleForTask t taskName =
     (let k = canonicalSupervisorTaskName taskName;
          none = \<lparr>CanonicalTaskName = k, tu_PID = 0, tu_StartedAt = NoStamp, tu_PIDGeneration = 0, Valid = False\<rparr>
      in case Get k t of
           None \<Rightarrow> none
         | Some e \<Rightarrow>
             if CurrentPID e \<le> 0 \<or> PIDGeneration e \<le> 0 \<or> StartedAt e = 0 then none
             else \<lparr>CanonicalTaskName = k, tu_PID = CurrentPID e, tu_StartedAt = FormatRFC3339Nano (StartedAt e),
                   tu_PIDGeneration = PIDGeneration e, Valid = True\<rparr>)"

definition terminationTupleMatchesReceipt :: "terminationExpectedTuple \<Rightarrow> StopSettlementReceiptV1 \<Rightarrow> bool" where
  "terminationTupleMatchesReceipt tuple r =
     (Valid tuple \<and> CanonicalTaskName tuple = rc_TaskName r \<and> tu_PID tuple = PID r
      \<and> tu_StartedAt tuple = rc_StartedAt r \<and> tu_PIDGeneration tuple = rc_PIDGeneration r)"

definition terminationOutcomeFromVerification ::
  "terminationExpectedTuple \<Rightarrow> proc_error \<Rightarrow> terminationOutcome" where
  "terminationOutcomeFromVerification expected err =
     \<lparr>to_Kind = (case err of ProcAlreadyExited \<Rightarrow> OutcomeAlreadyExited
                 | ProcIdentityMismatch \<Rightarrow> OutcomeIdentityMismatch | ProcOther _ \<Rightarrow> OutcomeFailed),
      Expected = expected, Cause = Some (ErrProc err)\<rparr>"

definition markTerminationOutcomeExited ::
  "world \<Rightarrow> terminationExpectedTuple \<Rightarrow> supervisorController \<Rightarrow> supervisorController" where
  "markTerminationOutcomeExited w expected c =
     (if \<not> Valid expected then c
      else let (current, t) = MarkExitedIfCurrent (CanonicalTaskName expected) (tu_PIDGeneration expected) (tracker c);
               c = c\<lparr>tracker := t\<rparr>
           in if current then snd (persistDaemonRuntimeTracker w c) else c)"

definition terminateProductionWindows ::
  "world \<Rightarrow> kill_os \<Rightarrow> terminationExpectedTuple \<Rightarrow> supervisorController
     \<Rightarrow> terminationOutcome \<times> supervisorController" where
  "terminateProductionWindows w os expected c =
     (case k_hold os of
        Some e \<Rightarrow> (terminationOutcomeFromVerification expected e, c)
      | None \<Rightarrow>
          (case k_held_verify os of
             Some e \<Rightarrow>
               let o' = terminationOutcomeFromVerification expected e
               in (o', if to_Kind o' = OutcomeAlreadyExited then markTerminationOutcomeExited w expected c else c)
           | None \<Rightarrow>
               if \<not> k_committed os
               then let o' = terminationOutcomeFromVerification expected
                               (case k_wait os of Some e \<Rightarrow> e | None \<Rightarrow> ProcOther [])
                    in (o', if to_Kind o' = OutcomeAlreadyExited then markTerminationOutcomeExited w expected c else c)
               else case k_wait os of
                      Some e \<Rightarrow> (\<lparr>to_Kind = OutcomeCommitted, Expected = expected, Cause = Some (ErrProc e)\<rparr>, c)
                    | None \<Rightarrow> (\<lparr>to_Kind = OutcomeTerminated, Expected = expected, Cause = None\<rparr>,
                               markTerminationOutcomeExited w expected c)))"

definition terminate_running ::
  "world \<Rightarrow> kill_os \<Rightarrow> terminationExpectedTuple \<Rightarrow> supervisorController
     \<Rightarrow> terminationOutcome \<times> supervisorController" where
  "terminate_running w os expected c =
     (if windows w then terminateProductionWindows w os expected c
      else case k_verify os of
             Some e \<Rightarrow> (terminationOutcomeFromVerification expected e, c)
           | None \<Rightarrow>
               (case k_signal os of
                  Some e \<Rightarrow> (terminationOutcomeFromVerification expected e, c)
                | None \<Rightarrow>
                    (case k_finish os of
                       Some e \<Rightarrow> (\<lparr>to_Kind = OutcomeFailed, Expected = expected, Cause = Some (ErrProc e)\<rparr>, c)
                     | None \<Rightarrow>
                         (case k_requery os of
                            Some PIDDead \<Rightarrow> (\<lparr>to_Kind = OutcomeTerminated, Expected = expected, Cause = None\<rparr>,
                                            markTerminationOutcomeExited w expected c)
                          | Some _ \<Rightarrow> (\<lparr>to_Kind = OutcomeCommitted, Expected = expected,
                                       Cause = Some (ErrText ''PID not observed dead after termination'')\<rparr>, c)
                          | None \<Rightarrow> (\<lparr>to_Kind = OutcomeCommitted, Expected = expected,
                                     Cause = Some (ErrText ''re-query PID after termination'')\<rparr>, c)))))"

text \<open>
  The production terminator. The pid is the tracker's if it has one, else that of the startup
  snapshot; the answers of the operating system are those for that pid.
\<close>

definition termination_target ::
  "SupervisorDaemon \<Rightarrow> terminationExpectedTuple \<Rightarrow> supervisorController \<Rightarrow> terminationExpectedTuple \<times> int \<times> stamp" where
  "termination_target d expected0 c =
     (let expected = (if CanonicalTaskName expected0 = []
                      then expected0\<lparr>CanonicalTaskName := canonicalSupervisorTaskName (d_TaskName d)\<rparr> else expected0);
          of_snapshot = (\<lambda>k. case runningPIDs c k of None \<Rightarrow> (0, NoStamp) | Some x \<Rightarrow> x)
      in (expected,
          if Valid expected then (tu_PID expected, tu_StartedAt expected)
          else if fst (of_snapshot (CanonicalTaskName expected)) \<le> 0 then of_snapshot (d_TaskName d)
          else of_snapshot (CanonicalTaskName expected)))"

definition terminate_pid ::
  "world \<Rightarrow> terminationExpectedTuple \<Rightarrow> int \<Rightarrow> stamp \<Rightarrow> supervisorController
     \<Rightarrow> terminationOutcome \<times> supervisorController" where
  "terminate_pid w expected pid startedAt c =
     (let uncertain = (\<lambda>msg. (\<lparr>to_Kind = OutcomeUncertain, Expected = expected, Cause = Some (ErrText msg)\<rparr>, c))
      in if pid \<le> 0
         then (\<lparr>to_Kind = TargetAbsent, Expected = expected,
                Cause = Some (ErrText ''no running PID recorded for task'')\<rparr>, c)
         else case k_query (killing w pid) of
                None \<Rightarrow> uncertain ''query PID state''
              | Some PIDUnknown \<Rightarrow> uncertain ''query PID state returned unknown''
              | Some PIDDead \<Rightarrow> (\<lparr>to_Kind = OutcomeAlreadyExited, Expected = expected, Cause = None\<rparr>,
                                markTerminationOutcomeExited w expected c)
              | Some PIDAlive \<Rightarrow>
                  if startedAt = NoStamp then uncertain ''missing started_at for PID''
                  else terminate_running w (killing w pid) expected c)"

definition terminateOutcome ::
  "world \<Rightarrow> SupervisorDaemon \<Rightarrow> terminationExpectedTuple \<Rightarrow> supervisorController
     \<Rightarrow> terminationOutcome \<times> supervisorController" where
  "terminateOutcome w d expected0 c =
     (let (expected, pid, startedAt) = termination_target d expected0 c
      in terminate_pid w expected pid startedAt c)"

section \<open>The existence gate\<close>

datatype spawnPathVerdict = PathPresent | PathAbsent | PathIndeterminate | PathUnavailable

definition slash_to_backslash :: "string \<Rightarrow> string" where
  "slash_to_backslash = map (\<lambda>ch'. if ch' = CHR ''/'' then backslash else ch')"

definition isNonLocalSpawnPath :: "string \<Rightarrow> bool" where
  "isNonLocalSpawnPath p =
     (let q = slash_to_backslash p; bb = [backslash, backslash]
      in if has_prefix q (bb @ ''?'' @ [backslash] @ ''UNC'' @ [backslash])
            \<or> has_prefix q (bb @ ''.'' @ [backslash] @ ''UNC'' @ [backslash]) then True
         else if has_prefix q (bb @ ''?'' @ [backslash]) \<or> has_prefix q (bb @ ''.'' @ [backslash]) then False
         else has_prefix q bb)"

definition spawnPathVolumeRoot :: "world \<Rightarrow> string \<Rightarrow> string" where
  "spawnPathVolumeRoot w p =
     (if volume w p = [] then [] else volume w p @ (if windows w then [backslash] else ''/''))"

definition classifySpawnPath :: "world \<Rightarrow> string \<Rightarrow> spawnPathVerdict" where
  "classifySpawnPath w path =
     (let p = TrimSpace path
      in if p = [] \<or> isNonLocalSpawnPath p \<or> \<not> is_abs w p then PathIndeterminate
         else case stat w p of
                StatOK \<Rightarrow> PathPresent
              | StatNotExist \<Rightarrow>
                  let root = spawnPathVolumeRoot w p
                  in if root \<noteq> [] \<and> stat w root \<noteq> StatOK then PathUnavailable else PathAbsent
              | StatError \<Rightarrow> PathIndeterminate)"

definition missingPathHoldDelay :: duration where "missingPathHoldDelay = 30 * Second"

definition clearSpawnHold :: "world \<Rightarrow> string \<Rightarrow> supervisorController \<Rightarrow> supervisorController" where
  "clearSpawnHold w taskName c =
     (let (had, t) = ClearSpawnHold taskName (tracker c); c = c\<lparr>tracker := t\<rparr>
      in if had then persist_quietly w c else c)"

definition hold_for_path ::
  "world \<Rightarrow> SupervisorDaemon \<Rightarrow> ctl_event \<Rightarrow> string \<Rightarrow> string \<Rightarrow> supervisorController
     \<Rightarrow> ctl_error option \<times> supervisorController" where
  "hold_for_path w d ev reasonID path c =
     (Some ErrSpawnHeldMissingPath,
      holdSpawnInBackoff w d ev missingPathHoldDelay (on_tracker (MarkSpawnHold (d_TaskName d) reasonID path) c))"

definition preSpawnMissingPathHold ::
  "world \<Rightarrow> SupervisorDaemon \<Rightarrow> ctl_event \<Rightarrow> supervisorController \<Rightarrow> ctl_error option \<times> supervisorController" where
  "preSpawnMissingPathHold w d ev c =
     (case classifySpawnPath w (Command d) of
        PathAbsent \<Rightarrow> hold_for_path w d ev ''missing-binary'' (Command d) c
      | PathUnavailable \<Rightarrow> hold_for_path w d ev ''unavailable-binary'' (Command d) c
      | _ \<Rightarrow>
          (case classifySpawnPath w (Workspace d) of
             PathAbsent \<Rightarrow> hold_for_path w d ev ''missing-workspace'' (Workspace d) c
           | PathUnavailable \<Rightarrow> hold_for_path w d ev ''unavailable-workspace'' (Workspace d) c
           | _ \<Rightarrow> (None, clearSpawnHold w (d_TaskName d) c)))"

section \<open>The port gate\<close>

definition squatterForeignHoldDelay :: duration where "squatterForeignHoldDelay = 30 * Second"
definition portGateChCapacity :: nat where "portGateChCapacity = 64"

definition tryDispatchPortGate :: "portGateReq \<Rightarrow> supervisorController \<Rightarrow> supervisorController" where
  "tryDispatchPortGate req c =
     (let task = canonicalSupervisorTaskName (d_TaskName (pg_d req))
      in if task \<in> portGateInFlight c then c
         else if length (portGateCh c) < portGateChCapacity
         then c\<lparr>portGateInFlight := insert task (portGateInFlight c), portGateCh := portGateCh c @ [req]\<rparr>
         else c)"

definition preSpawnPortGateHold ::
  "world \<Rightarrow> SupervisorDaemon \<Rightarrow> ctl_event \<Rightarrow> supervisorController \<Rightarrow> ctl_error option \<times> supervisorController" where
  "preSpawnPortGateHold w d ev c =
     (case EffectiveDaemonPort (resolve w) d of
        None \<Rightarrow> (None, c)
      | Some port \<Rightarrow>
          if port \<le> 0 then (None, c)
          else case port_owner w port of
                 PortOwned pid \<Rightarrow>
                   (Some ErrSpawnHeldPortSquatter,
                    holdSpawnInBackoff w d ev squatterForeignHoldDelay
                      (tryDispatchPortGate \<lparr>pg_d = d\<lparr>Port := port\<rparr>, ownerPID = pid\<rparr> c))
               | _ \<Rightarrow> (None, c))"

section \<open>Side effects of a transition\<close>

definition admitCreateProcess :: "string \<Rightarrow> supervisorController \<Rightarrow> ctl_error option" where
  "admitCreateProcess taskName c =
     (if stopSettlementIntegrityErr (tracker c) \<noteq> [] then Some (ErrText (stopSettlementIntegrityErr (tracker c)))
      else case StopSettlementReceipt (canonicalSupervisorTaskName taskName) (tracker c) of
             Some _ \<Rightarrow> Some (ErrText ''create-process denied until stop settlement is committed'')
           | None \<Rightarrow> None)"

definition quarantineThreshold :: int where "quarantineThreshold = respawnQuarantineThreshold"
definition failureWindow :: duration where "failureWindow = respawnFailureWindow"

definition handleBackoffWaiting :: "world \<Rightarrow> SupervisorDaemon \<Rightarrow> supervisorController \<Rightarrow> supervisorController" where
  "handleBackoffWaiting w d c =
     (let k = d_TaskName d;
          (n, t) = RecordCrashAndCountInWindow k (now w) failureWindow (tracker c);
          c = c\<lparr>tracker := t\<rparr>
      in if n \<ge> quarantineThreshold
         then persist_quietly w (on_tracker (MarkQuarantined k)
                (recordQuarantineParoleEligible k (now w) (store_state k StQuarantined c)))
         else snd (armRespawnBackoffTimer w k (computeRespawnBackoff n)
                (persist_quietly w (on_tracker (MarkBackoff k) c))))"

definition descriptorForTerminateSideEffect :: "SupervisorDaemon \<Rightarrow> ctl_event \<Rightarrow> SupervisorDaemon" where
  "descriptorForTerminateSideEffect d ev =
     (if Kind ev \<noteq> EvManualRestart then d
      else case Body ev ''terminate_descriptor'' of Some (BDescriptor old) \<Rightarrow> old | _ \<Rightarrow> d)"

definition synthesizeForeignChildExit ::
  "SupervisorDaemon \<Rightarrow> terminationExpectedTuple \<Rightarrow> supervisorController \<Rightarrow> supervisorController" where
  "synthesizeForeignChildExit d expected c =
     snd (self_post \<lparr>Kind = evForeignTerminationExit, TaskName = d_TaskName d,
            Body = [''pid'' \<mapsto> BInt (tu_PID expected), ''pid_generation'' \<mapsto> BInt (tu_PIDGeneration expected),
                    ''started_at'' \<mapsto> BStamp (tu_StartedAt expected)]\<rparr> c)"

text \<open>The part of the spawning arm after the admission and the refusal of legacy descriptors.\<close>

definition after_spawn ::
  "string \<Rightarrow> SupervisorDaemon \<Rightarrow> spawn_result \<Rightarrow> supervisorController \<Rightarrow> ctl_error option \<times> supervisorController" where
  "after_spawn task d res c =
     (case res of
        SpawnOK \<Rightarrow>
          (None, snd (self_post (plain_event EvHealthOK (d_TaskName d))
             (c\<lparr>ownSpawned := insert (d_TaskName d) (ownSpawned c),
               reaperOutstanding := insert (d_TaskName d) (reaperOutstanding c)\<rparr>)))
      | SpawnFailed ErrSpawnJobProtectionRefused \<Rightarrow>
          (Some ErrSpawnJobProtectionRefused, clearQuarantineParole task (store_state task StQuarantined c))
      | SpawnFailed (ErrSpawnPreChild e) \<Rightarrow>
          (Some (ErrSpawnPreChild e), snd (self_post (plain_event EvChildExit (d_TaskName d)) c))
      | SpawnFailed e \<Rightarrow> (Some e, c))"

definition gated_spawn ::
  "world \<Rightarrow> SupervisorDaemon \<Rightarrow> ctl_event \<Rightarrow> supervisorController \<Rightarrow> ctl_error option \<times> supervisorController" where
  "gated_spawn w d ev c =
     (case preSpawnMissingPathHold w d ev c of
        (Some hd', c) \<Rightarrow> (Some hd', c)
      | (None, c) \<Rightarrow>
          (let cleared = TaskName ev \<in> gateCleared c;
               c = c\<lparr>gateCleared := gateCleared c - {TaskName ev}\<rparr>;
               (port_held, c) = (if cleared then (None, c) else preSpawnPortGateHold w d ev c)
           in case port_held of
                Some h \<Rightarrow> (Some h, c)
              | None \<Rightarrow> (let (res, c) = spawn w d c in after_spawn (TaskName ev) d res c)))"

definition effect_spawning ::
  "world \<Rightarrow> string \<Rightarrow> SupervisorDaemon \<Rightarrow> ctl_event \<Rightarrow> supervisorController
     \<Rightarrow> ctl_error option \<times> supervisorController" where
  "effect_spawning w sd d ev c =
     (if \<not> str_contains sd ''create-process'' then (None, c)
      else case admitCreateProcess (TaskName ev) c of
             Some e \<Rightarrow> (Some e, c)
           | None \<Rightarrow>
               if IsSerenaProxyDescriptor d \<and> RuntimeSpec d = None
               then (Some (ErrText ''legacy serena-proxy descriptor carries no runtime_spec''),
                     persist_quietly w (on_tracker (MarkQuarantined (TaskName ev))
                       (clearQuarantineParole (TaskName ev) (store_state (TaskName ev) StQuarantined c))))
               else gated_spawn w d ev c)"

definition effect_exiting ::
  "world \<Rightarrow> SupervisorDaemon \<Rightarrow> ctl_event \<Rightarrow> supervisorController \<Rightarrow> ctl_error option \<times> supervisorController" where
  "effect_exiting w d ev c =
     (let td = descriptorForTerminateSideEffect d ev;
          expected = terminationExpectedTupleForTask (tracker c) (d_TaskName td);
          (outcome, c) = terminateOutcome w td expected (c\<lparr>kills := kills c @ [d_TaskName td]\<rparr>);
          isOwned = loadReapMarkerCanonical (ownSpawned c) (d_TaskName d);
          reaperPending = loadReapMarkerCanonical (reaperOutstanding c) (d_TaskName d)
      in (legacyError outcome,
          if AllowsSynthetic outcome \<and> \<not> isOwned \<and> \<not> reaperPending
          then synthesizeForeignChildExit d (Expected outcome) c else c))"

definition executeSideEffect ::
  "world \<Rightarrow> string \<Rightarrow> SMState \<Rightarrow> SupervisorDaemon \<Rightarrow> ctl_event \<Rightarrow> supervisorController
     \<Rightarrow> ctl_error option \<times> supervisorController" where
  "executeSideEffect w sd newState d ev c =
     (case newState of
        StSpawning \<Rightarrow> effect_spawning w sd d ev c
      | StBackoffWaiting \<Rightarrow> (None, handleBackoffWaiting w d c)
      | StQuarantined \<Rightarrow>
          (None, if Kind ev = EvTimerDue then recordQuarantineParoleEligible (d_TaskName d) (now w) c else c)
      | StExiting \<Rightarrow> effect_exiting w d ev c
      | StRunning \<Rightarrow> (None, c)
      | StIdle \<Rightarrow> (None, c))"

section \<open>The exit of a child that is being stopped\<close>

definition advanceExactStopReceiptExit ::
  "world \<Rightarrow> terminationExpectedTuple \<Rightarrow> supervisorController \<Rightarrow> bool \<times> supervisorController" where
  "advanceExactStopReceiptExit w expected c =
     (if \<not> Valid expected then (False, c)
      else case StopSettlementReceipt (CanonicalTaskName expected) (tracker c) of
             None \<Rightarrow> (True, c)
           | Some r \<Rightarrow>
               if TrimSpace (statePath c) = [] then (False, c)
               else if \<not> terminationTupleMatchesReceipt expected r then (False, c)
               else case Phase r of
                      ExitObserved \<Rightarrow> (True, c)
                    | StopRequested \<Rightarrow>
                        (case Advance w r ExitObserved [] [] c of
                           (Inl _, c) \<Rightarrow> (False, c) | (Inr _, c) \<Rightarrow> (True, c))
                    | _ \<Rightarrow> (False, c))"

definition recordExactStopReceiptExit :: "world \<Rightarrow> ctl_event \<Rightarrow> supervisorController \<Rightarrow> supervisorController" where
  "recordExactStopReceiptExit w ev c =
     (if TrimSpace (statePath c) = [] \<or> (Kind ev \<noteq> evOwnedChildWaitExit \<and> Kind ev \<noteq> evForeignTerminationExit) then c
      else case (Body ev ''pid'', Body ev ''pid_generation'', Body ev ''started_at'') of
             (Some (BInt pid), Some (BInt gen), Some (BStamp started)) \<Rightarrow>
               snd (advanceExactStopReceiptExit w
                 \<lparr>CanonicalTaskName = canonicalSupervisorTaskName (TaskName ev), tu_PID = pid, tu_StartedAt = started,
                  tu_PIDGeneration = gen, Valid = True\<rparr> c)
           | _ \<Rightarrow> c)"

end
