(* ===== verification/Orphan_Reap.thy ===== *)
theory Orphan_Reap
  imports Controller_Effects
begin

text \<open>
  What happens to a daemon whose descriptor disappears from the intent, from
  \<open>internal/cli/supervisor_controller.go\<close>: a scan marks it and keeps its descriptor routable, a second
  look confirms, and only then is it terminated. A descriptor that came back spares its daemon, and a
  follow-up timer acts for its own task, its own window and a fresh read of the intent only. That
  no event both marks and terminates a daemon is shown in \<open>Reap_Safety\<close>.
\<close>

section \<open>Bookkeeping\<close>

definition stopReapTimer :: "string \<Rightarrow> supervisorController \<Rightarrow> supervisorController" where
  "stopReapTimer k c = c\<lparr>reapTimers := (reapTimers c)(k := None)\<rparr>"

definition disarmReapFollowup :: "string \<Rightarrow> supervisorController \<Rightarrow> supervisorController" where
  "disarmReapFollowup taskName c =
     (let k = canonicalSupervisorTaskName taskName
      in stopReapTimer k (c\<lparr>reapFollowupArmed := (reapFollowupArmed c)(k := None)\<rparr>))"

definition currentReapGeneration :: "supervisorController \<Rightarrow> string \<Rightarrow> int" where
  "currentReapGeneration c k = (case reapGeneration c k of None \<Rightarrow> 0 | Some g \<Rightarrow> g)"

definition bumpReapGeneration :: "string \<Rightarrow> supervisorController \<Rightarrow> supervisorController" where
  "bumpReapGeneration k c = c\<lparr>reapGeneration := (reapGeneration c)(k \<mapsto> currentReapGeneration c k + 1)\<rparr>"

definition armReapFollowup :: "string \<Rightarrow> supervisorController \<Rightarrow> supervisorController" where
  "armReapFollowup taskName c =
     (let k = canonicalSupervisorTaskName taskName; g = currentReapGeneration c k
      in if reapFollowupArmed c k = Some g then c
         else let c = (if reapFollowupArmed c k \<noteq> None then stopReapTimer k c else c)
              in c\<lparr>reapFollowupArmed := (reapFollowupArmed c)(k \<mapsto> g), reapTimers := (reapTimers c)(k \<mapsto> g)\<rparr>)"

definition markPendingReap :: "string \<Rightarrow> SupervisorDaemon \<Rightarrow> supervisorController \<Rightarrow> supervisorController" where
  "markPendingReap taskName captured c =
     (let k = canonicalSupervisorTaskName taskName;
          c = c\<lparr>pendingReap := (pendingReap c)(k \<mapsto> captured), reapShadow := (reapShadow c)(k \<mapsto> captured)\<rparr>;
          c = stopReapTimer k (bumpReapGeneration k c)
      in armReapFollowup k (c\<lparr>reapFollowupArmed := (reapFollowupArmed c)(k := None)\<rparr>))"

definition cancelPendingReap :: "string \<Rightarrow> supervisorController \<Rightarrow> supervisorController" where
  "cancelPendingReap taskName c =
     (let k = canonicalSupervisorTaskName taskName
      in disarmReapFollowup k (c\<lparr>pendingReap := (pendingReap c)(k := None), reapShadow := (reapShadow c)(k := None)\<rparr>))"

definition clearRemovedTaskRuntime :: "world \<Rightarrow> string \<Rightarrow> supervisorController \<Rightarrow> supervisorController" where
  "clearRemovedTaskRuntime w taskName c =
     (let k = canonicalSupervisorTaskName taskName; b = toggleSupervisorTaskNameBackslash k;
          c = c\<lparr>smStates := (smStates c)(k := None, b := None), queuedActions := (queuedActions c)(k := None, b := None),
                gateCleared := gateCleared c - {k, b},
                pendingReap := (pendingReap c)(k := None), reapShadow := (reapShadow c)(k := None)\<rparr>;
          c = disarmReapFollowup k c;
          c = c\<lparr>respawnArmGen := (respawnArmGen c)(k := None),
                reapDeferredTimerDue := reapDeferredTimerDue c - {k}, reapDeferredStop := reapDeferredStop c - {k},
                ownSpawned := ownSpawned c - {k, b}\<rparr>;
          c = on_tracker (Remove b) (on_tracker (Remove k) c)
      in if b \<noteq> k then persist_quietly w (persist_quietly w c) else persist_quietly w c)"

definition queueRespawnOnReapCancelIfNeeded :: "world \<Rightarrow> string \<Rightarrow> supervisorController \<Rightarrow> supervisorController" where
  "queueRespawnOnReapCancelIfNeeded w taskName c =
     (let k = canonicalSupervisorTaskName taskName
      in if smStates c k \<noteq> Some StExiting \<and> smStates c k \<noteq> Some StIdle then c
         else if fst (IsActiveStop (stops_Lookup c k) (now w)) then c
         else if smStates c k = Some StExiting then store_queued k ''respawn'' c
         else snd (self_post (plain_event EvStart k) c))"

definition replayDeferredBackoffTimerIfPending :: "string \<Rightarrow> supervisorController \<Rightarrow> supervisorController" where
  "replayDeferredBackoffTimerIfPending taskName c =
     (let k = canonicalSupervisorTaskName taskName
      in if k \<notin> reapDeferredTimerDue c then c
         else snd (self_post (plain_event EvTimerDue k) (c\<lparr>reapDeferredTimerDue := reapDeferredTimerDue c - {k}\<rparr>)))"

definition clear_queued_stop :: "string \<Rightarrow> supervisorController \<Rightarrow> supervisorController" where
  "clear_queued_stop k c = (if queuedActions c k = Some ''stop'' then store_queued k [] c else c)"

definition clearReapDeferredStopIfPending :: "world \<Rightarrow> string \<Rightarrow> supervisorController \<Rightarrow> supervisorController" where
  "clearReapDeferredStopIfPending w taskName c =
     (let k = canonicalSupervisorTaskName taskName
      in if k \<notin> reapDeferredStop c then c
         else let c = c\<lparr>reapDeferredStop := reapDeferredStop c - {k}\<rparr>
              in if fst (IsActiveStop (stops_Lookup c k) (now w)) then c
                 else fold clear_queued_stop (distinctTaskNameKeyForms k) c)"

section \<open>Terminating a removed daemon\<close>

text \<open>The queued action a transition asks for, read off its side-effect text.\<close>

definition apply_queued :: "string \<Rightarrow> string \<Rightarrow> supervisorController \<Rightarrow> supervisorController" where
  "apply_queued k sd c =
     (if str_contains sd ''set queued_action=stop'' then store_queued k ''stop'' c
      else if str_contains sd ''queued_action=respawn'' then store_queued k ''respawn'' c
      else if str_contains sd ''queued_action=none'' \<or> str_contains sd ''clear queued_action''
      then store_queued k [] c
      else c)"

datatype reapOutcome = ReapTerminatedDead | ReapDeferred | ReapTerminateFailed

definition reap_key :: "supervisorController \<Rightarrow> string \<Rightarrow> string" where
  "reap_key c task =
     (if smStates c task \<noteq> None then task
      else let alt = toggleSupervisorTaskNameBackslash task
           in if alt \<noteq> task \<and> smStates c alt \<noteq> None then alt else task)"

definition reap_context :: "world \<Rightarrow> supervisorController \<Rightarrow> string \<Rightarrow> SMContext" where
  "reap_context w c k = \<lparr>IntentDesired = IntentDesiredStopped, IntentIsActiveStop = True, Failures = 0,
     QueuedAction = queued_of c k, GracefulInProgress = graceful w\<rparr>"

text \<open>What the terminate made of a running daemon.\<close>

definition reap_exiting ::
  "string \<Rightarrow> string \<Rightarrow> SMState \<Rightarrow> ctl_error option \<Rightarrow> supervisorController \<Rightarrow> reapOutcome \<times> supervisorController" where
  "reap_exiting task k cur err c =
     (if (case err of None \<Rightarrow> False | Some e \<Rightarrow> \<not> is_target_gone e)
      then let c = store_state k cur c
           in (ReapTerminateFailed,
               if queuedActions c k = Some [] then c\<lparr>queuedActions := (queuedActions c)(k := None)\<rparr> else c)
      else if loadReapMarkerCanonical (ownSpawned c) task \<or> loadReapMarkerCanonical (reaperOutstanding c) task
      then (ReapDeferred, c)
      else (ReapTerminatedDead, c))"

definition reapRemovedDaemon ::
  "world \<Rightarrow> SupervisorDaemon \<Rightarrow> supervisorController \<Rightarrow> reapOutcome \<times> supervisorController" where
  "reapRemovedDaemon w d c =
     (let task = canonicalSupervisorTaskName (d_TaskName d)
      in case getSMStateCanonical c task of
           None \<Rightarrow> (ReapTerminatedDead, c)
         | Some cur \<Rightarrow>
             let k = reap_key c task
             in if cur = StExiting
                then (ReapDeferred, if queuedActions c k = Some ''respawn'' then store_queued k [] c else c)
                else if \<not> smStateIsReapable c task then (ReapTerminatedDead, c)
                else let (newState, sd, _, mt) = Transition cur EvIntentUpdate (reap_context w c k)
                in if \<not> mt then (ReapTerminatedDead, c)
                   else let c = store_state k newState (apply_queued k sd c);
                            c = (if newState = StIdle \<and> cur \<noteq> StIdle then on_tracker (MarkExited (d_TaskName d)) c else c);
                            c = persist_quietly w c;
                            (err, c) = executeSideEffect w sd newState d (plain_event EvIntentUpdate task) c
                        in case newState of
                             StExiting \<Rightarrow> reap_exiting task k cur err c
                           | StSpawning \<Rightarrow> (ReapDeferred, c\<lparr>reapDeferredStop := insert task (reapDeferredStop c)\<rparr>)
                           | _ \<Rightarrow> (ReapTerminatedDead, c))"

definition resolveConfirmedReap :: "world \<Rightarrow> SupervisorDaemon \<Rightarrow> supervisorController \<Rightarrow> supervisorController" where
  "resolveConfirmedReap w d c =
     (let task = canonicalSupervisorTaskName (d_TaskName d)
      in case reapRemovedDaemon w d c of
           (ReapTerminatedDead, c) \<Rightarrow>
             clearRemovedTaskRuntime w task (disarmReapFollowup task
               (c\<lparr>pendingReap := (pendingReap c)(task := None), reapShadow := (reapShadow c)(task := None)\<rparr>))
         | (ReapDeferred, c) \<Rightarrow> armReapFollowup task c
         | (ReapTerminateFailed, c) \<Rightarrow> armReapFollowup task c)"

section \<open>Applying an intent snapshot\<close>

definition pre_shadow :: "string list \<Rightarrow> string \<Rightarrow> supervisorController \<Rightarrow> supervisorController" where
  "pre_shadow next' task c =
     (if task \<in> set next' \<or> pendingReap c task \<noteq> None then c
      else case LookupCanonical c task of
             None \<Rightarrow> c
           | Some d \<Rightarrow> if smStateIsReapable c task then c\<lparr>reapShadow := (reapShadow c)(task \<mapsto> d)\<rparr> else c)"

definition resolve_pending ::
  "world \<Rightarrow> string list \<Rightarrow> string \<Rightarrow> SupervisorDaemon list \<times> supervisorController
     \<Rightarrow> SupervisorDaemon list \<times> supervisorController" where
  "resolve_pending w next' task dc =
     (case dc of (ds, c) \<Rightarrow>
        (case pendingReap c task of
           None \<Rightarrow> (ds, c)
         | Some d \<Rightarrow>
             if task = [] then (ds, c)
             else if task \<in> set next'
             then (ds, cancelPendingReap task (clearReapDeferredStopIfPending w task
                         (replayDeferredBackoffTimerIfPending task (queueRespawnOnReapCancelIfNeeded w task c))))
             else if \<not> smStateIsReapable c task then (ds, clearRemovedTaskRuntime w task c)
             else (ds @ [d], c)))"

definition mark_disappeared ::
  "world \<Rightarrow> string list \<Rightarrow> (string \<rightharpoonup> SupervisorDaemon) \<Rightarrow> string \<Rightarrow> supervisorController \<Rightarrow> supervisorController" where
  "mark_disappeared w next' captured task c =
     (if task \<in> set next' \<or> pendingReap c task \<noteq> None then c
      else if \<not> smStateIsReapable c task then clearRemovedTaskRuntime w task c
      else case captured task of Some d \<Rightarrow> markPendingReap task d c | None \<Rightarrow> clearRemovedTaskRuntime w task c)"

definition applyReapSnapshot ::
  "world \<Rightarrow> string list \<Rightarrow> SupervisorIntentFile option \<Rightarrow> intent_map option \<Rightarrow> supervisorController
     \<Rightarrow> SupervisorDaemon list \<times> supervisorController" where
  "applyReapSnapshot w previous updated stops c =
     (let next' = taskNameSetFromIntent updated;
          universe = remdups (previous @ TaskNames c);
          captured = (\<lambda>task. if pendingReap c task \<noteq> None then None else LookupCanonical c task);
          c = fold (pre_shadow next') universe c;
          c = intentCache_Refresh updated c;
          c = (case stops of Some m \<Rightarrow> stops_Refresh m c | None \<Rightarrow> c);
          (confirmed, c) = fold (resolve_pending w next') (range_order w) ([], c)
      in (confirmed, fold (mark_disappeared w next' captured) universe c))"

definition handleReapScan ::
  "world \<Rightarrow> string list \<Rightarrow> SupervisorIntentFile option \<Rightarrow> intent_map option \<Rightarrow> supervisorController
     \<Rightarrow> supervisorController" where
  "handleReapScan w previous updated stops c =
     (let (confirmed, c) = applyReapSnapshot w previous updated stops c
      in fold (resolveConfirmedReap w) confirmed c)"

definition confirmReapForTask ::
  "world \<Rightarrow> string \<Rightarrow> SupervisorDaemon list \<Rightarrow> supervisorController \<Rightarrow> supervisorController" where
  "confirmReapForTask w taskName candidates c =
     (case find (\<lambda>d. canonicalSupervisorTaskName (d_TaskName d) = canonicalSupervisorTaskName taskName) candidates of
        None \<Rightarrow> c | Some d \<Rightarrow> resolveConfirmedReap w d c)"

definition handleReapFollowup :: "world \<Rightarrow> string \<Rightarrow> int \<Rightarrow> supervisorController \<Rightarrow> supervisorController" where
  "handleReapFollowup w taskName generation c =
     (let k = canonicalSupervisorTaskName taskName
      in if reapGeneration c k \<noteq> Some generation then c
         else let c = stopReapTimer k (c\<lparr>reapFollowupArmed := (reapFollowupArmed c)(k := None)\<rparr>)
         in case pendingReap c k of
              None \<Rightarrow> c
            | Some d \<Rightarrow>
                (case disk_intent w of
                   None \<Rightarrow> armReapFollowup k c
                 | Some fresh \<Rightarrow>
                     if k \<in> set (taskNameSetFromIntent (Some fresh))
                     then let (candidates, c) = applyReapSnapshot w (TaskNames c) (Some fresh) (Some (Stops fresh)) c
                          in confirmReapForTask w k candidates c
                     else if \<not> smStateIsReapable c k then clearRemovedTaskRuntime w k c
                     else resolveConfirmedReap w d c))"

end
