(* ===== verification/Port_Realloc.thy ===== *)
theory Port_Realloc
  imports Orphan_Reap
begin

text \<open>
  The self-healing of a daemon whose pool port was taken by a foreign process, from
  \<open>internal/cli/supervise_realloc.go\<close>: at most three moves to another pool port in the crash window,
  one request in flight per task, and a window that is forgotten only after a minute of continuous
  running. The worker's allocation of a port is outside; its outcome comes back as an event.
\<close>

definition exitBindRefused :: int where "exitBindRefused = 3"
definition reallocationCap :: int where "reallocationCap = 3"
definition reallocationStabilizeDwell :: duration where "reallocationStabilizeDwell = 60 * Second"
definition reallocChCapacity :: nat where "reallocChCapacity = 64"
definition reallocFailedEscalationBound :: int where "reallocFailedEscalationBound = 3"

definition supervisorEventIsBindRefusedExit :: "ctl_event \<Rightarrow> bool" where
  "supervisorEventIsBindRefusedExit ev =
     (Kind ev = EvChildExit \<and> body_int ev ''exit_code'' = Some exitBindRefused)"

definition startReallocDwell :: "string \<Rightarrow> supervisorController \<Rightarrow> supervisorController" where
  "startReallocDwell taskName c =
     c\<lparr>reallocDwell := (reallocDwell c)(canonicalSupervisorTaskName taskName \<mapsto> 0)\<rparr>"

definition noteReallocDwellLeftRunning :: "string \<Rightarrow> supervisorController \<Rightarrow> supervisorController" where
  "noteReallocDwellLeftRunning taskName c =
     (let k = canonicalSupervisorTaskName taskName
      in case reallocDwell c k of None \<Rightarrow> c | Some _ \<Rightarrow> c\<lparr>reallocDwell := (reallocDwell c)(k \<mapsto> 0)\<rparr>)"

definition tryDispatchRealloc :: "reallocReq \<Rightarrow> supervisorController \<Rightarrow> supervisorController" where
  "tryDispatchRealloc req c =
     (let task = canonicalSupervisorTaskName (d_TaskName (rq_d req))
      in if task \<in> reallocInFlight c then c
         else if length (reallocCh c) < reallocChCapacity
         then c\<lparr>reallocInFlight := insert task (reallocInFlight c), reallocCh := reallocCh c @ [req]\<rparr>
         else c)"

definition dispatchDynamicPoolRealloc ::
  "world \<Rightarrow> SupervisorDaemon \<Rightarrow> string \<Rightarrow> supervisorController \<Rightarrow> bool \<times> supervisorController" where
  "dispatchDynamicPoolRealloc w d taskName c =
     (let n = ReallocationCountInWindow taskName (now w) failureWindow (tracker c)
      in if n \<ge> reallocationCap then (False, c)
         else (True, snd (armRespawnBackoffTimer w taskName squatterForeignHoldDelay
                (tryDispatchRealloc \<lparr>rq_d = d, rq_attempt = n + 1\<rparr>
                  (holdInBackoffNoTimer w taskName (startReallocDwell taskName c))))))"

definition emitBindAccessDeniedTerminalOnce :: "SupervisorDaemon \<Rightarrow> supervisorController \<Rightarrow> supervisorController" where
  "emitBindAccessDeniedTerminalOnce d c =
     c\<lparr>bindAccessDeniedTerminalEmitted :=
        insert (canonicalSupervisorTaskName (d_TaskName d)) (bindAccessDeniedTerminalEmitted c)\<rparr>"

definition maybeHandleBindRefusedExit ::
  "world \<Rightarrow> SupervisorDaemon \<Rightarrow> ctl_event \<Rightarrow> SMState \<Rightarrow> supervisorController \<Rightarrow> bool \<times> supervisorController" where
  "maybeHandleBindRefusedExit w d ev currentState c =
     (if currentState \<noteq> StRunning \<or> \<not> supervisorEventIsBindRefusedExit ev then (False, c)
      else if \<not> isDynamicPoolProxyDescriptor d
      then (False, emitBindAccessDeniedTerminalOnce d (startReallocDwell (d_TaskName d) c))
      else case dispatchDynamicPoolRealloc w d (TaskName ev) c of
             (True, c) \<Rightarrow> (True, c)
           | (False, c) \<Rightarrow> (False, emitBindAccessDeniedTerminalOnce d c))"

definition handlePreSpawnRealloc :: "world \<Rightarrow> ctl_event \<Rightarrow> supervisorController \<Rightarrow> supervisorController" where
  "handlePreSpawnRealloc w ev c =
     (let task = canonicalSupervisorTaskName (TaskName ev)
      in if \<not> smStateIs c task StBackoffWaiting then c
         else case lookupDescriptorWithShadow c task of
                None \<Rightarrow> c
              | Some d \<Rightarrow> if isDynamicPoolProxyDescriptor d
                          then snd (dispatchDynamicPoolRealloc w d task c) else c)"

text \<open>
  One request of the worker, up to the event it posts. The intent it reads back after a move is what
  the disk then holds.
\<close>

definition handleReallocReq :: "world \<Rightarrow> reallocReq \<Rightarrow> supervisorController \<Rightarrow> ctl_event \<times> supervisorController" where
  "handleReallocReq w req c =
     (let task = canonicalSupervisorTaskName (d_TaskName (rq_d req));
          oldPort = (case EffectiveDaemonPort (resolve w) (rq_d req) of Some p \<Rightarrow> p | None \<Rightarrow> 0);
          (newPort, err) = realloc_port w (rq_d req);
          outcome = (if err = None \<or> (newPort > 0 \<and> err = Some ErrLockReleaseUnconfirmed) then Reallocated
                     else if err = Some ErrPortPoolExhausted then ReallocPoolExhausted
                     else ReallocFailed);
          fresh = (if outcome = Reallocated then disk_intent w else None)
      in (\<lparr>Kind = evReallocApplied, TaskName = task,
           Body = [''realloc_outcome'' \<mapsto> BRealloc outcome, ''realloc_old_port'' \<mapsto> BInt oldPort,
                   ''realloc_new_port'' \<mapsto> BInt newPort, ''realloc_attempt'' \<mapsto> BInt (rq_attempt req)]
             ++ (case fresh of Some f \<Rightarrow> [''realloc_intent'' \<mapsto> BIntent f] | None \<Rightarrow> Map.empty)\<rparr>,
          c\<lparr>reallocInFlight := reallocInFlight c - {task}\<rparr>))"

definition incrReallocFailCount :: "string \<Rightarrow> supervisorController \<Rightarrow> int \<times> supervisorController" where
  "incrReallocFailCount taskName c =
     (let k = canonicalSupervisorTaskName taskName;
          n = (case reallocFailCount c k of None \<Rightarrow> 0 | Some n \<Rightarrow> n) + 1
      in (n, c\<lparr>reallocFailCount := (reallocFailCount c)(k \<mapsto> n)\<rparr>))"

definition quarantine_now :: "world \<Rightarrow> string \<Rightarrow> supervisorController \<Rightarrow> supervisorController" where
  "quarantine_now w task c =
     persist_quietly w (on_tracker (MarkQuarantined task)
       (recordQuarantineParoleEligible task (now w) (store_state task StQuarantined c)))"

definition escalateReallocFailing :: "world \<Rightarrow> string \<Rightarrow> supervisorController \<Rightarrow> supervisorController" where
  "escalateReallocFailing w task c =
     quarantine_now w task (c\<lparr>reallocFailCount := (reallocFailCount c)(task := None)\<rparr>)"

datatype reallocSnapshotDisposition = SnapshotUnorderable | SnapshotIncomingNewer | SnapshotIncomingStale

text \<open>\<open>parse\<close> is \<open>time.Parse\<close> on the two \<open>updated_at\<close> texts.\<close>

definition reallocSnapshotOrder ::
  "(string \<Rightarrow> gotime option) \<Rightarrow> SupervisorIntentFile option \<Rightarrow> SupervisorIntentFile option
     \<Rightarrow> reallocSnapshotDisposition" where
  "reallocSnapshotOrder parse current incoming =
     (case incoming of
        None \<Rightarrow> SnapshotUnorderable
      | Some inc \<Rightarrow>
          (case current of
             None \<Rightarrow> SnapshotIncomingNewer
           | Some cur \<Rightarrow>
               (case (parse (file_UpdatedAt cur), parse (file_UpdatedAt inc)) of
                  (Some curT, Some incT) \<Rightarrow> if incT > curT then SnapshotIncomingNewer else SnapshotIncomingStale
                | _ \<Rightarrow> SnapshotUnorderable)))"

definition patchCachedReallocatedPort :: "world \<Rightarrow> string \<Rightarrow> int \<Rightarrow> supervisorController \<Rightarrow> supervisorController" where
  "patchCachedReallocatedPort w task newPort c =
     (if newPort \<le> 0 then c
      else case CloneIntentWithReallocatedPort (intentCache c) task newPort of
             None \<Rightarrow> c
           | Some patched \<Rightarrow> handleReapScan w (TaskNames c) (Some patched) None c)"

definition handleReallocApplied ::
  "world \<Rightarrow> ctl_event \<Rightarrow> supervisorController \<Rightarrow> supervisorController" where
  "handleReallocApplied w ev c =
     (let task = canonicalSupervisorTaskName (TaskName ev);
          outcome = (case Body ev ''realloc_outcome'' of Some (BRealloc r) \<Rightarrow> r | _ \<Rightarrow> ReallocFailed)
      in case outcome of
           Reallocated \<Rightarrow>
             let newPort = (case body_int ev ''realloc_new_port'' of Some p \<Rightarrow> p | None \<Rightarrow> 0);
                 c = on_tracker (\<lambda>t. snd (RecordReallocationAndCountInWindow task (now w) failureWindow t)) c;
                 c = c\<lparr>reallocFailCount := (reallocFailCount c)(task := None)\<rparr>;
                 carried = (case Body ev ''realloc_intent'' of Some (BIntent f) \<Rightarrow> Some f | _ \<Rightarrow> None);
                 c = (case reallocSnapshotOrder (parse_time w) (intentCache c) carried of
                        SnapshotIncomingNewer \<Rightarrow> handleReapScan w (TaskNames c) carried None c
                      | _ \<Rightarrow> patchCachedReallocatedPort w task newPort c)
             in if smStateIs c task StBackoffWaiting
                then case lookupDescriptorWithShadow c task of
                       None \<Rightarrow> c
                     | Some d \<Rightarrow> snd (armRespawnBackoffTimer w task respawnBackoffStep c)
                else c
         | ReallocPoolExhausted \<Rightarrow>
             if \<not> smStateIs c task StBackoffWaiting then c else quarantine_now w task c
         | ReallocFailed \<Rightarrow>
             if \<not> smStateIs c task StBackoffWaiting then c
             else case lookupDescriptorWithShadow c task of
                    None \<Rightarrow> c
                  | Some d \<Rightarrow>
                      let (n, c) = incrReallocFailCount task c
                      in if n > reallocFailedEscalationBound then escalateReallocFailing w task c
                         else snd (armRespawnBackoffTimer w task squatterForeignHoldDelay c))"

definition dwell_tick_task :: "world \<Rightarrow> string \<Rightarrow> supervisorController \<Rightarrow> supervisorController" where
  "dwell_tick_task w k c =
     (case reallocDwell c k of
        None \<Rightarrow> c
      | Some since \<Rightarrow>
          (case getSMStateCanonical c k of
             None \<Rightarrow> c\<lparr>reallocDwell := (reallocDwell c)(k := None),
                      bindAccessDeniedTerminalEmitted := bindAccessDeniedTerminalEmitted c - {k},
                      reallocFailCount := (reallocFailCount c)(k := None)\<rparr>
           | Some s \<Rightarrow>
               if s \<noteq> StRunning then c\<lparr>reallocDwell := (reallocDwell c)(k \<mapsto> 0)\<rparr>
               else let since' = (if since = 0 then now w else since)
                    in if time_sub (now w) since' \<ge> reallocationStabilizeDwell
                       then on_tracker (ClearCrashes k) (on_tracker (ClearReallocations k)
                              (c\<lparr>bindAccessDeniedTerminalEmitted := bindAccessDeniedTerminalEmitted c - {k},
                                reallocFailCount := (reallocFailCount c)(k := None),
                                reallocDwell := (reallocDwell c)(k := None)\<rparr>))
                       else c\<lparr>reallocDwell := (reallocDwell c)(k \<mapsto> since')\<rparr>))"

definition runReallocDwellTick :: "world \<Rightarrow> supervisorController \<Rightarrow> supervisorController" where
  "runReallocDwellTick w c = fold (dwell_tick_task w) (range_order w) c"

end
