(* ===== verification/Stop_Batch.thy ===== *)
theory Stop_Batch
  imports Controller_Effects
begin

text \<open>
  The controller's side of a stop batch, from \<open>internal/cli/supervise_stop_batch.go\<close> and
  \<open>internal/cli/supervise_target_settlement.go\<close>: admission on the event loop, the stop transition of
  every target, the observation of the stopped listeners, and the commit of the receipts. That a
  target is reported stopped only when its receipt has been removed is shown in \<open>Stop_Commit\<close>.
\<close>

section \<open>Admission\<close>

definition stopBatchPorts :: "StopBatchCommand \<Rightarrow> string \<rightharpoonup> int" where
  "stopBatchPorts command =
     map_of (rev (map (\<lambda>t. (canonicalSupervisorTaskName (tg_TaskName t), ExpectedPort t)) (Targets command)))"

definition stopBatchSMState :: "supervisorController \<Rightarrow> string \<Rightarrow> SMState" where
  "stopBatchSMState c taskName = (case smStates c taskName of Some s \<Rightarrow> s | None \<Rightarrow> StIdle)"

text \<open>Equality of two Go maps given as association lists.\<close>

definition same_intents :: "intent_map \<Rightarrow> intent_map \<Rightarrow> bool" where
  "same_intents a b = list_all (\<lambda>k. map_of a k = map_of b k) (map fst a @ map fst b)"

definition actively_stopped :: "gotime \<Rightarrow> intent_map \<Rightarrow> string \<Rightarrow> bool" where
  "actively_stopped t m k =
     (case map_of m k of
        None \<Rightarrow> False
      | Some i \<Rightarrow> Desired i = IntentDesiredStopped \<and> fst (IsActiveStop i t))"

definition validateStopBatchIntentSelection ::
  "world \<Rightarrow> StopBatchCommand \<Rightarrow> supervisorController \<Rightarrow> ctl_error option" where
  "validateStopBatchIntentSelection w command c =
     (case intentCache c of
        None \<Rightarrow> None
      | Some current \<Rightarrow>
          if IntentGeneration current > cmd_IntentGeneration command
             \<and> \<not> list_all (\<lambda>t. actively_stopped (now w) (Stops current) (tg_TaskName t)) (Targets command)
          then Some (ErrText ''stop_batch command generation is older than current running intent'')
          else None)"

definition stop_context :: "world \<Rightarrow> supervisorController \<Rightarrow> string \<Rightarrow> SMContext" where
  "stop_context w c task = \<lparr>IntentDesired = IntentDesiredStopped, IntentIsActiveStop = True,
     Failures = CrashCountInWindow task (now w) failureWindow (tracker c),
     QueuedAction = queued_of c task, GracefulInProgress = False\<rparr>"

fun preflight_targets ::
  "world \<Rightarrow> SupervisorIntentFile \<Rightarrow> intent_map \<Rightarrow> supervisorController \<Rightarrow> string list \<Rightarrow> StopBatchTargetV1 list
     \<Rightarrow> ctl_error option" where
  "preflight_targets w intent stops c seen [] = None"
| "preflight_targets w intent stops c seen (t # ts) =
     (let k = tg_TaskName t
      in if k \<noteq> canonicalSupervisorTaskName k \<or> ExpectedPort t \<le> 0 \<or> ExpectedPort t > 65535
         then Some (ErrText ''invalid stop_batch target'')
         else if k \<in> set seen then Some (ErrText ''duplicate stop_batch target'')
         else case FindSupervisorDaemonByTaskName (Some intent) k of
                None \<Rightarrow> Some (ErrText ''stop_batch descriptor absent'')
              | Some d \<Rightarrow>
                  if EffectiveDaemonPort (resolve w) d \<noteq> Some (ExpectedPort t)
                  then Some (ErrText ''stop_batch descriptor port mismatch'')
                  else if \<not> actively_stopped (now w) stops k
                  then Some (ErrText ''stop_batch snapshot has no active stopped intent'')
                  else if \<not> stopSettlementAdmissionEntry (Get k (tracker c))
                  then Some (ErrText ''stop settlement requires running generation or idle port fence'')
                  else if \<not> matched (stopBatchSMState c k) EvIntentUpdate (stop_context w c k)
                  then Some (ErrText ''stop_batch has no state transition'')
                  else preflight_targets w intent stops c (k # seen) ts)"

definition preflightStopBatch ::
  "world \<Rightarrow> StopBatchCommand \<Rightarrow> SupervisorIntentFile \<Rightarrow> intent_map \<Rightarrow> supervisorController \<Rightarrow> ctl_error option" where
  "preflightStopBatch w command intent stops c =
     (if TrimSpace (statePath c) = [] then Some (ErrText ''stop_batch controller prerequisites unavailable'')
      else if stopSettlementIntegrityErr (tracker c) \<noteq> [] then Some (ErrText (stopSettlementIntegrityErr (tracker c)))
      else if IntentGeneration intent \<noteq> cmd_IntentGeneration command
      then Some (ErrText ''stop_batch intent generation does not match snapshot'')
      else if \<not> same_intents (Stops intent) stops
      then Some (ErrText ''stop_batch unified stops do not match supervisor intent snapshot'')
      else case validateStopBatchIntentSelection w command c of
             Some e \<Rightarrow> Some e
           | None \<Rightarrow> preflight_targets w intent stops c [] (Targets command))"

definition stopReceiptRecoveryIdentityMatches ::
  "StopSettlementReceiptV1 \<Rightarrow> StopSettlementPhase \<Rightarrow> DaemonRuntimeEntry \<Rightarrow> bool" where
  "stopReceiptRecoveryIdentityMatches r ph e =
     (let idle = (State e = daemonRuntimeStateIdle \<and> CurrentPID e = 0 \<and> PIDGeneration e = rc_PIDGeneration r)
      in if Mode r = ''stop''
         then case ph of
                StopRequested \<Rightarrow> CurrentPID e = PID r \<and> PIDGeneration e = rc_PIDGeneration r \<and> StartedAt e \<noteq> 0
                                \<and> FormatRFC3339Nano (StartedAt e) = rc_StartedAt r
              | ExitObserved \<Rightarrow> idle
              | PortReleased \<Rightarrow> idle
              | _ \<Rightarrow> False
         else if Mode r = ''port_fence''
         then case ph of ExitObserved \<Rightarrow> idle | PortReleased \<Rightarrow> idle | _ \<Rightarrow> False
         else False)"

fun join_targets ::
  "world \<Rightarrow> SupervisorIntentFile \<Rightarrow> supervisorController \<Rightarrow> nat \<Rightarrow> StopBatchTargetV1 list \<Rightarrow> ctl_error + nat" where
  "join_targets w current c n [] = Inr n"
| "join_targets w current c n (t # ts) =
     (let k = tg_TaskName t
      in case StopSettlementReceipt k (tracker c) of
           None \<Rightarrow> join_targets w current c n ts
         | Some r \<Rightarrow>
             if Phase r = SettlementFailed then Inl (ErrText ''stop settlement pending receipt failed'')
             else if rc_Port r \<noteq> ExpectedPort t then Inl (ErrText ''stop settlement pending receipt port mismatch'')
             else case FindSupervisorDaemonByTaskName (Some current) k of
                    None \<Rightarrow> Inl (ErrText ''stop settlement pending descriptor absent'')
                  | Some d \<Rightarrow>
                      if EffectiveDaemonPort (resolve w) d \<noteq> Some (ExpectedPort t)
                      then Inl (ErrText ''stop settlement pending current descriptor port mismatch'')
                      else if \<not> actively_stopped (now w) (Stops current) k
                      then Inl (ErrText ''stop settlement pending current intent is not actively stopped'')
                      else case Get k (tracker c) of
                             None \<Rightarrow> Inl (ErrText ''stop settlement pending runtime generation mismatch'')
                           | Some e \<Rightarrow>
                               if \<not> stopReceiptRecoveryIdentityMatches r (Phase r) e
                               then Inl (ErrText ''stop settlement pending runtime generation mismatch'')
                               else join_targets w current c (Suc n) ts)"

definition joinPendingStopBatch ::
  "world \<Rightarrow> StopBatchCommand \<Rightarrow> supervisorController \<Rightarrow> ctl_error + bool" where
  "joinPendingStopBatch w command c =
     (case intentCache c of
        None \<Rightarrow> Inl (ErrText ''stop_batch current intent unavailable'')
      | Some current \<Rightarrow>
          (case join_targets w current c 0 (Targets command) of
             Inl e \<Rightarrow> Inl e
           | Inr n \<Rightarrow>
               if n = 0 then Inr False
               else if n \<noteq> length (Targets command)
               then Inl (ErrText ''stop settlement pending for only part of stop_batch'')
               else Inr True))"

definition selectStopBatchIntent ::
  "world \<Rightarrow> StopBatchCommand \<Rightarrow> SupervisorIntentFile \<Rightarrow> intent_map \<Rightarrow> supervisorController
     \<Rightarrow> ctl_error option \<times> supervisorController" where
  "selectStopBatchIntent w command intent stops c =
     (case validateStopBatchIntentSelection w command c of
        Some e \<Rightarrow> (Some e, c)
      | None \<Rightarrow>
          if (case intentCache c of None \<Rightarrow> False
              | Some current \<Rightarrow> IntentGeneration current > cmd_IntentGeneration command)
          then (None, c)
          else (None, stops_Refresh stops (intentCache_Refresh (Some intent) c)))"

section \<open>The stop transition\<close>

definition armStopSettlementRecovery :: "string \<Rightarrow> supervisorController \<Rightarrow> supervisorController" where
  "armStopSettlementRecovery taskName c =
     c\<lparr>stopSettlementRecoveryArmed := insert (canonicalSupervisorTaskName taskName) (stopSettlementRecoveryArmed c)\<rparr>"

definition applyAuthoritativeStopTransition ::
  "world \<Rightarrow> string \<Rightarrow> SupervisorDaemon option \<Rightarrow> supervisorController \<Rightarrow> ctl_error option \<times> supervisorController" where
  "applyAuthoritativeStopTransition w task desc c =
     (case desc of
        None \<Rightarrow> (Some (ErrText ''stop_batch descriptor unavailable''), c)
      | Some d \<Rightarrow>
          (let cur = stopBatchSMState c task;
               (newState, sd, persistBefore, mt) = Transition cur EvIntentUpdate (stop_context w c task)
           in if \<not> mt then (Some (ErrText ''stop_batch has no state transition''), c)
              else let c = (if str_contains sd ''queued_action=stop'' then store_queued task ''stop'' c else c);
                       c = store_state task newState c;
                       c = (if newState = StIdle \<and> cur \<noteq> StIdle then on_tracker (MarkExited task) c else c);
                       (perr, c) = (if persistBefore \<and> statePath c \<noteq> [] then persistDaemonRuntimeTracker w c else (None, c))
                   in case perr of
                        Some e \<Rightarrow> (Some (ErrSettle e), c)
                      | None \<Rightarrow> executeSideEffect w sd newState d (plain_event EvIntentUpdate task) c))"

text \<open>Failing the receipt of a target whose stop could not be applied.\<close>

definition fail_receipt :: "world \<Rightarrow> string \<Rightarrow> ctl_error \<Rightarrow> supervisorController \<Rightarrow> string \<times> supervisorController" where
  "fail_receipt w task e c =
     (case StopSettlementReceipt task (tracker c) of
        None \<Rightarrow> (err_message e, c)
      | Some r \<Rightarrow>
          if Phase r = SettlementFailed then (err_message e, c)
          else case Advance w r SettlementFailed ''termination_failed'' (err_message e) c of
                 (Inl _, c) \<Rightarrow> (err_message e @ ''; persist failure'', c)
               | (Inr _, c) \<Rightarrow> (err_message e, c))"

definition stop_target ::
  "world \<Rightarrow> SupervisorIntentFile \<Rightarrow> StopBatchTargetV1 \<Rightarrow> (string \<times> string) list \<times> supervisorController
     \<Rightarrow> (string \<times> string) list \<times> supervisorController" where
  "stop_target w intent t ec =
     (case ec of (errs, c) \<Rightarrow>
        (case applyAuthoritativeStopTransition w (tg_TaskName t)
                (FindSupervisorDaemonByTaskName (Some intent) (tg_TaskName t)) c of
           (None, c) \<Rightarrow> (errs, c)
         | (Some e, c) \<Rightarrow>
             (let (msg, c) = fail_receipt w (tg_TaskName t) e c
              in (errs @ [(tg_TaskName t, msg)], armStopSettlementRecovery (tg_TaskName t) c))))"

definition begin_batch ::
  "world \<Rightarrow> StopBatchCommand \<Rightarrow> supervisorController
     \<Rightarrow> (settle_error + StopSettlementReceiptV1 list) \<times> supervisorController" where
  "begin_batch w command c =
     (let (res, d, t) = BeginStopSettlementBatch (mdigest w) (io w (writes c)) (statePath c)
                          (StopBatchCommandV1.truncate command) (stopBatchPorts command) (tracker c) (tracker c) (disk c)
      in (res, c\<lparr>disk := d, tracker := t, writes := Suc (writes c)\<rparr>))"

definition handleStopBatchOnLoop :: "world \<Rightarrow> StopBatchCommand \<Rightarrow> nat \<Rightarrow> supervisorController \<Rightarrow> supervisorController" where
  "handleStopBatchOnLoop w command reply c =
     (let respond = (\<lambda>e c. send_reply reply (StopBatchReply (Some e) []) c)
      in case (cmd_SupervisorIntent command, cmd_UnifiedStops command) of
           (Some intent, Some stops) \<Rightarrow>
             if cmd_ProtocolVersion command \<noteq> 1 \<or> cmd_BatchID command = [] \<or> Targets command = []
                \<or> cmd_IntentGeneration command = 0 \<or> statePath c = []
             then respond (ErrText ''invalid or unavailable stop_batch v1'') c
             else case preflightStopBatch w command intent stops c of
                    Some e \<Rightarrow> respond e c
                  | None \<Rightarrow>
                      (case joinPendingStopBatch w command c of
                         Inl e \<Rightarrow> respond e c
                       | Inr True \<Rightarrow> send_reply reply (StopBatchReply None []) c
                       | Inr False \<Rightarrow>
                           (case selectStopBatchIntent w command intent stops c of
                              (Some e, c) \<Rightarrow> respond e c
                            | (None, c) \<Rightarrow>
                                (case begin_batch w command c of
                                   (Inl e, c) \<Rightarrow> respond (ErrSettle e) c
                                 | (Inr _, c) \<Rightarrow>
                                     (let (errs, c) = fold (stop_target w intent) (Targets command) ([], c)
                                      in send_reply reply (StopBatchReply None errs) c))))
         | _ \<Rightarrow> respond (ErrText ''invalid or unavailable stop_batch v1'') c)"

section \<open>Recovery of a pending receipt\<close>

text \<open>Whether a failed receipt may be retried, and whether it waits for the operator.\<close>

definition stopSettlementRetryPolicy :: "string \<Rightarrow> (bool \<times> bool) option" where
  "stopSettlementRetryPolicy cls =
     (if cls \<in> {''process_alive'', ''listener_alive'', ''settlement_timeout'', ''settlement_cancelled'',
                ''termination_failed''} then Some (True, False)
      else if cls \<in> {''identity_unverified'', ''runtime_generation_replaced'', ''persistence_failed''}
      then Some (False, True)
      else None)"

definition resume_receipt ::
  "world \<Rightarrow> string \<Rightarrow> StopSettlementReceiptV1 \<Rightarrow> supervisorController
     \<Rightarrow> StopSettlementReceiptV1 option \<times> supervisorController" where
  "resume_receipt w task r c =
     (if Phase r \<noteq> SettlementFailed then (Some r, c)
      else if stopSettlementRetryPolicy (FailureClass r) \<noteq> Some (True, False) then (None, c)
      else case Advance w r (ResumePhase r) [] [] c of
             (Inl _, c) \<Rightarrow> (None, armStopSettlementRecovery task c)
           | (Inr r', c) \<Rightarrow> (Some r', c))"

definition recoverStopReceiptOnLoop ::
  "world \<Rightarrow> string \<Rightarrow> supervisorController \<Rightarrow> StopBatchTargetV1 option \<times> supervisorController" where
  "recoverStopReceiptOnLoop w task c =
     (if TrimSpace (statePath c) = [] then (None, c)
      else case StopSettlementReceipt task (tracker c) of
             None \<Rightarrow> (None, c)
           | Some r \<Rightarrow>
               (case LookupCanonical c task of
                  None \<Rightarrow> (None, c)
                | Some d \<Rightarrow>
                    if EffectiveDaemonPort (resolve w) d \<noteq> Some (rc_Port r) then (None, c)
                    else if Desired (stops_Lookup c task) \<noteq> IntentDesiredStopped
                         \<or> \<not> fst (IsActiveStop (stops_Lookup c task) (now w)) then (None, c)
                    else if (case Get task (tracker c) of None \<Rightarrow> True
                             | Some e \<Rightarrow> \<not> stopReceiptRecoveryIdentityMatches r
                                 (if Phase r = SettlementFailed then ResumePhase r else Phase r) e) then (None, c)
                    else case resume_receipt w task r c of
                           (None, c) \<Rightarrow> (None, c)
                         | (Some r, c) \<Rightarrow>
                             let target = \<lparr>tg_TaskName = rc_TaskName r, ExpectedPort = rc_Port r\<rparr>
                             in if Mode r = ''port_fence'' \<or> Phase r \<noteq> StopRequested then (Some target, c)
                                else case applyAuthoritativeStopTransition w task (Some d) c of
                                       (None, c) \<Rightarrow> (Some target, c)
                                     | (Some e, c) \<Rightarrow>
                                         (None, armStopSettlementRecovery task (snd (fail_receipt w task e c)))))"

section \<open>Observing that the targets have stopped\<close>

datatype StoppedSettlementState = SettledStopped | SettledIncomplete | SettledFailed

record StoppedSettlement =
  ss_TaskName :: string
  ss_State :: StoppedSettlementState
  ss_Reason :: string
  ss_CurrentPID :: int
  ss_PIDGeneration :: int
  ss_Error :: string

definition observeStopBatchTarget ::
  "world \<Rightarrow> StopBatchTargetV1 \<Rightarrow> supervisorController \<Rightarrow> StoppedSettlement + SupervisorDaemon" where
  "observeStopBatchTarget w t c =
     (let base = (\<lambda>msg. Inl \<lparr>ss_TaskName = tg_TaskName t, ss_State = SettledFailed, ss_Reason = ''identity_unverified'',
                     ss_CurrentPID = 0, ss_PIDGeneration = 0, ss_Error = msg\<rparr>)
      in if tg_TaskName t = [] \<or> ExpectedPort t \<le> 0 \<or> ExpectedPort t > 65535 then base ''invalid stopped settlement target''
         else case LookupCanonical c (tg_TaskName t) of
                None \<Rightarrow> base ''task descriptor absent from supervisor intent''
              | Some d \<Rightarrow>
                  if EffectiveDaemonPort (resolve w) d \<noteq> Some (ExpectedPort t)
                     \<or> canonicalSupervisorTaskName (d_TaskName d) \<noteq> canonicalSupervisorTaskName (tg_TaskName t)
                  then base ''task descriptor does not match requested stop generation''
                  else Inr (d\<lparr>Port := ExpectedPort t\<rparr>))"

text \<open>
  One look at a pending target: the tracker is read twice, and the listener table is a snapshot that
  may have failed. \<open>True\<close> says that the target is settled.
\<close>

definition settle_look ::
  "DaemonRuntimeTracker \<Rightarrow> DaemonRuntimeTracker \<Rightarrow> (int \<rightharpoonup> int) option \<Rightarrow> SupervisorDaemon \<Rightarrow> StopBatchTargetV1
     \<Rightarrow> StoppedSettlement \<Rightarrow> bool \<times> StoppedSettlement" where
  "settle_look before after owners d t prev =
     (case (Get (tg_TaskName t) before, Get (tg_TaskName t) after) of
        (None, _) \<Rightarrow> (False, prev\<lparr>ss_Error := ''runtime generation not observed''\<rparr>)
      | (Some b, None) \<Rightarrow> (False, prev\<lparr>ss_Error := ''runtime generation replaced during stop settlement''\<rparr>)
      | (Some b, Some a) \<Rightarrow>
          let res = (\<lambda>st' why pid msg. \<lparr>ss_TaskName = tg_TaskName t, ss_State = st', ss_Reason = why,
                       ss_CurrentPID = pid, ss_PIDGeneration = PIDGeneration a, ss_Error = msg\<rparr>)
          in if PIDGeneration a \<noteq> PIDGeneration b
             then (False, prev\<lparr>ss_Error := ''runtime generation replaced during stop settlement''\<rparr>)
             else if CurrentPID a \<noteq> 0 \<or> (State a \<noteq> daemonRuntimeStateIdle \<and> State a \<noteq> daemonRuntimeStateQuarantine)
             then (False, res SettledFailed ''process_alive'' (CurrentPID a) ''controller runtime has not reached idle'')
             else case owners of
                    None \<Rightarrow> (False, res SettledIncomplete ''identity_unverified'' 0 ''probe stopped listener'')
                  | Some own \<Rightarrow>
                      (case own (Port d) of
                         Some pid \<Rightarrow>
                           if pid > 0 then (False, res SettledFailed ''listener_alive'' pid ''expected listener remains bound'')
                           else (True, res SettledStopped ''stopped'' 0 [])
                       | None \<Rightarrow> (True, res SettledStopped ''stopped'' 0 [])))"

definition stoppedSettlementContextResult :: "StoppedSettlement \<Rightarrow> bool \<Rightarrow> StoppedSettlement" where
  "stoppedSettlementContextResult base canceled' =
     base\<lparr>ss_State := SettledIncomplete, ss_Error := ''context done'',
       ss_Reason := (if canceled' then ''settlement_cancelled'' else ''settlement_timeout'')\<rparr>"

definition stopSettlementFailureForResult :: "StoppedSettlement \<Rightarrow> string" where
  "stopSettlementFailureForResult r =
     (if ss_Reason r \<in> {''process_alive'', ''listener_alive'', ''settlement_timeout'', ''settlement_cancelled''}
      then ss_Reason r else ''identity_unverified'')"

definition Remove_receipt ::
  "world \<Rightarrow> StopSettlementReceiptV1 \<Rightarrow> supervisorController \<Rightarrow> settle_error option \<times> supervisorController" where
  "Remove_receipt w r c =
     (let (err, d, t) = RemoveStopSettlement (mdigest w) (rdigest w) (io w (writes c)) (statePath c) r
                          (tracker c) (tracker c) (disk c)
      in (err, c\<lparr>disk := d, tracker := t, writes := Suc (writes c)\<rparr>))"

definition incomplete_result :: "StopBatchTargetV1 \<Rightarrow> int \<Rightarrow> string \<Rightarrow> StoppedSettlement" where
  "incomplete_result t gen msg = \<lparr>ss_TaskName = tg_TaskName t, ss_State = SettledIncomplete,
     ss_Reason = ''identity_unverified'', ss_CurrentPID = 0, ss_PIDGeneration = gen, ss_Error = msg\<rparr>"

definition commit_receipt ::
  "world \<Rightarrow> StopBatchTargetV1 \<Rightarrow> StoppedSettlement \<Rightarrow> string \<Rightarrow> StopSettlementReceiptV1 \<Rightarrow> supervisorController
     \<Rightarrow> StoppedSettlement \<times> supervisorController" where
  "commit_receipt w t res msg r c =
     (case Remove_receipt w r c of
        (None, c) \<Rightarrow> (res, c)
      | (Some e, c) \<Rightarrow>
          if StopSettlementReceipt (tg_TaskName t) (tracker c) = None then (res, c)
          else (incomplete_result t (ss_PIDGeneration res) msg, armStopSettlementRecovery (tg_TaskName t) c))"

definition finalizeStoppedSettlementReceipt ::
  "world \<Rightarrow> StopBatchTargetV1 \<Rightarrow> StoppedSettlement \<Rightarrow> supervisorController \<Rightarrow> StoppedSettlement \<times> supervisorController" where
  "finalizeStoppedSettlementReceipt w t res c =
     (if TrimSpace (statePath c) = [] then (res, c)
      else case StopSettlementReceipt (canonicalSupervisorTaskName (tg_TaskName t)) (tracker c) of
             None \<Rightarrow> (res, c)
           | Some r \<Rightarrow>
               if ss_State res = SettledFailed
               then if Phase r = SettlementFailed then (res, armStopSettlementRecovery (tg_TaskName t) c)
                    else (case Advance w r SettlementFailed (stopSettlementFailureForResult res) (ss_Error res) c of
                            (Inl e, c) \<Rightarrow> (incomplete_result t 0 ''persist failed stop settlement'',
                                          armStopSettlementRecovery (tg_TaskName t) c)
                          | (Inr _, c) \<Rightarrow> (res, armStopSettlementRecovery (tg_TaskName t) c))
               else if ss_State res \<noteq> SettledStopped \<or> ss_Reason res \<noteq> ''stopped'' then (res, c)
               else if Phase r = PortReleased then commit_receipt w t res ''commit recovered stop settlement'' r c
               else if Phase r \<noteq> ExitObserved
               then (incomplete_result t (ss_PIDGeneration res) ''stop receipt has no exact child-exit observation'', c)
               else case Advance w r PortReleased [] [] c of
                      (Inr released, c) \<Rightarrow> commit_receipt w t res ''commit stop settlement'' released c
                    | (Inl e, c) \<Rightarrow>
                        (case StopSettlementReceipt (tg_TaskName t) (tracker c) of
                           None \<Rightarrow> (res, c)
                         | Some cur \<Rightarrow>
                             if Phase cur = PortReleased
                             then commit_receipt w t res ''persist released stop listener'' cur c
                             else (incomplete_result t (ss_PIDGeneration res) ''persist released stop listener'',
                                   armStopSettlementRecovery (tg_TaskName t) c)))"

section \<open>Settling a batch\<close>

text \<open>
  One sweep over the pending targets: the two tracker reads of each and the listener table. A slot
  holds a target, its result so far, and its descriptor while it is pending.
\<close>

record settle_sweep =
  reads :: "StopBatchTargetV1 \<Rightarrow> DaemonRuntimeTracker \<times> DaemonRuntimeTracker"
  owners :: "(int \<rightharpoonup> int) option"

type_synonym settle_slot = "StopBatchTargetV1 \<times> StoppedSettlement \<times> SupervisorDaemon option"

definition sweep_slot :: "settle_sweep \<Rightarrow> settle_slot \<Rightarrow> settle_slot" where
  "sweep_slot s x =
     (case x of
        (t, r, None) \<Rightarrow> (t, r, None)
      | (t, r, Some d) \<Rightarrow>
          (case settle_look (fst (reads s t)) (snd (reads s t)) (owners s) d t r of
             (settled', r) \<Rightarrow> (t, r, if settled' then None else Some d)))"

definition any_pending :: "settle_slot list \<Rightarrow> bool" where
  "any_pending = list_ex (\<lambda>(t, r, d). d \<noteq> None)"

definition expire_slot :: "bool \<Rightarrow> settle_slot \<Rightarrow> settle_slot" where
  "expire_slot canceled' x =
     (case x of (t, r, d) \<Rightarrow>
        (t, if d \<noteq> None \<and> ss_State r \<noteq> SettledFailed then stoppedSettlementContextResult r canceled' else r, d))"

text \<open>
  The loop, over the sweeps that happen before the context ends; \<open>canceled'\<close> says how it ends.
\<close>

fun settle_loop :: "bool \<Rightarrow> settle_sweep \<Rightarrow> settle_sweep list \<Rightarrow> settle_slot list \<Rightarrow> settle_slot list" where
  "settle_loop canceled' s [] slots =
     (if \<not> any_pending slots then slots
      else let slots = map (sweep_slot s) slots
           in if \<not> any_pending slots then slots else map (expire_slot canceled') slots)"
| "settle_loop canceled' s (s' # rest) slots =
     (if \<not> any_pending slots then slots
      else let slots = map (sweep_slot s) slots
           in if \<not> any_pending slots then slots else settle_loop canceled' s' rest slots)"

definition first_result :: "StopBatchTargetV1 \<Rightarrow> StoppedSettlement" where
  "first_result t = incomplete_result t 0 []"

definition observe_slot :: "world \<Rightarrow> supervisorController \<Rightarrow> StopBatchTargetV1 \<Rightarrow> settle_slot" where
  "observe_slot w c t =
     (case observeStopBatchTarget w t c of Inl r \<Rightarrow> (t, r, None) | Inr d \<Rightarrow> (t, first_result t, Some d))"

fun finalize_slots ::
  "world \<Rightarrow> settle_slot list \<Rightarrow> supervisorController \<Rightarrow> StoppedSettlement list \<times> supervisorController" where
  "finalize_slots w [] c = ([], c)"
| "finalize_slots w ((t, r, d) # xs) c =
     (let (r', c) = finalizeStoppedSettlementReceipt w t r c; (rs, c) = finalize_slots w xs c in (r' # rs, c))"

text \<open>
  The targets are observed in the state after the barrier (\<open>c\<close>) and finalised in the state at the end
  (\<open>c'\<close>), since the loop goes on meanwhile; \<open>barrier\<close> is how the context ended before the barrier, if
  it did.
\<close>

definition settleStopBatchTargets ::
  "world \<Rightarrow> bool option \<Rightarrow> bool \<Rightarrow> settle_sweep \<Rightarrow> settle_sweep list \<Rightarrow> StopBatchTargetV1 list
     \<Rightarrow> supervisorController \<Rightarrow> supervisorController \<Rightarrow> StoppedSettlement list \<times> supervisorController" where
  "settleStopBatchTargets w barrier canceled' s rest targets c c' =
     finalize_slots w
       (case barrier of
          Some cn \<Rightarrow> map (\<lambda>t. (t, stoppedSettlementContextResult (first_result t) cn, None)) targets
        | None \<Rightarrow> settle_loop canceled' s rest (map (observe_slot w c) targets)) c'"

text \<open>What \<open>postStopBatchAndSettle\<close> makes of the results: a target whose stop was not applied has failed.\<close>

definition attach_cause :: "(string \<times> string) list \<Rightarrow> StoppedSettlement \<Rightarrow> StoppedSettlement" where
  "attach_cause errs r =
     (let cause = (case map_of (rev errs) (ss_TaskName r) of Some m \<Rightarrow> m | None \<Rightarrow> [])
      in if cause \<noteq> [] \<and> ss_State r \<noteq> SettledStopped
         then r\<lparr>ss_State := SettledFailed, ss_Reason := ''identity_unverified'', ss_Error := cause\<rparr> else r)"

end
