(* ===== verification/Supervisor_Controller.thy ===== *)
theory Supervisor_Controller
  imports Port_Realloc Stop_Batch "HOL-Library.Stream"
begin

text \<open>
  The single handler of the supervisor's event loop, \<open>handleLoopEvent\<close> of
  \<open>internal/cli/supervisor_controller.go\<close>, with the quarantine parole tick and the port-gate worker,
  composed from the theories below it. What an event may touch is in \<open>Controller_Frame\<close>, that the
  handler keeps the contract of the loop in \<open>Controller_Safety\<close>, what a launch implies in
  \<open>Controller_Launch\<close>, and that its own events do not go on for ever in \<open>Controller_Drain\<close>.
\<close>

section \<open>Quarantine parole\<close>

definition auto_restart :: "string \<Rightarrow> ctl_event" where
  "auto_restart task =
     \<lparr>Kind = EvManualRestart, TaskName = task, Body = [''require_running_intent'' \<mapsto> BBool True]\<rparr>"

definition store_parole :: "string \<Rightarrow> quarantineParoleEntry \<Rightarrow> supervisorController \<Rightarrow> supervisorController" where
  "store_parole k e c = c\<lparr>quarantineParole := (quarantineParole c)(k \<mapsto> e)\<rparr>"

definition drop_parole :: "string \<Rightarrow> supervisorController \<Rightarrow> supervisorController" where
  "drop_parole k c = c\<lparr>quarantineParole := (quarantineParole c)(k := None)\<rparr>"

definition parole_task :: "world \<Rightarrow> string \<Rightarrow> supervisorController \<Rightarrow> supervisorController" where
  "parole_task w k c =
     (case quarantineParole c k of
        None \<Rightarrow> c
      | Some e \<Rightarrow>
          (case getSMStateCanonical c k of
             None \<Rightarrow> drop_parole k c
           | Some StRunning \<Rightarrow>
               let e = (if healthySince e = 0 then e\<lparr>healthySince := now w\<rparr> else e)
               in if time_sub (now w) (healthySince e) \<ge> quarantineParoleStabilizeDwell then drop_parole k c
                  else store_parole k e c
           | Some StIdle \<Rightarrow> drop_parole k c
           | Some StQuarantined \<Rightarrow>
               let e = e\<lparr>healthySince := 0\<rparr>; c = store_parole k e c
               in if now w < nextAttemptAt e then c
                  else if task_stopped c (now w) k then c
                  else (case self_post (auto_restart k) c of
                          (False, c) \<Rightarrow> c
                        | (True, c) \<Rightarrow>
                            store_parole k (e\<lparr>attempts := attempts e + 1,
                              nextAttemptAt := now w + quarantineParoleDelay (attempts e + 1)\<rparr>) c)
           | Some _ \<Rightarrow> store_parole k (e\<lparr>healthySince := 0\<rparr>) c))"

definition runQuarantineParoleTick :: "world \<Rightarrow> supervisorController \<Rightarrow> supervisorController" where
  "runQuarantineParoleTick w c = (if graceful w then c else fold (parole_task w) (range_order w) c)"

section \<open>The port-gate worker\<close>

text \<open>
  One request of the worker, up to the event it posts, if any; posting waits for room in the main
  channel and is the step \<open>env_post\<close> of the loop.
\<close>

definition handlePortGateReq ::
  "world \<Rightarrow> portGateReq \<Rightarrow> supervisorController \<Rightarrow> ctl_event option \<times> supervisorController" where
  "handlePortGateReq w req c =
     (let task = canonicalSupervisorTaskName (d_TaskName (pg_d req));
          settle = (\<lambda>c. c\<lparr>portGateInFlight := portGateInFlight c - {task}\<rparr>);
          stale = (case EffectiveDaemonPort (resolve w) (pg_d req) of
                     Some port \<Rightarrow> port > 0 \<and> port_owner w port \<noteq> PortOwned (ownerPID req)
                   | None \<Rightarrow> False)
      in if stale then (None, settle c)
         else let (outcome, _, l) = reapSquatterForAutomaticTrigger (squatter w) (pg_d req) (ownerPID req) (self_pid w)
                                      (rows_in_order (entry_order w (tracker c)) (entries (tracker c))) (now w) (squatterLimiter c);
                  c = c\<lparr>squatterLimiter := l\<rparr>
              in case outcome of
                   AutoReaped \<Rightarrow> (Some (auto_restart task), settle c)
                 | AutoUnverified \<Rightarrow>
                     if ownerPID req \<le> 0 then (None, settle c)
                     else (Some (auto_restart task), settle (c\<lparr>gateCleared := insert task (gateCleared c)\<rparr>))
                 | AutoForeign \<Rightarrow>
                     (if isDynamicPoolProxyDescriptor (pg_d req) then Some (plain_event evPreSpawnRealloc task) else None,
                      settle c)
                 | _ \<Rightarrow> (None, settle c))"

section \<open>Routing an event through the state machine\<close>

definition supervisorEventIsCleanExit :: "ctl_event \<Rightarrow> bool" where
  "supervisorEventIsCleanExit ev = body_bool ev ''clean_exit''"

definition supervisorLivenessReasonNeedsRestart :: "string \<Rightarrow> bool" where
  "supervisorLivenessReasonNeedsRestart r = (r \<in> {''port_unbound'', ''port_owner_mismatch'', ''port_owner_self''})"

definition supervisorLivenessRestartClearedRuntime :: "ctl_event \<Rightarrow> bool" where
  "supervisorLivenessRestartClearedRuntime ev =
     (Kind ev = EvManualRestart \<and> body_bool ev ''runtime_pid_cleared''
      \<and> supervisorLivenessReasonNeedsRestart (body_str ev ''reason''))"

text \<open>The guards at the head of the routing.\<close>

definition restart_refused :: "world \<Rightarrow> ctl_event \<Rightarrow> supervisorController \<Rightarrow> bool" where
  "restart_refused w ev c =
     (Kind ev = EvManualRestart \<and> body_bool ev ''require_running_intent'' \<and> task_stopped c (now w) (TaskName ev))"

definition stale_exit :: "ctl_event \<Rightarrow> supervisorController \<Rightarrow> bool" where
  "stale_exit ev c =
     (Kind ev = EvChildExit
      \<and> (case (body_int ev ''pid_generation'', Get (TaskName ev) (tracker c)) of
           (Some g, Some e) \<Rightarrow> g > 0 \<and> g < PIDGeneration e
         | _ \<Rightarrow> False))"

definition forget_clearance :: "string \<Rightarrow> supervisorController \<Rightarrow> supervisorController" where
  "forget_clearance k c = c\<lparr>gateCleared := gateCleared c - {k, toggleSupervisorTaskNameBackslash k}\<rparr>"

definition sm_context :: "world \<Rightarrow> string \<Rightarrow> supervisorController \<Rightarrow> SMContext" where
  "sm_context w task c =
     (let di = stops_Lookup c task
      in \<lparr>IntentDesired = desired_of di, IntentIsActiveStop = fst (IsActiveStop di (now w)),
          Failures = CrashCountInWindow task (now w) failureWindow (tracker c),
          QueuedAction = queued_of c task, GracefulInProgress = graceful w\<rparr>)"

text \<open>What a matched transition changes before its side effect runs.\<close>

definition commit_transition ::
  "world \<Rightarrow> string \<Rightarrow> SMState \<Rightarrow> SMState \<Rightarrow> string \<Rightarrow> bool \<Rightarrow> supervisorController \<Rightarrow> supervisorController" where
  "commit_transition w task cur newState sd persistBefore c =
     (let c = (if cur = StRunning \<and> newState \<noteq> StRunning then noteReallocDwellLeftRunning task c else c);
          c = store_state task newState c;
          c = (if newState \<noteq> StSpawning then c\<lparr>gateCleared := gateCleared c - {task}\<rparr> else c);
          c = apply_queued task sd c;
          c = (if cur = StExiting \<and> (newState = StIdle \<or> newState = StSpawning) then store_queued task [] c else c);
          c = (if str_contains sd ''reset failures''
               then (on_tracker (ClearReallocations task) (on_tracker (ClearCrashes task) c))
                      \<lparr>bindAccessDeniedTerminalEmitted := bindAccessDeniedTerminalEmitted c - {canonicalSupervisorTaskName task},
                       reallocFailCount := (reallocFailCount c)(canonicalSupervisorTaskName task := None)\<rparr>
               else c);
          c = (if newState = StIdle \<and> cur \<noteq> StIdle then on_tracker (MarkExited task) c else c)
      in if persistBefore then persist_quietly w c else c)"

definition respawn_answer :: "string \<Rightarrow> ctl_error option \<Rightarrow> ctl_error option" where
  "respawn_answer sd err =
     (if err = None \<and> \<not> str_contains sd ''create-process''
      then Some (if sd = ''RESTART_REFUSED_INTENT_STOPPED'' then ErrIdleRespawnRefusedIntentStopped
                 else ErrText ''idle respawn did not spawn'')
      else err)"

definition transition_event ::
  "world \<Rightarrow> SupervisorDaemon \<Rightarrow> ctl_event \<Rightarrow> SMState \<Rightarrow> supervisorController \<Rightarrow> supervisorController" where
  "transition_event w d ev cur c =
     (let (newState, sd, persistBefore, mt) = Transition cur (Kind ev) (sm_context w (TaskName ev) c)
      in if \<not> mt then completeIdleRespawnEvent ev (Some (ErrText ''no state-machine transition'')) c
         else let (err, c) = executeSideEffect w sd newState d ev
                               (commit_transition w (TaskName ev) cur newState sd persistBefore c)
              in completeIdleRespawnEvent ev (respawn_answer sd err) c)"

text \<open>The liveness sweep asks for the runtime to be cleared; a task found idle is then restarted as idle.\<close>

definition clear_dead_runtime ::
  "world \<Rightarrow> ctl_event \<Rightarrow> SMState \<Rightarrow> supervisorController \<Rightarrow> SMState \<times> supervisorController" where
  "clear_dead_runtime w ev cur c =
     (if \<not> supervisorLivenessRestartClearedRuntime ev then (cur, c)
      else let c = persist_quietly w (on_tracker (MarkExited (TaskName ev)) c)
           in ((if cur = StRunning
                   \<and> (case Get (TaskName ev) (tracker c) of
                        Some e \<Rightarrow> State e = daemonRuntimeStateIdle \<and> CurrentPID e = 0 | None \<Rightarrow> False)
                then StIdle else cur), c))"

definition route_event ::
  "world \<Rightarrow> SupervisorDaemon \<Rightarrow> ctl_event \<Rightarrow> supervisorController \<Rightarrow> supervisorController" where
  "route_event w d ev c =
     (let task = TaskName ev; cur = (case smStates c task of Some s \<Rightarrow> s | None \<Rightarrow> StIdle)
      in if Kind ev = EvTimerDue \<and> cur = StBackoffWaiting \<and> pendingReap c task \<noteq> None
         then c\<lparr>reapDeferredTimerDue := insert task (reapDeferredTimerDue c)\<rparr>
         else if Kind ev = EvChildExit \<and> cur = StRunning \<and> supervisorEventIsCleanExit ev
         then store_state task StIdle (noteReallocDwellLeftRunning task c)
         else let (cur, c) = clear_dead_runtime w ev cur c
              in case maybeHandleBindRefusedExit w d ev cur c of
                   (True, c) \<Rightarrow> c
                 | (False, c) \<Rightarrow> transition_event w d ev cur c)"

definition handle_sm_event :: "world \<Rightarrow> ctl_event \<Rightarrow> supervisorController \<Rightarrow> supervisorController" where
  "handle_sm_event w ev0 c =
     (let task = canonicalSupervisorTaskName (TaskName ev0); ev = ev0\<lparr>TaskName := task\<rparr>
      in if restart_refused w ev c then forget_clearance task c
         else if stale_exit ev c then c
         else let c = (if Kind ev = EvChildExit then c\<lparr>reaperOutstanding := reaperOutstanding c - {task}\<rparr> else c)
              in case lookupDescriptorWithShadow c task of
                   None \<Rightarrow> completeIdleRespawnEvent ev (Some (ErrText ''task not found in controller intent cache''))
                             (forget_clearance task c)
                 | Some resolved \<Rightarrow> route_event w (resolved\<lparr>d_TaskName := task\<rparr>) ev c)"

section \<open>The handler\<close>

definition acknowledge :: "ctl_event \<Rightarrow> string \<Rightarrow> supervisorController \<Rightarrow> supervisorController" where
  "acknowledge ev k c = (case Body ev k of Some (BReply n) \<Rightarrow> send_reply n Acknowledged c | _ \<Rightarrow> c)"

definition settlement_recovery :: "world \<Rightarrow> string \<Rightarrow> supervisorController \<Rightarrow> supervisorController" where
  "settlement_recovery w task c =
     (case recoverStopReceiptOnLoop w task
             (c\<lparr>stopSettlementRecoveryArmed := stopSettlementRecoveryArmed c - {canonicalSupervisorTaskName task}\<rparr>) of
        (None, c) \<Rightarrow> c
      | (Some target, c) \<Rightarrow> c\<lparr>settling := settling c @ [target]\<rparr>)"

definition handleLoopEvent :: "world \<Rightarrow> ctl_event \<Rightarrow> supervisorController \<Rightarrow> supervisorController" where
  "handleLoopEvent w ev c =
     (if Kind ev = evOwnedChildWaitExit \<or> Kind ev = evForeignTerminationExit
      then handle_sm_event w (ev\<lparr>Kind := EvChildExit\<rparr>) (recordExactStopReceiptExit w ev c)
      else if Kind ev = evReapScan
      then acknowledge ev ''reap_scan_done''
             (handleReapScan w (case Body ev ''reap_previous_names'' of Some (BNames ns) \<Rightarrow> ns | _ \<Rightarrow> [])
                (case Body ev ''reap_scan_intent'' of Some (BIntent f) \<Rightarrow> Some f | _ \<Rightarrow> None)
                (case Body ev ''reap_scan_stops'' of Some (BStops m) \<Rightarrow> Some m | _ \<Rightarrow> None) c)
      else if Kind ev = evReapFollowup
      then handleReapFollowup w (TaskName ev) (case body_int ev ''reap_followup_generation'' of Some g \<Rightarrow> g | None \<Rightarrow> 0) c
      else if Kind ev = evControllerBarrier then acknowledge ev ''controller_barrier_result'' c
      else if Kind ev = evStopBatch
      then (case Body ev ''stop_batch_request'' of Some (BStopBatch cmd n) \<Rightarrow> handleStopBatchOnLoop w cmd n c | _ \<Rightarrow> c)
      else if Kind ev = evStopSettlementRecovery then settlement_recovery w (TaskName ev) c
      else if Kind ev = evParoleTick then runReallocDwellTick w (runQuarantineParoleTick w c)
      else if Kind ev = evReallocApplied then handleReallocApplied w ev c
      else if Kind ev = evPreSpawnRealloc then handlePreSpawnRealloc w ev c
      else handle_sm_event w ev c)"

text \<open>
  As a handler of the loop: the worlds of successive events are a stream, and the loop it posts to is
  the one it is called with.
\<close>

definition loop_handler_of :: "(ctl_value, world stream \<times> supervisorController) handler" where
  "loop_handler_of ev x =
     (case x of (l, ws, c) \<Rightarrow>
        let c' = handleLoopEvent (shd ws) ev (c\<lparr>eventLoop := l\<rparr>)
        in Inr (eventLoop c', stl ws, c'))"

text \<open>The tasks whose stop record differs between two snapshots, each of which gets an intent event.\<close>

definition diffIntentSnapshots :: "intent_map \<Rightarrow> intent_map \<Rightarrow> string list" where
  "diffIntentSnapshots prev next' =
     filter (\<lambda>k. map_of next' k \<noteq> map_of prev k) (map fst prev)
     @ filter (\<lambda>k. k \<notin> set (map fst prev)) (map fst next')"

text \<open>
  Seeding the state of a task that the controller has not yet seen, before a forced respawn, and of
  the daemons found running at startup.
\<close>

definition hydrateSMStateFromTrackerIfMissing :: "string \<Rightarrow> supervisorController \<Rightarrow> SMState \<times> supervisorController" where
  "hydrateSMStateFromTrackerIfMissing taskName c =
     (case smStates c taskName of
        Some s \<Rightarrow> (s, c)
      | None \<Rightarrow>
          let seeded = (case Get taskName (tracker c) of
                          Some e \<Rightarrow> if State e = daemonRuntimeStateQuarantine then StQuarantined
                                    else if State e = daemonRuntimeStateBackoff then StBackoffWaiting else StIdle
                        | None \<Rightarrow> StIdle)
          in (seeded, store_state taskName seeded c))"

definition hydrateControllerRunningStates :: "(string \<times> bool) list \<Rightarrow> supervisorController \<Rightarrow> supervisorController" where
  "hydrateControllerRunningStates running c =
     fold (\<lambda>(task, r) c. if r then store_state (canonicalSupervisorTaskName task) StRunning c else c) running c"

end
