(* ===== verification/Settlement_Mirror.thy ===== *)
theory Settlement_Mirror
  imports Stop_Settlement
begin

text \<open>
  The tracker and the supervisor state file as one system: every mark, stop batch, receipt
  transition, removal, ordinary persistence and restart of
  \<open>internal/cli/supervisor_runtime_tracker.go\<close>, with failing writes and with marks in the middle
  of an operation, keeps the durable receipts and their in-memory mirror in agreement.
\<close>

section \<open>The file and its mirror\<close>

text \<open>Marks on the runtime entries leave the settlement part of the tracker alone.\<close>

lemma markReadiness_settlement [frame_simps]:
  assumes "markReadinessObservationLocked k ob t = (acc, evt, t')"
  shows "stopSettlements t' = stopSettlements t \<and> stopSettlementEpoch t' = stopSettlementEpoch t
       \<and> stopSettlementIntegrityErr t' = stopSettlementIntegrityErr t"
  using assms
  by (auto simp: markReadinessObservationLocked_def Let_def put_entry_def split: if_splits option.splits)

lemma tracker_step_settlement:
  assumes "tracker_step t t'"
  shows "stopSettlements t' = stopSettlements t \<and> stopSettlementEpoch t' = stopSettlementEpoch t
       \<and> stopSettlementIntegrityErr t' = stopSettlementIntegrityErr t"
  using assms
proof cases
  case (step_readiness ob)
  obtain acc evt u where "markReadinessObservationLocked (canonicalSupervisorTaskName (o_TaskName ob)) ob t
      = (acc, evt, u)" by (metis prod_cases3)
  with markReadiness_settlement [OF this] step_readiness show ?thesis
    by (auto simp: MarkReadinessObservationWithSettlement_def)
next
  case (step_lazy ev)
  obtain r u where "CommitLazyProxyReadinessEvent ev t = (r, u)" by fastforce
  with lazy_commit_result [OF this] markReadiness_settlement step_lazy show ?thesis by fastforce
qed (auto simp: mark_defs Let_def put_entry_def drop_lazy_def MarkJobProtection_def MarkSpawnHold_def
       ClearSpawnHold_def RecordCrashAndCountInWindow_def ClearCrashes_def
       RecordReallocationAndCountInWindow_def ClearReallocations_def Remove_def)

lemma marks_settlement:
  assumes "tracker_step\<^sup>*\<^sup>* t t'"
  shows "stopSettlements t' = stopSettlements t \<and> stopSettlementEpoch t' = stopSettlementEpoch t
       \<and> stopSettlementIntegrityErr t' = stopSettlementIntegrityErr t \<and> (tracker_wf t \<longrightarrow> tracker_wf t')"
  using assms by (induction rule: rtranclp_induct) (auto dest: tracker_step_settlement tracker_step_wf)

text \<open>
  Every way the tracker and its state file change together. The operations on receipts and the
  ordinary persistence exclude each other (\<open>persistMu\<close>); marks may happen in the middle of any of
  them; every read-modify-write may fail; a restart reads the file into a fresh tracker.
\<close>

type_synonym settle_sys = "DaemonRuntimeTracker \<times> SupervisorStateFile option"

inductive settle_step :: "map_digest \<Rightarrow> receipt_digest \<Rightarrow> settle_sys \<Rightarrow> settle_sys \<Rightarrow> bool"
  for mdigest rdigest where
  sys_mark: "tracker_step t t' \<Longrightarrow> settle_step mdigest rdigest (t, disk) (t', disk)"
| sys_begin: "tracker_step\<^sup>*\<^sup>* t t' \<Longrightarrow> ports [] = None
    \<Longrightarrow> BeginStopSettlementBatch mdigest io path command ports t t' disk = (res, disk', t'')
    \<Longrightarrow> settle_step mdigest rdigest (t, disk) (t'', disk')"
| sys_advance: "tracker_step\<^sup>*\<^sup>* t t'
    \<Longrightarrow> (\<forall>r. rdigest r = rdigest expected \<longrightarrow> r = expected)
    \<Longrightarrow> (ph = SettlementFailed \<longrightarrow> TrimSpace fdetail \<noteq> [])
    \<Longrightarrow> Revision expected \<noteq> - 1 \<Longrightarrow> Attempt expected \<noteq> - 1
    \<Longrightarrow> AdvanceStopSettlement mdigest rdigest io path expected ph fclass fdetail t t' disk = (res', disk', t'')
    \<Longrightarrow> settle_step mdigest rdigest (t, disk) (t'', disk')"
| sys_remove: "tracker_step\<^sup>*\<^sup>* t t'
    \<Longrightarrow> (\<forall>r. rdigest r = rdigest expected \<longrightarrow> r = expected)
    \<Longrightarrow> RemoveStopSettlement mdigest rdigest io path expected t t' disk = (err, disk', t'')
    \<Longrightarrow> settle_step mdigest rdigest (t, disk) (t'', disk')"
| sys_persist: "tracker_step\<^sup>*\<^sup>* t t'
    \<Longrightarrow> distinct eks \<Longrightarrow> set eks = dom (entries t)
    \<Longrightarrow> distinct sks \<Longrightarrow> set sks = dom (stopSettlements t)
    \<Longrightarrow> PersistTo mdigest eks sks io path t disk = (err, disk')
    \<Longrightarrow> settle_step mdigest rdigest (t, disk) (t', disk')"
| sys_restart: "loadDaemonRuntimeTrackerFromStatePath mdigest io disk = (None, t')
    \<Longrightarrow> settle_step mdigest rdigest (t, disk) (t', disk)"

text \<open>A file the system writes, and the agreement of a tracker that is not fenced with it.\<close>

definition row_ok :: "SupervisorStateFile \<Rightarrow> string \<Rightarrow> StopSettlementReceiptV1 \<Rightarrow> bool" where
  "row_ok f k r \<longleftrightarrow> k = rc_TaskName r \<and> canonicalSupervisorTaskName k = k \<and> receipt_wf r
     \<and> Epoch r \<le> StopSettlementEpoch f"

definition state_file_ok :: "map_digest \<Rightarrow> SupervisorStateFile \<Rightarrow> bool" where
  "state_file_ok mdigest f \<longleftrightarrow>
     distinct (map fst (StopSettlements f))
   \<and> (\<forall>k r. map_of (StopSettlements f) k = Some r \<longrightarrow> row_ok f k r)
   \<and> (\<forall>k r k' r'. map_of (StopSettlements f) k = Some r \<longrightarrow> map_of (StopSettlements f) k' = Some r'
        \<longrightarrow> Epoch r = Epoch r' \<longrightarrow> k = k')
   \<and> hydrate_integrity mdigest f = []
   \<and> (\<forall>(k, d) \<in> set (sf_Daemons f). canonicalSupervisorTaskName k = k \<and> entry_wf k (hydrate_entry d))"

definition sys_ok :: "map_digest \<Rightarrow> settle_sys \<Rightarrow> bool" where
  "sys_ok mdigest s \<longleftrightarrow> (case s of (t, disk) \<Rightarrow>
     tracker_wf t \<and> state_file_ok mdigest (disk_file disk)
   \<and> stopSettlementEpoch t \<le> StopSettlementEpoch (disk_file disk)
   \<and> (stopSettlementIntegrityErr t = [] \<longrightarrow> map_of (StopSettlements (disk_file disk)) = stopSettlements t))"

definition hex_digests :: "map_digest \<Rightarrow> bool" where
  "hex_digests mdigest \<longleftrightarrow> (\<forall>e g m. lower_hex_digest (mdigest e g m))"

definition rows_ok :: "SupervisorStateFile \<Rightarrow> bool" where
  "rows_ok f \<longleftrightarrow>
     distinct (map fst (StopSettlements f))
   \<and> (\<forall>k r. map_of (StopSettlements f) k = Some r \<longrightarrow> row_ok f k r)
   \<and> (\<forall>k r k' r'. map_of (StopSettlements f) k = Some r \<longrightarrow> map_of (StopSettlements f) k' = Some r'
        \<longrightarrow> Epoch r = Epoch r' \<longrightarrow> k = k')"

definition daemons_ok :: "SupervisorStateFile \<Rightarrow> bool" where
  "daemons_ok f \<longleftrightarrow>
     (\<forall>(k, d) \<in> set (sf_Daemons f). canonicalSupervisorTaskName k = k \<and> entry_wf k (hydrate_entry d))"

lemma state_file_ok_split:
  "state_file_ok mdigest f \<longleftrightarrow> rows_ok f \<and> hydrate_integrity mdigest f = [] \<and> daemons_ok f"
  by (auto simp: state_file_ok_def rows_ok_def daemons_ok_def)

lemma integrity_normalize [simp]:
  "hydrate_integrity mdigest (normalizeSupervisorStateForMutation f) = hydrate_integrity mdigest f"
  by (simp add: hydrate_integrity_def)

lemma rows_ok_cong:
  "StopSettlements f' = StopSettlements f \<Longrightarrow> StopSettlementEpoch f' = StopSettlementEpoch f \<Longrightarrow>
     rows_ok f' = rows_ok f"
  by (simp add: rows_ok_def row_ok_def)

lemma ok_normalize [simp]:
  "rows_ok (normalizeSupervisorStateForMutation f) = rows_ok f"
  "daemons_ok (normalizeSupervisorStateForMutation f) = daemons_ok f"
  by (simp_all add: rows_ok_def row_ok_def daemons_ok_def)

text \<open>Metadata that was just advanced authenticates the rows.\<close>

lemma advance_metadata_ok:
  assumes "hex_digests mdigest" and "advanceStopSettlementMapMetadata mdigest f = Inr f'"
  shows "hydrate_integrity mdigest f' = [] \<and> rows_ok f' = rows_ok f \<and> daemons_ok f' = daemons_ok f
       \<and> StopSettlements f' = StopSettlements f \<and> StopSettlementEpoch f' = StopSettlementEpoch f"
proof -
  from assms(2) have g: "StopSettlementMapGeneration f \<noteq> - 1"
    and f': "f' = f\<lparr>StopSettlementMapGeneration := StopSettlementMapGeneration f + 1,
             StopSettlementDigest := mdigest (StopSettlementEpoch f) (StopSettlementMapGeneration f + 1)
               (map_of (StopSettlements f))\<rparr>" by (simp_all add: advance_metadata_Inr)
  have "mdigest e h m \<noteq> []" for e h m
    using assms(1) by (metis hex_digests_def lower_hex_digest_def list.size(3) zero_neq_numeral)
  with succ_nonzero [OF g] have "hydrate_integrity mdigest f' = []"
    by (simp add: f' hydrate_integrity_def)
  then show ?thesis by (simp add: f' rows_ok_def row_ok_def daemons_ok_def)
qed

text \<open>A mutation that advances the metadata last keeps a file in order if it keeps the rows in order.\<close>

lemma mutate_ok:
  assumes hex: "hex_digests mdigest" and ok: "state_file_ok mdigest (disk_file disk)"
    and run: "MutateSupervisorState io mut disk = (res, disk')"
    and mut: "\<And>f f'. rows_ok f \<Longrightarrow> daemons_ok f \<Longrightarrow> StopSettlements f = StopSettlements (disk_file disk)
        \<Longrightarrow> StopSettlementEpoch f = StopSettlementEpoch (disk_file disk) \<Longrightarrow> mut f = Inr f' \<Longrightarrow>
        \<exists>g. advanceStopSettlementMapMetadata mdigest g = Inr f' \<and> rows_ok g \<and> daemons_ok g \<and> Q g"
  shows "(res \<noteq> None \<and> disk' = disk)
       \<or> (res = None \<and> state_file_ok mdigest (disk_file disk')
          \<and> (\<exists>g. Q g \<and> StopSettlements (disk_file disk') = StopSettlements g
               \<and> StopSettlementEpoch (disk_file disk') = StopSettlementEpoch g))"
  using run
proof (cases rule: mutate_cases)
  case (written f')
  let ?f = "normalizeSupervisorStateForMutation (disk_file disk)"
  from ok have "rows_ok ?f" "daemons_ok ?f" by (simp_all add: state_file_ok_split)
  with mut [of ?f f'] written obtain g where
    g: "advanceStopSettlementMapMetadata mdigest g = Inr f'" "rows_ok g" "daemons_ok g" "Q g" by auto
  from advance_metadata_ok [OF hex g(1)] g written show ?thesis
    by (auto simp: state_file_ok_split disk_file_def)
qed simp

section \<open>Every operation keeps the agreement\<close>

lemma replace_row_cases:
  assumes "replace_row mdigest rdigest expected upd f = Inr f'"
    and inj: "\<forall>r. rdigest r = rdigest expected \<longrightarrow> r = expected"
  shows "map_of (StopSettlements f) (rc_TaskName expected) = Some expected
       \<and> advanceStopSettlementMapMetadata mdigest (f\<lparr>StopSettlements := upd (StopSettlements f)\<rparr>) = Inr f'"
  using assms
  by (auto simp: replace_row_def sameStopSettlementRevision_def split: option.splits if_splits)

lemma mirror_current_iff:
  assumes "\<forall>r. rdigest r = rdigest expected \<longrightarrow> r = expected"
  shows "mirror_current rdigest expected t \<longleftrightarrow> stopSettlements t (rc_TaskName expected) = Some expected"
  using assms by (auto simp: mirror_current_def sameStopSettlementRevision_def split: option.splits)

lemma row_ok_rows [simp]: "row_ok (f\<lparr>StopSettlements := x\<rparr>) k r = row_ok f k r"
  by (simp add: row_ok_def)

lemma rows_ok_replace:
  assumes "rows_ok f" and "map_of (StopSettlements f) (rc_TaskName cur) = Some cur"
    and "receipt_wf nxt" and "sameStopSettlementToken cur nxt"
  shows "rows_ok (f\<lparr>StopSettlements := AList.update (rc_TaskName cur) nxt (StopSettlements f)\<rparr>)"
proof -
  let ?m = "map_of (StopSettlements f)" and ?k = "rc_TaskName cur"
  let ?f = "f\<lparr>StopSettlements := AList.update ?k nxt (StopSettlements f)\<rparr>"
  have m: "map_of (StopSettlements ?f) = ?m(?k \<mapsto> nxt)" by (simp add: update_conv')
  have tok: "rc_TaskName nxt = ?k" "Epoch nxt = Epoch cur"
    using assms(4) by (simp_all add: sameStopSettlementToken_def)
  have old: "row_ok f k r" if "?m k = Some r" for k r
    using assms(1) that unfolding rows_ok_def by blast
  have row: "row_ok ?f k r" if "(?m(?k \<mapsto> nxt)) k = Some r" for k r
  proof (cases "k = ?k")
    case True
    with that old [OF assms(2)] tok assms(3) show ?thesis by (simp add: row_ok_def)
  next
    case False
    with that old [of k r] show ?thesis by simp
  qed
  have sep: "k = k'" if "(?m(?k \<mapsto> nxt)) k = Some r" "(?m(?k \<mapsto> nxt)) k' = Some r'" "Epoch r = Epoch r'" for k r k' r'
  proof -
    from that(1) tok assms(2) obtain s where "?m k = Some s" "Epoch s = Epoch r" by (cases "k = ?k") auto
    moreover from that(2) tok assms(2) obtain s' where "?m k' = Some s'" "Epoch s' = Epoch r'"
      by (cases "k' = ?k") auto
    ultimately show ?thesis using assms(1) that(3) unfolding rows_ok_def by metis
  qed
  have "distinct (map fst (StopSettlements ?f))"
    using assms(1) by (simp add: rows_ok_def distinct_update)
  with row sep show ?thesis unfolding rows_ok_def m by blast
qed

lemma rows_ok_delete:
  assumes "rows_ok f"
  shows "rows_ok (f\<lparr>StopSettlements := AList.delete k (StopSettlements f)\<rparr>)"
proof -
  let ?m = "map_of (StopSettlements f)" and ?f = "f\<lparr>StopSettlements := AList.delete k (StopSettlements f)\<rparr>"
  have m: "map_of (StopSettlements ?f) = ?m(k := None)" by (simp add: delete_conv')
  have sub: "(?m(k := None)) j = Some r \<Longrightarrow> ?m j = Some r" for j r by (simp split: if_splits)
  have row: "row_ok ?f j r" if "?m j = Some r" for j r
    using assms that unfolding rows_ok_def by simp
  have "distinct (map fst (StopSettlements ?f))"
    using assms by (simp add: rows_ok_def distinct_delete)
  with row sub assms show ?thesis unfolding rows_ok_def m by metis
qed

lemma tracker_wf_cong:
  "entries t' = entries t \<Longrightarrow> lazyReadiness t' = lazyReadiness t \<Longrightarrow> tracker_wf t \<Longrightarrow> tracker_wf t'"
  by (simp only: tracker_wf_def)

lemma sys_okD:
  assumes "sys_ok mdigest (t, disk)"
  shows "tracker_wf t" "state_file_ok mdigest (disk_file disk)"
    "stopSettlementEpoch t \<le> StopSettlementEpoch (disk_file disk)"
    "stopSettlementIntegrityErr t = [] \<Longrightarrow> map_of (StopSettlements (disk_file disk)) = stopSettlements t"
  using assms by (simp_all add: sys_ok_def)

lemma fence_tracker_ok:
  assumes "tracker_wf t" "state_file_ok mdigest (disk_file disk)" "msg \<noteq> []"
    "stopSettlementEpoch t \<le> StopSettlementEpoch (disk_file disk)"
  shows "sys_ok mdigest (fence_tracker msg t, disk)"
  using assms by (simp add: sys_ok_def fence_tracker_def tracker_wf_def)

lemma sys_ok_mark:
  assumes "sys_ok mdigest (t, disk)" and "tracker_step\<^sup>*\<^sup>* t t'"
  shows "sys_ok mdigest (t', disk)"
  using assms(1) marks_settlement [OF assms(2)] by (simp add: sys_ok_def)

text \<open>Replacing or deleting the row of one expected receipt.\<close>

lemma replace_run:
  assumes hex: "hex_digests mdigest" and ok: "state_file_ok mdigest (disk_file disk)"
    and inj: "\<forall>r. rdigest r = rdigest expected \<longrightarrow> r = expected"
    and run: "MutateSupervisorState io (replace_row mdigest rdigest expected upd) disk = (mres, d)"
    and keep: "\<And>f. rows_ok f \<Longrightarrow> map_of (StopSettlements f) (rc_TaskName expected) = Some expected
        \<Longrightarrow> rows_ok (f\<lparr>StopSettlements := upd (StopSettlements f)\<rparr>)"
    and upd: "\<And>xs. map_of (upd xs) = (map_of xs)(rc_TaskName expected := v)"
  shows "(mres \<noteq> None \<and> d = disk)
       \<or> (mres = None \<and> state_file_ok mdigest (disk_file d)
          \<and> StopSettlementEpoch (disk_file d) = StopSettlementEpoch (disk_file disk)
          \<and> map_of (StopSettlements (disk_file disk)) (rc_TaskName expected) = Some expected
          \<and> map_of (StopSettlements (disk_file d))
              = (map_of (StopSettlements (disk_file disk)))(rc_TaskName expected := v))"
proof -
  let ?Q = "\<lambda>g. StopSettlementEpoch g = StopSettlementEpoch (disk_file disk)
      \<and> map_of (StopSettlements (disk_file disk)) (rc_TaskName expected) = Some expected
      \<and> map_of (StopSettlements g) = (map_of (StopSettlements (disk_file disk)))(rc_TaskName expected := v)"
  have "\<exists>g. advanceStopSettlementMapMetadata mdigest g = Inr f' \<and> rows_ok g \<and> daemons_ok g \<and> ?Q g"
    if f: "rows_ok f" "daemons_ok f" "StopSettlements f = StopSettlements (disk_file disk)"
      "StopSettlementEpoch f = StopSettlementEpoch (disk_file disk)"
      "replace_row mdigest rdigest expected upd f = Inr f'" for f f'
  proof -
    note r = replace_row_cases [OF f(5) inj]
    with keep [OF f(1)] f upd show ?thesis
      by (intro exI [of _ "f\<lparr>StopSettlements := upd (StopSettlements f)\<rparr>"]) (simp add: daemons_ok_def)
  qed
  with mutate_ok [OF hex ok run, of ?Q] show ?thesis by fastforce
qed

lemma sys_ok_advance:
  assumes hex: "hex_digests mdigest" and ok: "sys_ok mdigest (t, disk)" and marks: "tracker_step\<^sup>*\<^sup>* t t'"
    and inj: "\<forall>r. rdigest r = rdigest expected \<longrightarrow> r = expected"
    and lawful: "ph = SettlementFailed \<longrightarrow> TrimSpace fdetail \<noteq> []"
      "Revision expected \<noteq> - 1" "Attempt expected \<noteq> - 1"
    and run: "AdvanceStopSettlement mdigest rdigest io path expected ph fclass fdetail t t' disk = (res, disk', t'')"
  shows "sys_ok mdigest (t'', disk')"
proof (cases "disk' = disk \<and> t'' = t'")
  case True
  with sys_ok_mark [OF ok marks] show ?thesis by simp
next
  case False
  let ?k = "rc_TaskName expected"
  note ok' = sys_okD [OF sys_ok_mark [OF ok marks]]
  from run False obtain nxt where n: "nextStopSettlementReceipt expected ph fclass fdetail = Inr nxt"
    and tail: "(case MutateSupervisorState io
                     (replace_row mdigest rdigest expected (AList.update ?k nxt)) disk of
                (Some e, disk') \<Rightarrow> (Inl e, disk', t')
              | (None, disk') \<Rightarrow>
                  if \<not> mirror_current rdigest expected t'
                  then (Inl (ChangedDuring ?k), disk', fence_tracker
                         (''durable stop settlement transition mirror not installed for '' @ ?k) t')
                  else (Inr nxt, disk', t'\<lparr>stopSettlements := (stopSettlements t')(?k \<mapsto> nxt)\<rparr>))
            = (res, disk', t'')"
    by (auto simp: AdvanceStopSettlement_def split: if_splits sum.splits)
  obtain mres d where m: "MutateSupervisorState io
      (replace_row mdigest rdigest expected (AList.update ?k nxt)) disk = (mres, d)" by fastforce
  have keep: "rows_ok (f\<lparr>StopSettlements := AList.update ?k nxt (StopSettlements f)\<rparr>)"
    if "rows_ok f" "map_of (StopSettlements f) ?k = Some expected" for f
  proof -
    from that have wf: "receipt_wf expected" unfolding rows_ok_def row_ok_def by blast
    from next_receipt_wf [OF wf n] next_receipt_token [OF wf n] lawful that show ?thesis
      by (intro rows_ok_replace) auto
  qed
  from replace_run [OF hex ok'(2) inj m keep update_conv'] tail m False
  have d: "disk' = d" "mres = None" "state_file_ok mdigest (disk_file d)"
    "StopSettlementEpoch (disk_file d) = StopSettlementEpoch (disk_file disk)"
    "map_of (StopSettlements (disk_file d)) = (map_of (StopSettlements (disk_file disk)))(?k \<mapsto> nxt)"
    by (auto split: if_splits)
  show ?thesis
  proof (cases "mirror_current rdigest expected t'")
    case True
    with d tail m ok' show ?thesis by (auto simp: sys_ok_def tracker_wf_def)
  next
    case False
    with d tail m ok' show ?thesis by (auto intro!: fence_tracker_ok)
  qed
qed

lemma sys_ok_remove:
  assumes hex: "hex_digests mdigest" and ok: "sys_ok mdigest (t, disk)" and marks: "tracker_step\<^sup>*\<^sup>* t t'"
    and inj: "\<forall>r. rdigest r = rdigest expected \<longrightarrow> r = expected"
    and run: "RemoveStopSettlement mdigest rdigest io path expected t t' disk = (res, disk', t'')"
  shows "sys_ok mdigest (t'', disk')"
proof (cases "disk' = disk \<and> t'' = t'")
  case True
  with sys_ok_mark [OF ok marks] show ?thesis by simp
next
  case False
  let ?k = "rc_TaskName expected"
  note ok' = sys_okD [OF sys_ok_mark [OF ok marks]]
  from run False have tail: "(case MutateSupervisorState io
                  (replace_row mdigest rdigest expected (AList.delete ?k)) disk of
             (Some e, disk') \<Rightarrow> (Some e, disk', t')
           | (None, disk') \<Rightarrow>
               if \<not> mirror_current rdigest expected t'
               then (Some (ChangedDuring ?k), disk', fence_tracker
                      (''durable stop settlement removal mirror not installed for '' @ ?k) t')
               else (None, disk', t'\<lparr>stopSettlements := (stopSettlements t')(?k := None)\<rparr>))
            = (res, disk', t'')"
    by (auto simp: RemoveStopSettlement_def split: if_splits)
  obtain mres d where m: "MutateSupervisorState io
      (replace_row mdigest rdigest expected (AList.delete ?k)) disk = (mres, d)" by fastforce
  from replace_run [OF hex ok'(2) inj m rows_ok_delete delete_conv'] tail m False
  have d: "disk' = d" "mres = None" "state_file_ok mdigest (disk_file d)"
    "StopSettlementEpoch (disk_file d) = StopSettlementEpoch (disk_file disk)"
    "map_of (StopSettlements (disk_file d)) = (map_of (StopSettlements (disk_file disk)))(?k := None)"
    by (auto split: if_splits)
  show ?thesis
  proof (cases "mirror_current rdigest expected t'")
    case True
    with d tail m ok' show ?thesis by (auto simp: sys_ok_def tracker_wf_def)
  next
    case False
    with d tail m ok' show ?thesis by (auto intro!: fence_tracker_ok)
  qed
qed

text \<open>Ordinary persistence writes the mirror back, or, when fenced, leaves the receipts alone.\<close>

lemma rows_in_order_map_of:
  "distinct ks \<Longrightarrow> dom m \<subseteq> set ks \<Longrightarrow> map_of (rows_in_order ks m) = m"
proof (rule ext)
  fix x assume "distinct ks" and dom: "dom m \<subseteq> set ks"
  have "map_of (rows_in_order ks m) x = (if x \<in> set ks then m x else None)"
    by (induction ks) (auto simp: rows_in_order_def map_filter_simps split: option.splits)
  with dom show "map_of (rows_in_order ks m) x = m x" by (metis domIff subsetD)
qed

lemma rows_in_order_keys: "map fst (rows_in_order ks m) = filter (\<lambda>k. m k \<noteq> None) ks"
  by (induction ks) (auto simp: rows_in_order_def map_filter_simps split: option.splits)

lemma rows_in_order_set: "(k, v) \<in> set (rows_in_order ks m) \<Longrightarrow> m k = Some v"
  by (auto simp: rows_in_order_def map_filter_def)

lemma running_state [simp]:
  "runtimeStateFromSupervisorState (supervisorStateFromRuntimeState s)
     = (if runtimeStateFromSupervisorState s = daemonRuntimeStateRunning then daemonRuntimeStateRunning
        else daemonRuntimeStateIdle)"
proof -
  have "runtimeStateFromSupervisorState ''running'' = ''running''" by code_simp
  moreover have "runtimeStateFromSupervisorState ''idle'' = ''idle''" by code_simp
  ultimately show ?thesis by (simp add: supervisorStateFromRuntimeState_def)
qed

lemma persisted_entry_wf:
  assumes "entry_wf k e"
  shows "entry_wf k (hydrate_entry (persist_entry e))"
proof -
  have "runtimeStateFromSupervisorState ''running'' = ''running''" by code_simp
  with assms show ?thesis by (auto simp: entry_wf_def hydrate_entry_def persist_entry_def zero_entry_def)
qed

lemma rows_ok_map:
  assumes "rows_ok f" and "StopSettlementEpoch g = StopSettlementEpoch f"
    and "map_of (StopSettlements g) = map_of (StopSettlements f)" and "distinct (map fst (StopSettlements g))"
  shows "rows_ok g"
  using assms unfolding rows_ok_def row_ok_def by simp

lemma sys_ok_persist:
  assumes hex: "hex_digests mdigest" and ok: "sys_ok mdigest (t, disk)" and marks: "tracker_step\<^sup>*\<^sup>* t t'"
    and ks: "distinct eks" "distinct sks" "set sks = dom (stopSettlements t)"
    and run: "PersistTo mdigest eks sks io path t disk = (res, disk')"
  shows "sys_ok mdigest (t', disk')"
proof (cases "disk' = disk")
  case True
  with sys_ok_mark [OF ok marks] show ?thesis by simp
next
  case False
  note ok' = sys_okD [OF ok]
  from run False have "MutateSupervisorState io (persist_mutation mdigest eks sks t) disk = (res, disk')"
    by (simp add: PersistTo_def split: if_splits)
  then obtain f where f: "persist_mutation mdigest eks sks t
      (normalizeSupervisorStateForMutation (disk_file disk)) = Inr f"
    and d: "disk' = Some (normalizeSupervisorStateForMutation f)"
    using False by (cases rule: mutate_cases) auto
  let ?g = "(normalizeSupervisorStateForMutation (disk_file disk))
              \<lparr>sf_Daemons := rows_in_order eks (map_option persist_entry \<circ> entries t)\<rparr>"
  have ep: "\<not> stopSettlementEpoch t > StopSettlementEpoch ?g" using ok'(3) by simp
  have dm: "daemons_ok ?g" "daemons_ok (?g\<lparr>StopSettlements := x\<rparr>)" for x
    using ok'(1) by (auto simp: daemons_ok_def tracker_wf_def persisted_entry_wf dest!: rows_in_order_set)
  have rows: "rows_ok ?g" using ok'(2) by (simp add: state_file_ok_split rows_ok_def row_ok_def)
  have "state_file_ok mdigest f \<and> StopSettlementEpoch f = StopSettlementEpoch (disk_file disk)
      \<and> map_of (StopSettlements f) = map_of (StopSettlements (disk_file disk))"
  proof (cases "stopSettlementIntegrityErr t = []")
    case True
    let ?h = "?g\<lparr>StopSettlements := rows_in_order sks (stopSettlements t)\<rparr>"
    have adv: "advanceStopSettlementMapMetadata mdigest ?h = Inr f"
      using f True ep by (simp add: persist_mutation_def Let_def)
    have m: "map_of (StopSettlements ?h) = map_of (StopSettlements (disk_file disk))"
      using ks ok'(4) [OF True] by (simp add: rows_in_order_map_of)
    have "rows_ok ?h"
      by (rule rows_ok_map [OF rows]) (use m ks in \<open>simp_all add: rows_in_order_keys\<close>)
    with advance_metadata_ok [OF hex adv] dm m show ?thesis by (simp add: state_file_ok_split)
  next
    case False
    then have "f = ?g" using f ep by (simp add: persist_mutation_def Let_def)
    moreover have "hydrate_integrity mdigest ?g = hydrate_integrity mdigest (disk_file disk)"
      by (simp add: hydrate_integrity_def)
    moreover have "hydrate_integrity mdigest (disk_file disk) = []"
      using ok'(2) by (simp add: state_file_ok_split)
    ultimately show ?thesis using rows dm by (simp add: state_file_ok_split)
  qed
  with marks_settlement [OF marks] ok' d show ?thesis
    by (simp add: sys_ok_def disk_file_def state_file_ok_split)
qed

text \<open>A restart loads exactly the durable receipts, and no fence survives it.\<close>

lemma hydrate_receipts:
  assumes "\<forall>(k, r) \<in> set rows. k = rc_TaskName r \<and> canonicalSupervisorTaskName k = k
             \<and> validStopSettlementReceipt r"
  shows "fold hydrate_receipt rows t = t\<lparr>stopSettlements := stopSettlements t ++ map_of (rev rows)\<rparr>"
  using assms
proof (induction rows arbitrary: t)
  case (Cons row rows)
  obtain k r where row: "row = (k, r)" by fastforce
  with Cons.prems have "hydrate_receipt row t = t\<lparr>stopSettlements := (stopSettlements t)(k \<mapsto> r)\<rparr>"
    by (auto simp: hydrate_receipt_def Let_def)
  with Cons row show ?case by (simp add: map_add_upd_left fun_upd_def map_add_def fun_eq_iff split: option.splits)
qed simp

lemma hydrate_entries:
  "fold (\<lambda>kd t. t\<lparr>entries := (entries t)(canonicalSupervisorTaskName (fst kd) \<mapsto> hydrate_entry (snd kd))\<rparr>) rows t
     = t\<lparr>entries := entries t ++ map_of (rev (map (\<lambda>(k, d). (canonicalSupervisorTaskName k, hydrate_entry d)) rows))\<rparr>"
  by (induction rows arbitrary: t) (auto simp: map_add_def fun_eq_iff split: option.splits)

lemma map_of_rev: "distinct (map fst xs) \<Longrightarrow> map_of (rev xs) = map_of xs"
  by (subst map_of_inject_set) (simp_all add: rev_map [symmetric])

lemma hydrate_ok:
  assumes "state_file_ok mdigest f"
  defines "t \<equiv> HydrateFromState mdigest f NewDaemonRuntimeTracker"
  shows "stopSettlements t = map_of (StopSettlements f) \<and> stopSettlementIntegrityErr t = []
       \<and> stopSettlementEpoch t = StopSettlementEpoch f \<and> tracker_wf t"
proof -
  from assms(1) have d: "distinct (map fst (StopSettlements f))" and i: "hydrate_integrity mdigest f = []"
    by (simp_all add: state_file_ok_split rows_ok_def)
  have rows: "\<forall>(k, r) \<in> set (StopSettlements f). k = rc_TaskName r \<and> canonicalSupervisorTaskName k = k
             \<and> validStopSettlementReceipt r"
    using assms(1) d by (auto simp: state_file_ok_split rows_ok_def row_ok_def receipt_wf_def)
  have t: "t = NewDaemonRuntimeTracker\<lparr>stopSettlementEpoch := StopSettlementEpoch f,
      stopSettlements := map_of (StopSettlements f),
      entries := map_of (rev (map (\<lambda>(k, d). (canonicalSupervisorTaskName k, hydrate_entry d)) (sf_Daemons f)))\<rparr>"
    unfolding t_def HydrateFromState_def Let_def hydrate_receipts [OF rows] hydrate_entries
    using d by (simp add: NewDaemonRuntimeTracker_def i map_of_rev word_gt_0)
  have "entry_wf k e \<and> canonicalSupervisorTaskName k = k" if "entries t k = Some e" for k e
  proof -
    from that have "(k, e) \<in> set (map (\<lambda>(k, d). (canonicalSupervisorTaskName k, hydrate_entry d)) (sf_Daemons f))"
      unfolding t using map_of_SomeD by fastforce
    then obtain a d where ad: "(a, d) \<in> set (sf_Daemons f)" "k = canonicalSupervisorTaskName a" "e = hydrate_entry d"
      by auto
    have "daemons_ok f" using assms(1) by (simp add: state_file_ok_split)
    with ad(1) have c: "canonicalSupervisorTaskName a = a" "entry_wf a (hydrate_entry d)"
      unfolding daemons_ok_def by blast+
    show ?thesis unfolding ad(2,3) using c by (simp only:)
  qed
  moreover have "lazyReadiness t = Map.empty" by (simp add: t NewDaemonRuntimeTracker_def)
  ultimately have "tracker_wf t" unfolding tracker_wf_def by auto
  then show ?thesis unfolding t by (simp add: NewDaemonRuntimeTracker_def)
qed

lemma fresh_file_ok: "state_file_ok mdigest fresh_state_file"
  by (simp add: state_file_ok_def fresh_state_file_def hydrate_integrity_def)

lemma sys_ok_restart:
  assumes "sys_ok mdigest (t, disk)" and "loadDaemonRuntimeTrackerFromStatePath mdigest io disk = (None, t')"
  shows "sys_ok mdigest (t', disk)"
proof (cases disk)
  case None
  with assms(2) have t': "t' = NewDaemonRuntimeTracker"
    by (simp add: loadDaemonRuntimeTrackerFromStatePath_def)
  show ?thesis
    unfolding t' None sys_ok_def disk_file_def prod.case option.case
    using rt.inv_init [OF refl] fresh_file_ok
    by (simp add: NewDaemonRuntimeTracker_def fresh_state_file_def)
next
  case (Some f)
  with assms have "state_file_ok mdigest f" "t' = HydrateFromState mdigest f NewDaemonRuntimeTracker"
    by (auto simp: sys_ok_def loadDaemonRuntimeTrackerFromStatePath_def disk_file_def split: if_splits)
  with hydrate_ok [of mdigest f] Some show ?thesis by (simp add: sys_ok_def disk_file_def)
qed

text \<open>A batch: what its mutation writes, and what its installation mirrors.\<close>

lemma install_receipts:
  "stopSettlements (fold install_receipt rs t)
     = stopSettlements t ++ map_of (rev (map (\<lambda>r. (rc_TaskName r, r)) rs))
   \<and> entries (fold install_receipt rs t) = entries t
   \<and> lazyReadiness (fold install_receipt rs t) = lazyReadiness t
   \<and> stopSettlementIntegrityErr (fold install_receipt rs t) = stopSettlementIntegrityErr t"
  by (induction rs arbitrary: t)
     (auto simp: install_receipt_def map_add_def fun_eq_iff split: option.splits)

lemma install_epoch:
  "stopSettlementEpoch t \<le> E \<Longrightarrow> \<forall>r \<in> set rs. Epoch r \<le> E \<Longrightarrow>
     stopSettlementEpoch (fold install_receipt rs t) \<le> E"
  by (induction rs arbitrary: t) (auto simp: install_receipt_def)

text \<open>The rows of an admitted batch, with the epoch they start from.\<close>

definition batch_admitted ::
  "DaemonRuntimeTracker \<Rightarrow> (string \<rightharpoonup> int) \<Rightarrow> string \<Rightarrow> (StopBatchTargetV1 \<times> DaemonRuntimeEntry) list \<Rightarrow> bool" where
  "batch_admitted t ports b rows \<longleftrightarrow>
     tracker_wf t \<and> ports [] = None \<and> b \<noteq> [] \<and> distinct (map (tg_TaskName \<circ> fst) rows)
   \<and> list_all (\<lambda>(tg, e). admitted t ports tg e) rows"

definition start_epoch :: "64 word \<Rightarrow> SupervisorStateFile \<Rightarrow> 64 word" where
  "start_epoch known f = (if known > StopSettlementEpoch f then known else StopSettlementEpoch f)"

lemma start_epoch_ge: "known \<le> start_epoch known f" "StopSettlementEpoch f \<le> start_epoch known f"
  by (auto simp: start_epoch_def)

text \<open>The receipts of a batch get consecutive epochs above the start, with no wrap-around.\<close>

lemma batch_epochs:
  assumes adm: "batch_admitted t ports b rows" and run: "batch_receipts known b rows f = Inr (rs, f')"
  shows "map rc_TaskName rs = map (tg_TaskName \<circ> fst) rows"
    and "j < length rows \<Longrightarrow> rs ! j = stage_receipt b j (start_epoch known f + of_nat j + 1) (fst (rows ! j)) (snd (rows ! j))"
    and "j < length rows \<Longrightarrow> unat (start_epoch known f + of_nat j + 1) = unat (start_epoch known f) + j + 1"
    and "unat (StopSettlementEpoch f') = unat (start_epoch known f) + length rows"
proof -
  let ?ep = "start_epoch known f"
  from run have room: "int (length rows) \<le> 2 ^ 64 - 1 - uint ?ep"
    and st: "stage_batch b 0 rows (f\<lparr>StopSettlementEpoch := ?ep\<rparr>) = Inr (rs, f')"
    by (auto simp: batch_receipts_def start_epoch_def Let_def split: if_splits)
  have dis: "distinct (map (tg_TaskName \<circ> fst) rows)" using adm by (simp only: batch_admitted_def)
  note S = stage_batch_Inr [OF st dis]
  show "map rc_TaskName rs = map (tg_TaskName \<circ> fst) rows"
    and "j < length rows \<Longrightarrow> rs ! j = stage_receipt b j (?ep + of_nat j + 1) (fst (rows ! j)) (snd (rows ! j))"
    using S by simp_all
  have "StopSettlementEpoch f' = ?ep + of_nat (length rows)" using S by simp
  then show "unat (StopSettlementEpoch f') = unat ?ep + length rows" using epoch_add [OF room] by (simp only:)
  assume "j < length rows"
  with room have "int (Suc j) \<le> 2 ^ 64 - 1 - uint ?ep" by linarith
  moreover have "?ep + of_nat j + 1 = ?ep + of_nat (Suc j)" by (simp only: of_nat_Suc ac_simps)
  ultimately show "unat (?ep + of_nat j + 1) = unat ?ep + j + 1" using epoch_add [of "Suc j" ?ep] by (simp only:)
qed

lemma batch_receipts_Inr:
  assumes adm: "batch_admitted t ports b rows" and run: "batch_receipts known b rows f = Inr (rs, f')"
  shows "map rc_TaskName rs = map (tg_TaskName \<circ> fst) rows"
    and "\<forall>r \<in> set rs. receipt_wf r \<and> canonicalSupervisorTaskName (rc_TaskName r) = rc_TaskName r
           \<and> start_epoch known f < Epoch r \<and> Epoch r \<le> StopSettlementEpoch f'"
    and "inj_on Epoch (set rs)" and "start_epoch known f \<le> StopSettlementEpoch f'"
proof -
  let ?ep = "start_epoch known f"
  note names = batch_epochs(1) [OF adm run] and nth = batch_epochs(2) [OF adm run]
    and ej = batch_epochs(3) [OF adm run] and epf' = batch_epochs(4) [OF adm run]
  from names have len: "length rs = length rows" by (metis length_map)
  show "map rc_TaskName rs = map (tg_TaskName \<circ> fst) rows" by (rule names)
  show "\<forall>r \<in> set rs. receipt_wf r \<and> canonicalSupervisorTaskName (rc_TaskName r) = rc_TaskName r
           \<and> start_epoch known f < Epoch r \<and> Epoch r \<le> StopSettlementEpoch f'"
  proof
    fix r assume "r \<in> set rs"
    then obtain j where j: "j < length rows" "r = rs ! j" using len by (metis in_set_conv_nth)
    obtain tg e where row: "rows ! j = (tg, e)" by fastforce
    with j nth have r: "r = stage_receipt b j (?ep + of_nat j + 1) tg e" by simp
    from adm j row have a: "admitted t ports tg e"
      by (auto simp: batch_admitted_def list_all_length)
    have "tracker_wf t" "ports [] = None" "b \<noteq> []" using adm unfolding batch_admitted_def by blast+
    moreover from this a have "entry_wf (tg_TaskName tg) e" unfolding tracker_wf_def admitted_def by blast
    moreover have "?ep + of_nat j + 1 \<noteq> 0"
    proof
      assume "?ep + of_nat j + 1 = 0"
      with ej [OF j(1)] have "unat (0 :: 64 word) = unat ?ep + j + 1" by (simp only:)
      then show False by simp
    qed
    ultimately have "receipt_wf r"
      unfolding r by (intro stage_receipt_wf [OF a])
    moreover have "canonicalSupervisorTaskName (rc_TaskName r) = rc_TaskName r"
      using a by (simp add: r stage_receipt_def Let_def admitted_def)
    moreover have "unat (Epoch r) = unat ?ep + j + 1"
      using ej [OF j(1)] by (simp add: r stage_receipt_def Let_def)
    ultimately show "receipt_wf r \<and> canonicalSupervisorTaskName (rc_TaskName r) = rc_TaskName r
           \<and> start_epoch known f < Epoch r \<and> Epoch r \<le> StopSettlementEpoch f'"
      using j(1) epf' by (simp add: word_less_nat_alt word_le_nat_alt)
  qed
  have eu: "unat (Epoch (rs ! j)) = unat ?ep + j + 1" if "j < length rows" for j
    using that nth ej [OF that] by (simp add: stage_receipt_def Let_def)
  show "inj_on Epoch (set rs)"
  proof (rule inj_onI)
    fix x y assume "x \<in> set rs" "y \<in> set rs" "Epoch x = Epoch y"
    then obtain i j where ij: "i < length rows" "j < length rows" "x = rs ! i" "y = rs ! j"
      using len by (auto simp: in_set_conv_nth)
    with \<open>Epoch x = Epoch y\<close> have "unat (Epoch (rs ! i)) = unat (Epoch (rs ! j))" by (simp only:)
    with eu [OF ij(1)] eu [OF ij(2)] have "i = j" by linarith
    with ij show "x = y" by (simp only:)
  qed
  show "?ep \<le> StopSettlementEpoch f'" using epf' by (simp add: word_le_nat_alt)
qed

lemma separate_epochs:
  assumes "\<And>j s. m j = Some s \<Longrightarrow> Epoch s \<le> e" and "\<And>j s. n j = Some s \<Longrightarrow> e < Epoch s"
    and "\<And>j j' s s'. m j = Some s \<Longrightarrow> m j' = Some s' \<Longrightarrow> Epoch s = Epoch s' \<Longrightarrow> j = j'"
    and "\<And>j j' s s'. n j = Some s \<Longrightarrow> n j' = Some s' \<Longrightarrow> Epoch s = Epoch s' \<Longrightarrow> j = j'"
    and "(m ++ n) k = Some r" "(m ++ n) k' = Some r'" "Epoch r = Epoch r'"
  shows "k = k'"
proof -
  from assms(5,6) consider "n k = Some r" "n k' = Some r'" | "m k = Some r" "m k' = Some r'"
    | "n k = Some r" "m k' = Some r'" | "m k = Some r" "n k' = Some r'"
    unfolding map_add_Some_iff by blast
  then show ?thesis
  proof cases
    case 1
    then show ?thesis using assms(4,7) by blast
  next
    case 2
    then show ?thesis using assms(3,7) by blast
  next
    case 3
    with assms(2) [OF 3(1)] assms(1) [OF 3(2)] assms(7) show ?thesis by simp
  next
    case 4
    with assms(2) [OF 4(2)] assms(1) [OF 4(1)] assms(7) show ?thesis by simp
  qed
qed

lemma batch_rows_ok:
  assumes adm: "batch_admitted t ports b rows" and ok: "rows_ok f"
    and run: "batch_receipts known b rows f = Inr (rs, f')"
  shows "rows_ok f' \<and> map_of (StopSettlements f')
           = map_of (StopSettlements f) ++ map_of (map (\<lambda>r. (rc_TaskName r, r)) rs)
         \<and> sf_Daemons f' = sf_Daemons f"
proof -
  let ?m = "map_of (StopSettlements f)" and ?n = "map_of (map (\<lambda>r. (rc_TaskName r, r)) rs)"
  from run have st: "stage_batch b 0 rows (f\<lparr>StopSettlementEpoch := start_epoch known f\<rparr>) = Inr (rs, f')"
    by (auto simp: batch_receipts_def start_epoch_def Let_def split: if_splits)
  have dis: "distinct (map (tg_TaskName \<circ> fst) rows)" using adm unfolding batch_admitted_def by blast
  note S = stage_batch_Inr [OF st dis]
  note R = batch_receipts_Inr [OF adm run]
  have "distinct (map fst (StopSettlements f))" using ok unfolding rows_ok_def by blast
  with S have m: "map_of (StopSettlements f') = ?m ++ ?n" and d: "distinct (map fst (StopSettlements f'))"
    and sd: "sf_Daemons f' = sf_Daemons f" by simp_all
  have new: "r \<in> set rs \<and> k = rc_TaskName r" if "?n k = Some r" for k r
    using map_of_SomeD [OF that] by auto
  have old: "row_ok f k r" if "?m k = Some r" for k r using ok that unfolding rows_ok_def by blast
  have le: "StopSettlementEpoch f \<le> StopSettlementEpoch f'"
    using start_epoch_ge(2) R(4) order_trans by blast
  have row: "row_ok f' k r" if "(?m ++ ?n) k = Some r" for k r
  proof -
    from that consider "?n k = Some r" | "?m k = Some r" unfolding map_add_Some_iff by blast
    then show ?thesis
    proof cases
      case 1
      with new R(2) show ?thesis unfolding row_ok_def by blast
    next
      case 2
      with old le show ?thesis unfolding row_ok_def by (meson order_trans)
    qed
  qed
  have sep: "k = k'" if "(?m ++ ?n) k = Some r" "(?m ++ ?n) k' = Some r'" "Epoch r = Epoch r'" for k r k' r'
  proof (rule separate_epochs [OF _ _ _ _ that])
    show "Epoch s \<le> start_epoch known f" if "?m j = Some s" for j s
      using old [OF that] start_epoch_ge(2) [of f known] unfolding row_ok_def by (meson order_trans)
    show "start_epoch known f < Epoch s" if "?n j = Some s" for j s
      using new [OF that] R(2) by blast
    show "j = j'" if "?m j = Some s" "?m j' = Some s'" "Epoch s = Epoch s'" for j j' s s'
      using ok that unfolding rows_ok_def by blast
    show "j = j'" if "?n j = Some s" "?n j' = Some s'" "Epoch s = Epoch s'" for j j' s s'
      using new [OF that(1)] new [OF that(2)] R(3) that(3) by (auto dest: inj_onD)
  qed
  from d row sep show ?thesis unfolding rows_ok_def m using sd by blast
qed

text \<open>A batch that got as far as its file mutation, and the three ways it can end there.\<close>

lemma begin_cases:
  assumes run: "BeginStopSettlementBatch mdigest io path command ports t t' disk = (res, disk', t'')"
    and wf: "tracker_wf t" and ports: "ports [] = None"
  obtains (refused) e where "res = Inl e" "disk' = disk" "t'' = t'"
  | (committed) rows rs f where "batch_admitted t ports (cmd_BatchID command) rows"
    "map fst rows = Targets command" "stopSettlementIntegrityErr t = []"
    "batch_receipts (stopSettlementEpoch t) (cmd_BatchID command) rows
       (normalizeSupervisorStateForMutation (disk_file disk)) = Inr (rs, f)"
    "MutateSupervisorState io (batch_mutation mdigest (stopSettlementEpoch t) (cmd_BatchID command) rows) disk
       = (None, disk')"
    "(\<exists>e. check_install t' rs = Some e \<and> res = Inl e \<and> t'' = fence_tracker (install_message e) t')
     \<or> (check_install t' rs = None \<and> res = Inr rs \<and> t'' = fold install_receipt rs t')"
proof (cases "\<exists>e. res = Inl e \<and> disk' = disk \<and> t'' = t'")
  case True
  with refused show ?thesis by blast
next
  case moved: False
  note d = run [unfolded BeginStopSettlementBatch_def Let_def]
  have v: "TrimSpace (cmd_BatchID command) \<noteq> []" "stopSettlementIntegrityErr t = []"
    using d moved by (auto split: if_splits)
  obtain es where es: "admit_targets t ports 0 [] (Targets command) = Inr es"
    using d moved by (cases "admit_targets t ports 0 [] (Targets command)") (auto split: if_splits)
  let ?rows = "zip (Targets command) es" and ?b = "cmd_BatchID command"
  note A = admit_targets_Inr [OF es]
  then have len: "length (Targets command) = length es" by (auto dest: list_all2_lengthD)
  then have fst: "map fst ?rows = Targets command" by simp
  have "map (tg_TaskName \<circ> fst) ?rows = map tg_TaskName (Targets command)" using fst by (metis map_map)
  with A wf ports v(1) TrimSpace_nonempty have adm: "batch_admitted t ports ?b ?rows"
    unfolding batch_admitted_def by (auto simp: list_all2_iff list_all_iff)
  obtain mres d' where m: "MutateSupervisorState io
      (batch_mutation mdigest (stopSettlementEpoch t) ?b ?rows) disk = (mres, d')" by fastforce
  have tail: "(case (mres, d') of (Some e, disk') \<Rightarrow> (Inl e, disk', t')
                 | (None, disk') \<Rightarrow>
                     case check_install t' (staged_of (stopSettlementEpoch t) ?b ?rows disk) of
                       Some e \<Rightarrow> (Inl e, disk', fence_tracker (install_message e) t')
                     | None \<Rightarrow> (Inr (staged_of (stopSettlementEpoch t) ?b ?rows disk), disk',
                               fold install_receipt (staged_of (stopSettlementEpoch t) ?b ?rows disk) t'))
      = (res, disk', t'')"
    using d moved v es m by (auto split: if_splits)
  have none: "mres = None"
  proof (rule ccontr)
    assume "mres \<noteq> None"
    with m have "d' = disk" by (cases rule: mutate_cases) auto
    with tail \<open>mres \<noteq> None\<close> moved show False by auto
  qed
  from m none obtain f0 where "batch_mutation mdigest (stopSettlementEpoch t) ?b ?rows
      (normalizeSupervisorStateForMutation (disk_file disk)) = Inr f0"
    by (cases rule: mutate_cases) auto
  then obtain rs f where rs: "batch_receipts (stopSettlementEpoch t) ?b ?rows
       (normalizeSupervisorStateForMutation (disk_file disk)) = Inr (rs, f)"
    by (auto simp: batch_mutation_def split: sum.splits)
  then have "staged_of (stopSettlementEpoch t) ?b ?rows disk = rs"
    by (simp add: staged_of_def disk_file_def)
  with tail none have "d' = disk'"
    "(\<exists>e. check_install t' rs = Some e \<and> res = Inl e \<and> t'' = fence_tracker (install_message e) t')
     \<or> (check_install t' rs = None \<and> res = Inr rs \<and> t'' = fold install_receipt rs t')"
    by (auto split: option.splits)
  with committed [OF adm fst v(2) rs] m none show ?thesis by simp
qed

lemma check_install_Some:
  "check_install t rs = Some e \<Longrightarrow> (\<exists>k. e = RacedGeneration k \<or> e = ChangedDuring k) \<and> install_message e \<noteq> []"
  by (induction rs) (auto simp: install_message_def split: option.splits if_splits)

lemma sys_ok_begin:
  assumes hex: "hex_digests mdigest" and ok: "sys_ok mdigest (t, disk)" and marks: "tracker_step\<^sup>*\<^sup>* t t'"
    and ports: "ports [] = None"
    and run: "BeginStopSettlementBatch mdigest io path command ports t t' disk = (res, disk', t'')"
  shows "sys_ok mdigest (t'', disk')"
proof -
  note ok0 = sys_okD [OF ok] and ok' = sys_okD [OF sys_ok_mark [OF ok marks]]
  note frame = marks_settlement [OF marks]
  from run ok0(1) ports show ?thesis
  proof (cases rule: begin_cases)
    case refused
    with sys_ok_mark [OF ok marks] show ?thesis by simp
  next
    case (committed rows rs f)
    note adm = committed(1) and err = committed(3) and rs = committed(4) and m = committed(5) and out = committed(6)
    have rows: "rows_ok (normalizeSupervisorStateForMutation (disk_file disk))"
      using ok0(2) by (simp add: state_file_ok_split)
    note B = batch_rows_ok [OF adm rows rs] and R = batch_receipts_Inr [OF adm rs]
    from m obtain f' where adv: "advanceStopSettlementMapMetadata mdigest f = Inr f'"
      and d: "disk' = Some (normalizeSupervisorStateForMutation f')"
      by (cases rule: mutate_cases) (auto simp: batch_mutation_def rs)
    have dm: "daemons_ok f" using B ok0(2) by (simp add: state_file_ok_split daemons_ok_def)
    have fl: "state_file_ok mdigest (disk_file disk')"
      "StopSettlements (disk_file disk') = StopSettlements f"
      "StopSettlementEpoch (disk_file disk') = StopSettlementEpoch f"
      using advance_metadata_ok [OF hex adv] B dm by (simp_all add: d disk_file_def state_file_ok_split)
    have ep: "stopSettlementEpoch t' \<le> StopSettlementEpoch f"
      using R(4) start_epoch_ge(1) frame by (metis order_trans)
    from out show ?thesis
    proof (elim disjE exE conjE)
      fix e assume "check_install t' rs = Some e" and t'': "t'' = fence_tracker (install_message e) t'"
      then show ?thesis
        unfolding t'' by (intro fence_tracker_ok) (use check_install_Some ok' fl ep in auto)
    next
      assume t'': "t'' = fold install_receipt rs t'"
      have "distinct (map fst (map (\<lambda>r. (rc_TaskName r, r)) rs))"
        using R(1) adm by (simp add: comp_def batch_admitted_def)
      then have "stopSettlements t'' = stopSettlements t' ++ map_of (map (\<lambda>r. (rc_TaskName r, r)) rs)"
        unfolding t'' using install_receipts [of rs t'] by (simp add: map_of_rev del: map_map)
      moreover have "stopSettlementEpoch t'' \<le> StopSettlementEpoch f"
        unfolding t'' by (rule install_epoch) (use ep R(2) in auto)
      moreover have "tracker_wf t''"
        using ok'(1) tracker_wf_cong install_receipts [of rs t'] unfolding t'' by blast
      ultimately show ?thesis
        using fl B ok0(4) [OF err] frame by (simp add: sys_ok_def)
    qed
  qed
qed

abbreviation boot_sys :: "settle_sys \<Rightarrow> bool" where
  "boot_sys s \<equiv> s = (NewDaemonRuntimeTracker, None)"

interpretation sys: invariant_system boot_sys "settle_step mdigest rdigest"
  "\<lambda>s. hex_digests mdigest \<longrightarrow> sys_ok mdigest s" for mdigest rdigest
proof unfold_locales
  show "hex_digests mdigest \<longrightarrow> sys_ok mdigest s" if "boot_sys s" for s
    using that rt.inv_init [OF refl] fresh_file_ok
    by (simp add: sys_ok_def disk_file_def) (simp add: NewDaemonRuntimeTracker_def fresh_state_file_def)
next
  fix s s' assume inv: "hex_digests mdigest \<longrightarrow> sys_ok mdigest s" and step: "settle_step mdigest rdigest s s'"
  show "hex_digests mdigest \<longrightarrow> sys_ok mdigest s'"
  proof
    assume hex: "hex_digests mdigest"
    with inv have ok: "sys_ok mdigest s" by blast
    from step ok show "sys_ok mdigest s'"
    proof cases
      case (sys_mark t t' disk)
      with ok show ?thesis using sys_ok_mark by blast
    next
      case (sys_begin t t' ports io path command disk res disk' t'')
      with ok show ?thesis using sys_ok_begin [OF hex] by blast
    next
      case (sys_advance t t' expected ph fdetail io path fclass disk res disk' t'')
      with ok show ?thesis using sys_ok_advance [OF hex] by blast
    next
      case (sys_remove t t' expected io path disk err disk' t'')
      with ok show ?thesis using sys_ok_remove [OF hex] by blast
    next
      case (sys_persist t t' eks sks io path disk err disk')
      with ok show ?thesis using sys_ok_persist [OF hex] by blast
    next
      case (sys_restart io disk t' t)
      with ok show ?thesis using sys_ok_restart by blast
    qed
  qed
qed



section \<open>Batches\<close>

lemma receipts_by_task:
  assumes "distinct (map rc_TaskName rs)"
  shows "r \<in> set rs \<Longrightarrow> map_of (map (\<lambda>r. (rc_TaskName r, r)) rs) (rc_TaskName r) = Some r"
    and "k \<notin> rc_TaskName ` set rs \<Longrightarrow> map_of (map (\<lambda>r. (rc_TaskName r, r)) rs) k = None"
proof -
  have dis: "distinct (map fst (map (\<lambda>r. (rc_TaskName r, r)) rs))" using assms by (simp add: comp_def)
  show "r \<in> set rs \<Longrightarrow> map_of (map (\<lambda>r. (rc_TaskName r, r)) rs) (rc_TaskName r) = Some r"
    by (simp add: map_of_eq_Some_iff [OF dis] image_iff)
qed (auto simp: map_of_eq_None_iff)

lemma receipts_fresh:
  assumes "batch_admitted t ports b rows" and "batch_receipts known b rows (normalizeSupervisorStateForMutation f) = Inr (rs, f')"
    and "r \<in> set rs"
  shows "validStopSettlementReceipt r \<and> known < Epoch r \<and> StopSettlementEpoch f < Epoch r"
proof -
  let ?f = "normalizeSupervisorStateForMutation f"
  from batch_receipts_Inr(2) [OF assms(1,2)] assms(3) have "receipt_wf r" and gt: "start_epoch known ?f < Epoch r" by auto
  moreover have "known < Epoch r" "StopSettlementEpoch ?f < Epoch r"
    using start_epoch_ge(1) [of known ?f] start_epoch_ge(2) [of ?f known] gt by (auto intro: le_less_trans)
  ultimately show ?thesis by (simp add: receipt_wf_def)
qed


section \<open>Persistence round trip\<close>

lemma hydrate_persist_entry:
  "hydrate_entry (persist_entry e) = e\<lparr>State := runtimeStateFromSupervisorState
     (supervisorStateFromRuntimeState (State e)), RestartCount := 0, LastError := [], ReadinessObservation := None\<rparr>"
  by (simp add: hydrate_entry_def persist_entry_def zero_entry_def ParseRFC3339Nano_def FormatRFC3339Nano_def)

text \<open>
  C28. What a supervisor restart keeps: reloading a file the tracker just persisted gives back every
  task and only those, each with its process, start time, generation, orphan, job protection and
  spawn hold; the state is \<open>running\<close> exactly if it was, and \<open>idle\<close> otherwise, so backoff and
  quarantine end, and the restart counter, the last error and the readiness observation are dropped.
\<close>

theorem persist_restart_round_trip:
  assumes "tracker_wf t" and "distinct eks" and "set eks = dom (entries t)"
    and "PersistTo mdigest eks sks io path t disk = (None, disk')"
    and "loadDaemonRuntimeTrackerFromStatePath mdigest io disk' = (None, t')"
  shows "entries t' = (\<lambda>k. map_option (\<lambda>e. e\<lparr>State := (if runtimeStateFromSupervisorState (State e) = daemonRuntimeStateRunning
                                    then daemonRuntimeStateRunning else daemonRuntimeStateIdle),
                           RestartCount := 0, LastError := [], ReadinessObservation := None\<rparr>) (entries t k))"
proof -
  let ?rows = "rows_in_order eks (map_option persist_entry \<circ> entries t)"
  from assms(4) obtain f where "persist_mutation mdigest eks sks t
      (normalizeSupervisorStateForMutation (disk_file disk)) = Inr f"
    and d: "disk' = Some (normalizeSupervisorStateForMutation f)"
    by (auto simp: PersistTo_def split: if_splits elim: mutate_cases)
  then have f: "sf_Daemons f = ?rows"
    by (auto simp: persist_mutation_def Let_def advance_metadata_Inr split: if_splits)
  have key: "canonicalSupervisorTaskName (fst kd) = fst kd" if "kd \<in> set ?rows" for kd
  proof -
    have "(map_option persist_entry \<circ> entries t) (fst kd) = Some (snd kd)"
      by (rule rows_in_order_set [of _ _ eks]) (use that in \<open>simp only: prod.collapse\<close>)
    then have "entries t (fst kd) \<noteq> None" by auto
    with assms(1) show ?thesis unfolding tracker_wf_def by blast
  qed
  have rows: "map (\<lambda>(k, d). (canonicalSupervisorTaskName k, hydrate_entry d)) ?rows
      = map (\<lambda>(k, d). (k, hydrate_entry d)) ?rows"
    by (rule map_cong) (use key in auto)
  have "distinct (map fst (map (\<lambda>(k, d). (k, hydrate_entry d)) ?rows))"
    using assms(2) by (simp add: comp_def case_prod_beta rows_in_order_keys [unfolded comp_def])
  then have "map_of (rev (map (\<lambda>(k, d). (k, hydrate_entry d)) ?rows)) = map_option hydrate_entry \<circ> map_of ?rows"
    by (simp add: map_of_rev map_of_map)
  moreover have "map_of ?rows = map_option persist_entry \<circ> entries t"
    using assms(2,3) by (intro rows_in_order_map_of) auto
  moreover have "entries t' = map_of (rev (map (\<lambda>(k, d). (canonicalSupervisorTaskName k, hydrate_entry d)) ?rows))"
  proof -
    have "entries (fold hydrate_receipt rs u) = entries u" for rs u
      by (induction rs arbitrary: u) (simp_all add: hydrate_receipt_def Let_def)
    moreover have "t' = HydrateFromState mdigest (normalizeSupervisorStateForMutation f) NewDaemonRuntimeTracker"
      using assms(5) d by (auto simp: loadDaemonRuntimeTrackerFromStatePath_def split: if_splits)
    ultimately show ?thesis
      using f by (simp add: HydrateFromState_def Let_def hydrate_entries NewDaemonRuntimeTracker_def)
  qed
  ultimately have "entries t' = map_option hydrate_entry \<circ> (map_option persist_entry \<circ> entries t)"
    by (simp only: rows)
  then show ?thesis by (simp add: fun_eq_iff option.map_comp comp_def hydrate_persist_entry)
qed

section \<open>The rollback fence\<close>

text \<open>
  C29. The critical section of a rollback runs only behind an empty receipt map: the file was read,
  has version 1 and no pending receipt, and its settlement fields are all virgin or name a positive
  epoch and generation with the digest of the empty map.
\<close>

theorem fence_admits_only_empty:
  assumes "WithEmptyStopSettlementFence mdigest io disk critical = Inr r"
  shows "r = critical \<and> (\<exists>f. disk = Some f \<and> sf_Version f = 1 \<and> StopSettlements f = []
    \<and> ((StopSettlementEpoch f = 0 \<and> StopSettlementMapGeneration f = 0 \<and> StopSettlementDigest f = [])
       \<or> (0 < StopSettlementEpoch f \<and> 0 < StopSettlementMapGeneration f
          \<and> StopSettlementDigest f = mdigest (StopSettlementEpoch f) (StopSettlementMapGeneration f) Map.empty)))"
  using assms
  by (auto simp: WithEmptyStopSettlementFence_def validateEmptyStopSettlementFence_def Let_def word_gt_0
      split: if_splits option.splits)

text \<open>
  The fence is meant to admit a state before its first stop transaction. But the first ordinary
  persistence of a supervisor that never stopped anything already advances the map generation while
  the epoch is still 0, and the fence refuses every such file.
\<close>

lemma first_persist_closes_fence:
  assumes "stopSettlementEpoch t = 0" and "stopSettlementIntegrityErr t = []"
    and "StopSettlementEpoch (disk_file disk) = 0"
    and "PersistTo mdigest eks sks io path t disk = (None, Some f)"
  shows "validateEmptyStopSettlementFence mdigest f = Some FenceTuple"
proof -
  from assms(4) obtain f0 where p: "persist_mutation mdigest eks sks t
      (normalizeSupervisorStateForMutation (disk_file disk)) = Inr f0"
    and f: "f = normalizeSupervisorStateForMutation f0"
    by (auto simp: PersistTo_def split: if_splits elim: mutate_cases)
  from p assms(1-3) obtain g where "advanceStopSettlementMapMetadata mdigest g = Inr f0"
    and g: "StopSettlementEpoch g = 0"
    by (auto simp: persist_mutation_def Let_def)
  then have "StopSettlementEpoch f = 0 \<and> StopSettlementMapGeneration f \<noteq> 0"
    using succ_nonzero by (auto simp: f advance_metadata_Inr)
  then show ?thesis by (simp add: validateEmptyStopSettlementFence_def Let_def)
qed

section \<open>Witnesses\<close>

definition demo_mdigest :: map_digest where
  "demo_mdigest e g m = replicate 64 (CHR ''0'')"

definition demo_command :: StopBatchCommandV1 where
  "demo_command = \<lparr>cmd_ProtocolVersion = 1, cmd_BatchID = ''b'',
     Targets = [\<lparr>tg_TaskName = [backslash, CHR ''x''], ExpectedPort = 9000\<rparr>]\<rparr>"

definition demo_ports :: "string \<rightharpoonup> int" where
  "demo_ports k = (if k = [backslash, CHR ''x''] then Some 9000 else None)"

definition demo_batch ::
  "(settle_error + StopSettlementReceiptV1 list) \<times> SupervisorStateFile option \<times> DaemonRuntimeTracker" where
  "demo_batch = BeginStopSettlementBatch demo_mdigest io_ok ''p'' demo_command demo_ports
     demo_spawned demo_spawned None"

lemma demo_hex: "hex_digests demo_mdigest"
  by (simp add: hex_digests_def lower_hex_digest_def demo_mdigest_def list_all_iff lower_hex_def)

lemma demo_batch_run: "reachable boot_sys (settle_step demo_mdigest rdigest) (snd (snd demo_batch), fst (snd demo_batch))"
proof -
  have "reachable boot_sys (settle_step demo_mdigest rdigest) (demo_spawned, None)"
    unfolding demo_spawned_def by (rule reach_step, rule reach_init, rule refl, rule sys_mark, rule step_spawned)
  moreover have run: "BeginStopSettlementBatch demo_mdigest io_ok ''p'' demo_command demo_ports
     demo_spawned demo_spawned None = (fst demo_batch, fst (snd demo_batch), snd (snd demo_batch))"
    by (simp add: demo_batch_def [symmetric])
  have "settle_step demo_mdigest rdigest (demo_spawned, None) (snd (snd demo_batch), fst (snd demo_batch))"
    by (rule sys_begin [OF rtranclp.rtrancl_refl _ run]) (simp add: demo_ports_def)
  ultimately show ?thesis by (rule reach_step)
qed

lemma demo_batch_receipt:
  "fst demo_batch = Inr [demo_receipt]"
  "stopSettlements (snd (snd demo_batch)) [backslash, CHR ''x''] = Some demo_receipt"
  "stopSettlementIntegrityErr (snd (snd demo_batch)) = []"
  "fst (snd demo_batch) \<noteq> None"
  "map_of (StopSettlements (disk_file (fst (snd demo_batch)))) [backslash, CHR ''x''] = Some demo_receipt"
  by code_simp+




definition demo_persisted :: "settle_error option \<times> SupervisorStateFile option" where
  "demo_persisted = PersistTo demo_mdigest [[backslash, CHR ''x'']] [] io_ok ''p'' (MarkBackoff ''x'' demo_spawned) None"

theorem persist_restart_round_trip_witness:
  "\<exists>t' e. loadDaemonRuntimeTrackerFromStatePath demo_mdigest io_ok (snd demo_persisted) = (None, t')
      \<and> entries t' [backslash, CHR ''x''] = Some e \<and> State e = daemonRuntimeStateIdle \<and> PIDGeneration e = 1"
proof -
  let ?t = "MarkBackoff ''x'' demo_spawned"
  have wf: "tracker_wf ?t"
    using rt.inv_reachable [OF reach_step [of "\<lambda>t. t = NewDaemonRuntimeTracker" tracker_step,
          OF demo_reached step_backoff]] .
  have dom: "set [[backslash, CHR ''x'']] = dom (entries ?t)"
    by (auto simp: MarkBackoff_def setCurrentPIDLocked_def demo_defs split: if_splits)
  have p: "PersistTo demo_mdigest [[backslash, CHR ''x'']] [] io_ok ''p'' ?t None = (None, snd demo_persisted)"
    unfolding demo_persisted_def by (rule prod_eqI) (code_simp, simp)
  obtain err t' where l: "loadDaemonRuntimeTrackerFromStatePath demo_mdigest io_ok (snd demo_persisted) = (err, t')"
    by fastforce
  then have "err = None" by (auto simp: loadDaemonRuntimeTrackerFromStatePath_def io_ok_def split: option.splits)
  with l have l: "loadDaemonRuntimeTrackerFromStatePath demo_mdigest io_ok (snd demo_persisted) = (None, t')" by simp
  have "entries ?t [backslash, CHR ''x''] = Some (zero_entry\<lparr>State := ''backoff'', PIDGeneration := 1\<rparr>)"
    by (simp add: MarkBackoff_def setCurrentPIDLocked_def demo_defs)
  moreover have "runtimeStateFromSupervisorState ''backoff'' = ''backoff''" by code_simp
  ultimately show ?thesis
    using persist_restart_round_trip [OF wf _ dom p l] l by (simp add: zero_entry_def)
qed

theorem fence_admits_only_empty_witness:
  "WithEmptyStopSettlementFence demo_mdigest io_ok (Some fresh_state_file) True = Inr True
   \<and> StopSettlements fresh_state_file = []"
proof -
  have r: "WithEmptyStopSettlementFence demo_mdigest io_ok (Some fresh_state_file) True = Inr True"
    by (simp add: WithEmptyStopSettlementFence_def validateEmptyStopSettlementFence_def io_ok_def
        fresh_state_file_def)
  from fence_admits_only_empty [OF r] r show ?thesis by blast
qed

end
