(* ===== verification/Controller_Frame.thy ===== *)
theory Controller_Frame
  imports Supervisor_Controller Settlement_Mirror
begin

text \<open>
  What the controller's operations may touch outside their own bookkeeping. An operation posts only
  to the priority channel, only adds to the histories, and numbers every timer it starts; it launches
  and terminates for given tasks only. The rules are in a form that lets a proof peel off the
  operations of a handler one by one.
\<close>

named_theorems acts_intros \<open>an operation acts within its bounds\<close>

section \<open>The relation\<close>

text \<open>
  Timers are numbered by the epoch counter, in the order they are started, and a task's recorded
  generation is that of its last timer.
\<close>

definition timer_key :: "supervisorController \<Rightarrow> nat \<Rightarrow> string" where
  "timer_key c i = canonicalSupervisorTaskName (tm_task (timers c ! i))"

definition timers_numbered :: "supervisorController \<Rightarrow> bool" where
  "timers_numbered c \<longleftrightarrow>
     respawnArmEpoch c = of_nat (length (timers c))
   \<and> (\<forall>i < length (timers c). tm_gen (timers c ! i) = of_nat (Suc i))
   \<and> (\<forall>k g. respawnArmGen c k = Some g \<longrightarrow>
        (\<exists>i < length (timers c). g = of_nat (Suc i) \<and> timer_key c i = k
           \<and> (\<forall>j. i < j \<and> j < length (timers c) \<longrightarrow> timer_key c j \<noteq> k)))"

text \<open>What the controller posts to itself.\<close>

definition self_kinds :: "SMEvent set" where
  "self_kinds = {EvHealthOK, EvChildExit, evForeignTerminationExit, EvTimerDue, EvStart, EvManualRestart}"

definition acts :: "string set \<Rightarrow> string set \<Rightarrow> supervisorController \<Rightarrow> supervisorController \<Rightarrow> bool" where
  "acts L K c c' \<longleftrightarrow>
     ch (eventLoop c') = ch (eventLoop c) \<and> capacity (eventLoop c') = capacity (eventLoop c)
   \<and> (\<exists>ps. selfCh (eventLoop c') = selfCh (eventLoop c) @ ps \<and> Kind ` set ps \<subseteq> self_kinds)
   \<and> (length (selfCh (eventLoop c)) \<le> capacity (eventLoop c)
        \<longrightarrow> length (selfCh (eventLoop c')) \<le> capacity (eventLoop c))
   \<and> (\<exists>ls. launched c' = launched c @ ls \<and> fst ` set ls \<subseteq> L)
   \<and> (\<exists>ks. kills c' = kills c @ ks \<and> set ks \<subseteq> K)
   \<and> (timers_numbered c \<longrightarrow> timers_numbered c')"

abbreviation silent :: "supervisorController \<Rightarrow> supervisorController \<Rightarrow> bool" where
  "silent \<equiv> acts {} {}"

lemma acts_refl [simp, intro]: "acts L K c c"
  by (simp add: acts_def)

lemma acts_trans:
  assumes "acts L K a b" and "acts L K b c"
  shows "acts L K a c"
  using assms unfolding acts_def by (auto simp: image_Un)

lemma acts_mono: "acts L K a b \<Longrightarrow> L \<subseteq> L' \<Longrightarrow> K \<subseteq> K' \<Longrightarrow> acts L' K' a b"
  unfolding acts_def by (meson order_trans)

text \<open>From a rule about one operation to the rule that peels it off.\<close>

lemma acts_after: "silent c c' \<Longrightarrow> acts L K c0 c \<Longrightarrow> acts L K c0 c'"
  by (blast intro: acts_trans acts_mono)

lemma silent_same:
  assumes "eventLoop c' = eventLoop c" "launched c' = launched c" "kills c' = kills c"
    "timers c' = timers c" "respawnArmEpoch c' = respawnArmEpoch c" "respawnArmGen c' = respawnArmGen c"
  shows "silent c c'"
  using assms by (simp add: acts_def timers_numbered_def timer_key_def)

lemma acts_update_iff:
  assumes "eventLoop c' = eventLoop c" "launched c' = launched c" "kills c' = kills c"
    "timers c' = timers c" "respawnArmEpoch c' = respawnArmEpoch c" "respawnArmGen c' = respawnArmGen c"
  shows "acts L K c0 c' = acts L K c0 c"
  using assms by (simp add: acts_def timers_numbered_def timer_key_def)

lemma acts_updates [simp]:
  "acts L K c0 (intentCache_update f1 c) = acts L K c0 c"
  "acts L K c0 (daemonIntent_update f2 c) = acts L K c0 c"
  "acts L K c0 (tracker_update f3 c) = acts L K c0 c"
  "acts L K c0 (disk_update f4 c) = acts L K c0 c"
  "acts L K c0 (writes_update f5 c) = acts L K c0 c"
  "acts L K c0 (smStates_update f6 c) = acts L K c0 c"
  "acts L K c0 (queuedActions_update f7 c) = acts L K c0 c"
  "acts L K c0 (ownSpawned_update f8 c) = acts L K c0 c"
  "acts L K c0 (reaperOutstanding_update f8 c) = acts L K c0 c"
  "acts L K c0 (gateCleared_update f8 c) = acts L K c0 c"
  "acts L K c0 (pendingReap_update f9 c) = acts L K c0 c"
  "acts L K c0 (reapShadow_update f9 c) = acts L K c0 c"
  "acts L K c0 (reapFollowupArmed_update f10 c) = acts L K c0 c"
  "acts L K c0 (reapTimers_update f10 c) = acts L K c0 c"
  "acts L K c0 (reapGeneration_update f10 c) = acts L K c0 c"
  "acts L K c0 (reapDeferredTimerDue_update f8 c) = acts L K c0 c"
  "acts L K c0 (reapDeferredStop_update f8 c) = acts L K c0 c"
  "acts L K c0 (quarantineParole_update f12 c) = acts L K c0 c"
  "acts L K c0 (portGateCh_update f13 c) = acts L K c0 c"
  "acts L K c0 (portGateInFlight_update f8 c) = acts L K c0 c"
  "acts L K c0 (reallocCh_update f14 c) = acts L K c0 c"
  "acts L K c0 (reallocInFlight_update f8 c) = acts L K c0 c"
  "acts L K c0 (reallocDwell_update f15 c) = acts L K c0 c"
  "acts L K c0 (reallocFailCount_update f16 c) = acts L K c0 c"
  "acts L K c0 (bindAccessDeniedTerminalEmitted_update f8 c) = acts L K c0 c"
  "acts L K c0 (stopSettlementRecoveryArmed_update f8 c) = acts L K c0 c"
  "acts L K c0 (squatterLimiter_update f17 c) = acts L K c0 c"
  "acts L K c0 (replies_update f18 c) = acts L K c0 c"
  "acts L K c0 (settling_update f19 c) = acts L K c0 c"
  by (rule acts_update_iff; simp)+

section \<open>The two primitives that are not bookkeeping\<close>

lemma acts_self_post [acts_intros]:
  assumes "acts L K c0 c" and "Kind ev \<in> self_kinds"
  shows "acts L K c0 (snd (self_post ev c))"
proof -
  have "silent c (snd (self_post ev c))"
    using assms(2) by (simp add: self_post_def PostSelf_def acts_def timers_numbered_def timer_key_def)
  with assms(1) show ?thesis by (blast intro: acts_after)
qed

lemma self_kinds [simp]:
  "Kind (plain_event EvHealthOK k) \<in> self_kinds" "Kind (plain_event EvChildExit k) \<in> self_kinds"
  "Kind (plain_event EvTimerDue k) \<in> self_kinds" "Kind (plain_event EvStart k) \<in> self_kinds"
  "Kind (auto_restart k) \<in> self_kinds" "evForeignTerminationExit \<in> self_kinds"
  by (simp_all add: self_kinds_def plain_event_def auto_restart_def)

lemma timers_numbered_arm:
  assumes "timers_numbered c"
  shows "timers_numbered (c\<lparr>respawnArmEpoch := respawnArmEpoch c + 1,
    respawnArmGen := (respawnArmGen c)(canonicalSupervisorTaskName k \<mapsto> respawnArmEpoch c + 1),
    timers := timers c @ [\<lparr>tm_task = k, tm_gen = respawnArmEpoch c + 1, tm_delay = d\<rparr>]\<rparr>)"
    (is "timers_numbered ?c")
proof -
  have key: "timer_key ?c i = (if i = length (timers c) then canonicalSupervisorTaskName k else timer_key c i)"
    if "i \<le> length (timers c)" for i
    using that by (auto simp: timer_key_def nth_append)
  have "\<exists>i < length (timers ?c). g = of_nat (Suc i) \<and> timer_key ?c i = k'
      \<and> (\<forall>j. i < j \<and> j < length (timers ?c) \<longrightarrow> timer_key ?c j \<noteq> k')"
    if g: "respawnArmGen ?c k' = Some g" for k' g
  proof (cases "k' = canonicalSupervisorTaskName k")
    case True
    with g assms show ?thesis
      by (intro exI [of _ "length (timers c)"]) (auto simp: timer_key_def timers_numbered_def add.commute)
  next
    case False
    with g have "respawnArmGen c k' = Some g" by simp
    with assms obtain i where i: "i < length (timers c)" "g = of_nat (Suc i)" "timer_key c i = k'"
      "\<forall>j. i < j \<and> j < length (timers c) \<longrightarrow> timer_key c j \<noteq> k'"
      unfolding timers_numbered_def by blast
    with False show ?thesis by (intro exI [of _ i]) (auto simp: key less_Suc_eq)
  qed
  with assms show ?thesis
    unfolding timers_numbered_def by (auto simp: nth_append less_Suc_eq add.commute)
qed

lemma acts_armRespawnBackoffTimer [acts_intros]:
  assumes "acts L K c0 c"
  shows "acts L K c0 (snd (armRespawnBackoffTimer w k d c))"
proof -
  have "timers_numbered (snd (armRespawnBackoffTimer w k d c))" if "timers_numbered c"
    using timers_numbered_arm [OF that] by (simp add: armRespawnBackoffTimer_def nextRespawnArmGen_def Let_def)
  then have "silent c (snd (armRespawnBackoffTimer w k d c))"
    by (simp add: acts_def) (simp add: armRespawnBackoffTimer_def nextRespawnArmGen_def Let_def)
  with assms show ?thesis by (blast intro: acts_after)
qed

lemma acts_forget_gen [acts_intros]:
  assumes "acts L K c0 c"
  shows "acts L K c0 (c\<lparr>respawnArmGen := (respawnArmGen c)(k := None)\<rparr>)"
  using assms by (simp add: acts_def timers_numbered_def timer_key_def)

section \<open>Small effects\<close>

lemma acts_bookkeeping [simp]:
  "acts L K c0 (store_state k s c) = acts L K c0 c"
  "acts L K c0 (store_queued k q c) = acts L K c0 c"
  "acts L K c0 (on_tracker f c) = acts L K c0 c"
  "acts L K c0 (send_reply n e c) = acts L K c0 c"
  "acts L K c0 (completeIdleRespawnEvent ev e' c) = acts L K c0 c"
  "acts L K c0 (snd (persistDaemonRuntimeTracker w c)) = acts L K c0 c"
  "acts L K c0 (persist_quietly w c) = acts L K c0 c"
  "acts L K c0 (snd (Advance w r ph fc fd c)) = acts L K c0 c"
  "acts L K c0 (recordQuarantineParoleEligible k t c) = acts L K c0 c"
  "acts L K c0 (clearQuarantineParole k c) = acts L K c0 c"
  "acts L K c0 (holdInBackoffNoTimer w k c) = acts L K c0 c"
  "acts L K c0 (intentCache_Refresh fi c) = acts L K c0 c"
  "acts L K c0 (stops_Refresh m c) = acts L K c0 c"
  by (simp_all add: store_state_def store_queued_def on_tracker_def send_reply_def completeIdleRespawnEvent_def
      persistDaemonRuntimeTracker_def persist_quietly_def Advance_def recordQuarantineParoleEligible_def
      clearQuarantineParole_def holdInBackoffNoTimer_def intentCache_Refresh_def stops_Refresh_def Let_def
      split: option.splits ctl_value.splits prod.splits)

lemma acts_Advance: "Advance w r ph fc fd c = (x, c') \<Longrightarrow> acts L K c0 c' = acts L K c0 c"
  using acts_bookkeeping(8) [of L K c0 w r ph fc fd c] by simp

lemma acts_holdSpawnInBackoff [acts_intros]:
  "acts L K c0 c \<Longrightarrow> acts L K c0 (holdSpawnInBackoff w d ev t c)"
  by (auto simp: holdSpawnInBackoff_def Let_def intro!: acts_intros)

section \<open>Launching and terminating\<close>

lemma acts_launch [acts_intros]:
  assumes "acts L K c0 c" and "k \<in> L"
  shows "acts L K c0 (c\<lparr>launched := launched c @ [(k, p)]\<rparr>)"
  using assms by (auto simp: acts_def timers_numbered_def timer_key_def)

lemma acts_kill [acts_intros]:
  assumes "acts L K c0 c" and "k \<in> K"
  shows "acts L K c0 (c\<lparr>kills := kills c @ [k]\<rparr>)"
  using assms by (auto simp: acts_def timers_numbered_def timer_key_def)

lemma acts_spawn [acts_intros]:
  assumes "acts L K c0 c" and "d_TaskName d \<in> L"
  shows "acts L K c0 (snd (spawn w d c))"
  using assms by (auto simp: spawn_def Let_def split_beta split: start_result.splits intro!: acts_launch)

lemma acts_terminate [simp]:
  "acts L K c0 (markTerminationOutcomeExited w e c) = acts L K c0 c"
  "acts L K c0 (snd (terminateProductionWindows w os e c)) = acts L K c0 c"
  "acts L K c0 (snd (terminate_running w os e c)) = acts L K c0 c"
proof -
  show mark: "acts L K c0 (markTerminationOutcomeExited w e c) = acts L K c0 c" for c
    by (simp add: markTerminationOutcomeExited_def Let_def split_beta)
  show win: "acts L K c0 (snd (terminateProductionWindows w os e c)) = acts L K c0 c" for os c
    by (simp add: terminateProductionWindows_def Let_def mark split: option.splits)
  show "acts L K c0 (snd (terminate_running w os e c)) = acts L K c0 c"
    by (simp add: terminate_running_def Let_def mark win split: option.splits pid_state.splits)
qed

lemma acts_terminateOutcome [simp]: "acts L K c0 (snd (terminateOutcome w d e c)) = acts L K c0 c"
  by (simp add: terminateOutcome_def terminate_pid_def Let_def split_beta split: option.splits pid_state.splits)

lemma acts_gates_simp [simp]:
  "acts L K c0 (clearSpawnHold w k c) = acts L K c0 c"
  "acts L K c0 (tryDispatchPortGate req c) = acts L K c0 c"
  by (simp_all add: clearSpawnHold_def tryDispatchPortGate_def Let_def split_beta)

lemma acts_gates [acts_intros]:
  assumes "acts L K c0 c"
  shows "acts L K c0 (snd (hold_for_path w d ev r p c))"
    and "acts L K c0 (snd (preSpawnMissingPathHold w d ev c))"
    and "acts L K c0 (snd (preSpawnPortGateHold w d ev c))"
    and "acts L K c0 (handleBackoffWaiting w d c)"
    and "acts L K c0 (synthesizeForeignChildExit d e c)"
    and "acts L K c0 (snd (after_spawn k d res c))"
proof -
  show hold: "acts L K c0 (snd (hold_for_path w d ev r p c))" for r p
    using assms by (auto simp: hold_for_path_def intro!: acts_intros)
  show "acts L K c0 (snd (preSpawnMissingPathHold w d ev c))"
    using assms hold by (simp add: preSpawnMissingPathHold_def split: spawnPathVerdict.splits)
  show "acts L K c0 (snd (preSpawnPortGateHold w d ev c))"
    using assms by (auto simp: preSpawnPortGateHold_def intro!: acts_intros split: option.splits port_probe.splits)
  show "acts L K c0 (handleBackoffWaiting w d c)"
    using assms by (auto simp: handleBackoffWaiting_def Let_def split_beta intro!: acts_intros)
  show "acts L K c0 (synthesizeForeignChildExit d e c)"
    using assms by (auto simp: synthesizeForeignChildExit_def intro!: acts_intros)
  show "acts L K c0 (snd (after_spawn k d res c))"
    using assms by (auto simp: after_spawn_def intro!: acts_intros split: spawn_result.splits ctl_error.splits)
qed

lemma acts_gated_spawn [acts_intros]:
  assumes "acts L K c0 c" and "d_TaskName d \<in> L"
  shows "acts L K c0 (snd (gated_spawn w d ev c))"
proof (cases "preSpawnMissingPathHold w d ev c")
  case (Pair held' c1)
  then have c1: "acts L K c0 c1" using acts_gates(2) [OF assms(1), of w d ev] by simp
  with Pair assms(2) show ?thesis
    using acts_gates(3) [of L K c0 "c1\<lparr>gateCleared := gateCleared c1 - {TaskName ev}\<rparr>" w d ev]
    by (auto simp: gated_spawn_def Let_def split_beta split: option.splits intro!: acts_intros)
qed

lemma acts_executeSideEffect [acts_intros]:
  assumes "acts L K c0 c"
    and "newState = StSpawning \<Longrightarrow> str_contains sd ''create-process'' \<Longrightarrow> d_TaskName d \<in> L"
    and "newState = StExiting \<Longrightarrow> d_TaskName (descriptorForTerminateSideEffect d ev) \<in> K"
  shows "acts L K c0 (snd (executeSideEffect w sd newState d ev c))"
proof (cases newState)
  case StSpawning
  with assms(1,2) show ?thesis
    by (auto simp: executeSideEffect_def effect_spawning_def split: option.splits intro!: acts_intros)
next
  case StExiting
  with assms(1,3) show ?thesis
    by (auto simp: executeSideEffect_def effect_exiting_def Let_def split_beta intro!: acts_intros)
qed (use assms(1) in \<open>auto simp: executeSideEffect_def intro!: acts_intros\<close>)

lemma acts_receipt_exit [simp]:
  "acts L K c0 (recordExactStopReceiptExit w ev c) = acts L K c0 c"
proof -
  have "acts L K c0 (snd (advanceExactStopReceiptExit w e c)) = acts L K c0 c" for e
  proof (cases "StopSettlementReceipt (CanonicalTaskName e) (tracker c)")
    case (Some r)
    then show ?thesis
      by (auto simp: advanceExactStopReceiptExit_def acts_Advance split: StopSettlementPhase.splits prod.splits sum.splits)
  qed (simp add: advanceExactStopReceiptExit_def)
  then show ?thesis
    by (simp add: recordExactStopReceiptExit_def split: option.splits ctl_value.splits)
qed

section \<open>Reaping, reallocation, stop batches\<close>

lemma acts_fold:
  assumes "\<And>x c. x \<in> set xs \<Longrightarrow> acts L K c0 c \<Longrightarrow> acts L K c0 (f x c)" and "acts L K c0 c"
  shows "acts L K c0 (fold f xs c)"
  using assms by (induction xs arbitrary: c) auto

lemma acts_fold_pair:
  assumes "\<And>x y c. x \<in> set xs \<Longrightarrow> acts L K c0 c \<Longrightarrow> acts L K c0 (snd (f x (y, c)))" and "acts L K c0 (snd yc)"
  shows "acts L K c0 (snd (fold f xs yc))"
  using assms
proof (induction xs arbitrary: yc)
  case (Cons x xs)
  then have "acts L K c0 (snd (f x yc))" by (cases yc) simp
  with Cons show ?case by simp
qed simp

lemma acts_reap_bookkeeping [simp]:
  "acts L K c0 (stopReapTimer k c) = acts L K c0 c"
  "acts L K c0 (disarmReapFollowup k c) = acts L K c0 c"
  "acts L K c0 (bumpReapGeneration k c) = acts L K c0 c"
  "acts L K c0 (armReapFollowup k c) = acts L K c0 c"
  "acts L K c0 (markPendingReap k d c) = acts L K c0 c"
  "acts L K c0 (cancelPendingReap k c) = acts L K c0 c"
  "acts L K c0 (clear_queued_stop k c) = acts L K c0 c"
  "acts L K c0 (apply_queued k sd c) = acts L K c0 c"
  "acts L K c0 (pre_shadow ns k c) = acts L K c0 c"
  by (simp_all add: stopReapTimer_def disarmReapFollowup_def bumpReapGeneration_def armReapFollowup_def
      markPendingReap_def cancelPendingReap_def clear_queued_stop_def apply_queued_def
      pre_shadow_def Let_def split: option.splits)

lemma acts_clearRemovedTaskRuntime [acts_intros, simp]:
  assumes "acts L K c0 c"
  shows "acts L K c0 (clearRemovedTaskRuntime w k c)"
proof -
  have "acts L K c0 x \<Longrightarrow> acts L K c0 (x\<lparr>respawnArmGen := (respawnArmGen x)(k' := None), reapDeferredTimerDue := A x,
      reapDeferredStop := B x, ownSpawned := C x\<rparr>)" for x k' A B C
    using acts_forget_gen [of L K c0 x k'] by simp
  with assms show ?thesis by (simp add: clearRemovedTaskRuntime_def Let_def)
qed

lemma acts_clearReapDeferredStop [simp]:
  "acts L K c0 (clearReapDeferredStopIfPending w k c) = acts L K c0 c"
proof -
  have "acts L K c0 (fold clear_queued_stop ks c) = acts L K c0 c" for ks c
    by (induction ks arbitrary: c) simp_all
  then show ?thesis by (simp add: clearReapDeferredStopIfPending_def Let_def)
qed

lemma acts_reap_small [acts_intros]:
  assumes "acts L K c0 c"
  shows "acts L K c0 (queueRespawnOnReapCancelIfNeeded w k c)"
    and "acts L K c0 (replayDeferredBackoffTimerIfPending k c)"
    and "acts L K c0 (snd (reap_exiting k k' cur err c))"
    and "acts L K c0 (mark_disappeared w ns cap k c)"
    and "acts L K c0 (snd (resolve_pending w ns k (ds, c)))"
proof -
  show q: "acts L K c0 (queueRespawnOnReapCancelIfNeeded w k c)"
    using assms by (auto simp: queueRespawnOnReapCancelIfNeeded_def Let_def intro!: acts_intros)
  have r: "acts L K c0 (replayDeferredBackoffTimerIfPending k c)" if "acts L K c0 c" for c
    using that by (auto simp: replayDeferredBackoffTimerIfPending_def Let_def intro!: acts_intros)
  from r [OF assms] show "acts L K c0 (replayDeferredBackoffTimerIfPending k c)" .
  show "acts L K c0 (snd (reap_exiting k k' cur err c))"
    using assms by (simp add: reap_exiting_def Let_def split: option.splits)
  show "acts L K c0 (mark_disappeared w ns cap k c)"
    using assms by (simp add: mark_disappeared_def split: option.splits)
  show "acts L K c0 (snd (resolve_pending w ns k (ds, c)))"
    using assms r [OF q] by (simp add: resolve_pending_def split: option.splits)
qed

lemma stopped_never_creates:
  assumes "Transition cur EvIntentUpdate ctx = (ns, sd, pb, mt)" and "IntentDesired ctx = ''stopped''"
  shows "\<not> str_contains sd ''create-process''"
  using assms creates_iff [of cur EvIntentUpdate ctx] by (auto simp: creates_def)

lemma acts_stop_effect:
  assumes "acts L K c0 c" and "d_TaskName d \<in> K"
    and "Transition cur EvIntentUpdate ctx = (ns, sd, pb, mt)" and "IntentDesired ctx = ''stopped''"
  shows "acts L K c0 (snd (executeSideEffect w sd ns d (plain_event EvIntentUpdate k) c))"
  using assms(1,2) stopped_never_creates [OF assms(3,4)]
  by (auto intro!: acts_executeSideEffect simp: descriptorForTerminateSideEffect_def plain_event_def)

lemma acts_reapRemovedDaemon:
  assumes "acts L K c0 c" and "d_TaskName d \<in> K"
  shows "acts L K c0 (snd (reapRemovedDaemon w d c))"
proof (cases "getSMStateCanonical c (canonicalSupervisorTaskName (d_TaskName d))")
  case (Some cur)
  obtain ns sd pb mt where tr: "Transition cur EvIntentUpdate
      (reap_context w c (reap_key c (canonicalSupervisorTaskName (d_TaskName d)))) = (ns, sd, pb, mt)"
    by (metis prod_cases4)
  have "acts L K c0 (snd (executeSideEffect w sd ns d (plain_event EvIntentUpdate k) c'))" if "acts L K c0 c'" for c' k
    using acts_stop_effect [OF that assms(2) tr] by (simp add: reap_context_def)
  with assms(1) Some tr show ?thesis
    by (auto simp: reapRemovedDaemon_def Let_def split_beta split: SMState.split intro!: acts_reap_small)
next
  case None
  with assms(1) show ?thesis by (simp add: reapRemovedDaemon_def Let_def)
qed

lemma acts_resolveConfirmedReap:
  assumes "acts L K c0 c" and "d_TaskName d \<in> K"
  shows "acts L K c0 (resolveConfirmedReap w d c)"
  using acts_reapRemovedDaemon [OF assms, of w]
  by (auto simp: resolveConfirmedReap_def Let_def split: prod.split reapOutcome.split)

lemma acts_applyReapSnapshot [acts_intros]:
  assumes "acts L K c0 c"
  shows "acts L K c0 (snd (applyReapSnapshot w prev upd stops c))"
  unfolding applyReapSnapshot_def Let_def split_beta snd_conv
  by (intro acts_fold acts_fold_pair acts_reap_small) (simp_all add: assms acts_fold split: option.split)

lemma acts_handleReapScan:
  assumes "acts L K c0 c" and "\<And>d. d \<in> set (fst (applyReapSnapshot w prev upd stops c)) \<Longrightarrow> d_TaskName d \<in> K"
  shows "acts L K c0 (handleReapScan w prev upd stops c)"
  unfolding handleReapScan_def Let_def split_beta
  by (intro acts_fold acts_resolveConfirmedReap) (use assms in \<open>auto intro: acts_intros\<close>)

lemma acts_handleReapFollowup:
  assumes "acts L UNIV c0 c"
  shows "acts L UNIV c0 (handleReapFollowup w k g c)"
  using assms
  by (auto simp: handleReapFollowup_def confirmReapForTask_def Let_def split_beta split: option.split
      intro!: acts_resolveConfirmedReap acts_applyReapSnapshot)

lemma acts_realloc_simp [simp]:
  "acts L K c0 (startReallocDwell k c) = acts L K c0 c"
  "acts L K c0 (noteReallocDwellLeftRunning k c) = acts L K c0 c"
  "acts L K c0 (tryDispatchRealloc req c) = acts L K c0 c"
  "acts L K c0 (emitBindAccessDeniedTerminalOnce d c) = acts L K c0 c"
  "acts L K c0 (snd (incrReallocFailCount k c)) = acts L K c0 c"
  "acts L K c0 (quarantine_now w k c) = acts L K c0 c"
  "acts L K c0 (escalateReallocFailing w k c) = acts L K c0 c"
  "acts L K c0 (dwell_tick_task w k c) = acts L K c0 c"
  by (simp_all add: startReallocDwell_def noteReallocDwellLeftRunning_def tryDispatchRealloc_def
      emitBindAccessDeniedTerminalOnce_def incrReallocFailCount_def quarantine_now_def escalateReallocFailing_def
      dwell_tick_task_def Let_def split: option.splits)

lemma acts_realloc [acts_intros]:
  assumes "acts L K c0 c"
  shows "acts L K c0 (snd (dispatchDynamicPoolRealloc w d k c))"
    and "acts L K c0 (snd (maybeHandleBindRefusedExit w d ev cur c))"
    and "acts L K c0 (handlePreSpawnRealloc w ev c)"
    and "acts L K c0 (runReallocDwellTick w c)"
proof -
  show disp: "acts L K c0 (snd (dispatchDynamicPoolRealloc w d k c))" for d k
    using assms by (auto simp: dispatchDynamicPoolRealloc_def Let_def intro!: acts_intros)
  show "acts L K c0 (snd (maybeHandleBindRefusedExit w d ev cur c))"
    using assms disp [of d "TaskName ev"] by (auto simp: maybeHandleBindRefusedExit_def split: prod.split bool.split)
  show "acts L K c0 (handlePreSpawnRealloc w ev c)"
    using assms disp by (auto simp: handlePreSpawnRealloc_def Let_def split: option.split)
  show "acts L K c0 (runReallocDwellTick w c)"
    unfolding runReallocDwellTick_def using assms by (intro acts_fold) simp_all
qed

lemma acts_handleReallocApplied:
  assumes "acts L UNIV c0 c"
  shows "acts L UNIV c0 (handleReallocApplied w ev c)"
proof -
  have scan: "acts L UNIV c0 (handleReapScan w p u st' c)" if "acts L UNIV c0 c" for p u st' c
    using that by (intro acts_handleReapScan) simp_all
  then have patch: "acts L UNIV c0 (patchCachedReallocatedPort w k p c)" if "acts L UNIV c0 c" for k p c
    using that by (simp add: patchCachedReallocatedPort_def split: option.split)
  define k where "k = canonicalSupervisorTaskName (TaskName ev)"
  define c1 where "c1 = on_tracker (\<lambda>t. snd (RecordReallocationAndCountInWindow k (now w) failureWindow t)) c"
  define c2 where "c2 = c1\<lparr>reallocFailCount := (reallocFailCount c1)(k := None)\<rparr>"
  have c2: "acts L UNIV c0 c2" using assms by (simp add: c2_def c1_def)
  have "acts L UNIV c0 (case reallocSnapshotOrder (parse_time w) (intentCache c2) carried of
      SnapshotIncomingNewer \<Rightarrow> handleReapScan w (TaskNames c2) carried None c2
    | _ \<Rightarrow> patchCachedReallocatedPort w k p c2)" for carried p
    by (simp add: scan patch c2 split: reallocSnapshotDisposition.split)
  note arm = acts_armRespawnBackoffTimer [OF this]
  show ?thesis
    unfolding handleReallocApplied_def Let_def split_beta k_def [symmetric] c1_def [symmetric] c2_def [symmetric]
    by (simp add: arm acts_armRespawnBackoffTimer assms c2 scan patch
        split: reallocOutcome.split option.split reallocSnapshotDisposition.split)
qed

lemma acts_pair: "acts L K c0 (snd x) \<Longrightarrow> x = (a, c) \<Longrightarrow> acts L K c0 c"
  by simp

lemma acts_stop_simp [simp]:
  "acts L K c0 (armStopSettlementRecovery k c) = acts L K c0 c"
  "acts L K c0 (snd (selectStopBatchIntent w cmd it stops c)) = acts L K c0 c"
  "acts L K c0 (snd (begin_batch w cmd c)) = acts L K c0 c"
  "acts L K c0 (snd (Remove_receipt w r c)) = acts L K c0 c"
  by (simp_all add: armStopSettlementRecovery_def selectStopBatchIntent_def begin_batch_def Remove_receipt_def
      Let_def split_beta split: option.split)

lemma acts_fail_receipt [simp]: "acts L K c0 (snd (fail_receipt w k e c)) = acts L K c0 c"
  by (auto simp: fail_receipt_def acts_Advance split: option.split prod.split sum.split)

lemma acts_resume_receipt [simp]: "acts L K c0 (snd (resume_receipt w k r c)) = acts L K c0 c"
  by (auto simp: resume_receipt_def acts_Advance split: prod.split sum.split)

lemma acts_applyAuthoritativeStopTransition:
  assumes "acts L UNIV c0 c"
  shows "acts L UNIV c0 (snd (applyAuthoritativeStopTransition w k d c))"
proof (cases d)
  case (Some d')
  obtain ns sd pb mt where tr: "Transition (stopBatchSMState c k) EvIntentUpdate (stop_context w c k) = (ns, sd, pb, mt)"
    by (metis prod_cases4)
  have "acts L UNIV c0 (snd (executeSideEffect w sd ns d' (plain_event EvIntentUpdate k) c'))" if "acts L UNIV c0 c'" for c'
    using acts_stop_effect [OF that _ tr] by (simp add: stop_context_def)
  note act = this
  define c1 where "c1 = (if str_contains sd ''queued_action=stop'' then store_queued k ''stop'' c else c)"
  define c2 where "c2 = (if ns = StIdle \<and> stopBatchSMState c k \<noteq> StIdle
    then on_tracker (MarkExited k) (store_state k ns c1) else store_state k ns c1)"
  define pc' where "pc' = (if pb \<and> statePath c2 \<noteq> [] then persistDaemonRuntimeTracker w c2 else (None, c2))"
  have c2: "acts L UNIV c0 c2" using assms by (simp add: c2_def c1_def)
  then have "acts L UNIV c0 (snd pc')" by (simp add: pc'_def)
  with act assms have "acts L UNIV c0 (snd (if \<not> mt then (Some (ErrText ''stop_batch has no state transition''), c)
      else case pc' of (perr, c) \<Rightarrow> (case perr of Some e \<Rightarrow> (Some (ErrSettle e), c)
        | None \<Rightarrow> executeSideEffect w sd ns d' (plain_event EvIntentUpdate k) c)))"
    by (cases pc') (auto split: option.split)
  then show ?thesis
    unfolding applyAuthoritativeStopTransition_def Let_def Some option.case tr prod.case
      c1_def [symmetric] c2_def [symmetric] pc'_def [symmetric] .
qed (use assms in \<open>simp add: applyAuthoritativeStopTransition_def\<close>)

lemma acts_stop_target:
  assumes "acts L UNIV c0 c"
  shows "acts L UNIV c0 (snd (stop_target w it t (errs, c)))"
proof (cases "applyAuthoritativeStopTransition w (tg_TaskName t) (FindSupervisorDaemonByTaskName (Some it) (tg_TaskName t)) c")
  case (Pair e c1)
  then have "acts L UNIV c0 c1" by (rule acts_pair [OF acts_applyAuthoritativeStopTransition [OF assms]])
  with Pair show ?thesis by (simp add: stop_target_def Let_def split_beta split: option.split)
qed

lemma acts_handleStopBatchOnLoop:
  assumes "acts L UNIV c0 c"
  shows "acts L UNIV c0 (handleStopBatchOnLoop w cmd n c)"
proof -
  have sel: "selectStopBatchIntent w cmd it stops c = (e, c1) \<Longrightarrow> acts L UNIV c0 c1" for it stops e c1
    using assms acts_stop_simp(2) [of L UNIV c0 w cmd it stops c] by simp
  have beg: "begin_batch w cmd c1 = (e, c2) \<Longrightarrow> acts L UNIV c0 c1 \<Longrightarrow> acts L UNIV c0 c2" for c1 e c2
    using acts_stop_simp(3) [of L UNIV c0 w cmd c1] by simp
  have run: "acts L UNIV c0 (snd (fold (stop_target w it) ts ([], c2)))" if "acts L UNIV c0 c2" for it ts c2
    by (rule acts_fold_pair) (simp_all add: acts_stop_target that)
  show ?thesis
    using assms sel beg run unfolding handleStopBatchOnLoop_def Let_def split_beta
    by (auto split: option.split sum.split bool.split prod.split)
qed

lemma acts_settlement_recovery:
  assumes "acts L UNIV c0 c"
  shows "acts L UNIV c0 (settlement_recovery w k c)"
proof -
  have ap: "applyAuthoritativeStopTransition w k d c1 = (e, c2) \<Longrightarrow> acts L UNIV c0 c1 \<Longrightarrow> acts L UNIV c0 c2" for d c1 e c2
    using acts_applyAuthoritativeStopTransition [of L c0 c1 w k d] by simp
  have re: "resume_receipt w k r c1 = (x, c2) \<Longrightarrow> acts L UNIV c0 c1 \<Longrightarrow> acts L UNIV c0 c2" for r c1 x c2
    using acts_resume_receipt [of L UNIV c0 w k r c1] by simp
  have "acts L UNIV c0 (snd (recoverStopReceiptOnLoop w k c1))" if "acts L UNIV c0 c1" for c1
    using that ap re unfolding recoverStopReceiptOnLoop_def Let_def
    by (auto split: option.split prod.split)
  from this [of "c\<lparr>stopSettlementRecoveryArmed := stopSettlementRecoveryArmed c - {canonicalSupervisorTaskName k}\<rparr>"] assms
  show ?thesis by (auto simp: settlement_recovery_def split: option.split prod.split)
qed

section \<open>The handler\<close>

lemma acts_parole [acts_intros]:
  assumes "acts L K c0 c"
  shows "acts L K c0 (runQuarantineParoleTick w c)"
proof -
  have [simp]: "acts L K c0 (store_parole k e c) = acts L K c0 c" "acts L K c0 (drop_parole k c) = acts L K c0 c" for k e c
    by (simp_all add: store_parole_def drop_parole_def)
  have post: "self_post (auto_restart k) c1 = (b, c2) \<Longrightarrow> acts L K c0 c1 \<Longrightarrow> acts L K c0 c2" for k c1 b c2
    using acts_self_post [of L K c0 c1 "auto_restart k"] by simp
  have "acts L K c0 (parole_task w k c)" if "acts L K c0 c" for k c
    using that by (auto simp: parole_task_def Let_def split: option.split SMState.split prod.split bool.split dest: post)
  then show ?thesis using assms by (auto simp: runQuarantineParoleTick_def intro!: acts_fold)
qed

lemma acts_let:
  "acts L K c0 a = A \<Longrightarrow> (\<And>x. acts L K c0 x = A \<Longrightarrow> acts L K c0 (g x) = A) \<Longrightarrow> acts L K c0 (let x = a in g x) = A"
  by (simp add: Let_def)

lemma acts_commit_transition [simp]:
  "acts L K c0 (commit_transition w k cur ns sd pb c) = acts L K c0 c"
  unfolding commit_transition_def by (intro acts_let) simp_all

lemma acts_transition_event:
  assumes "acts L UNIV c0 c"
    and "creates cur (Kind ev) (sm_context w (TaskName ev) c) \<Longrightarrow> d_TaskName d \<in> L"
  shows "acts L UNIV c0 (transition_event w d ev cur c)"
proof -
  obtain ns sd pb mt where tr: "Transition cur (Kind ev) (sm_context w (TaskName ev) c) = (ns, sd, pb, mt)"
    by (metis prod_cases4)
  with assms(2) have "acts L UNIV c0 (snd (executeSideEffect w sd ns d ev
      (commit_transition w (TaskName ev) cur ns sd pb c)))"
    using assms(1) by (intro acts_executeSideEffect) (auto simp: creates_def)
  with assms(1) tr show ?thesis by (simp add: transition_event_def Let_def split_beta)
qed

lemma acts_clear_dead_runtime [simp]: "acts L K c0 (snd (clear_dead_runtime w ev cur c)) = acts L K c0 c"
  by (simp add: clear_dead_runtime_def Let_def)

lemma acts_route_event:
  assumes "acts L UNIV c0 c" and "d_TaskName d \<in> L"
  shows "acts L UNIV c0 (route_event w d ev c)"
proof -
  have tr: "acts L UNIV c0 (transition_event w d ev cur c1)" if "acts L UNIV c0 c1" for cur c1
    using that assms(2) by (intro acts_transition_event)
  have mb: "maybeHandleBindRefusedExit w d ev cur c1 = (b, c2) \<Longrightarrow> acts L UNIV c0 c1 \<Longrightarrow> acts L UNIV c0 c2" for cur c1 b c2
    using acts_realloc(2) [of L UNIV c0 c1 w d ev cur] by simp
  have cl: "clear_dead_runtime w ev cur c = (s, c1) \<Longrightarrow> acts L UNIV c0 c1" for cur s c1
    using acts_clear_dead_runtime [of L UNIV c0 w ev cur c] assms(1) by simp
  show ?thesis
    using assms(1) tr mb cl unfolding route_event_def Let_def
    by (auto split: prod.split bool.split)
qed

lemma acts_handle_sm_event:
  assumes "acts L UNIV c0 c" and "canonicalSupervisorTaskName (TaskName ev) \<in> L"
  shows "acts L UNIV c0 (handle_sm_event w ev c)"
  using assms by (auto simp: handle_sm_event_def forget_clearance_def Let_def split: option.split intro!: acts_route_event)

text \<open>Whatever the event, the handler launches children of the event's own task only.\<close>

lemma acts_handleLoopEvent: "acts {canonicalSupervisorTaskName (TaskName ev)} UNIV c (handleLoopEvent w ev c)"
proof -
  have ack: "acts L K c0 (acknowledge ev k c) = acts L K c0 c" for L K c0 k c
    by (simp add: acknowledge_def split: option.split ctl_value.split)
  have batch: "acts L UNIV c (case b of Some (BStopBatch cmd n) \<Rightarrow> handleStopBatchOnLoop w cmd n c | _ \<Rightarrow> c)" for L b
    by (simp add: acts_handleStopBatchOnLoop split: option.split ctl_value.split)
  have scan: "acts L UNIV c (handleReapScan w p u st' c)" for L p u st'
    by (rule acts_handleReapScan) simp_all
  show ?thesis
    unfolding handleLoopEvent_def
    by (simp add: ack batch scan acts_handle_sm_event acts_handleReapFollowup acts_settlement_recovery
        acts_handleReallocApplied acts_realloc acts_parole del: option.case_eq_if)
qed

end
