(* ===== verification/Controller_Safety.thy ===== *)
theory Controller_Safety
  imports Controller_Frame
begin

text \<open>
  Properties of the supervisor controller as a whole: the order in which its loop delivers events,
  and which of the timers it started may still fire.
\<close>

section \<open>The controller as the handler of its loop\<close>

lemma loop_handler_of_acts:
  assumes "loop_handler_of e (l, s) = Inr (l', s')"
  shows "\<exists>w c c'. acts {canonicalSupervisorTaskName (TaskName e)} UNIV (c\<lparr>eventLoop := l\<rparr>) c' \<and> l' = eventLoop c'"
proof -
  obtain ws c where s: "s = (ws, c)" by (cases s)
  with assms have "l' = eventLoop (handleLoopEvent (shd ws) e (c\<lparr>eventLoop := l\<rparr>))"
    by (simp add: loop_handler_of_def Let_def)
  with acts_handleLoopEvent [of e "c\<lparr>eventLoop := l\<rparr>" "shd ws"] show ?thesis by blast
qed

interpretation ctl: loop_handler loop_handler_of
  by unfold_locales (auto dest!: loop_handler_of_acts simp: acts_def)

interpretation sup: supervised_loop loop_handler_of onPanic cap for onPanic cap
  by unfold_locales

text \<open>
  C30. Whatever the controller does in its handler, its event loop keeps both channels within their
  capacity, delivers external events in the order they were accepted, none lost and none twice, and
  takes an external event only when every event the controller posted to itself has been handled.
\<close>

theorem controller_event_order:
  assumes "reachable (\<lambda>r. \<exists>s. r = init_run cap s) (run_step onPanic (Some [loop_handler_of])) r"
  shows "posted r = map snd (filter (\<lambda>x. fst x = FromMain) (trace r)) @ ch (loop r)
    \<and> length (ch (loop r)) \<le> capacity (loop r) \<and> length (selfCh (loop r)) \<le> capacity (loop r)
    \<and> (pc r = Selecting \<longrightarrow> self_posted r = map snd (filter (\<lambda>x. fst x = FromSelf) (trace r)))"
  using sup.external_fifo [OF assms] sup.channels_bounded [OF assms] sup.self_before_main [OF assms] by blast

section \<open>Steps of the controller\<close>

text \<open>
  Everything that changes the controller: an event handled with the loop as the producers have left
  it, a request of either worker, the exit of a child, the settling of stop targets, and the seeding
  of states. \<open>NormalizeOverlayKey\<close> has canonicalised the name before a state is seeded.
\<close>

inductive ctl_step :: "supervisorController \<Rightarrow> supervisorController \<Rightarrow> bool" where
  ctl_event: "ctl_step c (handleLoopEvent w ev (c\<lparr>eventLoop := l\<rparr>))"
| ctl_port_gate: "ctl_step c (snd (handlePortGateReq w preq c))"
| ctl_realloc: "ctl_step c (snd (handleReallocReq w rreq c))"
| ctl_exit: "ctl_step c (snd (publish_exit w task pid gen t code waitErr c))"
| ctl_settle: "ctl_step c (snd (finalizeStoppedSettlementReceipt w target res c))"
| ctl_seed: "ctl_step c (snd (hydrateSMStateFromTrackerIfMissing (canonicalSupervisorTaskName task) c))"
| ctl_running: "ctl_step c (hydrateControllerRunningStates running c)"

definition fresh_controller :: "supervisorController \<Rightarrow> bool" where
  "fresh_controller c \<longleftrightarrow>
     timers c = [] \<and> respawnArmEpoch c = 0 \<and> respawnArmGen c = Map.empty \<and> smStates c = Map.empty
   \<and> queuedActions c = Map.empty \<and> pendingReap c = Map.empty \<and> reapShadow c = Map.empty
   \<and> quarantineParole c = Map.empty"

lemma acts_off_loop [simp]:
  "acts L K c0 (snd (handlePortGateReq w preq c)) = acts L K c0 c"
  "acts L K c0 (snd (handleReallocReq w rreq c)) = acts L K c0 c"
  "acts L K c0 (snd (publish_exit w task pid gen t code waitErr c)) = acts L K c0 c"
  "acts L K c0 (snd (hydrateSMStateFromTrackerIfMissing task c)) = acts L K c0 c"
  by (simp_all add: handlePortGateReq_def handleReallocReq_def publish_exit_def hydrateSMStateFromTrackerIfMissing_def
      Let_def split_beta split: option.split squatterAutoOutcome.split)

lemma acts_running [simp]: "acts L K c0 (hydrateControllerRunningStates running c) = acts L K c0 c"
proof -
  have "acts L K c0 (fold (\<lambda>(task, r) c. if r then store_state (canonicalSupervisorTaskName task) StRunning c else c) xs c)
    = acts L K c0 c" for xs
  proof (induction xs arbitrary: c)
    case (Cons x xs)
    show ?case by (cases x, simp only: fold_simps comp_apply prod.case Cons.IH acts_bookkeeping if_cancel split: if_split, blast?)
  qed simp
  then show ?thesis by (simp only: hydrateControllerRunningStates_def)
qed

lemma acts_commit_receipt [simp]: "acts L K c0 (snd (commit_receipt w t r m rc c)) = acts L K c0 c"
  by (simp add: commit_receipt_def split_beta split: option.split)

lemma acts_finalize [simp]:
  "acts L K c0 (snd (finalizeStoppedSettlementReceipt w target res c)) = acts L K c0 c"
proof -
  have adv: "acts L K c0 (snd (Advance w r ph fc fd c)) = acts L K c0 c" for r ph fc fd
    by (rule acts_bookkeeping(8))
  show ?thesis unfolding finalizeStoppedSettlementReceipt_def split_beta
    by (cases "TrimSpace (statePath c) = []"; cases "StopSettlementReceipt (canonicalSupervisorTaskName (tg_TaskName target)) (tracker c)")
      (simp_all add: adv split: option.split sum.split)
qed

interpretation timing: invariant_system fresh_controller ctl_step timers_numbered
proof
  show "timers_numbered c" if "fresh_controller c" for c
    using that by (simp add: fresh_controller_def timers_numbered_def)
  show "timers_numbered c'" if "timers_numbered c" and "ctl_step c c'" for c c'
    using that(2)
  proof cases
    case (ctl_event w ev l)
    have "timers_numbered (c\<lparr>eventLoop := l\<rparr>)" using that(1) by (simp add: timers_numbered_def timer_key_def)
    with acts_handleLoopEvent [of ev "c\<lparr>eventLoop := l\<rparr>" w] ctl_event show ?thesis by (simp add: acts_def)
  next
    case (ctl_port_gate w preq)
    then have "silent c c'" by simp
    with that(1) show ?thesis by (simp add: acts_def)
  next
    case (ctl_realloc w rreq)
    then have "silent c c'" by simp
    with that(1) show ?thesis by (simp add: acts_def)
  next
    case (ctl_exit w task pid gen t code waitErr)
    then have "silent c c'" by simp
    with that(1) show ?thesis by (simp add: acts_def)
  next
    case (ctl_settle w target res)
    then have "silent c c'" by simp
    with that(1) show ?thesis by (simp add: acts_def)
  next
    case (ctl_seed task)
    then have "silent c c'" by simp
    with that(1) show ?thesis by (simp add: acts_def)
  next
    case (ctl_running running)
    then have "silent c c'" by simp
    with that(1) show ?thesis by (simp add: acts_def)
  qed
qed

lemma gen_inj: "i < 2 ^ 64 \<Longrightarrow> j < 2 ^ 64 \<Longrightarrow> (of_nat i :: 64 word) = of_nat j \<longleftrightarrow> i = j"
  by (simp add: word_of_nat_eq_iff take_bit_nat_eq_self)

text \<open>
  C35. At most one respawn timer per task is alive: once a later timer has been started for a task, or
  the task has been removed and registered again with a new one, an earlier timer of it never posts
  its event. (The timers are numbered by a 64-bit counter, which does not wrap in fewer than \<open>2^64 - 1\<close> arms.)
\<close>

theorem only_last_timer_fires:
  assumes "reachable fresh_controller ctl_step c" and "length (timers c) < 2 ^ 64 - 1"
    and "i < j" and "j < length (timers c)"
    and "canonicalSupervisorTaskName (tm_task (timers c ! i)) = canonicalSupervisorTaskName (tm_task (timers c ! j))"
  shows "timer_fires (timers c ! i) c = None"
proof -
  have inv: "timers_numbered c" by (rule timing.inv_reachable [OF assms(1)])
  have gen: "tm_gen (timers c ! i) = of_nat (Suc i)" using inv assms(3,4) by (simp add: timers_numbered_def)
  have "respawnArmGen c (timer_key c i) \<noteq> Some (tm_gen (timers c ! i))"
  proof
    assume "respawnArmGen c (timer_key c i) = Some (tm_gen (timers c ! i))"
    with inv gen obtain m where m: "m < length (timers c)" "(of_nat (Suc i) :: 64 word) = of_nat (Suc m)"
      "\<forall>n. m < n \<and> n < length (timers c) \<longrightarrow> timer_key c n \<noteq> timer_key c i"
      unfolding timers_numbered_def by metis
    have "Suc i = Suc m" using m(1,2) assms(2,3,4) gen_inj [of "Suc i" "Suc m"] by simp
    with m(3) assms(3-5) show False by (auto simp: timer_key_def)
  qed
  then show ?thesis by (simp add: timer_fires_def timer_key_def)
qed

section \<open>Witnesses\<close>

text \<open>One daemon, without a state file, in a world where every start succeeds with pid 42.\<close>

definition demo_task :: string where "demo_task = [backslash, CHR ''x'']"

definition demo_daemon :: SupervisorDaemon where
  "demo_daemon = demo_proxy\<lparr>d_TaskName := demo_task, Args := [''daemon''], Server := ''s'', Port := 9000\<rparr>"

definition demo_world :: world where
  "demo_world = \<lparr>now = 1000, graceful = False, io = (\<lambda>_. io_ok), entry_order = (\<lambda>_. []), receipt_order = (\<lambda>_. []),
     mdigest = (\<lambda>_ _ _. []), rdigest = (\<lambda>_. []), jitter = 0, stat = (\<lambda>_. StatOK), is_abs = (\<lambda>_. True),
     volume = (\<lambda>_. []), windows = True, strict_job = False, port_owner = (\<lambda>_. PortFree), resolve = (\<lambda>_ _. None),
     spawning = (\<lambda>_. \<lparr>creator_busy = False, job_failed = False, job_status = Some True, start_child = Started 42 1000\<rparr>),
     killing = (\<lambda>_. \<lparr>k_query = Some PIDAlive, k_verify = None, k_signal = None, k_finish = None, k_requery = Some PIDDead,
        k_hold = None, k_held_verify = None, k_committed = True, k_wait = None\<rparr>),
     disk_intent = None, parse_time = (\<lambda>_. None), realloc_port = (\<lambda>_. (0, Some ErrPortPoolExhausted)),
     squatter = demo_os, self_pid = 7, range_order = []\<rparr>"

definition demo_controller :: supervisorController where
  "demo_controller = \<lparr>eventLoop = NewEventLoop 1024, intentCache = Some (zero_file\<lparr>Daemons := [demo_daemon]\<rparr>),
     daemonIntent = [], tracker = NewDaemonRuntimeTracker, statePath = [], disk = None, writes = 0,
     runningPIDs = Map.empty, smStates = Map.empty, queuedActions = Map.empty, ownSpawned = {}, reaperOutstanding = {},
     gateCleared = {}, pendingReap = Map.empty, reapShadow = Map.empty, reapFollowupArmed = Map.empty,
     reapTimers = Map.empty, reapGeneration = Map.empty, reapDeferredTimerDue = {}, reapDeferredStop = {},
     respawnArmEpoch = 0, respawnArmGen = Map.empty, quarantineParole = Map.empty, portGateCh = [],
     portGateInFlight = {}, reallocCh = [], reallocInFlight = {}, reallocDwell = Map.empty,
     reallocFailCount = Map.empty, bindAccessDeniedTerminalEmitted = {}, stopSettlementRecoveryArmed = {},
     squatterLimiter = newSquatterReapLimiter, launched = [], kills = [], timers = [], replies = [], settling = []\<rparr>"

lemma demo_fresh: "fresh_controller demo_controller"
  by (simp add: fresh_controller_def demo_controller_def)

lemma demo_canonical [simp]:
  "canonicalSupervisorTaskName demo_task = demo_task" "demo_task \<noteq> []" "d_TaskName demo_daemon = demo_task"
  "demo_daemon\<lparr>d_TaskName := demo_task\<rparr> = demo_daemon"
  by (simp_all add: canonicalSupervisorTaskName_def demo_task_def has_prefix_def demo_daemon_def)

text \<open>The daemon is registered, wanted, and nothing is written.\<close>

definition demo_env :: "supervisorController \<Rightarrow> bool" where
  "demo_env c \<longleftrightarrow> intentCache c = intentCache demo_controller \<and> daemonIntent c = [] \<and> statePath c = []"

lemma demo_lookup: "demo_env c \<Longrightarrow> lookupDescriptorWithShadow c demo_task = Some demo_daemon"
  by (simp add: demo_env_def lookupDescriptorWithShadow_def LookupCanonical_def daemonByTask_def demo_controller_def zero_file_def)

lemma demo_persist [simp]: "demo_env c \<Longrightarrow> persist_quietly w c = c"
  by (simp add: demo_env_def persist_quietly_def persistDaemonRuntimeTracker_def)

lemma demo_crash_routed:
  assumes "demo_env c" and "smStates c demo_task = Some StRunning"
  shows "handleLoopEvent demo_world (plain_event EvChildExit demo_task) c
    = transition_event demo_world demo_daemon (plain_event EvChildExit demo_task) StRunning
        (c\<lparr>reaperOutstanding := reaperOutstanding c - {demo_task}\<rparr>)"
proof -
  have "lookupDescriptorWithShadow (c\<lparr>reaperOutstanding := reaperOutstanding c - {demo_task}\<rparr>) demo_task = Some demo_daemon"
    using assms(1) by (intro demo_lookup) (simp add: demo_env_def)
  then show ?thesis using assms(2)
    by (simp add: handleLoopEvent_def handle_sm_event_def restart_refused_def stale_exit_def body_int_def Let_def
      plain_event_def route_event_def supervisorEventIsCleanExit_def body_bool_def clear_dead_runtime_def
      supervisorLivenessRestartClearedRuntime_def maybeHandleBindRefusedExit_def supervisorEventIsBindRefusedExit_def)
qed

lemma demo_crash_transition:
  "transition_event w d (plain_event EvChildExit task) StRunning c
     = handleBackoffWaiting w d (commit_transition w task StRunning StBackoffWaiting ''arm timer'' True c)"
  by (simp add: transition_event_def Transition_def executeSideEffect_def plain_event_def completeIdleRespawnEvent_def)

lemma arm_timer_literal [literal_simps]:
  "\<not> str_contains ''arm timer'' ''reset failures''" "\<not> str_contains ''arm timer'' ''set queued_action=stop''"
  "\<not> str_contains ''arm timer'' ''queued_action=respawn''" "\<not> str_contains ''arm timer'' ''queued_action=none''"
  "\<not> str_contains ''arm timer'' ''clear queued_action''"
  by code_simp+

lemma demo_commit:
  assumes "demo_env c" and "c' = commit_transition w task StRunning StBackoffWaiting ''arm timer'' True c"
  shows "demo_env c' \<and> timers c' = timers c \<and> tracker c' = tracker c"
  using assms by (simp add: demo_env_def commit_transition_def persist_quietly_def persistDaemonRuntimeTracker_def
    apply_queued_def store_state_def noteReallocDwellLeftRunning_def arm_timer_literal Let_def split: option.split)

lemma MarkBackoff_failures: "failures (MarkBackoff k t) = failures t"
  by (simp add: MarkBackoff_def put_entry_def drop_lazy_def setCurrentPIDLocked_def Let_def split_beta)

lemma demo_backoff:
  assumes "demo_env c" and "fst (RecordCrashAndCountInWindow demo_task 1000 failureWindow (tracker c)) < quarantineThreshold"
    and "c' = handleBackoffWaiting demo_world demo_daemon c"
  shows "demo_env c' \<and> map tm_task (timers c') = map tm_task (timers c) @ [demo_task]
    \<and> failures (tracker c') = failures (snd (RecordCrashAndCountInWindow demo_task 1000 failureWindow (tracker c)))"
  using assms by (simp add: demo_env_def handleBackoffWaiting_def persist_quietly_def persistDaemonRuntimeTracker_def
    demo_world_def on_tracker_def armRespawnBackoffTimer_def nextRespawnArmGen_def Let_def split_beta MarkBackoff_failures)

lemma demo_crash:
  assumes "demo_env c" and "smStates c demo_task = Some StRunning"
    and "fst (RecordCrashAndCountInWindow demo_task 1000 failureWindow (tracker c)) < quarantineThreshold"
    and "c' = handleLoopEvent demo_world (plain_event EvChildExit demo_task) c"
  shows "demo_env c' \<and> map tm_task (timers c') = map tm_task (timers c) @ [demo_task]
    \<and> failures (tracker c') = failures (snd (RecordCrashAndCountInWindow demo_task 1000 failureWindow (tracker c)))"
proof -
  let ?c0 = "c\<lparr>reaperOutstanding := reaperOutstanding c - {demo_task}\<rparr>"
  let ?c1 = "commit_transition demo_world demo_task StRunning StBackoffWaiting ''arm timer'' True ?c0"
  have "demo_env ?c0" using assms(1) by (simp add: demo_env_def)
  then have "demo_env ?c1 \<and> timers ?c1 = timers ?c0 \<and> tracker ?c1 = tracker ?c0" by (rule demo_commit) simp
  moreover have "c' = handleBackoffWaiting demo_world demo_daemon ?c1"
    using assms by (simp add: demo_crash_routed demo_crash_transition)
  ultimately show ?thesis using demo_backoff [of ?c1 c'] assms(3) by simp
qed

definition demo_run :: "ctl_event \<Rightarrow> (ctl_value, world stream \<times> supervisorController) run" where
  "demo_run e = (init_run 1024 (sconst demo_world, demo_controller))
     \<lparr>loop := (NewEventLoop 1024)\<lparr>ch := [e]\<rparr>, posted := [e], pc := Selecting\<rparr>"

lemma demo_run_reachable:
  "reachable (\<lambda>r. \<exists>s. r = init_run 1024 s) (run_step False (Some [loop_handler_of])) (demo_run e)"
proof -
  let ?r0 = "init_run 1024 (sconst demo_world, demo_controller)"
  let ?r1 = "?r0\<lparr>loop := (NewEventLoop 1024)\<lparr>ch := [e]\<rparr>, posted := [e]\<rparr>"
  have "reachable (\<lambda>r. \<exists>s. r = init_run 1024 s) (run_step False (Some [loop_handler_of])) ?r0"
    by (rule reach_init) blast
  moreover have "run_step False (Some [loop_handler_of]) ?r0 (?r0\<lparr>loop := (NewEventLoop 1024)\<lparr>ch := [e]\<rparr>, posted := posted ?r0 @ [e]\<rparr>)"
    by (rule env_post) (simp add: Post_def init_run_def NewEventLoop_def)
  ultimately have "reachable (\<lambda>r. \<exists>s. r = init_run 1024 s) (run_step False (Some [loop_handler_of])) ?r1"
    by (auto intro: reach_step simp: init_run_def)
  moreover have "run_step False (Some [loop_handler_of]) ?r1 (?r1\<lparr>pc := Selecting\<rparr>)"
    by (rule drain_done) (simp_all add: init_run_def NewEventLoop_def)
  ultimately show ?thesis unfolding demo_run_def by (rule reach_step)
qed

theorem controller_event_order_witness:
  "let r = demo_run (plain_event evControllerBarrier demo_task)
   in posted r = [plain_event evControllerBarrier demo_task] \<and> pc r = Selecting \<and> trace r = []
    \<and> posted r = map snd (filter (\<lambda>x. fst x = FromMain) (trace r)) @ ch (loop r)
    \<and> self_posted r = []"
  using controller_event_order [OF demo_run_reachable [of "plain_event evControllerBarrier demo_task"]]
  by (simp add: demo_run_def init_run_def)

definition demo_crashed :: supervisorController where
  "demo_crashed = handleLoopEvent demo_world (plain_event EvChildExit demo_task)
     (hydrateControllerRunningStates [(demo_task, True)] demo_controller)"

definition demo_crashed_again :: supervisorController where
  "demo_crashed_again = handleLoopEvent demo_world (plain_event EvChildExit demo_task)
     (hydrateControllerRunningStates [(demo_task, True)] demo_crashed)"

lemma demo_running:
  "smStates (hydrateControllerRunningStates [(demo_task, True)] c) demo_task = Some StRunning"
  "demo_env (hydrateControllerRunningStates [(demo_task, True)] c) = demo_env c"
  "timers (hydrateControllerRunningStates [(demo_task, True)] c) = timers c"
  "tracker (hydrateControllerRunningStates [(demo_task, True)] c) = tracker c"
  by (simp_all add: hydrateControllerRunningStates_def store_state_def demo_env_def)

lemma demo_crash_counts:
  assumes "failures t = Map.empty \<or> failures t = [demo_task \<mapsto> [1000]]"
  shows "fst (RecordCrashAndCountInWindow demo_task 1000 failureWindow t) < quarantineThreshold"
    and "failures t = Map.empty \<Longrightarrow> failures (snd (RecordCrashAndCountInWindow demo_task 1000 failureWindow t)) = [demo_task \<mapsto> [1000]]"
  using assms by (auto simp: RecordCrashAndCountInWindow_def times_of_def quarantineThreshold_def
    respawnQuarantineThreshold_def Let_def)

lemma demo_crashes:
  "demo_env demo_crashed \<and> map tm_task (timers demo_crashed) = [demo_task] \<and> failures (tracker demo_crashed) = [demo_task \<mapsto> [1000]]"
  "map tm_task (timers demo_crashed_again) = [demo_task, demo_task]"
proof -
  have base: "demo_env demo_controller" "timers demo_controller = []" "failures (tracker demo_controller) = Map.empty"
    by (simp_all add: demo_env_def demo_controller_def NewDaemonRuntimeTracker_def)
  let ?up = "hydrateControllerRunningStates [(demo_task, True)]"
  have t1: "failures (tracker (?up demo_controller)) = Map.empty" "timers (?up demo_controller) = []"
    by (simp_all only: demo_running base)
  from demo_crash [OF _ demo_running(1) demo_crash_counts(1) demo_crashed_def, unfolded demo_crash_counts(2) [OF disjI1 t1(1), OF t1(1)] t1(2)]
  show one: "demo_env demo_crashed \<and> map tm_task (timers demo_crashed) = [demo_task]
      \<and> failures (tracker demo_crashed) = [demo_task \<mapsto> [1000]]"
    using base(1) t1 by (simp only: demo_running list.map append.simps simp_thms)
  have t2: "failures (tracker (?up demo_crashed)) = [demo_task \<mapsto> [1000]]" "map tm_task (timers (?up demo_crashed)) = [demo_task]"
    using one by (simp_all only: demo_running)
  from demo_crash [OF _ demo_running(1) demo_crash_counts(1) demo_crashed_again_def, unfolded t2(2)]
  show "map tm_task (timers demo_crashed_again) = [demo_task, demo_task]"
    using one t2(1) by (simp only: demo_running append.simps simp_thms)
qed

lemma demo_crash_reachable:
  assumes "reachable fresh_controller ctl_step c"
  shows "reachable fresh_controller ctl_step (handleLoopEvent demo_world (plain_event EvChildExit demo_task)
    (hydrateControllerRunningStates [(demo_task, True)] c))"
proof -
  have ev: "ctl_step x (handleLoopEvent demo_world e x)" for x e
    using ctl_event [of x demo_world e "eventLoop x"] by simp
  show ?thesis by (rule reach_step [OF reach_step [OF assms ctl_running] ev])
qed

lemma demo_crashed_again_reachable: "reachable fresh_controller ctl_step demo_crashed_again"
  unfolding demo_crashed_again_def demo_crashed_def
  by (rule demo_crash_reachable, rule demo_crash_reachable, rule reach_init, rule demo_fresh)

theorem only_last_timer_fires_witness:
  "length (timers demo_crashed_again) = 2 \<and> timer_fires (timers demo_crashed_again ! 0) demo_crashed_again = None"
proof -
  have "length (map tm_task (timers demo_crashed_again)) = 2" by (simp add: demo_crashes(2))
  then have len: "length (timers demo_crashed_again) = 2" by simp
  have "map tm_task (timers demo_crashed_again) ! i = demo_task" if "i < 2" for i
    using that by (auto simp: demo_crashes(2) less_2_cases_iff)
  then have tasks: "tm_task (timers demo_crashed_again ! i) = demo_task" if "i < 2" for i
    using that len by (metis nth_map)
  show ?thesis
    using only_last_timer_fires [OF demo_crashed_again_reachable, of 0 1] len by (simp add: tasks)
qed

end
