(* ===== verification/Controller_Launch.thy ===== *)
theory Controller_Launch
  imports Controller_Safety
begin

text \<open>
  What a launch implies. Every process the controller starts comes out of one event of the task
  itself, and everything that could have held it back is shown to have been clear.
\<close>

section \<open>What happens before a side effect\<close>

lemma acts_no_launch: "acts {} K c c' \<Longrightarrow> launched c' = launched c"
  by (auto simp: acts_def)

text \<open>
  On the way from the event to the side effect no settlement fence is lifted and the gate flags, the
  stop records and, unless \<open>b\<close> is false, the queued actions stay as they are.
\<close>

definition prepares :: "bool \<Rightarrow> supervisorController \<Rightarrow> supervisorController \<Rightarrow> bool" where
  "prepares b c c' \<longleftrightarrow>
     daemonIntent c' = daemonIntent c \<and> (b \<longrightarrow> queuedActions c' = queuedActions c) \<and> gateCleared c' = gateCleared c
   \<and> launched c' = launched c
   \<and> (\<forall>k. stopSettlements (tracker c') k = None \<longrightarrow> stopSettlements (tracker c) k = None)
   \<and> (stopSettlementIntegrityErr (tracker c') = [] \<longrightarrow> stopSettlementIntegrityErr (tracker c) = [])"

lemma prepares_refl [simp]: "prepares b c c"
  by (simp add: prepares_def)

lemma prepares_trans: "prepares b x y \<Longrightarrow> prepares b y z \<Longrightarrow> prepares b x z"
  by (auto simp: prepares_def)

lemma prepares_iff:
  assumes "daemonIntent c' = daemonIntent c" "queuedActions c' = queuedActions c" "gateCleared c' = gateCleared c"
    "launched c' = launched c" "stopSettlements (tracker c') = stopSettlements (tracker c)"
    "stopSettlementIntegrityErr (tracker c') = stopSettlementIntegrityErr (tracker c)"
  shows "prepares b c0 c' = prepares b c0 c"
  using assms by (simp add: prepares_def)

lemma prepares_updates [simp]:
  "prepares b c0 (disk_update f4 c) = prepares b c0 c"
  "prepares b c0 (writes_update f5 c) = prepares b c0 c"
  "prepares b c0 (smStates_update f6 c) = prepares b c0 c"
  "prepares b c0 (reaperOutstanding_update f8 c) = prepares b c0 c"
  "prepares b c0 (respawnArmEpoch_update f20 c) = prepares b c0 c"
  "prepares b c0 (respawnArmGen_update f11 c) = prepares b c0 c"
  "prepares b c0 (reallocCh_update f14 c) = prepares b c0 c"
  "prepares b c0 (reallocInFlight_update f8 c) = prepares b c0 c"
  "prepares b c0 (reallocDwell_update f15 c) = prepares b c0 c"
  "prepares b c0 (bindAccessDeniedTerminalEmitted_update f8 c) = prepares b c0 c"
  "prepares b c0 (timers_update f23 c) = prepares b c0 c"
  "prepares b c0 (replies_update f18 c) = prepares b c0 c"
  "prepares b c0 (eventLoop_update f24 c) = prepares b c0 c"
  by (rule prepares_iff; simp)+

lemma mark_settlement [simp]:
  "stopSettlements (MarkExited k t) = stopSettlements t"
  "stopSettlementIntegrityErr (MarkExited k t) = stopSettlementIntegrityErr t"
  "stopSettlements (MarkBackoff k t) = stopSettlements t"
  "stopSettlementIntegrityErr (MarkBackoff k t) = stopSettlementIntegrityErr t"
  "stopSettlements (ClearCrashes k t) = stopSettlements t"
  "stopSettlementIntegrityErr (ClearCrashes k t) = stopSettlementIntegrityErr t"
  "stopSettlements (ClearReallocations k t) = stopSettlements t"
  "stopSettlementIntegrityErr (ClearReallocations k t) = stopSettlementIntegrityErr t"
  using tracker_step_settlement [OF step_exited, of k t] tracker_step_settlement [OF step_backoff, of k t]
  by (simp_all add: ClearCrashes_def ClearReallocations_def)

lemma prepares_tracker:
  assumes "stopSettlements (f (tracker c)) = stopSettlements (tracker c)"
    "stopSettlementIntegrityErr (f (tracker c)) = stopSettlementIntegrityErr (tracker c)"
  shows "prepares b c0 (on_tracker f c) = prepares b c0 c"
  using assms by (intro prepares_iff) (simp_all add: on_tracker_def)

lemma prepares_bookkeeping [simp]:
  "prepares b c0 (store_state k s c) = prepares b c0 c"
  "prepares b c0 (snd (persistDaemonRuntimeTracker w c)) = prepares b c0 c"
  "prepares b c0 (persist_quietly w c) = prepares b c0 c"
  "prepares b c0 (snd (armRespawnBackoffTimer w k t c)) = prepares b c0 c"
  by (simp_all add: store_state_def persistDaemonRuntimeTracker_def persist_quietly_def armRespawnBackoffTimer_def
      nextRespawnArmGen_def Let_def split: prod.splits)

lemma prepares_marks [simp]:
  "prepares b c0 (on_tracker (MarkExited k) c) = prepares b c0 c"
  "prepares b c0 (on_tracker (MarkBackoff k) c) = prepares b c0 c"
  "prepares b c0 (on_tracker (ClearCrashes k) c) = prepares b c0 c"
  "prepares b c0 (on_tracker (ClearReallocations k) c) = prepares b c0 c"
  by (rule prepares_tracker; simp)+

lemma prepares_clear_dead_runtime [simp]: "prepares b c0 (snd (clear_dead_runtime w ev cur c)) = prepares b c0 c"
  by (simp add: clear_dead_runtime_def Let_def)

lemma prepares_realloc [simp]:
  "prepares b c0 (holdInBackoffNoTimer w k c) = prepares b c0 c"
  "prepares b c0 (startReallocDwell k c) = prepares b c0 c"
  "prepares b c0 (noteReallocDwellLeftRunning k c) = prepares b c0 c"
  "prepares b c0 (tryDispatchRealloc req c) = prepares b c0 c"
  "prepares b c0 (emitBindAccessDeniedTerminalOnce d c) = prepares b c0 c"
  by (simp_all add: holdInBackoffNoTimer_def startReallocDwell_def noteReallocDwellLeftRunning_def
      tryDispatchRealloc_def emitBindAccessDeniedTerminalOnce_def Let_def split: option.splits)

lemma prepares_dispatch [simp]: "prepares b c0 (snd (dispatchDynamicPoolRealloc w d k c)) = prepares b c0 c"
  by (simp add: dispatchDynamicPoolRealloc_def Let_def)

lemma prepares_bind_refused [simp]: "prepares b c0 (snd (maybeHandleBindRefusedExit w d ev cur c)) = prepares b c0 c"
  using prepares_dispatch [of b c0 w d "TaskName ev" c]
  by (auto simp: maybeHandleBindRefusedExit_def split: prod.split bool.split simp del: prepares_dispatch)

lemma prepares_Advance: "prepares b c (snd (Advance w r ph fc fd c))"
  by (auto simp: prepares_def Advance_def AdvanceStopSettlement_def fence_tracker_def Let_def
      split: prod.splits sum.splits option.splits if_splits)

lemma prepares_receipt_exit: "prepares b c (recordExactStopReceiptExit w ev c)"
proof -
  have adv: "Advance w r ph fc fd c = (x, c') \<Longrightarrow> prepares b c c'" for r ph fc fd x c'
    using prepares_Advance [of b c w r ph fc fd] by simp
  have "prepares b c (snd (advanceExactStopReceiptExit w e c))" for e
  proof (cases "StopSettlementReceipt (CanonicalTaskName e) (tracker c)")
    case (Some r)
    then show ?thesis
      by (auto simp: advanceExactStopReceiptExit_def adv split: StopSettlementPhase.splits prod.splits sum.splits)
  qed (simp add: advanceExactStopReceiptExit_def)
  then show ?thesis by (simp add: recordExactStopReceiptExit_def split: option.splits ctl_value.splits)
qed

lemma prepares_queue [simp]:
  "prepares False c0 (store_queued k q c) = prepares False c0 c"
  "prepares False c0 (apply_queued k sd c) = prepares False c0 c"
proof -
  show q: "prepares False c0 (store_queued k q c) = prepares False c0 c" for k q
    by (simp add: prepares_def store_queued_def)
  show "prepares False c0 (apply_queued k sd c) = prepares False c0 c"
    by (simp add: apply_queued_def q)
qed

lemma prepares_let:
  "prepares b c0 a \<Longrightarrow> (\<And>x. prepares b c0 x \<Longrightarrow> prepares b c0 (g x)) \<Longrightarrow> prepares b c0 (let x = a in g x)"
  by (simp add: Let_def)

lemma prepares_commit: "prepares False c (commit_transition w k cur StSpawning sd pb c)"
proof -
  have upd: "prepares b c0 (reallocFailCount_update f x) = prepares b c0 x" for b c0 f x
    by (rule prepares_iff) simp_all
  show ?thesis
    unfolding commit_transition_def by (intro prepares_let) (simp_all add: upd)
qed

section \<open>What a launch implies\<close>

text \<open>
  Everything that may hold a launch of \<open>d\<close> back is clear: the settlement fence, the refusal of
  legacy descriptors, the existence gate, the port gate, and the operating system, which starts the
  process \<open>pid\<close>.
\<close>

definition clear_to_launch :: "world \<Rightarrow> string \<Rightarrow> SupervisorDaemon \<Rightarrow> int \<Rightarrow> supervisorController \<Rightarrow> bool" where
  "clear_to_launch w k d pid c \<longleftrightarrow>
     stopSettlementIntegrityErr (tracker c) = [] \<and> StopSettlementReceipt k (tracker c) = None
   \<and> \<not> (IsSerenaProxyDescriptor d \<and> RuntimeSpec d = None)
   \<and> classifySpawnPath w (Command d) \<notin> {PathAbsent, PathUnavailable}
   \<and> classifySpawnPath w (Workspace d) \<notin> {PathAbsent, PathUnavailable}
   \<and> (k \<in> gateCleared c
      \<or> (\<forall>port owner. EffectiveDaemonPort (resolve w) d = Some port \<and> 0 < port \<longrightarrow> port_owner w port \<noteq> PortOwned owner))
   \<and> \<not> creator_busy (spawning w d) \<and> \<not> (job_failed (spawning w d) \<and> strict_job w)
   \<and> (\<exists>t. start_child (spawning w d) = Started pid t)"

lemma clear_to_launch_prepares: "clear_to_launch w k d pid c' \<Longrightarrow> prepares b c c' \<Longrightarrow> clear_to_launch w k d pid c"
  by (simp add: clear_to_launch_def prepares_def StopSettlementReceipt_def)

lemma launched_persist [simp]:
  "launched (snd (persistDaemonRuntimeTracker w c)) = launched c" "launched (on_tracker f c) = launched c"
  by (simp_all add: persistDaemonRuntimeTracker_def on_tracker_def Let_def split_beta)

lemma spawn_launches:
  assumes "launched (snd (spawn w d c)) \<noteq> launched c"
  shows "\<exists>pid t. start_child (spawning w d) = Started pid t \<and> launched (snd (spawn w d c)) = launched c @ [(d_TaskName d, pid)]
    \<and> \<not> creator_busy (spawning w d) \<and> \<not> (job_failed (spawning w d) \<and> strict_job w)"
  using assms
  by (auto simp: spawn_def Let_def split_beta split: if_splits start_result.splits)

lemma path_gate_passed:
  assumes "preSpawnMissingPathHold w d ev c = (None, c1)"
  shows "classifySpawnPath w (Command d) \<notin> {PathAbsent, PathUnavailable}"
    "classifySpawnPath w (Workspace d) \<notin> {PathAbsent, PathUnavailable}" "gateCleared c1 = gateCleared c"
  using assms
  by (auto simp: preSpawnMissingPathHold_def hold_for_path_def clearSpawnHold_def persist_quietly_def
      persistDaemonRuntimeTracker_def Let_def split_beta split: spawnPathVerdict.splits if_splits)

lemma gated_spawn_launches:
  assumes "launched (snd (gated_spawn w d ev c)) \<noteq> launched c"
  shows "\<exists>pid t. launched (snd (gated_spawn w d ev c)) = launched c @ [(d_TaskName d, pid)]
    \<and> start_child (spawning w d) = Started pid t \<and> \<not> creator_busy (spawning w d) \<and> \<not> (job_failed (spawning w d) \<and> strict_job w)
    \<and> classifySpawnPath w (Command d) \<notin> {PathAbsent, PathUnavailable}
    \<and> classifySpawnPath w (Workspace d) \<notin> {PathAbsent, PathUnavailable}
    \<and> (TaskName ev \<in> gateCleared c
      \<or> (\<forall>port owner. EffectiveDaemonPort (resolve w) d = Some port \<and> 0 < port \<longrightarrow> port_owner w port \<noteq> PortOwned owner))"
proof -
  obtain h c1 where c1: "preSpawnMissingPathHold w d ev c = (h, c1)" by (cases "preSpawnMissingPathHold w d ev c")
  have "launched (snd (preSpawnMissingPathHold w d ev c)) = launched c"
    by (rule acts_no_launch [OF acts_gates(2) [OF acts_refl]])
  with c1 have l1: "launched c1 = launched c" by simp
  have "h = None" using assms l1 by (cases h) (simp_all add: gated_spawn_def c1)
  note path = path_gate_passed [OF c1 [unfolded this]]
  define c2 where "c2 = c1\<lparr>gateCleared := gateCleared c1 - {TaskName ev}\<rparr>"
  obtain g c3 where c3: "(if TaskName ev \<in> gateCleared c1 then (None, c2) else preSpawnPortGateHold w d ev c2) = (g, c3)"
    by (metis surj_pair)
  have "launched (snd (preSpawnPortGateHold w d ev c2)) = launched c2"
    by (rule acts_no_launch [OF acts_gates(3) [OF acts_refl]])
  with c3 have l3: "launched c3 = launched c" by (auto simp: c2_def l1 split: if_splits)
  have run: "snd (gated_spawn w d ev c) = (case g of Some _ \<Rightarrow> c3
      | None \<Rightarrow> snd (after_spawn (TaskName ev) d (fst (spawn w d c3)) (snd (spawn w d c3))))"
    unfolding gated_spawn_def Let_def c1 prod.case \<open>h = None\<close> option.case c2_def [symmetric] c3
    by (simp add: split_beta split: option.split)
  have g: "g = None" using assms l3 by (cases g) (simp_all add: run)
  have "launched (snd (after_spawn (TaskName ev) d (fst (spawn w d c3)) (snd (spawn w d c3)))) = launched (snd (spawn w d c3))"
    by (rule acts_no_launch [OF acts_gates(6) [OF acts_refl]])
  with g run have l4: "launched (snd (gated_spawn w d ev c)) = launched (snd (spawn w d c3))" by simp
  with assms l3 have "launched (snd (spawn w d c3)) \<noteq> launched c3" by simp
  from spawn_launches [OF this] l3 l4 have "\<exists>pid t. start_child (spawning w d) = Started pid t
    \<and> launched (snd (gated_spawn w d ev c)) = launched c @ [(d_TaskName d, pid)]
    \<and> \<not> creator_busy (spawning w d) \<and> \<not> (job_failed (spawning w d) \<and> strict_job w)" by simp
  moreover have "TaskName ev \<in> gateCleared c
      \<or> (\<forall>port owner. EffectiveDaemonPort (resolve w) d = Some port \<and> 0 < port \<longrightarrow> port_owner w port \<noteq> PortOwned owner)"
    using c3 g path(3) by (auto simp: preSpawnPortGateHold_def split: if_splits option.splits port_probe.splits)
  ultimately show ?thesis using path(1,2) by blast
qed

lemma effect_spawning_launches:
  assumes "launched (snd (effect_spawning w sd d ev c)) \<noteq> launched c"
  shows "\<exists>pid. launched (snd (effect_spawning w sd d ev c)) = launched c @ [(d_TaskName d, pid)]
    \<and> str_contains sd ''create-process'' \<and> clear_to_launch w (TaskName ev) d pid c"
proof -
  have cp: "str_contains sd ''create-process''" using assms by (auto simp: effect_spawning_def split: if_splits)
  have adm: "admitCreateProcess (TaskName ev) c = None"
    using assms cp by (cases "admitCreateProcess (TaskName ev) c") (simp_all add: effect_spawning_def)
  have silent_q: "launched (persist_quietly w (on_tracker (MarkQuarantined (TaskName ev))
      (clearQuarantineParole (TaskName ev) (store_state (TaskName ev) StQuarantined c)))) = launched c"
    by (rule acts_no_launch [where K = "{}"]) simp
  have legacy: "\<not> (IsSerenaProxyDescriptor d \<and> RuntimeSpec d = None)"
  proof
    assume "IsSerenaProxyDescriptor d \<and> RuntimeSpec d = None"
    with assms cp adm silent_q show False by (simp add: effect_spawning_def)
  qed
  then have run: "effect_spawning w sd d ev c = gated_spawn w d ev c" using cp adm by (auto simp: effect_spawning_def)
  from gated_spawn_launches [OF assms [unfolded run]] cp adm legacy show ?thesis
    unfolding run by (auto simp: clear_to_launch_def admitCreateProcess_def StopSettlementReceipt_def sk.canon_idem split: if_splits option.splits)
qed

lemma executeSideEffect_launches:
  assumes "launched (snd (executeSideEffect w sd ns d ev c)) \<noteq> launched c"
  shows "ns = StSpawning" "snd (executeSideEffect w sd ns d ev c) = snd (effect_spawning w sd d ev c)"
proof -
  show "ns = StSpawning"
  proof (rule ccontr)
    assume "ns \<noteq> StSpawning"
    then have "acts {} UNIV c (snd (executeSideEffect w sd ns d ev c))" by (intro acts_executeSideEffect) simp_all
    with acts_no_launch assms show False by blast
  qed
  then show "snd (executeSideEffect w sd ns d ev c) = snd (effect_spawning w sd d ev c)"
    by (simp add: executeSideEffect_def)
qed

text \<open>The part of a context that the stop records and the queue determine.\<close>

definition context_of :: "world \<Rightarrow> string \<Rightarrow> supervisorController \<Rightarrow> SMContext \<Rightarrow> bool" where
  "context_of w k c ctx \<longleftrightarrow>
     IntentDesired ctx = desired_of (stops_Lookup c k)
   \<and> IntentIsActiveStop ctx = fst (IsActiveStop (stops_Lookup c k) (now w))
   \<and> QueuedAction ctx = queued_of c k \<and> GracefulInProgress ctx = graceful w"

lemma context_prepares: "context_of w k c' ctx \<Longrightarrow> prepares True c c' \<Longrightarrow> context_of w k c ctx"
  by (simp add: context_of_def prepares_def stops_Lookup_def queued_of_def)

lemma launched_completeIdle [simp]: "launched (completeIdleRespawnEvent ev e c) = launched c"
  by (rule acts_no_launch [where K = "{}"]) simp

lemma transition_event_launches:
  assumes "launched (transition_event w d ev cur c) \<noteq> launched c"
  shows "\<exists>pid ctx. launched (transition_event w d ev cur c) = launched c @ [(d_TaskName d, pid)]
    \<and> clear_to_launch w (TaskName ev) d pid c \<and> creates cur (Kind ev) ctx \<and> context_of w (TaskName ev) c ctx"
proof -
  let ?ctx = "sm_context w (TaskName ev) c"
  obtain ns sd pb mt where tr: "Transition cur (Kind ev) ?ctx = (ns, sd, pb, mt)" by (metis prod_cases4)
  define c1 where "c1 = commit_transition w (TaskName ev) cur ns sd pb c"
  have l1: "launched c1 = launched c" unfolding c1_def by (rule acts_no_launch [where K = "{}"]) simp
  have run: "launched (transition_event w d ev cur c) = (if mt then launched (snd (executeSideEffect w sd ns d ev c1)) else launched c)"
    by (simp add: transition_event_def tr Let_def split_beta c1_def)
  with assms have mt: "mt" and e: "launched (snd (executeSideEffect w sd ns d ev c1)) \<noteq> launched c1" by (simp_all add: l1 split: if_splits)
  note sp = executeSideEffect_launches [OF e]
  have "launched (snd (effect_spawning w sd d ev c1)) \<noteq> launched c1" using e sp(2) by simp
  from effect_spawning_launches [OF this] obtain pid where
    p: "launched (snd (effect_spawning w sd d ev c1)) = launched c1 @ [(d_TaskName d, pid)]"
      "str_contains sd ''create-process''" "clear_to_launch w (TaskName ev) d pid c1" by blast
  have "clear_to_launch w (TaskName ev) d pid c"
    using clear_to_launch_prepares [OF p(3)] prepares_commit [of c w "TaskName ev" cur sd pb] sp(1) by (simp add: c1_def)
  moreover have "creates cur (Kind ev) ?ctx" using p(2) by (simp add: creates_def tr)
  moreover have "context_of w (TaskName ev) c ?ctx" by (simp add: context_of_def sm_context_def Let_def)
  moreover have "launched (transition_event w d ev cur c) = launched c @ [(d_TaskName d, pid)]"
    using run mt sp(2) p(1) l1 by simp
  ultimately show ?thesis by blast
qed

lemma route_event_launches:
  assumes "launched (route_event w d ev c) \<noteq> launched c"
  shows "\<exists>pid cur ctx. launched (route_event w d ev c) = launched c @ [(d_TaskName d, pid)]
    \<and> clear_to_launch w (TaskName ev) d pid c \<and> creates cur (Kind ev) ctx \<and> context_of w (TaskName ev) c ctx
    \<and> (smStates c (TaskName ev) = Some cur \<or> cur = StIdle)"
proof -
  obtain cur where cur: "cur = (case smStates c (TaskName ev) of Some s \<Rightarrow> s | None \<Rightarrow> StIdle)" by blast
  obtain s c1 where c1: "clear_dead_runtime w ev cur c = (s, c1)" by (cases "clear_dead_runtime w ev cur c")
  have s: "s = cur \<or> s = StIdle" using c1 by (auto simp: clear_dead_runtime_def Let_def split: if_splits)
  have "prepares True c (snd (clear_dead_runtime w ev cur c))" by simp
  then have p1: "prepares True c c1" by (simp only: c1 snd_conv)
  obtain b c2 where c2: "maybeHandleBindRefusedExit w d ev s c1 = (b, c2)" by (cases "maybeHandleBindRefusedExit w d ev s c1")
  have "prepares True c (snd (maybeHandleBindRefusedExit w d ev s c1))" using p1 by simp
  then have p2: "prepares True c c2" by (simp only: c2 snd_conv)
  have dwell: "launched (store_state k StIdle (noteReallocDwellLeftRunning k c)) = launched c" for k
    by (rule acts_no_launch [where K = "{}"]) simp
  have l2: "launched c2 = launched c" using p2 by (simp add: prepares_def)
  have run: "launched (route_event w d ev c) = launched (transition_event w d ev s c2)"
    using assms l2 dwell unfolding route_event_def Let_def cur [symmetric] c1 prod.case c2
    by (auto split: bool.splits if_splits)
  with assms l2 have "launched (transition_event w d ev s c2) \<noteq> launched c2" by simp
  from transition_event_launches [OF this] obtain pid ctx where
    "launched (transition_event w d ev s c2) = launched c2 @ [(d_TaskName d, pid)]" "clear_to_launch w (TaskName ev) d pid c2"
    "creates s (Kind ev) ctx" "context_of w (TaskName ev) c2 ctx" by blast
  moreover have "smStates c (TaskName ev) = Some s \<or> s = StIdle" using s cur by (auto split: option.splits)
  ultimately show ?thesis
    using run l2 clear_to_launch_prepares [OF _ p2] context_prepares [OF _ p2]
    by (intro exI [of _ pid] exI [of _ s] exI [of _ ctx]) simp
qed

lemma lookup_cong:
  assumes "intentCache c' = intentCache c" "reapShadow c' = reapShadow c"
  shows "lookupDescriptorWithShadow c' k = lookupDescriptorWithShadow c k"
  by (simp only: lookupDescriptorWithShadow_def LookupCanonical_def assms)

lemma handle_sm_event_launches:
  fixes ev w c
  defines "k \<equiv> canonicalSupervisorTaskName (TaskName ev)"
  assumes "launched (handle_sm_event w ev c) \<noteq> launched c"
  shows "\<exists>d pid cur ctx. launched (handle_sm_event w ev c) = launched c @ [(k, pid)]
    \<and> lookupDescriptorWithShadow c k = Some d \<and> clear_to_launch w k (d\<lparr>d_TaskName := k\<rparr>) pid c
    \<and> creates cur (Kind ev) ctx \<and> context_of w k c ctx \<and> (smStates c k = Some cur \<or> cur = StIdle)
    \<and> \<not> restart_refused w (ev\<lparr>TaskName := k\<rparr>) c \<and> \<not> stale_exit (ev\<lparr>TaskName := k\<rparr>) c"
proof -
  let ?ev = "ev\<lparr>TaskName := k\<rparr>"
  define c1 where "c1 = (if Kind ?ev = EvChildExit then c\<lparr>reaperOutstanding := reaperOutstanding c - {k}\<rparr> else c)"
  have lk: "lookupDescriptorWithShadow c1 k = lookupDescriptorWithShadow c k"
    by (rule lookup_cong) (simp_all add: c1_def)
  have c1: "prepares True c c1" "smStates c1 = smStates c" "launched c1 = launched c" by (simp_all add: c1_def)
  have fc: "launched (forget_clearance k x) = launched x" for x by (simp add: forget_clearance_def)
  have run: "handle_sm_event w ev c = (if restart_refused w ?ev c then forget_clearance k c else if stale_exit ?ev c then c
     else case lookupDescriptorWithShadow c1 k of
        None \<Rightarrow> completeIdleRespawnEvent ?ev (Some (ErrText ''task not found in controller intent cache'')) (forget_clearance k c1)
      | Some d \<Rightarrow> route_event w (d\<lparr>d_TaskName := k\<rparr>) ?ev c1)"
    by (simp only: handle_sm_event_def Let_def k_def c1_def)
  from assms(2) obtain d where d: "\<not> restart_refused w ?ev c" "\<not> stale_exit ?ev c" "lookupDescriptorWithShadow c k = Some d"
    unfolding run by (auto simp: fc c1 lk split: if_splits option.splits)
  then have go: "handle_sm_event w ev c = route_event w (d\<lparr>d_TaskName := k\<rparr>) ?ev c1" unfolding run lk by simp
  with assms(2) c1(3) have "launched (route_event w (d\<lparr>d_TaskName := k\<rparr>) ?ev c1) \<noteq> launched c1" by simp
  from route_event_launches [OF this] obtain pid cur ctx where
    "launched (route_event w (d\<lparr>d_TaskName := k\<rparr>) ?ev c1) = launched c1 @ [(k, pid)]"
    "clear_to_launch w k (d\<lparr>d_TaskName := k\<rparr>) pid c1" "creates cur (Kind ev) ctx" "context_of w k c1 ctx"
    "smStates c1 k = Some cur \<or> cur = StIdle" by auto
  then show ?thesis
    using d go c1 clear_to_launch_prepares [OF _ c1(1)] context_prepares [OF _ c1(1)]
    by (intro exI [of _ d] exI [of _ pid] exI [of _ cur] exI [of _ ctx]) simp
qed

lemma receipt_exit_frame:
  fixes w ev c
  defines "c' \<equiv> recordExactStopReceiptExit w ev c"
  shows "intentCache c' = intentCache c" "reapShadow c' = reapShadow c" "smStates c' = smStates c"
    "entries (tracker c') = entries (tracker c)"
proof -
  let ?same = "\<lambda>x. intentCache x = intentCache c \<and> reapShadow x = reapShadow c \<and> smStates x = smStates c
    \<and> entries (tracker x) = entries (tracker c)"
  have "?same (snd (Advance w r ph fc fd c))" for r ph fc fd
    by (auto simp: Advance_def AdvanceStopSettlement_def fence_tracker_def Let_def split: prod.splits sum.splits option.splits if_splits)
  then have adv: "?same x" if "Advance w r ph fc fd c = (y, x)" for r ph fc fd y x
    using that by (metis snd_conv)
  have "?same (snd (advanceExactStopReceiptExit w e c))" for e
  proof (cases "StopSettlementReceipt (CanonicalTaskName e) (tracker c)")
    case (Some r)
    then show ?thesis
      by (auto simp: advanceExactStopReceiptExit_def dest!: adv split: StopSettlementPhase.splits prod.splits sum.splits)
  qed (simp add: advanceExactStopReceiptExit_def)
  then have "?same c'" by (simp add: c'_def recordExactStopReceiptExit_def split: option.splits ctl_value.splits)
  then show "intentCache c' = intentCache c" "reapShadow c' = reapShadow c" "smStates c' = smStates c"
    "entries (tracker c') = entries (tracker c)" by simp_all
qed

text \<open>The events that are not routed through the restart table launch nothing.\<close>

lemma handler_routes_or_quiet:
  assumes "\<not> (Kind ev = evOwnedChildWaitExit \<or> Kind ev = evForeignTerminationExit)"
  shows "handleLoopEvent w ev c = handle_sm_event w ev c \<or> acts {} UNIV c (handleLoopEvent w ev c)"
proof -
  have ack: "acts L K c0 (acknowledge ev k c) = acts L K c0 c" for L K c0 k c
    by (simp add: acknowledge_def split: option.split ctl_value.split)
  have batch: "acts L UNIV c (case b of Some (BStopBatch cmd n) \<Rightarrow> handleStopBatchOnLoop w cmd n c | _ \<Rightarrow> c)" for L b
    by (simp add: acts_handleStopBatchOnLoop split: option.split ctl_value.split)
  have scan: "acts L UNIV c (handleReapScan w p u st' c)" for L p u st'
    by (rule acts_handleReapScan) simp_all
  show ?thesis
    unfolding handleLoopEvent_def if_not_P [OF assms]
    by (simp add: ack batch scan acts_handleReapFollowup acts_settlement_recovery
        acts_handleReallocApplied acts_realloc acts_parole del: option.case_eq_if)
qed


section \<open>Witness\<close>

text \<open>The daemon is started in the example world.\<close>

lemma demo_start_routed:
  "handleLoopEvent demo_world (plain_event EvStart demo_task) demo_controller
     = transition_event demo_world demo_daemon (plain_event EvStart demo_task) StIdle demo_controller"
proof -
  have env: "demo_env demo_controller" and sm: "smStates demo_controller = Map.empty"
    by (simp_all add: demo_env_def demo_controller_def)
  show ?thesis
    by (simp add: handleLoopEvent_def handle_sm_event_def restart_refused_def stale_exit_def Let_def plain_event_def
        demo_lookup [OF env] route_event_def clear_dead_runtime_def sm supervisorLivenessRestartClearedRuntime_def
        maybeHandleBindRefusedExit_def)
qed

lemma start_literal [literal_simps]:
  "str_contains ''bump pid_generation, create-process'' ''create-process''"
  "\<not> str_contains ''bump pid_generation, create-process'' ''reset failures''"
  "\<not> str_contains ''bump pid_generation, create-process'' ''set queued_action=stop''"
  "\<not> str_contains ''bump pid_generation, create-process'' ''queued_action=respawn''"
  "\<not> str_contains ''bump pid_generation, create-process'' ''queued_action=none''"
  "\<not> str_contains ''bump pid_generation, create-process'' ''clear queued_action''"
  by code_simp+

lemma demo_commit_start:
  "commit_transition demo_world demo_task StIdle StSpawning ''bump pid_generation, create-process'' True demo_controller
     = store_state demo_task StSpawning demo_controller"
  by (simp add: commit_transition_def apply_queued_def start_literal persist_quietly_def persistDaemonRuntimeTracker_def
      store_state_def demo_controller_def Let_def del: str_contains.simps)

lemma demo_start_transition:
  fixes ev c1
  defines "ev \<equiv> plain_event EvStart demo_task" and "c1 \<equiv> store_state demo_task StSpawning demo_controller"
  shows "transition_event demo_world demo_daemon ev StIdle demo_controller = snd (gated_spawn demo_world demo_daemon ev c1)"
proof -
  have "Transition StIdle EvStart (sm_context demo_world demo_task demo_controller)
      = (StSpawning, ''bump pid_generation, create-process'', True, True)"
    by (simp add: Transition_def sm_context_def stops_Lookup_def zero_intent_def desired_of_def IsActiveStop_def
        demo_controller_def Let_def)
  moreover have "admitCreateProcess demo_task c1 = None"
    by (simp add: admitCreateProcess_def c1_def store_state_def demo_controller_def NewDaemonRuntimeTracker_def StopSettlementReceipt_def)
  moreover have "\<not> IsSerenaProxyDescriptor demo_daemon"
    by (simp add: IsSerenaProxyDescriptor_def demo_daemon_def demo_proxy_def)
  ultimately show ?thesis
    by (simp add: transition_event_def ev_def c1_def plain_event_def demo_commit_start executeSideEffect_def
        effect_spawning_def start_literal completeIdleRespawnEvent_def split_beta del: str_contains.simps)
qed

lemma demo_gates:
  fixes c1
  defines "c1 \<equiv> store_state demo_task StSpawning demo_controller"
  shows "preSpawnMissingPathHold demo_world demo_daemon ev c1 = (None, c1)"
    "preSpawnPortGateHold demo_world demo_daemon ev c1 = (None, c1)" "gateCleared c1 = {}" "c1\<lparr>gateCleared := {}\<rparr> = c1"
proof -
  have cmd: "Command demo_daemon = ''mcphub''" "Workspace demo_daemon = []" by (simp_all add: demo_daemon_def demo_proxy_def)
  have "TrimSpace ''mcphub'' = ''mcphub''" "\<not> isNonLocalSpawnPath ''mcphub''" by code_simp+
  then have "classifySpawnPath demo_world (Command demo_daemon) = PathPresent"
    unfolding cmd by (simp add: classifySpawnPath_def demo_world_def)
  moreover have "classifySpawnPath demo_world (Workspace demo_daemon) = PathIndeterminate"
    unfolding cmd by (simp add: classifySpawnPath_def Let_def)
  moreover have "ClearSpawnHold demo_task NewDaemonRuntimeTracker = (False, NewDaemonRuntimeTracker)"
    by (simp add: ClearSpawnHold_def NewDaemonRuntimeTracker_def entry_of_def zero_entry_def Let_def)
  moreover have t: "tracker c1 = NewDaemonRuntimeTracker" by (simp add: c1_def store_state_def demo_controller_def)
  ultimately show "preSpawnMissingPathHold demo_world demo_daemon ev c1 = (None, c1)"
    by (simp add: preSpawnMissingPathHold_def clearSpawnHold_def)
  have "EffectiveDaemonPort (resolve demo_world) demo_daemon = Some 9000"
    by (simp add: EffectiveDaemonPort_def demo_daemon_def)
  then show "preSpawnPortGateHold demo_world demo_daemon ev c1 = (None, c1)"
    by (simp add: preSpawnPortGateHold_def demo_world_def)
  show "gateCleared c1 = {}" "c1\<lparr>gateCleared := {}\<rparr> = c1" by (simp_all add: c1_def store_state_def demo_controller_def)
qed

lemma demo_start:
  fixes c'
  defines "c' \<equiv> handleLoopEvent demo_world (plain_event EvStart demo_task) demo_controller"
  shows "launched c' = [(demo_task, 42)]" "selfCh (eventLoop c') = [plain_event EvHealthOK demo_task]"
proof -
  let ?c1 = "store_state demo_task StSpawning demo_controller"
  have sp: "spawning demo_world demo_daemon
      = \<lparr>creator_busy = False, job_failed = False, job_status = Some True, start_child = Started 42 1000\<rparr>"
    by (simp add: demo_world_def)
  have "gated_spawn demo_world demo_daemon (plain_event EvStart demo_task) ?c1
    = (let (res, c) = spawn demo_world demo_daemon ?c1 in after_spawn demo_task demo_daemon res c)"
    by (simp add: gated_spawn_def demo_gates plain_event_def Let_def)
  moreover have "\<exists>c2. spawn demo_world demo_daemon ?c1 = (SpawnOK, c2) \<and> launched c2 = [(demo_task, 42)] \<and> eventLoop c2 = NewEventLoop 1024"
    by (simp add: spawn_def sp Let_def persistDaemonRuntimeTracker_def on_tracker_def store_state_def demo_controller_def)
  ultimately have "launched c' = [(demo_task, 42)] \<and> selfCh (eventLoop c') = [plain_event EvHealthOK demo_task]"
    by (auto simp: c'_def demo_start_routed demo_start_transition after_spawn_def self_post_def PostSelf_def NewEventLoop_def)
  then show "launched c' = [(demo_task, 42)]" "selfCh (eventLoop c') = [plain_event EvHealthOK demo_task]" by simp_all
qed


end
