(* ===== verification/Controller_Drain.thy ===== *)
theory Controller_Drain
  imports Controller_Launch
begin

text \<open>
  The controller posts events to itself while it handles events, and its loop serves those first.
  This theory shows that the priority drain ends all the same: every event has a weight, a queued
  action of a task has one, and handling an event of the priority channel costs more than it posts.
\<close>

section \<open>What an operation leaves in the loop and in the queued actions\<close>

definition ctl_view :: "supervisorController \<Rightarrow> ctl_value EventLoop \<times> (string \<rightharpoonup> string)" where
  "ctl_view c = (eventLoop c, queuedActions c)"

lemma view_updates [simp]:
  "ctl_view (intentCache_update f1 c) = ctl_view c"
  "ctl_view (tracker_update f3 c) = ctl_view c"
  "ctl_view (disk_update f4 c) = ctl_view c"
  "ctl_view (writes_update f5 c) = ctl_view c"
  "ctl_view (smStates_update f6 c) = ctl_view c"
  "ctl_view (ownSpawned_update f8 c) = ctl_view c"
  "ctl_view (reaperOutstanding_update f8 c) = ctl_view c"
  "ctl_view (gateCleared_update f8 c) = ctl_view c"
  "ctl_view (reapDeferredTimerDue_update f8 c) = ctl_view c"
  "ctl_view (respawnArmEpoch_update f20 c) = ctl_view c"
  "ctl_view (respawnArmGen_update f11 c) = ctl_view c"
  "ctl_view (quarantineParole_update f12 c) = ctl_view c"
  "ctl_view (portGateCh_update f13 c) = ctl_view c"
  "ctl_view (portGateInFlight_update f8 c) = ctl_view c"
  "ctl_view (reallocCh_update f14 c) = ctl_view c"
  "ctl_view (reallocInFlight_update f8 c) = ctl_view c"
  "ctl_view (reallocDwell_update f15 c) = ctl_view c"
  "ctl_view (reallocFailCount_update f16 c) = ctl_view c"
  "ctl_view (bindAccessDeniedTerminalEmitted_update f8 c) = ctl_view c"
  "ctl_view (launched_update f21 c) = ctl_view c"
  "ctl_view (kills_update f22 c) = ctl_view c"
  "ctl_view (timers_update f23 c) = ctl_view c"
  "ctl_view (replies_update f18 c) = ctl_view c"
  by (simp_all add: ctl_view_def)

lemma view_bookkeeping [simp]:
  "ctl_view (store_state k s c) = ctl_view c"
  "ctl_view (on_tracker f c) = ctl_view c"
  "ctl_view (send_reply n e c) = ctl_view c"
  "ctl_view (completeIdleRespawnEvent ev e' c) = ctl_view c"
  "ctl_view (snd (persistDaemonRuntimeTracker w c)) = ctl_view c"
  "ctl_view (persist_quietly w c) = ctl_view c"
  "ctl_view (snd (Advance w r ph fc fd c)) = ctl_view c"
  "ctl_view (recordQuarantineParoleEligible k t c) = ctl_view c"
  "ctl_view (clearQuarantineParole k c) = ctl_view c"
  "ctl_view (holdInBackoffNoTimer w k c) = ctl_view c"
  "ctl_view (snd (armRespawnBackoffTimer w k t c)) = ctl_view c"
  "ctl_view (forget_clearance k c) = ctl_view c"
  "ctl_view (snd (clear_dead_runtime w ev cur c)) = ctl_view c"
  by (simp_all add: store_state_def on_tracker_def send_reply_def completeIdleRespawnEvent_def
      persistDaemonRuntimeTracker_def persist_quietly_def Advance_def recordQuarantineParoleEligible_def
      clearQuarantineParole_def holdInBackoffNoTimer_def armRespawnBackoffTimer_def nextRespawnArmGen_def
      forget_clearance_def clear_dead_runtime_def Let_def split: option.splits ctl_value.splits prod.splits)

lemma view_effects [simp]:
  "ctl_view (holdSpawnInBackoff w d ev t c) = ctl_view c"
  "ctl_view (markTerminationOutcomeExited w e c) = ctl_view c"
  "ctl_view (clearSpawnHold w k c) = ctl_view c"
  "ctl_view (tryDispatchPortGate req c) = ctl_view c"
  "ctl_view (handleBackoffWaiting w d c) = ctl_view c"
  by (simp_all add: holdSpawnInBackoff_def markTerminationOutcomeExited_def clearSpawnHold_def tryDispatchPortGate_def
      handleBackoffWaiting_def Let_def split_beta)

lemma view_spawn [simp]: "ctl_view (snd (spawn w d c)) = ctl_view c"
  by (simp add: spawn_def Let_def split_beta split: start_result.splits)

lemma view_terminate [simp]: "ctl_view (snd (terminateOutcome w d e c)) = ctl_view c"
proof -
  have win: "ctl_view (snd (terminateProductionWindows w os x c)) = ctl_view c" for os x
    by (simp add: terminateProductionWindows_def Let_def split: option.splits)
  have "ctl_view (snd (terminate_running w os x c)) = ctl_view c" for os x
    by (simp add: terminate_running_def Let_def win split: option.splits pid_state.splits)
  then show ?thesis
    by (simp add: terminateOutcome_def terminate_pid_def Let_def split_beta split: option.splits pid_state.splits)
qed

lemma view_gates [simp]:
  "ctl_view (snd (hold_for_path w d ev r p c)) = ctl_view c"
  "ctl_view (snd (preSpawnMissingPathHold w d ev c)) = ctl_view c"
  "ctl_view (snd (preSpawnPortGateHold w d ev c)) = ctl_view c"
proof -
  show hold: "ctl_view (snd (hold_for_path w d ev r p c)) = ctl_view c" for r p
    by (simp add: hold_for_path_def)
  show "ctl_view (snd (preSpawnMissingPathHold w d ev c)) = ctl_view c"
    by (simp add: preSpawnMissingPathHold_def hold split: spawnPathVerdict.splits)
  show "ctl_view (snd (preSpawnPortGateHold w d ev c)) = ctl_view c"
    by (simp add: preSpawnPortGateHold_def split: option.splits port_probe.splits)
qed

lemma view_receipt_exit [simp]: "ctl_view (recordExactStopReceiptExit w ev c) = ctl_view c"
proof -
  have adv: "Advance w r ph fc fd c = (x, c') \<Longrightarrow> ctl_view c' = ctl_view c" for r ph fc fd x c'
    using view_bookkeeping(7) [of w r ph fc fd c] by simp
  have "ctl_view (snd (advanceExactStopReceiptExit w e c)) = ctl_view c" for e
  proof (cases "StopSettlementReceipt (CanonicalTaskName e) (tracker c)")
    case (Some r)
    then show ?thesis
      by (auto simp: advanceExactStopReceiptExit_def adv split: StopSettlementPhase.splits prod.splits sum.splits)
  qed (simp add: advanceExactStopReceiptExit_def)
  then show ?thesis by (simp add: recordExactStopReceiptExit_def split: option.splits ctl_value.splits)
qed

lemma view_realloc [simp]:
  "ctl_view (startReallocDwell k c) = ctl_view c"
  "ctl_view (noteReallocDwellLeftRunning k c) = ctl_view c"
  "ctl_view (tryDispatchRealloc req c) = ctl_view c"
  "ctl_view (emitBindAccessDeniedTerminalOnce d c) = ctl_view c"
  by (simp_all add: startReallocDwell_def noteReallocDwellLeftRunning_def tryDispatchRealloc_def
      emitBindAccessDeniedTerminalOnce_def Let_def split: option.splits)

lemma view_dispatch_realloc [simp]: "ctl_view (snd (dispatchDynamicPoolRealloc w d k c)) = ctl_view c"
  by (simp add: dispatchDynamicPoolRealloc_def Let_def)

lemma view_bind_refused [simp]: "ctl_view (snd (maybeHandleBindRefusedExit w d ev cur c)) = ctl_view c"
  using view_dispatch_realloc [of w d "TaskName ev" c]
  by (auto simp: maybeHandleBindRefusedExit_def split: prod.split bool.split simp del: view_dispatch_realloc)

section \<open>What a side effect posts\<close>

definition posts :: "ctl_event list \<Rightarrow> supervisorController \<Rightarrow> supervisorController \<Rightarrow> bool" where
  "posts ps c c' \<longleftrightarrow>
     queuedActions c' = queuedActions c
   \<and> eventLoop c' = (eventLoop c)\<lparr>selfCh := selfCh (eventLoop c) @ ps\<rparr>"

lemma posts_Nil: "ctl_view c' = ctl_view c \<Longrightarrow> posts [] c c'"
  by (simp add: posts_def ctl_view_def)

lemma posts_view: "ctl_view c' = ctl_view c \<Longrightarrow> posts ps c' c'' = posts ps c c''"
  by (simp add: posts_def ctl_view_def)

lemma posts_view': "ctl_view c'' = ctl_view c' \<Longrightarrow> posts ps c c'' = posts ps c c'"
  by (simp add: posts_def ctl_view_def)

lemma posts_self: "posts [] c (snd (self_post ev c)) \<or> posts [ev] c (snd (self_post ev c))"
  by (simp add: posts_def self_post_def PostSelf_def)

text \<open>At most one event of the task itself, of the three kinds a child's fate is reported with.\<close>

definition reports :: "string \<Rightarrow> bool \<Rightarrow> supervisorController \<Rightarrow> supervisorController \<Rightarrow> bool" where
  "reports k may c c' \<longleftrightarrow>
     posts [] c c'
   \<or> may \<and> (\<exists>e. posts [e] c c' \<and> TaskName e = k \<and> Kind e \<in> {EvHealthOK, EvChildExit, evForeignTerminationExit})"

lemma reports_quiet: "ctl_view c' = ctl_view c \<Longrightarrow> reports k may c c'"
  by (simp add: reports_def posts_Nil)

lemma reports_view:
  assumes "ctl_view c' = ctl_view c"
  shows "reports k may c' c'' = reports k may c c''"
  by (simp add: reports_def posts_view [OF assms])

lemma reports_after_spawn: "reports (d_TaskName d) True c (snd (after_spawn k d res c))"
proof -
  have p: "reports (d_TaskName d) True c (snd (self_post (plain_event kind (d_TaskName d)) c1))"
    if "ctl_view c1 = ctl_view c" and "kind = EvHealthOK \<or> kind = EvChildExit" for kind c1
    using posts_self [of c1 "plain_event kind (d_TaskName d)"] that
    by (auto simp: reports_def posts_view [OF that(1)] plain_event_def)
  show ?thesis
    by (auto simp: after_spawn_def p intro: reports_quiet split: spawn_result.splits ctl_error.splits)
qed

lemma reports_gated_spawn: "reports (d_TaskName d) True c (snd (gated_spawn w d ev c))"
proof -
  obtain h c1 where c1: "preSpawnMissingPathHold w d ev c = (h, c1)" by (cases "preSpawnMissingPathHold w d ev c")
  with view_gates(2) [of w d ev c] have v1: "ctl_view c1 = ctl_view c" by simp
  define c2 where "c2 = c1\<lparr>gateCleared := gateCleared c1 - {TaskName ev}\<rparr>"
  obtain g c3 where c3: "(if TaskName ev \<in> gateCleared c1 then (None, c2) else preSpawnPortGateHold w d ev c2) = (g, c3)"
    by (metis surj_pair)
  have v2: "ctl_view c2 = ctl_view c" by (simp add: c2_def v1)
  then have "ctl_view (snd (if TaskName ev \<in> gateCleared c1 then (None, c2) else preSpawnPortGateHold w d ev c2)) = ctl_view c"
    by simp
  then have v3: "ctl_view c3 = ctl_view c" by (simp only: c3 snd_conv)
  obtain res c4 where c4: "spawn w d c3 = (res, c4)" by (cases "spawn w d c3")
  with view_spawn [of w d c3] v3 have v4: "ctl_view c4 = ctl_view c" by simp
  have "reports (d_TaskName d) True c (snd (after_spawn (TaskName ev) d res c4))"
    using reports_after_spawn [of d c4 "TaskName ev" res] by (simp add: reports_view [OF v4])
  with v1 v3 show ?thesis
    unfolding gated_spawn_def Let_def c1 prod.case c2_def [symmetric] c3 c4
    by (simp add: reports_quiet split: option.split)
qed

lemma reports_effect_spawning:
  "reports (d_TaskName d) (str_contains sd ''create-process'') c (snd (effect_spawning w sd d ev c))"
  using reports_gated_spawn [of d c w ev]
  by (auto simp: effect_spawning_def reports_quiet split: option.split)

lemma reports_effect_exiting: "reports (d_TaskName d) True c (snd (effect_exiting w d ev c))"
proof -
  have syn: "reports (d_TaskName d) True c (synthesizeForeignChildExit d x c1)" if "ctl_view c1 = ctl_view c" for x c1
    using posts_self [of c1 "\<lparr>Kind = evForeignTerminationExit, TaskName = d_TaskName d,
            Body = [''pid'' \<mapsto> BInt (tu_PID x), ''pid_generation'' \<mapsto> BInt (tu_PIDGeneration x),
                    ''started_at'' \<mapsto> BStamp (tu_StartedAt x)]\<rparr>"]
    by (auto simp: reports_def synthesizeForeignChildExit_def posts_view [OF that])
  show ?thesis by (simp add: effect_exiting_def Let_def split_beta syn reports_quiet)
qed

lemma reports_executeSideEffect:
  "reports (d_TaskName d) (ns = StSpawning \<and> str_contains sd ''create-process'' \<or> ns = StExiting) c
     (snd (executeSideEffect w sd ns d ev c))"
  using reports_effect_spawning [of d sd c w ev] reports_effect_exiting [of d c w ev]
  by (cases ns) (simp_all add: executeSideEffect_def reports_quiet)

section \<open>Weights\<close>

definition self_weight :: "SMEvent \<Rightarrow> nat" where
  "self_weight kind =
     (if kind = EvManualRestart then 4 else if kind = EvTimerDue \<or> kind = EvStart then 2 else 1)"

definition action_weight :: "string \<Rightarrow> nat" where
  "action_weight q = (if q = ''stop'' \<or> q = ''respawn'' then 2 else 0)"

definition queue_weight :: "supervisorController \<Rightarrow> string \<Rightarrow> nat" where
  "queue_weight c k = action_weight (queued_of c k)"

text \<open>What the text of a side effect says about the queued action, and what a matched transition leaves.\<close>

definition queue_effect :: "string \<Rightarrow> string option" where
  "queue_effect sd =
     (if str_contains sd ''set queued_action=stop'' then Some ''stop''
      else if str_contains sd ''queued_action=respawn'' then Some ''respawn''
      else if str_contains sd ''queued_action=none'' \<or> str_contains sd ''clear queued_action'' then Some []
      else None)"

definition leaves :: "SMState \<Rightarrow> SMState \<Rightarrow> bool" where
  "leaves cur ns \<longleftrightarrow> cur = StExiting \<and> (ns = StIdle \<or> ns = StSpawning)"

definition queue_after :: "SMState \<Rightarrow> SMState \<Rightarrow> string \<Rightarrow> string \<Rightarrow> string" where
  "queue_after cur ns sd q =
     (if leaves cur ns then []
      else case queue_effect sd of Some q' \<Rightarrow> q' | None \<Rightarrow> q)"

lemma queue_effect_literals [literal_simps]:
  "queue_effect ''bump pid_generation, create-process'' = None"
  "queue_effect ''intent suppresses spawn'' = None"
  "queue_effect ''RESTART_REFUSED_INTENT_STOPPED'' = None"
  "queue_effect ''issue terminate, queued_action=none'' = Some []"
  "queue_effect [] = None"
  "queue_effect ''clear queued_action'' = Some []"
  "queue_effect ''arm timer at backoff(failures)'' = None"
  "queue_effect ''arm timer'' = None"
  "queue_effect ''issue terminate, queued_action=respawn'' = Some ''respawn''"
  "queue_effect ''drain wins (graceful-exit suppresses respawn)'' = None"
  "queue_effect ''deferred via graceful-exit'' = None"
  "queue_effect (''coalesce '' @ [CHR 0xE2, CHR 0x80, CHR 0x94] @ '' set queued_action=respawn'') = Some ''respawn''"
  "queue_effect ''log + ignore'' = None"
  "queue_effect ''cancel timer, clear queued_action'' = Some []"
  "queue_effect ''clear timer'' = None"
  "queue_effect ''cancel timer, bump pid_generation, create-process'' = None"
  "queue_effect ''reset failures, bump pid_generation, create-process'' = None"
  by code_simp+

lemma queued_view: "ctl_view c' = ctl_view c \<Longrightarrow> queued_of c' = queued_of c"
  by (simp add: ctl_view_def queued_of_def fun_eq_iff)

lemma view_let:
  assumes "ctl_view a = v" and "\<And>x. ctl_view x = v \<Longrightarrow> ctl_view (g x) = u"
  shows "ctl_view (let x = a in g x) = u"
  using assms by (simp add: Let_def)

definition queue_map :: "string \<Rightarrow> string \<Rightarrow> (string \<rightharpoonup> string) \<Rightarrow> string \<rightharpoonup> string" where
  "queue_map k sd m = (case queue_effect sd of Some q \<Rightarrow> m(k \<mapsto> q) | None \<Rightarrow> m)"

lemma view_queue:
  "ctl_view (store_queued k q c) = (fst (ctl_view c), (snd (ctl_view c))(k \<mapsto> q))"
  "ctl_view (apply_queued k sd c) = (fst (ctl_view c), queue_map k sd (snd (ctl_view c)))"
  by (simp_all add: ctl_view_def store_queued_def apply_queued_def queue_map_def queue_effect_def)

lemma view_commit:
  "ctl_view (commit_transition w k cur ns sd pb c) = (fst (ctl_view c),
     if leaves cur ns then (queue_map k sd (snd (ctl_view c)))(k \<mapsto> [])
     else queue_map k sd (snd (ctl_view c)))" (is "_ = ?v")
  unfolding commit_transition_def leaves_def [symmetric]
  apply (rule view_let [where v = "ctl_view c"], simp, rule view_let [where v = "ctl_view c"], simp,
    rule view_let [where v = "ctl_view c"], simp)
  apply (rule view_let [where v = "(fst (ctl_view c), queue_map k sd (snd (ctl_view c)))"], simp add: view_queue)
  by (rule view_let [where v = ?v], simp add: view_queue, rule view_let [where v = ?v], simp,
    rule view_let [where v = ?v], simp_all)

lemma commit_loop: "eventLoop (commit_transition w k cur ns sd pb c) = eventLoop c"
  using view_commit [of w k cur ns sd pb c] by (simp add: ctl_view_def)

lemma commit_queue:
  "queued_of (commit_transition w k cur ns sd pb c) k' = (if k' = k then queue_after cur ns sd (queued_of c k) else queued_of c k')"
proof -
  have "queuedActions (commit_transition w k cur ns sd pb c)
    = (if leaves cur ns then (queue_map k sd (queuedActions c))(k \<mapsto> []) else queue_map k sd (queuedActions c))"
    using view_commit [of w k cur ns sd pb c] by (simp add: ctl_view_def)
  then show ?thesis by (auto simp: queued_of_def queue_map_def queue_after_def split: option.split)
qed

text \<open>The table pays for what it posts and queues.\<close>

lemma Transition_pays:
  assumes "Transition cur kind ctx = (ns, sd, pb, True)" and "kind \<in> self_kinds" and "QueuedAction ctx = q"
  shows "(if ns = StSpawning \<and> creates cur kind ctx \<or> ns = StExiting then 1 else 0)
     + action_weight (queue_after cur ns sd q) < self_weight kind + action_weight q"
  using assms
  by (cases cur; cases kind)
     (auto simp: Transition_def self_kinds_def self_weight_def action_weight_def queue_after_def leaves_def creates_iff
       queue_effect_literals [unfolded append.simps append_Nil] split: if_splits simp del: str_contains.simps)

section \<open>One event of the priority channel\<close>

definition event_weight :: "ctl_event \<Rightarrow> nat" where
  "event_weight e = self_weight (Kind e)"

definition pays :: "string \<Rightarrow> nat \<Rightarrow> supervisorController \<Rightarrow> supervisorController \<Rightarrow> bool" where
  "pays k n c c' \<longleftrightarrow>
     (\<forall>k'. k' \<noteq> k \<longrightarrow> queued_of c' k' = queued_of c k')
   \<and> (\<exists>ps. eventLoop c' = (eventLoop c)\<lparr>selfCh := selfCh (eventLoop c) @ ps\<rparr>
       \<and> (\<forall>p \<in> set ps. canonicalSupervisorTaskName (TaskName p) = k)
       \<and> sum_list (map event_weight ps) + queue_weight c' k < n + queue_weight c k)"

lemma pays_quiet:
  assumes "ctl_view c' = ctl_view c" and "0 < n"
  shows "pays k n c c'"
  using assms queued_view [OF assms(1)]
  by (auto simp: pays_def queue_weight_def ctl_view_def intro: exI [of _ "[]"])

lemma pays_view:
  assumes "ctl_view c' = ctl_view c"
  shows "pays k n c' c'' = pays k n c c''"
  using assms queued_view [OF assms] by (simp add: pays_def queue_weight_def ctl_view_def)

lemma pays_view':
  assumes "ctl_view c'' = ctl_view c'"
  shows "pays k n c c'' = pays k n c c'"
  using assms queued_view [OF assms] by (simp add: pays_def queue_weight_def ctl_view_def)

lemma reports_cases:
  assumes "reports k may c c'" and "canonicalSupervisorTaskName k = k"
  obtains ps where "posts ps c c'" "ps = [] \<or> may \<and> length ps = 1"
    "\<forall>p \<in> set ps. canonicalSupervisorTaskName (TaskName p) = k \<and> event_weight p = 1"
proof -
  from assms(1) consider "posts [] c c'"
    | e where "may" "posts [e] c c'" "TaskName e = k" "Kind e \<in> {EvHealthOK, EvChildExit, evForeignTerminationExit}"
    unfolding reports_def by blast
  then show thesis
  proof cases
    case 1
    then show thesis by (intro that [of "[]"]) simp_all
  next
    case 2
    then show thesis using assms(2) by (intro that [of "[e]"]) (auto simp: event_weight_def self_weight_def)
  qed
qed

lemma pays_transition_event:
  assumes "Kind ev \<in> self_kinds" and k: "TaskName ev = k" "d_TaskName d = k" "canonicalSupervisorTaskName k = k"
  shows "pays k (event_weight ev) c (transition_event w d ev cur c)"
proof -
  let ?ctx = "sm_context w k c"
  obtain ns sd pb mt where tr: "Transition cur (Kind ev) ?ctx = (ns, sd, pb, mt)" by (metis prod_cases4)
  define may where "may = (ns = StSpawning \<and> str_contains sd ''create-process'' \<or> ns = StExiting)"
  define c1 where "c1 = commit_transition w k cur ns sd pb c"
  define c2 where "c2 = snd (executeSideEffect w sd ns d ev c1)"
  show ?thesis
  proof (cases mt)
    case False
    with tr k show ?thesis by (simp add: transition_event_def pays_quiet event_weight_def self_weight_def)
  next
    case True
    have "reports k may c1 c2" using reports_executeSideEffect [of d ns sd c1 w ev] k by (simp add: c2_def may_def)
    then obtain ps where ps: "posts ps c1 c2" "ps = [] \<or> may \<and> length ps = 1"
      "\<forall>p \<in> set ps. canonicalSupervisorTaskName (TaskName p) = k \<and> event_weight p = 1"
      by (rule reports_cases [OF _ k(3)])
    have "(if may then 1 else 0) + action_weight (queue_after cur ns sd (queued_of c k)) < event_weight ev + queue_weight c k"
      using Transition_pays [of cur "Kind ev" ?ctx ns sd pb "queued_of c k"] tr True assms(1)
      by (simp add: may_def creates_def tr event_weight_def queue_weight_def sm_context_def Let_def)
    moreover have "sum_list (map event_weight ps) \<le> (if may then 1 else 0)"
      using ps(2,3) by (cases ps) auto
    moreover have "queued_of c2 = queued_of c1" "eventLoop c2 = (eventLoop c)\<lparr>selfCh := selfCh (eventLoop c) @ ps\<rparr>"
      using ps(1) by (simp_all add: posts_def queued_of_def fun_eq_iff c1_def commit_loop)
    ultimately have "pays k (event_weight ev) c c2"
      using ps(3) by (auto simp: pays_def queue_weight_def c1_def commit_queue intro!: exI [of _ ps])
    then show ?thesis
      using k True tr by (simp add: transition_event_def Let_def split_beta c2_def c1_def pays_view' [OF view_bookkeeping(4)])
  qed
qed

lemma pays_route_event:
  assumes "Kind ev \<in> self_kinds" and "TaskName ev = k" "d_TaskName d = k" "canonicalSupervisorTaskName k = k"
  shows "pays k (event_weight ev) c (route_event w d ev c)"
proof -
  have n: "0 < event_weight ev" by (simp add: event_weight_def self_weight_def)
  obtain cur where cur: "cur = (case smStates c (TaskName ev) of Some s \<Rightarrow> s | None \<Rightarrow> StIdle)" by blast
  obtain s c1 where c1: "clear_dead_runtime w ev cur c = (s, c1)" by (cases "clear_dead_runtime w ev cur c")
  with view_bookkeeping(13) [of w ev cur c] have v1: "ctl_view c1 = ctl_view c" by simp
  obtain b c2 where c2: "maybeHandleBindRefusedExit w d ev s c1 = (b, c2)" by (cases "maybeHandleBindRefusedExit w d ev s c1")
  with view_bind_refused [of w d ev s c1] v1 have v2: "ctl_view c2 = ctl_view c" by simp
  have "pays k (event_weight ev) c (transition_event w d ev s c2)"
    using pays_transition_event [OF assms, of c2 w s] by (simp add: pays_view [OF v2])
  with n v2 show ?thesis
    unfolding route_event_def Let_def cur [symmetric] c1 prod.case c2
    by (simp add: pays_quiet split: bool.split)
qed

lemma pays_handle_sm_event:
  assumes "Kind ev \<in> self_kinds"
  shows "pays (canonicalSupervisorTaskName (TaskName ev)) (event_weight ev) c (handle_sm_event w ev c)"
proof -
  let ?k = "canonicalSupervisorTaskName (TaskName ev)" and ?ev = "ev\<lparr>TaskName := canonicalSupervisorTaskName (TaskName ev)\<rparr>"
  have n: "0 < event_weight ev" by (simp add: event_weight_def self_weight_def)
  have "pays ?k (event_weight ev) c1 (route_event w (d\<lparr>d_TaskName := ?k\<rparr>) ?ev c1)" for d c1
    using pays_route_event [of ?ev ?k "d\<lparr>d_TaskName := ?k\<rparr>" c1 w] assms by (simp add: event_weight_def sk.canon_idem)
  then have route: "pays ?k (event_weight ev) c (route_event w (d\<lparr>d_TaskName := ?k\<rparr>) ?ev c1)"
    if "ctl_view c1 = ctl_view c" for d c1
    using pays_view [OF that] by blast
  show ?thesis
    by (auto simp: handle_sm_event_def Let_def n pays_quiet route split: option.split)
qed

lemma pays_handleLoopEvent:
  assumes "Kind ev \<in> self_kinds"
  shows "pays (canonicalSupervisorTaskName (TaskName ev)) (event_weight ev) c (handleLoopEvent w ev c)"
proof (cases "Kind ev = evForeignTerminationExit")
  case True
  let ?ev = "ev\<lparr>Kind := EvChildExit\<rparr>"
  have "pays (canonicalSupervisorTaskName (TaskName ev)) (event_weight ev) (recordExactStopReceiptExit w ev c)
    (handle_sm_event w ?ev (recordExactStopReceiptExit w ev c))"
    using pays_handle_sm_event [of ?ev "recordExactStopReceiptExit w ev c" w] True
    by (simp add: self_kinds_def event_weight_def self_weight_def)
  then show ?thesis unfolding handleLoopEvent_def True pays_view [OF view_receipt_exit] by (simp only: simp_thms if_True)
next
  case False
  with assms have "Kind ev \<noteq> EvControllerInternal x" for x by (auto simp: self_kinds_def)
  then have "handleLoopEvent w ev c = handle_sm_event w ev c" by (simp add: handleLoopEvent_def)
  with pays_handle_sm_event [OF assms] show ?thesis by simp
qed

section \<open>The drain ends\<close>

type_synonym ctl_run = "(ctl_value, world stream \<times> supervisorController) run"

text \<open>The weight of everything that waits on the priority channel.\<close>

definition self_tasks :: "ctl_run \<Rightarrow> string set" where
  "self_tasks r = (canonicalSupervisorTaskName \<circ> TaskName) ` set (selfCh (loop r))"

definition drain_weight :: "ctl_run \<Rightarrow> nat" where
  "drain_weight r = sum_list (map event_weight (selfCh (loop r))) + (\<Sum>k \<in> self_tasks r. queue_weight (snd (st r)) k)"

definition self_ok :: "ctl_run \<Rightarrow> bool" where
  "self_ok r \<longleftrightarrow> Kind ` set (selfCh (loop r)) \<subseteq> self_kinds"

lemma dispatch_controller:
  "dispatch_run onPanic (Some [loop_handler_of]) og e l r =
     (let c' = handleLoopEvent (shd (fst (st r))) e ((snd (st r))\<lparr>eventLoop := l\<rparr>)
      in r\<lparr>pc := Draining, loop := eventLoop c', st := (stl (fst (st r)), c'), trace := trace r @ [(og, e)],
           self_posted := self_posted r @ drop (length (selfCh l)) (selfCh (eventLoop c'))\<rparr>)"
  by (simp add: dispatch_run_def dispatch_def loop_handler_of_def Let_def split_beta)

lemma self_ok_dispatch:
  assumes "Kind ` set (selfCh l) \<subseteq> self_kinds"
  shows "self_ok (dispatch_run onPanic (Some [loop_handler_of]) og e l r)"
  using acts_handleLoopEvent [of e "(snd (st r))\<lparr>eventLoop := l\<rparr>" "shd (fst (st r))"] assms
  by (auto simp: self_ok_def dispatch_controller Let_def acts_def image_subset_iff)

interpretation selfs: invariant_system "\<lambda>r. \<exists>s. r = init_run cap s" "run_step onPanic (Some [loop_handler_of])" self_ok
  for cap onPanic
proof
  show "self_ok r" if "\<exists>s. r = init_run cap s" for r
    using that by (auto simp: self_ok_def init_run_def NewEventLoop_def)
  show "self_ok r'" if "self_ok r" and "run_step onPanic (Some [loop_handler_of]) r r'" for r r'
    using that(2,1)
    by cases (auto simp: self_ok_def Post_def split: if_splits intro!: self_ok_dispatch [unfolded self_ok_def])
qed

text \<open>A dispatch from the priority channel lowers the weight, and nothing else raises it.\<close>

lemma drain_weight_dispatch:
  assumes "selfCh (loop r) = e # es" and "Kind e \<in> self_kinds"
  shows "drain_weight (dispatch_run onPanic (Some [loop_handler_of]) FromSelf e ((loop r)\<lparr>selfCh := es\<rparr>) r) < drain_weight r"
proof -
  define c where "c = (snd (st r))\<lparr>eventLoop := (loop r)\<lparr>selfCh := es\<rparr>\<rparr>"
  define c' where "c' = handleLoopEvent (shd (fst (st r))) e c"
  define k where "k = canonicalSupervisorTaskName (TaskName e)"
  have loop_c: "eventLoop c = (loop r)\<lparr>selfCh := es\<rparr>" and "queuedActions c = queuedActions (snd (st r))"
    unfolding c_def by simp_all
  then have q: "queue_weight c k' = queue_weight (snd (st r)) k'" for k'
    by (simp only: queue_weight_def queued_of_def)
  from pays_handleLoopEvent [OF assms(2), of c "shd (fst (st r))"] obtain ps where
    other: "\<forall>k'. k' \<noteq> k \<longrightarrow> queued_of c' k' = queued_of c k'"
    and l: "eventLoop c' = (loop r)\<lparr>selfCh := es @ ps\<rparr>" and t: "\<forall>p \<in> set ps. canonicalSupervisorTaskName (TaskName p) = k"
    and less: "sum_list (map event_weight ps) + queue_weight c' k < event_weight e + queue_weight c k"
    unfolding pays_def c'_def [symmetric] k_def [symmetric] loop_c by auto
  let ?r' = "dispatch_run onPanic (Some [loop_handler_of]) FromSelf e ((loop r)\<lparr>selfCh := es\<rparr>) r"
  have r': "selfCh (loop ?r') = es @ ps" "snd (st ?r') = c'"
    unfolding dispatch_controller Let_def c_def [symmetric] c'_def [symmetric] by (simp_all add: l)
  let ?T = "self_tasks r"
  have T: "finite ?T" "k \<in> ?T" "self_tasks ?r' \<subseteq> ?T"
    using t by (auto simp: self_tasks_def r' assms(1) k_def)
  have "(\<Sum>j \<in> self_tasks ?r'. queue_weight c' j) \<le> (\<Sum>j \<in> ?T. queue_weight c' j)"
    using T by (intro sum_mono2) auto
  also have "\<dots> = queue_weight c' k + (\<Sum>j \<in> ?T - {k}. queue_weight c' j)"
    using T by (simp add: sum.remove)
  also have "(\<Sum>j \<in> ?T - {k}. queue_weight c' j) = (\<Sum>j \<in> ?T - {k}. queue_weight c j)"
    using other by (intro sum.cong) (simp_all add: queue_weight_def)
  finally have "(\<Sum>j \<in> self_tasks ?r'. queue_weight c' j) \<le> queue_weight c' k + (\<Sum>j \<in> ?T - {k}. queue_weight c j)" .
  moreover have "(\<Sum>j \<in> ?T. queue_weight c j) = queue_weight c k + (\<Sum>j \<in> ?T - {k}. queue_weight c j)"
    using T by (simp add: sum.remove)
  ultimately show ?thesis
    using less by (simp add: drain_weight_def r' assms(1) q)
qed

definition draining :: "bool \<Rightarrow> ctl_run \<Rightarrow> ctl_run \<Rightarrow> bool" where
  "draining onPanic r r' \<longleftrightarrow> pc r = Draining \<and> run_step onPanic (Some [loop_handler_of]) r r'"

lemma draining_pays:
  assumes "draining onPanic r r'" and "self_ok r"
  shows "length (trace r') + drain_weight r' \<le> length (trace r) + drain_weight r"
  using assms(1) unfolding draining_def
proof (elim conjE)
  assume "pc r = Draining" "run_step onPanic (Some [loop_handler_of]) r r'"
  from this(2,1) show ?thesis
  proof cases
    case (drain_self e es)
    then have "Kind e \<in> self_kinds" using assms(2) by (simp add: self_ok_def)
    with drain_self drain_weight_dispatch [of r e es onPanic] show ?thesis
      by (simp add: dispatch_controller Let_def)
  qed (auto simp: drain_weight_def self_tasks_def Post_def split: if_splits)
qed

lemma drain_weight_bound: "drain_weight r \<le> 6 * length (selfCh (loop r))"
proof -
  have a: "sum_list (map event_weight es) \<le> 4 * length es" for es
    by (induction es) (simp_all add: event_weight_def self_weight_def)
  have b: "(\<Sum>k \<in> self_tasks r. queue_weight (snd (st r)) k) \<le> card (self_tasks r) * 2"
    using sum_bounded_above [of "self_tasks r" "queue_weight (snd (st r))" 2]
    by (simp add: queue_weight_def action_weight_def)
  have c: "card (self_tasks r) \<le> length (selfCh (loop r))"
    unfolding self_tasks_def by (rule order_trans [OF card_image_le card_length]) simp
  from a [of "selfCh (loop r)"] b c show ?thesis unfolding drain_weight_def by linarith
qed

lemma draining_ok: "self_ok r \<Longrightarrow> draining onPanic r r' \<Longrightarrow> self_ok r'"
  using selfs.inv_step by (auto simp: draining_def)

lemma drain_trace:
  assumes "(draining onPanic)\<^sup>*\<^sup>* r r'" and "self_ok r"
  shows "self_ok r' \<and> length (trace r') + drain_weight r' \<le> length (trace r) + drain_weight r"
  using assms(1)
proof induction
  case (step y z)
  then have "self_ok z" using draining_ok by blast
  moreover have "length (trace z) + drain_weight z \<le> length (trace y) + drain_weight y"
    using step by (intro draining_pays) simp_all
  ultimately show ?case using step.IH by simp
qed (simp add: assms(2))

lemma drain_reaches_select:
  assumes "self_ok r" "pc r = Draining"
  shows "\<exists>r'. (draining onPanic)\<^sup>*\<^sup>* r r' \<and> pc r' = Selecting"
  using assms
proof (induction "drain_weight r" arbitrary: r rule: less_induct)
  case less
  show ?case
  proof (cases "selfCh (loop r)")
    case Nil
    then have "draining onPanic r (r\<lparr>pc := Selecting\<rparr>)" using less.prems drain_done by (auto simp: draining_def)
    then show ?thesis by (intro exI [of _ "r\<lparr>pc := Selecting\<rparr>"] conjI r_into_rtranclp) simp_all
  next
    case (Cons e es)
    let ?r = "dispatch_run onPanic (Some [loop_handler_of]) FromSelf e ((loop r)\<lparr>selfCh := es\<rparr>) r"
    have d: "draining onPanic r ?r" using less.prems(2) Cons drain_self by (auto simp: draining_def)
    have "drain_weight ?r < drain_weight r" using less.prems(1) Cons by (intro drain_weight_dispatch) (auto simp: self_ok_def)
    moreover have "pc ?r = Draining" by (simp add: dispatch_controller Let_def)
    ultimately obtain r' where "(draining onPanic)\<^sup>*\<^sup>* ?r r'" "pc r' = Selecting"
      using less.hyps draining_ok [OF less.prems(1) d] by blast
    with d show ?thesis by (blast intro: converse_rtranclp_into_rtranclp)
  qed
qed

text \<open>
  C34. The priority drain ends: although the controller posts events to itself while it handles its
  own events, one drain dispatches at most six events per event that waited when it began, whatever
  is posted on the main channel meanwhile, and then the loop gets to its select. So the controller
  cannot starve the external events.
\<close>

theorem priority_drain_ends:
  assumes "reachable (\<lambda>r. \<exists>s. r = init_run cap s) (run_step onPanic (Some [loop_handler_of])) r"
  shows "(\<forall>r'. (draining onPanic)\<^sup>*\<^sup>* r r' \<longrightarrow> length (trace r') \<le> length (trace r) + 6 * length (selfCh (loop r)))
    \<and> (pc r = Draining \<longrightarrow> (\<exists>r'. (draining onPanic)\<^sup>*\<^sup>* r r' \<and> pc r' = Selecting))"
proof -
  have ok: "self_ok r" by (rule selfs.inv_reachable [OF assms])
  have "length (trace r') \<le> length (trace r) + 6 * length (selfCh (loop r))" if "(draining onPanic)\<^sup>*\<^sup>* r r'" for r'
    using drain_trace [OF that ok] drain_weight_bound [of r] by linarith
  with drain_reaches_select [OF ok] show ?thesis by blast
qed

section \<open>Witness\<close>

text \<open>After the start of the daemon the priority channel holds its first event.\<close>

definition demo_draining :: ctl_run where
  "demo_draining = (let r = demo_run (plain_event EvStart demo_task)
     in dispatch_run False (Some [loop_handler_of]) FromMain (plain_event EvStart demo_task) ((loop r)\<lparr>ch := []\<rparr>) r)"

lemma demo_draining_reachable:
  "reachable (\<lambda>r. \<exists>s. r = init_run 1024 s) (run_step False (Some [loop_handler_of])) demo_draining"
  unfolding demo_draining_def Let_def
  by (rule reach_step [OF demo_run_reachable], rule select_main) (simp_all add: demo_run_def)

lemma demo_draining_run: "pc demo_draining = Draining" "selfCh (loop demo_draining) = [plain_event EvHealthOK demo_task]"
proof -
  have "(NewEventLoop 1024 :: ctl_value EventLoop)\<lparr>ch := []\<rparr> = NewEventLoop 1024" "demo_controller\<lparr>eventLoop := NewEventLoop 1024\<rparr> = demo_controller"
    by (simp_all add: NewEventLoop_def demo_controller_def)
  then show "pc demo_draining = Draining" "selfCh (loop demo_draining) = [plain_event EvHealthOK demo_task]"
    by (simp_all add: demo_draining_def Let_def dispatch_controller demo_run_def init_run_def demo_start)
qed

theorem priority_drain_ends_witness:
  "selfCh (loop demo_draining) = [plain_event EvHealthOK demo_task]
   \<and> (\<exists>r'. (draining False)\<^sup>*\<^sup>* demo_draining r' \<and> pc r' = Selecting \<and> length (trace r') \<le> length (trace demo_draining) + 6)"
  using priority_drain_ends [OF demo_draining_reachable] by (auto simp: demo_draining_run)

end
