(* ===== verification/Stop_Commit.thy ===== *)
theory Stop_Commit
  imports Controller_Safety
begin

text \<open>
  What the result of a stop batch means. A target is reported stopped only on evidence from one
  sweep (no process of its generation, no listener on its port), and by then its receipt is gone.
\<close>

section \<open>Evidence\<close>

definition stopped_in :: "settle_sweep \<Rightarrow> StopBatchTargetV1 \<Rightarrow> SupervisorDaemon \<Rightarrow> bool" where
  "stopped_in s t d \<longleftrightarrow>
     (\<exists>b a own. Get (tg_TaskName t) (fst (reads s t)) = Some b \<and> Get (tg_TaskName t) (snd (reads s t)) = Some a
        \<and> PIDGeneration a = PIDGeneration b \<and> CurrentPID a = 0
        \<and> State a \<in> {daemonRuntimeStateIdle, daemonRuntimeStateQuarantine}
        \<and> owners s = Some own \<and> (\<forall>pid. own (Port d) = Some pid \<longrightarrow> pid \<le> 0))"

text \<open>
  What is known of a slot after the sweeps \<open>S\<close>: a pending target has a descriptor that was observed
  and is not reported stopped; a reported one was seen stopped in one of the sweeps.
\<close>

definition slot_ok :: "world \<Rightarrow> supervisorController \<Rightarrow> settle_sweep set \<Rightarrow> settle_slot \<Rightarrow> bool" where
  "slot_ok w c S x \<longleftrightarrow> (case x of (t, r, p) \<Rightarrow>
     (case p of Some d \<Rightarrow> observeStopBatchTarget w t c = Inr d \<and> ss_State r \<noteq> SettledStopped | None \<Rightarrow> True)
   \<and> (ss_State r = SettledStopped \<longrightarrow> ss_Reason r = ''stopped''
        \<and> (\<exists>s d. s \<in> S \<and> observeStopBatchTarget w t c = Inr d \<and> stopped_in s t d)))"

lemma slot_ok_mono: "slot_ok w c S x \<Longrightarrow> S \<subseteq> S' \<Longrightarrow> slot_ok w c S' x"
  unfolding slot_ok_def by (auto split: prod.splits)

lemma observe_slot_ok: "slot_ok w c S (observe_slot w c t)"
  by (auto simp: slot_ok_def observe_slot_def first_result_def incomplete_result_def observeStopBatchTarget_def Let_def
      split: sum.splits option.splits if_splits)

lemma settle_look_ok:
  assumes "settle_look (fst (reads s t)) (snd (reads s t)) (owners s) d t r = (done', r')" and "ss_State r \<noteq> SettledStopped"
  shows "done' \<longleftrightarrow> ss_State r' = SettledStopped" and "done' \<Longrightarrow> ss_Reason r' = ''stopped'' \<and> stopped_in s t d"
  using assms
  by (auto simp: settle_look_def stopped_in_def Let_def split: option.splits if_splits)

lemma sweep_slot_ok:
  assumes "slot_ok w c S x" and "s \<in> S"
  shows "slot_ok w c S (sweep_slot s x)" "fst (sweep_slot s x) = fst x"
proof -
  obtain t r p where x: "x = (t, r, p)" by (cases x)
  show "slot_ok w c S (sweep_slot s x)"
  proof (cases p)
    case None
    with assms(1) show ?thesis by (simp add: x sweep_slot_def)
  next
    case (Some d)
    obtain b r' where look: "settle_look (fst (reads s t)) (snd (reads s t)) (owners s) d t r = (b, r')" by fastforce
    have "ss_State r \<noteq> SettledStopped" "observeStopBatchTarget w t c = Inr d" using assms(1) Some by (simp_all add: x slot_ok_def)
    with settle_look_ok [OF look] assms(2) Some look show ?thesis by (auto simp: x sweep_slot_def slot_ok_def)
  qed
  show "fst (sweep_slot s x) = fst x" by (simp add: x sweep_slot_def split: option.split prod.split)
qed

lemma expire_slot_ok:
  assumes "slot_ok w c S x"
  shows "slot_ok w c S (expire_slot b x)" "fst (expire_slot b x) = fst x"
  using assms by (auto simp: slot_ok_def expire_slot_def stoppedSettlementContextResult_def split: prod.splits option.splits)

lemma settle_loop_ok:
  assumes "list_all (slot_ok w c S) xs" and "set (s # rest) \<subseteq> S"
  shows "list_all (slot_ok w c S) (settle_loop b s rest xs) \<and> map fst (settle_loop b s rest xs) = map fst xs"
  using assms
proof (induction b s rest xs rule: settle_loop.induct)
  case (1 b s xs)
  have sw: "list_all (slot_ok w c S) (map (sweep_slot s) xs)" "map fst (map (sweep_slot s) xs) = map fst xs"
    using 1 by (auto simp: list_all_iff sweep_slot_ok)
  then have "list_all (slot_ok w c S) (map (expire_slot b) (map (sweep_slot s) xs))
      \<and> map fst (map (expire_slot b) (map (sweep_slot s) xs)) = map fst (map (sweep_slot s) xs)"
    by (auto simp: list_all_iff expire_slot_ok intro!: map_cong)
  with sw 1 show ?case by (simp add: Let_def)
next
  case (2 b s s' rest xs)
  have sw: "list_all (slot_ok w c S) (map (sweep_slot s) xs)" "map fst (map (sweep_slot s) xs) = map fst xs"
    using 2 by (auto simp: list_all_iff sweep_slot_ok)
  with 2 show ?case by (simp add: Let_def)
qed

section \<open>The receipts\<close>

text \<open>The mirror is keyed by the task that a receipt names.\<close>

definition keyed :: "supervisorController \<Rightarrow> bool" where
  "keyed c \<longleftrightarrow> (\<forall>k r. stopSettlements (tracker c) k = Some r \<longrightarrow> rc_TaskName r = k)"

text \<open>An operation on the receipt of one task.\<close>

definition only_receipt :: "string \<Rightarrow> supervisorController \<Rightarrow> supervisorController \<Rightarrow> bool" where
  "only_receipt k c c' \<longleftrightarrow>
     keyed c' \<and> statePath c' = statePath c
   \<and> (\<forall>j. j \<noteq> k \<longrightarrow> stopSettlements (tracker c') j = stopSettlements (tracker c) j)"

lemma only_receipt_refl: "keyed c \<Longrightarrow> only_receipt k c c"
  by (simp add: only_receipt_def)

lemma only_receipt_trans: "only_receipt k a b \<Longrightarrow> only_receipt k b c \<Longrightarrow> only_receipt k a c"
  by (simp add: only_receipt_def)

lemma only_receipt_arm [simp]: "only_receipt k c0 (armStopSettlementRecovery j c) = only_receipt k c0 c"
  by (simp add: only_receipt_def keyed_def armStopSettlementRecovery_def)

lemma next_receipt_name: "nextStopSettlementReceipt cur ph fclass fdetail = Inr nxt \<Longrightarrow> rc_TaskName nxt = rc_TaskName cur"
  by (auto simp: nextStopSettlementReceipt_def Let_def split: if_splits)

lemma Advance_receipt:
  assumes "keyed c" and "rc_TaskName r = k" and "Advance w r ph fc fd c = (res, c')"
  shows "only_receipt k c c'" and "res = Inr r' \<Longrightarrow> rc_TaskName r' = k"
proof -
  obtain x d t where a: "AdvanceStopSettlement (mdigest w) (rdigest w) (io w (writes c)) (statePath c) r ph fc fd
      (tracker c) (tracker c) (disk c) = (x, d, t)" by (metis prod_cases3)
  with assms(3) have c': "res = x" "c' = c\<lparr>disk := d, tracker := t, writes := Suc (writes c)\<rparr>"
    by (auto simp: Advance_def)
  have "(\<forall>j. j \<noteq> k \<longrightarrow> stopSettlements t j = stopSettlements (tracker c) j)
      \<and> (\<forall>r'. stopSettlements t k = Some r' \<longrightarrow> rc_TaskName r' = k) \<and> (\<forall>r'. x = Inr r' \<longrightarrow> rc_TaskName r' = k)"
    using a assms(1,2)
    by (auto simp: AdvanceStopSettlement_def keyed_def fence_tracker_def dest: next_receipt_name next_receipt_name [OF sym]
        split: if_splits sum.splits prod.splits option.splits)
  with assms(1) c' show "only_receipt k c c'" "res = Inr r' \<Longrightarrow> rc_TaskName r' = k"
    by (auto simp: only_receipt_def keyed_def)
qed

lemma Remove_receipt_spec:
  assumes "keyed c" and "rc_TaskName r = k" and "Remove_receipt w r c = (err, c')"
  shows "only_receipt k c c'" and "err = None \<Longrightarrow> stopSettlements (tracker c') k = None"
  using assms
  by (auto simp: Remove_receipt_def RemoveStopSettlement_def only_receipt_def keyed_def fence_tracker_def Let_def
      split: if_splits prod.splits option.splits)

lemma commit_receipt_spec:
  assumes "keyed c" and "rc_TaskName r = k" and "canonicalSupervisorTaskName (tg_TaskName t) = k"
    and "commit_receipt w t res msg r c = (res', c')"
  shows "only_receipt k c c'" and "ss_State res' = SettledStopped \<Longrightarrow> res' = res \<and> stopSettlements (tracker c') k = None"
proof -
  obtain err c1 where rm: "Remove_receipt w r c = (err, c1)" by (cases "Remove_receipt w r c")
  note spec = Remove_receipt_spec [OF assms(1,2) rm]
  show "only_receipt k c c'" using spec(1) assms(4) by (auto simp: commit_receipt_def rm split: option.splits if_splits)
  show "res' = res \<and> stopSettlements (tracker c') k = None" if "ss_State res' = SettledStopped"
    using spec(2) assms(3,4) that
    by (auto simp: commit_receipt_def rm incomplete_result_def StopSettlementReceipt_def split: option.splits if_splits)
qed

text \<open>The end of a stop whose exit has been observed: the release is recorded, then the receipt removed.\<close>

lemma finalize_exited:
  assumes "keyed c" and name: "rc_TaskName r = k" and kk: "canonicalSupervisorTaskName k = k"
    and t: "canonicalSupervisorTaskName (tg_TaskName t) = k" and r: "stopSettlements (tracker c) k = Some r" "Phase r = ExitObserved"
    and run: "(case Advance w r PortReleased [] [] c of
        (Inr released, c) \<Rightarrow> commit_receipt w t res ''commit stop settlement'' released c
      | (Inl e, c) \<Rightarrow> (case StopSettlementReceipt (tg_TaskName t) (tracker c) of None \<Rightarrow> (res, c)
          | Some cur \<Rightarrow> if Phase cur = PortReleased then commit_receipt w t res ''persist released stop listener'' cur c
              else (incomplete_result t (ss_PIDGeneration res) ''persist released stop listener'',
                    armStopSettlementRecovery (tg_TaskName t) c))) = (res', c')"
  shows "only_receipt k c c' \<and> (ss_State res' = SettledStopped \<longrightarrow> res' = res \<and> stopSettlements (tracker c') k = None)"
proof -
  obtain a c1 where a: "Advance w r PortReleased [] [] c = (a, c1)" by (cases "Advance w r PortReleased [] [] c")
  note adv = Advance_receipt [OF assms(1) name a]
  note o1 = adv(1)
  then have k1: "keyed c1" by (simp add: only_receipt_def)
  note run' = run [unfolded a prod.case]
  show ?thesis
  proof (cases a)
    case (Inr r')
    note com = commit_receipt_spec [OF k1 adv(2) [OF Inr] t]
    from run' Inr have "commit_receipt w t res ''commit stop settlement'' r' c1 = (res', c')" by simp
    from com [OF this] o1 only_receipt_trans show ?thesis by auto
  next
    case (Inl e)
    show ?thesis
    proof (cases "stopSettlements (tracker c1) k")
      case None
      with run' Inl o1 kk t show ?thesis by (auto simp: StopSettlementReceipt_def)
    next
      case (Some cur)
      note com = commit_receipt_spec [OF k1 _ t, of cur]
      have "rc_TaskName cur = k" using k1 Some by (simp add: keyed_def)
      with run' Inl o1 Some com only_receipt_trans t show ?thesis
        by (auto simp: StopSettlementReceipt_def incomplete_result_def split: if_splits)
    qed
  qed
qed

lemma finalize_spec:
  assumes "keyed c" and "canonicalSupervisorTaskName (tg_TaskName t) = k" and "TrimSpace (statePath c) \<noteq> []"
    and "finalizeStoppedSettlementReceipt w t res c = (res', c')"
  shows "only_receipt k c c'"
    and "ss_State res' = SettledStopped \<Longrightarrow> (ss_State res = SettledStopped \<Longrightarrow> ss_Reason res = ''stopped'')
       \<Longrightarrow> ss_State res = SettledStopped \<and> stopSettlements (tracker c') k = None
         \<and> (\<forall>r. stopSettlements (tracker c) k = Some r \<longrightarrow> Phase r = ExitObserved \<or> Phase r = PortReleased)"
proof -
  have kk: "canonicalSupervisorTaskName k = k" using assms(2) sk.canon_idem by metis
  have "only_receipt k c c' \<and> (ss_State res' = SettledStopped \<longrightarrow> (ss_State res = SettledStopped \<longrightarrow> ss_Reason res = ''stopped'')
       \<longrightarrow> ss_State res = SettledStopped \<and> stopSettlements (tracker c') k = None
         \<and> (\<forall>r. stopSettlements (tracker c) k = Some r \<longrightarrow> Phase r = ExitObserved \<or> Phase r = PortReleased))"
  proof (cases "stopSettlements (tracker c) k")
    case None
    with assms kk show ?thesis
      by (auto simp: finalizeStoppedSettlementReceipt_def StopSettlementReceipt_def only_receipt_refl)
  next
    case (Some r)
    then have name: "rc_TaskName r = k" using assms(1) by (simp add: keyed_def)
    have look: "StopSettlementReceipt (canonicalSupervisorTaskName (tg_TaskName t)) (tracker c) = Some r"
      using Some kk assms(2) by (simp add: StopSettlementReceipt_def)
    note run = assms(4) [unfolded finalizeStoppedSettlementReceipt_def look option.case if_not_P [OF assms(3)]]
    note adv = Advance_receipt [OF assms(1) name]
    consider (failed) "ss_State res = SettledFailed" | (other) "ss_State res \<noteq> SettledFailed" "ss_State res \<noteq> SettledStopped \<or> ss_Reason res \<noteq> ''stopped''"
      | (released) "ss_State res = SettledStopped" "ss_Reason res = ''stopped''" "Phase r = PortReleased"
      | (early) "ss_State res = SettledStopped" "ss_Reason res = ''stopped''" "Phase r \<noteq> PortReleased" "Phase r \<noteq> ExitObserved"
      | (exited') "ss_State res = SettledStopped" "ss_Reason res = ''stopped''" "Phase r = ExitObserved"
      by (cases "ss_State res"; cases "ss_Reason res = ''stopped''"; auto)
    then show ?thesis
    proof cases
      case failed
      then show ?thesis using run adv(1) assms(1)
        by (auto simp: incomplete_result_def only_receipt_refl split: if_splits prod.splits sum.splits)
    next
      case other
      then show ?thesis using run assms(1) by (auto simp: only_receipt_refl)
    next
      case released
      then show ?thesis using run commit_receipt_spec [OF assms(1) name assms(2)] Some by auto
    next
      case early
      then show ?thesis using run assms(1) by (auto simp: incomplete_result_def only_receipt_refl)
    next
      case exited'
      with finalize_exited [OF assms(1) name kk assms(2) Some exited'(3)] run Some show ?thesis by auto
    qed
  qed
  then show "only_receipt k c c'"
    and "ss_State res' = SettledStopped \<Longrightarrow> (ss_State res = SettledStopped \<Longrightarrow> ss_Reason res = ''stopped'')
       \<Longrightarrow> ss_State res = SettledStopped \<and> stopSettlements (tracker c') k = None
         \<and> (\<forall>r. stopSettlements (tracker c) k = Some r \<longrightarrow> Phase r = ExitObserved \<or> Phase r = PortReleased)"
    by blast+
qed

section \<open>The batch\<close>

lemma finalize_slots_spec:
  assumes "keyed c" and "TrimSpace (statePath c) \<noteq> []" and "distinct (map (tg_TaskName \<circ> fst) xs)"
    and "\<forall>x \<in> set xs. canonicalSupervisorTaskName (tg_TaskName (fst x)) = tg_TaskName (fst x)"
    and "\<forall>(t, r, p) \<in> set xs. ss_State r = SettledStopped \<longrightarrow> ss_Reason r = ''stopped''"
    and "finalize_slots w xs c = (rs, c')"
  shows "length rs = length xs
    \<and> (\<forall>j. j \<notin> set (map (tg_TaskName \<circ> fst) xs) \<longrightarrow> stopSettlements (tracker c') j = stopSettlements (tracker c) j)
    \<and> (\<forall>i < length xs. ss_State (rs ! i) = SettledStopped \<longrightarrow>
         ss_State (fst (snd (xs ! i))) = SettledStopped \<and> stopSettlements (tracker c') (tg_TaskName (fst (xs ! i))) = None
       \<and> (\<forall>r. stopSettlements (tracker c) (tg_TaskName (fst (xs ! i))) = Some r \<longrightarrow> Phase r = ExitObserved \<or> Phase r = PortReleased))"
  using assms
proof (induction xs arbitrary: c rs)
  case (Cons x xs)
  obtain t r p where x: "x = (t, r, p)" by (cases x)
  obtain r' c1 where f: "finalizeStoppedSettlementReceipt w t r c = (r', c1)" by (cases "finalizeStoppedSettlementReceipt w t r c")
  obtain rs1 where fs: "finalize_slots w xs c1 = (rs1, c')" and rs: "rs = r' # rs1"
    using Cons.prems(6) by (auto simp: x f Let_def split: prod.splits)
  have k: "canonicalSupervisorTaskName (tg_TaskName t) = tg_TaskName t" using Cons.prems(4) by (simp add: x)
  note spec = finalize_spec [OF Cons.prems(1) k Cons.prems(2) f]
  have c1: "keyed c1" "TrimSpace (statePath c1) \<noteq> []"
    "\<And>j. j \<noteq> tg_TaskName t \<Longrightarrow> stopSettlements (tracker c1) j = stopSettlements (tracker c) j"
    using spec(1) Cons.prems(2) by (simp_all add: only_receipt_def)
  note ih = Cons.IH [OF c1(1,2) _ _ _ fs]
  have new: "tg_TaskName t \<notin> set (map (tg_TaskName \<circ> fst) xs)" using Cons.prems(3) by (simp add: x)
  have stop: "ss_State r = SettledStopped \<longrightarrow> ss_Reason r = ''stopped''" using Cons.prems(5) by (simp add: x)
  have ih': "length rs1 = length xs
    \<and> (\<forall>j. j \<notin> set (map (tg_TaskName \<circ> fst) xs) \<longrightarrow> stopSettlements (tracker c') j = stopSettlements (tracker c1) j)
    \<and> (\<forall>i < length xs. ss_State (rs1 ! i) = SettledStopped \<longrightarrow>
         ss_State (fst (snd (xs ! i))) = SettledStopped \<and> stopSettlements (tracker c') (tg_TaskName (fst (xs ! i))) = None
       \<and> (\<forall>r. stopSettlements (tracker c1) (tg_TaskName (fst (xs ! i))) = Some r \<longrightarrow> Phase r = ExitObserved \<or> Phase r = PortReleased))"
    using Cons.prems(3,4,5) by (intro ih) simp_all
  have other: "tg_TaskName (fst (xs ! i)) \<noteq> tg_TaskName t" if "i < length xs" for i
    using new nth_mem [OF that] by force
  have at: "ss_State (fst (snd ((x # xs) ! i))) = SettledStopped \<and> stopSettlements (tracker c') (tg_TaskName (fst ((x # xs) ! i))) = None
       \<and> (\<forall>r. stopSettlements (tracker c) (tg_TaskName (fst ((x # xs) ! i))) = Some r \<longrightarrow> Phase r = ExitObserved \<or> Phase r = PortReleased)"
    if "i < length (x # xs)" "ss_State (rs ! i) = SettledStopped" for i
  proof (cases i)
    case 0
    with that(2) have "ss_State r' = SettledStopped" by (simp add: rs)
    from spec(2) [OF this] stop ih' new 0 show ?thesis by (simp add: x)
  next
    case (Suc m)
    with that have "m < length xs" "ss_State (rs1 ! m) = SettledStopped" by (simp_all add: rs)
    with ih' c1(3) [OF other [of m]] Suc show ?thesis by simp
  qed
  have frame: "stopSettlements (tracker c') j = stopSettlements (tracker c) j" if "j \<notin> set (map (tg_TaskName \<circ> fst) (x # xs))" for j
    using that ih' c1(3) [of j] by (simp add: x)
  from ih' have "length rs = length (x # xs)" by (simp add: rs)
  with at frame show ?case by blast
qed simp


section \<open>Witness\<close>

definition demo_target :: StopBatchTargetV1 where
  "demo_target = \<lparr>tg_TaskName = demo_task, ExpectedPort = 9000\<rparr>"

definition demo_sweep :: settle_sweep where
  "demo_sweep = (let t = MarkExited demo_task NewDaemonRuntimeTracker
     in \<lparr>reads = (\<lambda>_. (t, t)), owners = Some Map.empty\<rparr>)"

definition demo_settling :: supervisorController where
  "demo_settling = demo_controller\<lparr>statePath := ''p''\<rparr>"

lemma demo_observe: "\<exists>d. observeStopBatchTarget demo_world demo_target demo_settling = Inr d"
  by (simp add: observeStopBatchTarget_def demo_target_def demo_settling_def demo_controller_def LookupCanonical_def
      daemonByTask_def zero_file_def EffectiveDaemonPort_def demo_daemon_def Let_def)

lemma demo_exited: "\<exists>e. Get demo_task (MarkExited demo_task NewDaemonRuntimeTracker) = Some e
    \<and> CurrentPID e = 0 \<and> State e = daemonRuntimeStateIdle"
  by (simp add: Get_def MarkExited_def NewDaemonRuntimeTracker_def Let_def split_beta put_entry_def drop_lazy_def
      setCurrentPIDLocked_def entry_of_def zero_entry_def)

lemma demo_settled:
  "\<exists>r. settleStopBatchTargets demo_world None False demo_sweep [] [demo_target] demo_settling demo_settling = ([r], demo_settling)
     \<and> ss_State r = SettledStopped"
proof -
  obtain d where d: "observeStopBatchTarget demo_world demo_target demo_settling = Inr d" using demo_observe by blast
  obtain e where e: "Get demo_task (MarkExited demo_task NewDaemonRuntimeTracker) = Some e"
    "CurrentPID e = 0" "State e = daemonRuntimeStateIdle" using demo_exited by blast
  have fin: "finalizeStoppedSettlementReceipt demo_world demo_target r demo_settling = (r, demo_settling)" for r
    by (simp add: finalizeStoppedSettlementReceipt_def StopSettlementReceipt_def demo_settling_def demo_controller_def
        NewDaemonRuntimeTracker_def)
  have t: "tg_TaskName demo_target = demo_task" by (simp add: demo_target_def)
  show ?thesis
    by (simp add: settleStopBatchTargets_def observe_slot_def d sweep_slot_def settle_look_def demo_sweep_def Let_def t e
        any_pending_def fin)
qed


end
