(* ===== verification/Reap_Safety.thy ===== *)
theory Reap_Safety
  imports Controller_Safety
begin

text \<open>
  When a daemon that disappeared from the intent is terminated. A look at a new snapshot only marks
  it; the termination needs a mark from an earlier event and a second look that does not find the task
  either.
\<close>

section \<open>Who touches the marks\<close>

lemma marks_kept [simp]:
  "pendingReap (store_state k s c) = pendingReap c"
  "pendingReap (store_queued k q c) = pendingReap c"
  "pendingReap (on_tracker f c) = pendingReap c"
  "pendingReap (send_reply n e c) = pendingReap c"
  "pendingReap (snd (persistDaemonRuntimeTracker w c)) = pendingReap c"
  "pendingReap (persist_quietly w c) = pendingReap c"
  "pendingReap (snd (self_post ev c)) = pendingReap c"
  "pendingReap (snd (armRespawnBackoffTimer w k t c)) = pendingReap c"
  "pendingReap (recordQuarantineParoleEligible k n' c) = pendingReap c"
  "pendingReap (clearQuarantineParole k c) = pendingReap c"
  "pendingReap (intentCache_Refresh fi c) = pendingReap c"
  "pendingReap (stops_Refresh m c) = pendingReap c"
  "pendingReap (stopReapTimer k c) = pendingReap c"
  "pendingReap (disarmReapFollowup k c) = pendingReap c"
  "pendingReap (bumpReapGeneration k c) = pendingReap c"
  "pendingReap (armReapFollowup k c) = pendingReap c"
  "pendingReap (clear_queued_stop k c) = pendingReap c"
  "pendingReap (apply_queued k sd c) = pendingReap c"
  "pendingReap (pre_shadow ns k c) = pendingReap c"
  by (simp_all add: store_state_def store_queued_def on_tracker_def send_reply_def persistDaemonRuntimeTracker_def
      persist_quietly_def self_post_def armRespawnBackoffTimer_def nextRespawnArmGen_def
      recordQuarantineParoleEligible_def clearQuarantineParole_def intentCache_Refresh_def stops_Refresh_def
      stopReapTimer_def disarmReapFollowup_def bumpReapGeneration_def armReapFollowup_def clear_queued_stop_def
      apply_queued_def pre_shadow_def Let_def split_beta split: option.splits)

lemma marks_kept_reap [simp]:
  "pendingReap (queueRespawnOnReapCancelIfNeeded w k c) = pendingReap c"
  "pendingReap (replayDeferredBackoffTimerIfPending k c) = pendingReap c"
  "pendingReap (clearReapDeferredStopIfPending w k c) = pendingReap c"
proof -
  have "pendingReap (fold clear_queued_stop ks c) = pendingReap c" for ks c
    by (induction ks arbitrary: c) simp_all
  then show "pendingReap (clearReapDeferredStopIfPending w k c) = pendingReap c"
    by (simp add: clearReapDeferredStopIfPending_def Let_def)
qed (simp_all add: queueRespawnOnReapCancelIfNeeded_def replayDeferredBackoffTimerIfPending_def Let_def)

lemma marks_dropped [simp]:
  "pendingReap (cancelPendingReap k c) = (pendingReap c)(canonicalSupervisorTaskName k := None)"
  "pendingReap (clearRemovedTaskRuntime w k c) = (pendingReap c)(canonicalSupervisorTaskName k := None)"
  "pendingReap (markPendingReap k d c) = (pendingReap c)(canonicalSupervisorTaskName k \<mapsto> d)"
  by (simp_all add: cancelPendingReap_def clearRemovedTaskRuntime_def markPendingReap_def Let_def)

lemma marks_kept_terminate [simp]:
  "pendingReap (markTerminationOutcomeExited w e c) = pendingReap c"
  "pendingReap (snd (terminateProductionWindows w os e c)) = pendingReap c"
  "pendingReap (snd (terminate_running w os e c)) = pendingReap c"
  "pendingReap (snd (terminateOutcome w d e c)) = pendingReap c"
  "pendingReap (synthesizeForeignChildExit d e c) = pendingReap c"
  "pendingReap (handleBackoffWaiting w d c) = pendingReap c"
proof -
  show mark: "pendingReap (markTerminationOutcomeExited w e c) = pendingReap c" for e c
    by (simp add: markTerminationOutcomeExited_def Let_def split_beta)
  show win: "pendingReap (snd (terminateProductionWindows w os e c)) = pendingReap c" for os e c
    by (simp add: terminateProductionWindows_def Let_def mark split: option.splits)
  show run: "pendingReap (snd (terminate_running w os e c)) = pendingReap c" for os e c
    by (simp add: terminate_running_def Let_def mark win split: option.splits pid_state.splits)
  show "pendingReap (snd (terminateOutcome w d e c)) = pendingReap c"
    by (simp add: terminateOutcome_def terminate_pid_def Let_def split_beta mark run split: option.splits pid_state.splits)
  show "pendingReap (synthesizeForeignChildExit d e c) = pendingReap c"
    by (simp add: synthesizeForeignChildExit_def)
  show "pendingReap (handleBackoffWaiting w d c) = pendingReap c"
    by (simp add: handleBackoffWaiting_def Let_def split_beta)
qed

lemma marks_kept_effect:
  assumes "\<not> str_contains sd ''create-process''"
  shows "pendingReap (snd (executeSideEffect w sd ns d ev c)) = pendingReap c"
  using assms
  by (simp add: executeSideEffect_def effect_spawning_def effect_exiting_def Let_def split_beta split: SMState.split)

lemma marks_kept_removed [simp]: "pendingReap (snd (reapRemovedDaemon w d c)) = pendingReap c"
proof (cases "getSMStateCanonical c (canonicalSupervisorTaskName (d_TaskName d))")
  case (Some cur)
  obtain ns sd pb mt where tr: "Transition cur EvIntentUpdate
      (reap_context w c (reap_key c (canonicalSupervisorTaskName (d_TaskName d)))) = (ns, sd, pb, mt)"
    by (metis prod_cases4)
  have "\<not> str_contains sd ''create-process''"
    using stopped_never_creates [OF tr] by (simp add: reap_context_def)
  note eff = marks_kept_effect [OF this]
  have ex: "pendingReap (snd (reap_exiting k k' cur' err c')) = pendingReap c'" for k k' cur' err c'
    by (simp add: reap_exiting_def Let_def split: option.splits)
  show ?thesis
    using Some tr by (simp add: reapRemovedDaemon_def Let_def split_beta eff ex split: SMState.split)
qed (simp add: reapRemovedDaemon_def Let_def)

lemma marks_resolveConfirmedReap: "pendingReap (resolveConfirmedReap w d c) \<subseteq>\<^sub>m pendingReap c"
proof (cases "reapRemovedDaemon w d c")
  case (Pair out c')
  with marks_kept_removed [of w d c] show ?thesis
    by (auto simp: resolveConfirmedReap_def Let_def map_le_def split: reapOutcome.split if_splits)
qed

section \<open>The two looks\<close>

text \<open>The names of the descriptors marked earlier whose task is not in the snapshot.\<close>

definition doomed :: "SupervisorIntentFile option \<Rightarrow> supervisorController \<Rightarrow> string set" where
  "doomed snap c = {d_TaskName d | d task. pendingReap c task = Some d \<and> task \<notin> set (taskNameSetFromIntent snap)}"

definition missing_in :: "SupervisorIntentFile option \<Rightarrow> supervisorController \<Rightarrow> string \<Rightarrow> SupervisorDaemon \<Rightarrow> bool" where
  "missing_in snap c k d \<longleftrightarrow>
     (\<exists>task. canonicalSupervisorTaskName task = k \<and> task \<notin> set (taskNameSetFromIntent snap) \<and> LookupCanonical c task = Some d)"

lemma resolve_pending_confirms:
  assumes "fold (resolve_pending w ns) ks (ds0, c1) = (ds, c2)"
  shows "pendingReap c2 \<subseteq>\<^sub>m pendingReap c1
    \<and> (\<forall>d \<in> set ds. d \<in> set ds0 \<or> (\<exists>task. pendingReap c1 task = Some d \<and> task \<notin> set ns))"
  using assms
proof (induction ks arbitrary: ds0 c1)
  case (Cons k ks)
  obtain ds1 c' where one: "resolve_pending w ns k (ds0, c1) = (ds1, c')" by fastforce
  then have le: "pendingReap c' \<subseteq>\<^sub>m pendingReap c1"
    and new: "\<forall>d \<in> set ds1. d \<in> set ds0 \<or> (\<exists>task. pendingReap c1 task = Some d \<and> task \<notin> set ns)"
    by (auto simp: resolve_pending_def map_le_def split: option.splits if_splits)
  have "fold (resolve_pending w ns) ks (ds1, c') = (ds, c2)" using Cons.prems one by simp
  note rest = Cons.IH [OF this]
  have earlier: "pendingReap c1 j = Some d" if "pendingReap c' j = Some d" for j d
    using le that by (metis domI map_le_def)
  have "d \<in> set ds0 \<or> (\<exists>task. pendingReap c1 task = Some d \<and> task \<notin> set ns)" if "d \<in> set ds" for d
    using rest new earlier that by blast
  moreover have "pendingReap c2 \<subseteq>\<^sub>m pendingReap c1" using rest le map_le_trans by blast
  ultimately show ?case by blast
qed simp

lemma mark_disappeared_marks:
  "pendingReap (mark_disappeared w ns cap k c) j = Some d \<Longrightarrow>
     pendingReap c j = Some d \<or> (canonicalSupervisorTaskName k = j \<and> k \<notin> set ns \<and> cap k = Some d)"
  by (auto simp: mark_disappeared_def split: if_splits option.splits)

lemma fold_mark_disappeared:
  "pendingReap (fold (mark_disappeared w ns cap) ks c) j = Some d \<Longrightarrow>
     pendingReap c j = Some d \<or> (\<exists>k. canonicalSupervisorTaskName k = j \<and> k \<notin> set ns \<and> cap k = Some d)"
  by (induction ks arbitrary: c) (auto dest!: mark_disappeared_marks)

lemma snapshot_looks:
  assumes "applyReapSnapshot w prev snap stops c = (ds, c')"
  shows "d_TaskName ` set ds \<subseteq> doomed snap c"
    and "pendingReap c' k = Some d \<Longrightarrow> pendingReap c k = Some d \<or> missing_in snap c k d"
proof -
  let ?ns = "taskNameSetFromIntent snap" and ?u = "remdups (prev @ TaskNames c)"
    and ?cap = "\<lambda>task. if pendingReap c task \<noteq> None then None else LookupCanonical c task"
  define c1 where "c1 = intentCache_Refresh snap (fold (pre_shadow ?ns) ?u c)"
  define c2 where "c2 = (case stops of Some m \<Rightarrow> stops_Refresh m c1 | None \<Rightarrow> c1)"
  obtain c3 where fo: "fold (resolve_pending w ?ns) (range_order w) ([], c2) = (ds, c3)"
    and c': "c' = fold (mark_disappeared w ?ns ?cap) ?u c3"
    using assms unfolding applyReapSnapshot_def Let_def c1_def [symmetric] c2_def [symmetric]
    by (auto split: prod.splits)
  have "pendingReap (fold (pre_shadow ?ns) xs c) = pendingReap c" for xs c
    by (induction xs arbitrary: c) simp_all
  then have p2: "pendingReap c2 = pendingReap c" by (simp add: c2_def c1_def split: option.split)
  from resolve_pending_confirms [OF fo] p2 show "d_TaskName ` set ds \<subseteq> doomed snap c" by (auto simp: doomed_def)
  assume "pendingReap c' k = Some d"
  with fold_mark_disappeared [of w ?ns ?cap ?u c3 k d] resolve_pending_confirms [OF fo] p2
  show "pendingReap c k = Some d \<or> missing_in snap c k d"
    unfolding c' missing_in_def by (auto simp: map_le_def dom_def split: if_splits)
qed


text \<open>One look: it launches nothing, terminates only what an earlier look marked, and marks only what it misses.\<close>

definition one_look :: "SupervisorIntentFile option \<Rightarrow> supervisorController \<Rightarrow> supervisorController \<Rightarrow> bool" where
  "one_look snap c c' \<longleftrightarrow> acts {} (doomed snap c) c c'
     \<and> (\<forall>k d. pendingReap c' k = Some d \<longrightarrow> pendingReap c k = Some d \<or> missing_in snap c k d)"

lemma one_look_before:
  assumes "one_look snap c1 c'" and "acts {} {} c c1" and "pendingReap c1 = pendingReap c" and "intentCache c1 = intentCache c"
  shows "one_look snap c c'"
proof -
  have "doomed snap c1 = doomed snap c" "missing_in snap c1 = missing_in snap c"
    by (simp_all only: doomed_def missing_in_def LookupCanonical_def assms(3,4) fun_eq_iff simp_thms)
  with assms show ?thesis
    unfolding one_look_def by (metis acts_mono acts_trans empty_subsetI)
qed

lemma fold_resolve_marks:
  "pendingReap (fold (resolveConfirmedReap w) ds c) \<subseteq>\<^sub>m pendingReap c"
  by (induction ds arbitrary: c) (auto intro: map_le_trans marks_resolveConfirmedReap)

lemma scan_is_one_look: "one_look snap c (handleReapScan w prev snap stops c)"
proof -
  obtain ds c1 where sn: "applyReapSnapshot w prev snap stops c = (ds, c1)" by fastforce
  have "acts {} (doomed snap c) c (handleReapScan w prev snap stops c)"
    by (rule acts_handleReapScan) (use snapshot_looks(1) [OF sn] in \<open>auto simp: sn\<close>)
  moreover have "pendingReap c1 k = Some d" if "pendingReap (handleReapScan w prev snap stops c) k = Some d" for k d
    using that fold_resolve_marks [of w ds c1] by (simp add: handleReapScan_def sn) (metis domI map_le_def)
  ultimately show ?thesis using snapshot_looks(2) [OF sn] by (auto simp: one_look_def)
qed

lemma marks_le: "m \<subseteq>\<^sub>m m' \<Longrightarrow> m k = Some d \<Longrightarrow> m' k = Some d"
  by (metis domI map_le_def)

lemma confirm_is_one_look:
  assumes "applyReapSnapshot w prev snap stops c = (ds, c1)"
  shows "one_look snap c (confirmReapForTask w k ds c1)"
proof -
  note sn = snapshot_looks [OF assms]
  have a: "acts {} (doomed snap c) c c1" using acts_applyReapSnapshot [OF acts_refl, of _ _ c w prev snap stops] assms by simp
  show ?thesis
  proof (cases "find (\<lambda>d. canonicalSupervisorTaskName (d_TaskName d) = canonicalSupervisorTaskName k) ds")
    case (Some d)
    then have "d \<in> set ds" by (auto simp: find_Some_iff)
    with sn(1) have "d_TaskName d \<in> doomed snap c" by blast
    then have "acts {} (doomed snap c) c (resolveConfirmedReap w d c1)" by (rule acts_resolveConfirmedReap [OF a])
    moreover have "pendingReap c j = Some e \<or> missing_in snap c j e"
      if "pendingReap (resolveConfirmedReap w d c1) j = Some e" for j e
      by (rule sn(2), rule marks_le [OF marks_resolveConfirmedReap that])
    moreover have "confirmReapForTask w k ds c1 = resolveConfirmedReap w d c1"
      by (simp only: confirmReapForTask_def Some option.case)
    ultimately show ?thesis unfolding one_look_def by (simp only:) blast
  qed (use a sn(2) in \<open>simp add: one_look_def confirmReapForTask_def\<close>)
qed

lemma clear_is_one_look: "one_look snap c (clearRemovedTaskRuntime w k c)"
  by (auto simp: one_look_def split: if_splits)

lemma resolve_is_one_look:
  assumes "pendingReap c k = Some d" and "k \<notin> set (taskNameSetFromIntent snap)"
  shows "one_look snap c (resolveConfirmedReap w d c)"
proof -
  have "d_TaskName d \<in> doomed snap c" using assms by (auto simp: doomed_def)
  then have "acts {} (doomed snap c) c (resolveConfirmedReap w d c)" by (rule acts_resolveConfirmedReap [OF acts_refl])
  with marks_le [OF marks_resolveConfirmedReap [of w d c]] show ?thesis
    unfolding one_look_def by blast
qed

lemma followup_is_one_look: "one_look (disk_intent w) c (handleReapFollowup w k g c)"
proof (cases "reapGeneration c (canonicalSupervisorTaskName k) = Some g")
  case True
  let ?k = "canonicalSupervisorTaskName k"
  define c1 where "c1 = stopReapTimer ?k (c\<lparr>reapFollowupArmed := (reapFollowupArmed c)(?k := None)\<rparr>)"
  have c1: "acts {} {} c c1" "pendingReap c1 = pendingReap c" "intentCache c1 = intentCache c"
    by (simp_all add: c1_def) (simp_all add: stopReapTimer_def)
  have go: "handleReapFollowup w k g c = (case pendingReap c1 ?k of
      None \<Rightarrow> c1
    | Some d \<Rightarrow> (case disk_intent w of
         None \<Rightarrow> armReapFollowup ?k c1
       | Some fresh \<Rightarrow>
           if ?k \<in> set (taskNameSetFromIntent (Some fresh))
           then let (candidates, c) = applyReapSnapshot w (TaskNames c1) (Some fresh) (Some (Stops fresh)) c1
                in confirmReapForTask w ?k candidates c
           else if \<not> smStateIsReapable c1 ?k then clearRemovedTaskRuntime w ?k c1
           else resolveConfirmedReap w d c1))"
    by (simp only: handleReapFollowup_def Let_def True c1_def simp_thms if_False)
  have quiet: "one_look snap c1 c1" "one_look snap c1 (armReapFollowup ?k c1)" for snap by (simp_all add: one_look_def)
  obtain cs c2 where sn: "applyReapSnapshot w (TaskNames c1) (disk_intent w)
      (map_option Stops (disk_intent w)) c1 = (cs, c2)" by fastforce
  have "one_look (disk_intent w) c1 (handleReapFollowup w k g c)"
    using quiet confirm_is_one_look [OF sn, of ?k] clear_is_one_look [of "disk_intent w" c1 w ?k]
      resolve_is_one_look [of c1 ?k _ "disk_intent w" w] sn
    unfolding go by (cases "pendingReap c1 ?k"; cases "disk_intent w") (simp_all only: option.case option.map Let_def prod.case split: if_split, blast?)
  with c1 show ?thesis by (blast intro: one_look_before)
qed (simp add: handleReapFollowup_def one_look_def Let_def)

lemma followup_kills:
  assumes "kills (handleReapFollowup w k g c) \<noteq> kills c"
  shows "reapGeneration c (canonicalSupervisorTaskName k) = Some g \<and> disk_intent w \<noteq> None"
  using assms
  by (auto simp: handleReapFollowup_def armReapFollowup_def stopReapTimer_def Let_def split: option.splits if_splits)


text \<open>
  C33. A daemon that disappears from the intent is terminated only after two looks. Handling a reap scan
  or a follow-up launches nothing and terminates only descriptors that an earlier event had marked
  and whose task the snapshot at hand does not have either; a mark is set only for a registered
  descriptor whose task that snapshot misses, so a descriptor marked now is never terminated by the
  same event. A follow-up terminates only in the removal window it was armed for, and only on a fresh
  read of the file.
\<close>

theorem removal_takes_two_looks:
  assumes "Kind ev = evReapScan \<and> snap = (case Body ev ''reap_scan_intent'' of Some (BIntent f) \<Rightarrow> Some f | _ \<Rightarrow> None)
      \<or> Kind ev = evReapFollowup \<and> snap = disk_intent w"
    and "c' = handleLoopEvent w ev c"
  shows "launched c' = launched c
    \<and> (\<exists>ks. kills c' = kills c @ ks \<and> (\<forall>n \<in> set ks. \<exists>task d. pendingReap c task = Some d \<and> d_TaskName d = n
            \<and> task \<notin> set (taskNameSetFromIntent snap))
         \<and> (Kind ev = evReapFollowup \<and> ks \<noteq> [] \<longrightarrow> snap \<noteq> None \<and> reapGeneration c (canonicalSupervisorTaskName (TaskName ev))
              = Some (case body_int ev ''reap_followup_generation'' of Some g \<Rightarrow> g | None \<Rightarrow> 0)))
    \<and> (\<forall>k d. pendingReap c' k = Some d \<longrightarrow> pendingReap c k = Some d
         \<or> (\<exists>task. canonicalSupervisorTaskName task = k \<and> task \<notin> set (taskNameSetFromIntent snap) \<and> LookupCanonical c task = Some d))"
proof -
  let ?g = "case body_int ev ''reap_followup_generation'' of Some g \<Rightarrow> g | None \<Rightarrow> 0"
  have look: "one_look snap c c'
    \<and> (Kind ev = evReapFollowup \<and> kills c' \<noteq> kills c \<longrightarrow> snap \<noteq> None
         \<and> reapGeneration c (canonicalSupervisorTaskName (TaskName ev)) = Some ?g)"
    using assms(1)
  proof
    assume k: "Kind ev = evReapScan \<and> snap = (case Body ev ''reap_scan_intent'' of Some (BIntent f) \<Rightarrow> Some f | _ \<Rightarrow> None)"
    then obtain prev stops where c': "c' = acknowledge ev ''reap_scan_done'' (handleReapScan w prev snap stops c)"
      using assms(2) by (simp add: handleLoopEvent_def)
    have "one_look snap c (acknowledge ev j x)" if "one_look snap c x" for j x
      using that by (simp add: one_look_def acknowledge_def split: option.split ctl_value.split)
    with scan_is_one_look k show ?thesis by (simp add: c')
  next
    assume k: "Kind ev = evReapFollowup \<and> snap = disk_intent w"
    then have c': "c' = handleReapFollowup w (TaskName ev) ?g c"
      using assms(2) by (simp add: handleLoopEvent_def)
    with k followup_is_one_look followup_kills show ?thesis by blast
  qed
  then obtain ks where ks: "launched c' = launched c" "kills c' = kills c @ ks" "set ks \<subseteq> doomed snap c"
    by (auto simp: one_look_def acts_def)
  have "\<exists>task d. pendingReap c task = Some d \<and> d_TaskName d = n \<and> task \<notin> set (taskNameSetFromIntent snap)" if "n \<in> set ks" for n
    using ks(3) that unfolding doomed_def by blast
  with look ks(1,2) show ?thesis unfolding one_look_def missing_in_def by (intro conjI exI [of _ ks]) simp_all
qed

section \<open>Witness\<close>

text \<open>The daemon runs, and a scan brings a snapshot without it; the second time it has been marked.\<close>

definition demo_scan :: ctl_event where
  "demo_scan = \<lparr>Kind = evReapScan, TaskName = [], Body = [''reap_scan_intent'' \<mapsto> BIntent zero_file]\<rparr>"

definition demo_marked :: supervisorController where
  "demo_marked = demo_controller\<lparr>smStates := [demo_task \<mapsto> StRunning], pendingReap := [demo_task \<mapsto> demo_daemon]\<rparr>"

definition demo_reap_world :: world where "demo_reap_world = demo_world\<lparr>range_order := [demo_task]\<rparr>"

lemma silent_kills: "silent c c' \<Longrightarrow> kills c' = kills c"
  by (auto simp: acts_def)

lemma kills_exiting: "kills (snd (effect_exiting w d ev c)) = kills c @ [d_TaskName (descriptorForTerminateSideEffect d ev)]"
proof -
  have "silent c1 (synthesizeForeignChildExit d e c1)" for e c1
    by (rule acts_gates(5) [OF acts_refl])
  then have "kills (synthesizeForeignChildExit d e c1) = kills c1" for e c1 by (rule silent_kills)
  moreover have "kills (snd (terminateOutcome w td e c1)) = kills c1" for td e c1
    by (rule silent_kills) simp
  ultimately show ?thesis by (simp add: effect_exiting_def Let_def split_beta)
qed

lemma kills_reap_exiting: "kills (snd (reap_exiting k k' cur err c)) = kills c"
  by (rule silent_kills, rule acts_reap_small(3) [OF acts_refl])

lemma kills_resolve: "kills (resolveConfirmedReap w d c) = kills (snd (reapRemovedDaemon w d c))"
proof (cases "reapRemovedDaemon w d c")
  case (Pair out c1)
  have "silent c1 (resolveConfirmedReap w d c)"
    by (simp add: resolveConfirmedReap_def Pair Let_def split: reapOutcome.split)
  with Pair show ?thesis by (simp add: silent_kills)
qed

lemma demo_second_look: "kills (handleReapScan demo_reap_world [] (Some zero_file) None demo_marked) \<noteq> []"
proof -
  define c1 where "c1 = demo_marked\<lparr>intentCache := Some zero_file\<rparr>"
  have m: "pendingReap demo_marked demo_task = Some demo_daemon" "smStates c1 demo_task = Some StRunning"
    "pendingReap c1 demo_task = Some demo_daemon" "TaskNames demo_marked = [demo_task]" "range_order demo_reap_world = [demo_task]"
    "intentCache_Refresh (Some zero_file) demo_marked = c1" "taskNameSetFromIntent (Some zero_file) = []"
    by (simp_all add: demo_marked_def c1_def demo_controller_def TaskNames_def taskNameSetFromIntent_def
        demo_reap_world_def intentCache_Refresh_def zero_file_def)
  have r: "getSMStateCanonical c1 demo_task = Some StRunning" "smStateIsReapable c1 demo_task"
    using m(2) by (simp_all add: getSMStateCanonical_def smStateIsReapable_def)
  have snap: "applyReapSnapshot demo_reap_world [] (Some zero_file) None demo_marked = ([demo_daemon], c1)"
    by (simp add: applyReapSnapshot_def pre_shadow_def resolve_pending_def mark_disappeared_def m r)
  define c2 where "c2 = snd (reapRemovedDaemon demo_reap_world demo_daemon c1)"
  have "kills c2 \<noteq> []"
    by (simp add: c2_def reapRemovedDaemon_def r Transition_def reap_context_def Let_def split_beta
        kills_reap_exiting executeSideEffect_def kills_exiting)
  with kills_resolve [of demo_reap_world demo_daemon c1] show ?thesis
    by (simp add: handleReapScan_def snap c2_def)
qed

theorem removal_takes_two_looks_witness:
  "kills (handleLoopEvent demo_reap_world demo_scan demo_controller) = []
   \<and> set (kills (handleLoopEvent demo_reap_world demo_scan demo_marked)) = {demo_task}"
proof -
  have snap: "(case Body demo_scan ''reap_scan_intent'' of Some (BIntent f) \<Rightarrow> Some f | _ \<Rightarrow> None) = Some zero_file"
    and kind: "Kind demo_scan = evReapScan" by (simp_all add: demo_scan_def)
  have scan: "handleLoopEvent demo_reap_world demo_scan demo_marked
      = handleReapScan demo_reap_world [] (Some zero_file) None demo_marked"
    by (simp add: handleLoopEvent_def demo_scan_def acknowledge_def)
  have init: "pendingReap demo_controller = Map.empty" "kills demo_controller = []" "kills demo_marked = []"
    "pendingReap demo_marked = [demo_task \<mapsto> demo_daemon]" by (simp_all add: demo_controller_def demo_marked_def)
  have "kills (handleLoopEvent demo_reap_world demo_scan demo_controller) = []"
    using removal_takes_two_looks [of demo_scan "Some zero_file" demo_reap_world _ demo_controller]
    by (auto simp: snap kind init)
  moreover have "set (kills (handleLoopEvent demo_reap_world demo_scan demo_marked)) \<subseteq> {demo_task}"
    using removal_takes_two_looks [of demo_scan "Some zero_file" demo_reap_world _ demo_marked]
    by (auto simp: snap kind init split: if_splits)
  moreover have "set (kills (handleLoopEvent demo_reap_world demo_scan demo_marked)) \<noteq> {}"
    using demo_second_look by (simp add: scan)
  ultimately show ?thesis by (metis subset_singletonD)
qed

end
