(* ===== verification/Spec2Isabelle.thy ===== *)
theory Spec2Isabelle
  imports Intent_Collapse Readiness Controller_Drain Stop_Commit Reap_Safety
begin

text \<open>
  A verification library for the supervisor of \<open>mcp-local-hub\<close>, the long-running process that keeps
  the hub's MCP daemons alive. Paths below are relative to \<open>src/\<close>.

  \<^bold>\<open>The program.\<close> Installers and operators write what should run into the supervisor intent file: one
  descriptor row per daemon, and a sub-block of stop records. The supervisor reads it and drives every
  task through a restart state machine. One goroutine, the event loop, owns that state. It receives
  intent changes, exits of children, timer events, restart requests and stop batches, asks the
  transition table what to do, writes the runtime tracker to the state file, and only then launches or
  terminates a process. Stops requested over IPC leave a durable receipt per task that is advanced
  from the request over the observed exit to the released port and then removed. Beside the loop two
  workers look at ports: one decides whether a process that holds the port of a daemon is a lost child
  of it and may be killed, the other moves a daemon to another port of its pool. A readiness reducer
  turns observations of the daemons into the snapshot that commands wait for.

  \<^bold>\<open>How it is modelled.\<close> Go structs are records, enumerations are datatypes, and every function is a HOL
  function of the same name where the language allows it. Strings are byte strings as lists of
  characters. Instants are integers (nanoseconds), durations keep Go's saturation in \<open>Sub\<close> where it can
  be reached, and counters whose overflow the code tests are 64-bit words. Go maps are HOL maps; where
  the iteration order can be observed they are association lists, or the order is an argument.
  Errors are values of datatypes. Shared state is passed explicitly. What the operating system, the
  disk and the clock answer during one event is the record \<open>world\<close>; file writes that may fail get
  their outcome from it, and cryptographic digests are its parameters. The channels and the loop of
  \<open>EventLoop.Run\<close> are the step relation \<open>run_step\<close>.

  \<^bold>\<open>Theories, from the bottom.\<close>

  \<^item> \<open>Hub_Prelude\<close>: strings, task names, durations; the locales \<open>task_canon\<close> (the three canonicalisers of
    the program satisfy it) and \<open>invariant_system\<close> (initial states, steps, an invariant), which the
    systems of the tracker, the state file, the loop, the controller and the reaper interpret.
  \<^item> \<open>Restart_SM\<close>: \<open>internal/api/supervisor_state_machine.go\<close>. When a row creates a process, that acting
    rows persist first, and that the table refines a protocol with one child at a time.
  \<^item> \<open>Event_Loop\<close>: \<open>internal/api/supervisor_event_loop.go\<close>. The locale \<open>loop_handler\<close> is what a handler owes
    the loop; in return channels stay bounded, external events keep their order, and the events a
    handler posts to itself come first.
  \<^item> \<open>Daemon_Intent\<close>, \<open>Supervisor_Intent\<close>, \<open>Stop_Writers\<close>, \<open>Intent_Collapse\<close>: \<open>daemon_intent.go\<close>,
    \<open>supervisor_intent.go\<close> with the prepared Serena bindings, \<open>stop_intent_subblock.go\<close> and
    \<open>intent_collapse.go\<close> of \<open>internal/api\<close>. When a stop is in force; that a written file reads back; that
    each writer is an update of a directory of stops at one task (locale \<open>task_mutation\<close>) and can be
    compensated; and that the merge of the legacy file loses no stop, is idempotent, deletes the file only
    when all is accounted for, and completes.
  \<^item> \<open>Readiness\<close>: \<open>internal/api/readiness_v1.go\<close>. What a running daemon and a settled snapshot mean.
  \<^item> \<open>Runtime_Tracker\<close>, \<open>Stop_Settlement\<close>, \<open>Settlement_Mirror\<close>: \<open>internal/cli/supervisor_runtime_tracker.go\<close> and
    \<open>internal/api/supervisor_state.go\<close>. Exact sliding windows (locale \<open>sliding_window\<close>), consistent
    entries, ownership generations, refused late exits, monotone readiness; lawful receipts; agreement
    of the tracker with its file under failing writes and restarts, all-or-nothing batches, the round
    trip through a restart and the rollback fence.
  \<^item> \<open>Respawn_Backoff\<close>, \<open>Daemon_Port\<close>, \<open>Windows_Argv\<close>, \<open>Port_Squatter\<close>: the delays, with double-precision jitter; the
    port of a descriptor (\<open>supervisor_port_owner.go\<close>, \<open>reallocate_dynamic_pool.go\<close>); the parser of
    Windows command lines, inverse to the quoting of the Go runtime; the classifier of
    \<open>internal/daemonrecovery\<close> with its rate limiter (\<open>internal/cli/supervise_squatter.go\<close>).
  \<^item> \<open>Controller_State\<close>, \<open>Controller_Effects\<close>, \<open>Port_Realloc\<close>, \<open>Orphan_Reap\<close>, \<open>Stop_Batch\<close>, \<open>Supervisor_Controller\<close>:
    the controller, mainly \<open>internal/cli/supervisor_controller.go\<close> with \<open>supervise_realloc.go\<close>,
    \<open>supervise_stop_batch.go\<close>, \<open>supervise_target_settlement.go\<close>, \<open>supervise_prespawn_path_gate.go\<close>,
    \<open>termination_outcome.go\<close> and the spawn closure of \<open>supervise.go\<close>. They hold definitions only.
  \<^item> \<open>Controller_Frame\<close>: what each operation of the controller may touch.
  \<^item> \<open>Controller_Safety\<close>: the controller interprets \<open>loop_handler\<close>, and only the last timer of a task fires.
  \<^item> \<open>Controller_Launch\<close>: a launch has passed every gate. \<open>Reap_Safety\<close>: a removed daemon is terminated after
    two looks. \<open>Stop_Commit\<close>: a stop is reported only when it is committed. \<open>Controller_Drain\<close>: the
    controller's events to itself come to an end.

  \<^bold>\<open>Bounds and fuel.\<close> No definition uses fuel. Loops of the code are structural recursion, folds over the
  lists they range over, or step relations. The settlement sweeps of a stop batch take the list of
  sweeps that happened before the deadline. The statement on timers assumes fewer than \<open>2^64 - 1\<close>
  timers, the width of their counter. The priority drain is shown to dispatch at most six events per
  event that waited at its start.

  \<^bold>\<open>Not modelled.\<close> JSON text, file locks and atomic replacement (files are their decoded values, and a
  lock is the atomicity of an operation); audit and event logs, except where a property is about the
  audit record; the command line, environment, pipes and job objects of a child; HTTP probes and the
  liveness sweep itself; the goroutines that only post an event or wait for a reply; the allocation of
  a pool port, which probes the system and whose verdict is an argument. The function
  \<open>resolvePendingReapsAgainstCurrentIntent\<close> has no caller. The other packages (client configuration,
  installation, the graphical interface, the HTTP aggregator, bundled tool servers) are input and output
  around third-party formats and programs; nothing of them is assumed.
\<close>

end
